(* ===== verification/Prelude.thy ===== *)
theory Prelude
  imports Main "HOL-Library.Word"
begin

text \<open>
  What the component theories share: the machine types, results as sums, computations that can be
  dropped at an await, byte strings and their big-endian encodings, and the list lemmas that more
  than one component uses.

  A Rust \<open>Result<T, E>\<close> is the sum \<open>'e + 'a\<close> with \<^term>\<open>Inl\<close> the error. A Rust \<open>String\<close> is its
  UTF-8 bytes, one \<^typ>\<open>char\<close> per byte.
\<close>

section \<open>Machine types\<close>

type_synonym u8 = "8 word"
type_synonym u16 = "16 word"
type_synonym u32 = "32 word"
type_synonym u64 = "64 word"

text \<open>A 32-bit pattern: \<open>u32\<close> and \<open>i32\<close> share it, an \<open>as\<close> cast between them keeps the bits.\<close>

type_synonym bits32 = "32 word"

text \<open>A 64-bit pattern, for an \<open>i64\<close> that is only stored and moved.\<close>

type_synonym bits64 = "64 word"

text \<open>\<open>i64\<close> columns that the code only compares, never computes with.\<close>

type_synonym i64 = int

type_synonym bytes = "u8 list"

text \<open>Rust's \<open>saturating_add\<close> and \<open>saturating_sub\<close> on an unsigned word.\<close>

definition saturating_add :: "'a::len word \<Rightarrow> 'a word \<Rightarrow> 'a word" where
  "saturating_add a b = (if a \<le> a + b then a + b else - 1)"

definition saturating_sub :: "'a::len word \<Rightarrow> 'a word \<Rightarrow> 'a word" where
  "saturating_sub a b = (if a < b then 0 else a - b)"

section \<open>Results\<close>

text \<open>The \<open>?\<close> operator, \<open>map_err\<close>, \<open>map\<close>, \<open>ok_or\<close>, and collecting an iterator of results.\<close>

definition and_then :: "'e + 'a \<Rightarrow> ('a \<Rightarrow> 'e + 'b) \<Rightarrow> 'e + 'b" where
  "and_then r f = (case r of Inl e \<Rightarrow> Inl e | Inr x \<Rightarrow> f x)"

definition map_ok :: "('a \<Rightarrow> 'b) \<Rightarrow> 'e + 'a \<Rightarrow> 'e + 'b" where
  "map_ok f r = (case r of Inl e \<Rightarrow> Inl e | Inr x \<Rightarrow> Inr (f x))"

definition map_err :: "('e \<Rightarrow> 'd) \<Rightarrow> 'e + 'a \<Rightarrow> 'd + 'a" where
  "map_err f r = (case r of Inl e \<Rightarrow> Inl (f e) | Inr x \<Rightarrow> Inr x)"

definition ok_or :: "'e \<Rightarrow> 'a option \<Rightarrow> 'e + 'a" where
  "ok_or e x = (case x of None \<Rightarrow> Inl e | Some y \<Rightarrow> Inr y)"

definition transpose_opt :: "('e + 'a) option \<Rightarrow> 'e + 'a option" where
  "transpose_opt x = (case x of None \<Rightarrow> Inr None | Some r \<Rightarrow> map_ok Some r)"

primrec try_map :: "('a \<Rightarrow> 'e + 'b) \<Rightarrow> 'a list \<Rightarrow> 'e + 'b list" where
  "try_map f [] = Inr []"
| "try_map f (x # xs) = and_then (f x) (\<lambda>y. and_then (try_map f xs) (\<lambda>ys. Inr (y # ys)))"

primrec try_fold :: "('a \<Rightarrow> 's \<Rightarrow> 'e + 's) \<Rightarrow> 'a list \<Rightarrow> 's \<Rightarrow> 'e + 's" where
  "try_fold f [] s = Inr s"
| "try_fold f (x # xs) s = and_then (f x s) (try_fold f xs)"

fun is_ok :: "'e + 'a \<Rightarrow> bool" where
  "is_ok (Inr _) = True"
| "is_ok (Inl _) = False"

lemma and_then_simps [simp]:
  "and_then (Inl e) f = Inl e"
  "and_then (Inr x) f = f x"
  by (simp_all add: and_then_def)

lemma and_then_Inr_iff: "and_then r f = Inr y \<longleftrightarrow> (\<exists>x. r = Inr x \<and> f x = Inr y)"
  by (cases r) auto

lemma and_then_Inl_iff: "and_then r f = Inl e \<longleftrightarrow> r = Inl e \<or> (\<exists>x. r = Inr x \<and> f x = Inl e)"
  by (cases r) auto

lemma map_ok_simps [simp]:
  "map_ok f (Inl e) = Inl e"
  "map_ok f (Inr x) = Inr (f x)"
  by (simp_all add: map_ok_def)

lemma map_ok_Inr_iff: "map_ok f r = Inr y \<longleftrightarrow> (\<exists>x. r = Inr x \<and> y = f x)"
  by (cases r) auto

lemma map_ok_map_ok: "map_ok f (map_ok g r) = map_ok (\<lambda>x. f (g x)) r"
  by (cases r) simp_all

lemma map_err_simps [simp]:
  "map_err f (Inl e) = Inl (f e)"
  "map_err f (Inr x) = Inr x"
  by (simp_all add: map_err_def)

lemma map_err_Inr_iff: "map_err f r = Inr x \<longleftrightarrow> r = Inr x"
  by (cases r) auto

lemma ok_or_simps [simp]:
  "ok_or e None = Inl e"
  "ok_or e (Some x) = Inr x"
  by (simp_all add: ok_or_def)

lemma transpose_opt_simps [simp]:
  "transpose_opt None = Inr None"
  "transpose_opt (Some r) = map_ok Some r"
  by (simp_all add: transpose_opt_def)

lemma is_ok_iff: "is_ok r \<longleftrightarrow> (\<exists>x. r = Inr x)"
  by (cases r) auto

lemma try_map_Inr_iff:
  "try_map f xs = Inr ys \<longleftrightarrow> list_all2 (\<lambda>x y. f x = Inr y) xs ys"
  by (induction xs arbitrary: ys) (auto simp: and_then_Inr_iff list_all2_Cons1)

lemma try_map_all_ok: "(\<And>x. x \<in> set xs \<Longrightarrow> f x = Inr (g x)) \<Longrightarrow> try_map f xs = Inr (map g xs)"
  by (induction xs) auto

lemma try_map_Inr [simp]: "try_map (\<lambda>x. Inr (f x)) xs = Inr (map f xs)"
  by (induction xs) simp_all

lemma try_map_map: "try_map f (map g xs) = try_map (\<lambda>x. f (g x)) xs"
  by (induction xs) simp_all

lemma try_map_cong: "xs = ys \<Longrightarrow> (\<And>x. x \<in> set ys \<Longrightarrow> f x = g x) \<Longrightarrow> try_map f xs = try_map g ys"
  by (induction ys arbitrary: xs) auto

lemma try_map_first_error:
  assumes "\<forall>x\<in>set xs. is_ok (f x)" and "f y = Inl e"
  shows "try_map f (xs @ y # zs) = Inl e"
  using assms by (induction xs) (auto simp: is_ok_iff)

lemma try_fold_append: "try_fold f (xs @ ys) s = and_then (try_fold f xs s) (try_fold f ys)"
proof (induction xs arbitrary: s)
  case (Cons x xs)
  then show ?case by (cases "f x s") auto
qed simp

lemma try_fold_invariant:
  assumes "try_fold f xs s = Inr t" and "P s"
    and "\<And>x s s'. x \<in> set xs \<Longrightarrow> P s \<Longrightarrow> f x s = Inr s' \<Longrightarrow> P s'"
  shows "P t"
  using assms by (induction xs arbitrary: s) (auto simp: and_then_Inr_iff)

section \<open>Steps on a state\<close>

text \<open>One step after another: an error ends the sequence where it is.\<close>

definition and_run :: "'s \<times> ('e + 'a) \<Rightarrow> ('s \<Rightarrow> 'a \<Rightarrow> 's \<times> ('e + 'b)) \<Rightarrow> 's \<times> ('e + 'b)" where
  "and_run r f = (case r of (s, Inl e) \<Rightarrow> (s, Inl e) | (s, Inr x) \<Rightarrow> f s x)"

lemma and_run_simps [simp]: "and_run (s, Inl e) f = (s, Inl e)" "and_run (s, Inr x) f = f s x"
  by (simp_all add: and_run_def)

lemma and_run_cases:
  "and_run r f = (s, x) \<Longrightarrow> (\<exists>e. r = (s, Inl e) \<and> x = Inl e) \<or> (\<exists>s1 y. r = (s1, Inr y) \<and> f s1 y = (s, x))"
  by (auto simp: and_run_def split: prod.splits sum.splits)

section \<open>Computations that can be dropped at an await\<close>

text \<open>
  An async function is a state transformer whose outcome is either the value it returned or
  \<open>Dropped\<close>: its future was dropped at an await and it never came back. The state is left as it was
  when the future was dropped, and nothing after that await runs.
\<close>

datatype 'a fut = Ready 'a | Dropped

type_synonym ('s, 'a) async = "'s \<Rightarrow> 's \<times> 'a fut"

definition ret :: "'a \<Rightarrow> ('s, 'a) async" where
  "ret x s = (s, Ready x)"

definition await :: "('s, 'a) async \<Rightarrow> ('a \<Rightarrow> ('s, 'b) async) \<Rightarrow> ('s, 'b) async" where
  "await m f s = (case m s of (t, Ready x) \<Rightarrow> f x t | (t, Dropped) \<Rightarrow> (t, Dropped))"

text \<open>An await followed by \<open>?\<close>.\<close>

definition await_ok ::
  "('s, 'e + 'a) async \<Rightarrow> ('a \<Rightarrow> ('s, 'e + 'b) async) \<Rightarrow> ('s, 'e + 'b) async" where
  "await_ok m f = await m (\<lambda>r. case r of Inl e \<Rightarrow> ret (Inl e) | Inr x \<Rightarrow> f x)"

definition modify :: "('s \<Rightarrow> 's) \<Rightarrow> ('s, unit) async" where
  "modify f s = (f s, Ready ())"

text \<open>Total-correctness-free Hoare triples over both outcomes, the shape every invariant uses.\<close>

definition keeps :: "('s \<Rightarrow> bool) \<Rightarrow> ('s, 'a) async \<Rightarrow> ('s \<Rightarrow> 'a fut \<Rightarrow> bool) \<Rightarrow> bool" where
  "keeps P m Q \<longleftrightarrow> (\<forall>s. P s \<longrightarrow> (case m s of (t, r) \<Rightarrow> Q t r))"

lemma ret_app [simp]: "ret x s = (s, Ready x)"
  by (simp add: ret_def)

lemma modify_app [simp]: "modify f s = (f s, Ready ())"
  by (simp add: modify_def)

lemma keepsI: "(\<And>s t r. P s \<Longrightarrow> m s = (t, r) \<Longrightarrow> Q t r) \<Longrightarrow> keeps P m Q"
  by (auto simp: keeps_def split: prod.splits)

lemma keepsD: "keeps P m Q \<Longrightarrow> P s \<Longrightarrow> m s = (t, r) \<Longrightarrow> Q t r"
  by (auto simp: keeps_def)

lemma keeps_weaken:
  "keeps P' m Q' \<Longrightarrow> (\<And>s. P s \<Longrightarrow> P' s) \<Longrightarrow> (\<And>t r. Q' t r \<Longrightarrow> Q t r) \<Longrightarrow> keeps P m Q"
  by (fastforce simp: keeps_def split: prod.splits)

lemma keeps_ret: "(\<And>s. P s \<Longrightarrow> Q s (Ready x)) \<Longrightarrow> keeps P (ret x) Q"
  by (simp add: keeps_def)

lemma keeps_modify: "(\<And>s. P s \<Longrightarrow> Q (f s) (Ready ())) \<Longrightarrow> keeps P (modify f) Q"
  by (simp add: keeps_def)

lemma keeps_await:
  assumes "keeps P m R"
    and "\<And>x. keeps (\<lambda>s. R s (Ready x)) (f x) Q"
    and "\<And>s. R s Dropped \<Longrightarrow> Q s Dropped"
  shows "keeps P (await m f) Q"
proof (rule keepsI)
  fix s t r
  assume P: "P s" and run: "await m f s = (t, r)"
  obtain s1 r1 where m: "m s = (s1, r1)" by fastforce
  have R: "R s1 r1" using keepsD [OF assms(1) P m] .
  show "Q t r"
  proof (cases r1)
    case (Ready x)
    with run m have "f x s1 = (t, r)" by (simp add: await_def)
    with keepsD [OF assms(2)] R Ready show ?thesis by blast
  next
    case Dropped
    with run m R assms(3) show ?thesis by (simp add: await_def)
  qed
qed

lemma keeps_await_from:
  assumes "keeps P' m R" and "\<And>s. P s \<Longrightarrow> P' s"
    and "\<And>x. keeps (\<lambda>s. R s (Ready x)) (f x) Q"
    and "\<And>s. R s Dropped \<Longrightarrow> Q s Dropped"
  shows "keeps P (await m f) Q"
proof (rule keeps_await [where R = R])
  show "keeps P m R" by (rule keeps_weaken [OF assms(1,2)])
qed (rule assms(3,4); assumption)+

lemma keeps_await_ok:
  assumes "keeps P m R"
    and "\<And>x. keeps (\<lambda>s. R s (Ready (Inr x))) (f x) Q"
    and "\<And>s e. R s (Ready (Inl e)) \<Longrightarrow> Q s (Ready (Inl e))"
    and "\<And>s. R s Dropped \<Longrightarrow> Q s Dropped"
  shows "keeps P (await_ok m f) Q"
  unfolding await_ok_def
proof (rule keeps_await [OF assms(1)])
  fix r
  show "keeps (\<lambda>s. R s (Ready r)) (case r of Inl e \<Rightarrow> ret (Inl e) | Inr x \<Rightarrow> f x) Q"
    using assms(2,3) by (cases r) (auto intro: keeps_ret)
qed (rule assms(4))

lemma keeps_if:
  "keeps (\<lambda>s. P s \<and> b) m Q \<Longrightarrow> keeps (\<lambda>s. P s \<and> \<not> b) n Q \<Longrightarrow> keeps P (if b then m else n) Q"
  by (auto simp: keeps_def)

section \<open>Byte strings\<close>

text \<open>The bytes of a string (\<open>as_bytes\<close>), and the text of a number.\<close>

definition byte_of_char :: "char \<Rightarrow> u8" where
  "byte_of_char c = of_char c"

definition str_bytes :: "string \<Rightarrow> bytes" where
  "str_bytes s = map byte_of_char s"

fun dec :: "nat \<Rightarrow> string" where
  "dec n = (if n < 10 then [char_of (48 + n)] else dec (n div 10) @ [char_of (48 + n mod 10)])"

declare dec.simps [simp del]

definition dec_int :: "int \<Rightarrow> string" where
  "dec_int i = (if i < 0 then ''-'' @ dec (nat (- i)) else dec (nat i))"

lemma byte_of_char_inject [simp]: "byte_of_char c = byte_of_char d \<longleftrightarrow> c = d"
proof
  assume "byte_of_char c = byte_of_char d"
  then have "unat (of_nat (of_char c :: nat) :: u8) = unat (of_nat (of_char d :: nat) :: u8)"
    by (simp add: byte_of_char_def of_char_def)
  then have "(of_char c :: nat) = of_char d"
    by (simp add: unat_of_nat)
  then show "c = d" by simp
qed simp

lemma str_bytes_inject [simp]: "str_bytes s = str_bytes t \<longleftrightarrow> s = t"
  by (simp add: str_bytes_def inj_map_eq_map inj_def)

lemma length_str_bytes [simp]: "length (str_bytes s) = length s"
  by (simp add: str_bytes_def)

text \<open>\<open>to_be_bytes\<close> of a 32-bit value.\<close>

definition be_bytes32 :: "bits32 \<Rightarrow> bytes" where
  "be_bytes32 w = map (\<lambda>i. ucast (drop_bit (8 * i) w)) [3, 2, 1, 0]"

lemma length_be_bytes32 [simp]: "length (be_bytes32 w) = 4"
  by (simp add: be_bytes32_def)

lemma be_bytes32_inject [simp]: "be_bytes32 v = be_bytes32 w \<longleftrightarrow> v = w"
proof
  assume eq: "be_bytes32 v = be_bytes32 w"
  have byte: "(ucast (drop_bit (8 * i) v) :: u8) = ucast (drop_bit (8 * i) w)" if "i < 4" for i
  proof -
    from that have "i = 0 \<or> i = 1 \<or> i = 2 \<or> i = 3" by auto
    with eq show ?thesis by (auto simp: be_bytes32_def)
  qed
  show "v = w"
  proof (rule bit_word_eqI)
    fix n assume n: "n < LENGTH(32)"
    let ?i = "n div 8" and ?j = "n mod 8"
    have i: "?i < 4" and j: "?j < 8" and nij: "n = 8 * ?i + ?j" using n by auto
    have "bit (ucast (drop_bit (8 * ?i) v) :: u8) ?j = bit (ucast (drop_bit (8 * ?i) w) :: u8) ?j"
      using byte [OF i] by simp
    with j nij show "bit v n = bit w n"
      by (simp add: bit_ucast_iff bit_drop_bit_eq)
  qed
qed simp

section \<open>Joining parts with a separator\<close>

text \<open>\<open>slice.join(&sep)\<close>: the parts with one separator between each two.\<close>

fun join_with :: "'a \<Rightarrow> 'a list list \<Rightarrow> 'a list" where
  "join_with sep [] = []"
| "join_with sep [x] = x"
| "join_with sep (x # y # ys) = x @ sep # join_with sep (y # ys)"

text \<open>
  A separator that occurs in none but the last part makes the joined list say where each part ends.
\<close>

lemma sep_append_eq:
  assumes "x \<notin> set as" and "x \<notin> set cs"
  shows "as @ x # bs = cs @ x # ds \<longleftrightarrow> as = cs \<and> bs = ds"
  using assms
proof (induction as arbitrary: cs)
  case Nil
  then show ?case by (cases cs) auto
next
  case (Cons a as)
  then show ?case by (cases cs) auto
qed

lemma join_with_inject:
  assumes "length xs = length ys"
    and "\<forall>p\<in>set (butlast xs). sep \<notin> set p" and "\<forall>p\<in>set (butlast ys). sep \<notin> set p"
    and "join_with sep xs = join_with sep ys"
  shows "xs = ys"
  using assms
proof (induction sep xs arbitrary: ys rule: join_with.induct)
  case (1 sep)
  then show ?case by simp
next
  case (2 sep x)
  then show ?case by (cases ys) auto
next
  case (3 sep x y zs)
  then obtain x' y' zs' where ys: "ys = x' # y' # zs'"
    by (cases ys; cases "tl ys") auto
  from 3 ys have "x = x' \<and> join_with sep (y # zs) = join_with sep (y' # zs')"
    by (simp add: sep_append_eq)
  moreover have "y # zs = y' # zs'"
    using 3 ys calculation by (intro "3.IH") auto
  ultimately show ?case using ys by simp
qed

section \<open>Lists\<close>

text \<open>The last \<open>n\<close> elements: \<open>iter().skip(len - n)\<close>.\<close>

definition last_n :: "nat \<Rightarrow> 'a list \<Rightarrow> 'a list" where
  "last_n n xs = drop (length xs - n) xs"

lemma length_last_n [simp]: "length (last_n n xs) = min n (length xs)"
  by (simp add: last_n_def)

lemma set_last_n_subset: "set (last_n n xs) \<subseteq> set xs"
  by (simp add: last_n_def set_drop_subset)

lemma last_n_all [simp]: "length xs \<le> n \<Longrightarrow> last_n n xs = xs"
  by (simp add: last_n_def)

lemma last_n_snoc: "last_n (Suc n) (xs @ [x]) = last_n n xs @ [x]"
  by (cases "n \<le> length xs") (auto simp: last_n_def)

lemma last_n_last_n [simp]: "last_n m (last_n n xs) = last_n (min m n) xs"
proof (cases "m \<le> n")
  case True
  then have "length xs - (length xs - n) - m + (length xs - n) = length xs - m" by arith
  with True show ?thesis by (simp add: last_n_def min_def)
next
  case False
  then show ?thesis by (simp add: last_n_def min_def)
qed

text \<open>\<open>slice.chunks(n)\<close>.\<close>

function chunks :: "nat \<Rightarrow> 'a list \<Rightarrow> 'a list list" where
  "chunks n xs = (if n = 0 \<or> xs = [] then [] else take n xs # chunks n (drop n xs))"
  by auto
termination
  by (relation "measure (\<lambda>(n, xs). length xs)") auto

declare chunks.simps [simp del]

lemma concat_chunks: "0 < n \<Longrightarrow> concat (chunks n xs) = xs"
proof (induction n xs rule: chunks.induct)
  case (1 n xs)
  then show ?case by (subst chunks.simps) auto
qed

lemma chunks_parts: "c \<in> set (chunks n xs) \<Longrightarrow> c \<noteq> [] \<and> length c \<le> n"
proof (induction n xs arbitrary: c rule: chunks.induct)
  case (1 n xs)
  from 1(2) consider "c = take n xs" "xs \<noteq> []" "0 < n" | "c \<in> set (chunks n (drop n xs))" "xs \<noteq> []" "0 < n"
    by (subst (asm) chunks.simps) (auto split: if_splits)
  then show ?case using 1(1) by cases auto
qed

end
