(* ===== verification/Store_Error.thy ===== *)
theory Store_Error
  imports Prelude
begin

text \<open>
  The storage error of the \<open>wacore\<close> crate, reduced to the variants the storage layer builds. The
  payload is the text the source puts in it (a boxed driver error is its text).
\<close>

datatype store_error =
    Connection string
  | Validation string
  | InvalidConfig string
  | Serialization string
  | Database string
  | Migration string
  | StoreIo string

end
