(* ===== verification/Group_Commit.thy ===== *)
theory Group_Commit
  imports Store_Error
begin

text \<open>
  Group commit (\<open>storage/group_commit.rs\<close>, \<open>storage/group_commit_reconcile.rs\<close>): the writers that
  queue at the same moment share one transaction and one COMMIT on the engine's single connection.

  The connection is behind the trait \<open>BatchConn\<close>, so it is a parameter here: \<open>control\<close> runs one
  control statement and \<open>error_text\<close> is the driver error's \<open>Display\<close>. A control statement may be
  awaited by a future that is then dropped (\<^term>\<open>Dropped\<close>); whether it took effect is up to the
  connection. Everything between taking and releasing the state's mutex is one function here; the
  counters outside the mutex (\<open>pending\<close>, the statistics) are fields of \<open>group_commit\<close>.

  A waiter's oneshot channel is a natural number; \<open>answers\<close> holds what was sent on it.
\<close>

section \<open>Data\<close>

datatype control_statement =
  Begin | Savepoint | Release | RollbackToSavepoint | Commit | Rollback

primrec sql :: "control_statement \<Rightarrow> string" where
  "sql Begin = ''BEGIN''"
| "sql Savepoint = ''SAVEPOINT wamux_job''"
| "sql Release = ''RELEASE wamux_job''"
| "sql RollbackToSavepoint = ''ROLLBACK TO wamux_job''"
| "sql Commit = ''COMMIT''"
| "sql Rollback = ''ROLLBACK''"

record 'c batch_conn =
  control :: "control_statement \<Rightarrow> ('c, store_error + unit) async"
  error_text :: "store_error \<Rightarrow> string"

type_synonym batch_answer = "string + unit"

record open_batch =
  ob_jobs :: nat
  ob_waiters :: "nat list"

definition open_batch_default :: open_batch where
  "open_batch_default = \<lparr>ob_jobs = 0, ob_waiters = []\<rparr>"

record 'c batch_state =
  conn :: 'c
  open_b :: "open_batch option"
  job_open :: bool
  in_flight :: "control_statement option"
  answers :: "nat \<rightharpoonup> batch_answer"

record 'c group_commit =
  state :: "'c batch_state"
  pending :: nat
  drained :: nat
  cap :: nat
  commits :: u64
  jobs :: u64

record commit_stats =
  cs_commits :: u64
  cs_jobs :: u64

definition DEFAULT_BATCH_CAP :: nat where
  "DEFAULT_BATCH_CAP = 128"

definition UNKNOWN_OUTCOME :: string where
  "UNKNOWN_OUTCOME = ''the batch's COMMIT was interrupted and its outcome is unknown; check the write before retrying''"

definition TRANSACTION_LOST :: string where
  "TRANSACTION_LOST = ''the database rolled the batch's transaction back on its own (an I/O error or a full disk); the batch's writes were not committed''"

section \<open>The batch state, under the lock\<close>

text \<open>\<open>answer_waiters\<close>: every waiter of a finished batch is told how it ended.\<close>

definition answer_waiters :: "open_batch \<Rightarrow> batch_answer \<Rightarrow> 'c batch_state \<Rightarrow> 'c batch_state" where
  "answer_waiters b a s =
     s\<lparr>answers := (\<lambda>w. if w \<in> set (ob_waiters b) then Some a else answers s w)\<rparr>"

text \<open>\<open>batch_answer\<close>: what a received answer means to the caller.\<close>

definition batch_answer_result :: "batch_answer option \<Rightarrow> store_error + unit" where
  "batch_answer_result received =
     (case received of
        Some (Inr _) \<Rightarrow> Inr ()
      | Some (Inl message) \<Rightarrow> Inl (Connection message)
      | None \<Rightarrow> Inl (Connection ''the group commit was dropped before this job's COMMIT''))"

definition run_control ::
  "'c batch_conn \<Rightarrow> control_statement \<Rightarrow> ('c batch_state, store_error + unit) async" where
  "run_control D stmt s =
     (case control D stmt (conn s) of
        (c, Ready r) \<Rightarrow> (s\<lparr>conn := c, in_flight := None\<rparr>, Ready r)
      | (c, Dropped) \<Rightarrow> (s\<lparr>conn := c, in_flight := Some stmt\<rparr>, Dropped))"

definition begin_batch :: "'c batch_conn \<Rightarrow> ('c batch_state, store_error + unit) async" where
  "begin_batch D =
     await_ok (run_control D Begin)
       (\<lambda>_ s. (s\<lparr>open_b := Some open_batch_default\<rparr>, Ready (Inr ())))"

definition rollback_job :: "'c batch_conn \<Rightarrow> ('c batch_state, store_error + unit) async" where
  "rollback_job D =
     await_ok (run_control D RollbackToSavepoint) (\<lambda>_.
     await_ok (run_control D Release) (\<lambda>_ s.
       (s\<lparr>job_open := False\<rparr>, Ready (Inr ()))))"

definition discard_batch :: "'c batch_conn \<Rightarrow> string \<Rightarrow> ('c batch_state, unit) async" where
  "discard_batch D message =
     await (run_control D Rollback) (\<lambda>_. modify (\<lambda>s.
       (case open_b s of
          Some b \<Rightarrow> answer_waiters b (Inl message) (s\<lparr>open_b := None\<rparr>)
        | None \<Rightarrow> s)\<lparr>job_open := False\<rparr>))"

definition discard_transaction :: "'c batch_conn \<Rightarrow> ('c batch_state, unit) async" where
  "discard_transaction D = discard_batch D UNKNOWN_OUTCOME"

definition discard_after_lost_savepoint :: "'c batch_conn \<Rightarrow> ('c batch_state, unit) async" where
  "discard_after_lost_savepoint D = discard_batch D TRANSACTION_LOST"

definition rollback_job_or_discard :: "'c batch_conn \<Rightarrow> ('c batch_state, bool) async" where
  "rollback_job_or_discard D =
     await (rollback_job D) (\<lambda>r. case r of
        Inr _ \<Rightarrow> ret True
      | Inl _ \<Rightarrow> await (discard_after_lost_savepoint D) (\<lambda>_. ret False))"

definition settle_abandoned :: "'c batch_conn \<Rightarrow> ('c batch_state, store_error + unit) async" where
  "settle_abandoned D s =
     (if \<not> job_open s then ret (Inr ()) s
      else await (rollback_job_or_discard D) (\<lambda>_. ret (Inr ())) s)"

definition start_job :: "'c batch_conn \<Rightarrow> ('c batch_state, store_error + unit) async" where
  "start_job D =
     await_ok (settle_abandoned D) (\<lambda>_.
     await_ok (\<lambda>s. if open_b s = None then begin_batch D s else ret (Inr ()) s) (\<lambda>_.
     await_ok (run_control D Savepoint) (\<lambda>_ s.
       (s\<lparr>job_open := True\<rparr>, Ready (Inr ())))))"

definition end_job :: "'c batch_conn \<Rightarrow> ('c batch_state, store_error + nat) async" where
  "end_job D =
     await (run_control D Release) (\<lambda>r. case r of
        Inl error \<Rightarrow> await (rollback_job_or_discard D) (\<lambda>_. ret (Inl error))
      | Inr _ \<Rightarrow> (\<lambda>s.
          let b = (case open_b s of Some b \<Rightarrow> b | None \<Rightarrow> open_batch_default);
              b' = b\<lparr>ob_jobs := ob_jobs b + 1\<rparr>
          in (s\<lparr>job_open := False, open_b := Some b'\<rparr>, Ready (Inr (ob_jobs b')))))"

definition commit_batch :: "'c batch_conn \<Rightarrow> ('c batch_state, store_error + nat) async" where
  "commit_batch D s =
     (if open_b s = None then ret (Inr 0) s
      else await (run_control D Commit) (\<lambda>committed.
           await (if is_ok committed then ret ()
                  else await (run_control D Rollback) (\<lambda>_. ret ())) (\<lambda>_ s.
             let b = (case open_b s of Some b \<Rightarrow> b | None \<Rightarrow> open_batch_default)
             in (answer_waiters b (map_err (error_text D) committed) (s\<lparr>open_b := None\<rparr>),
                 Ready (map_ok (\<lambda>_. ob_jobs b) committed)))) s)"

definition undo_savepoint :: "'c batch_conn \<Rightarrow> ('c batch_state, unit) async" where
  "undo_savepoint D = await (rollback_job D) (\<lambda>_. modify (\<lambda>s. s\<lparr>job_open := False\<rparr>))"

section \<open>The group commit\<close>

definition gc_new :: "'c \<Rightarrow> nat \<Rightarrow> 'c group_commit" where
  "gc_new c n =
     \<lparr>state = \<lparr>conn = c, open_b = None, job_open = False, in_flight = None, answers = Map.empty\<rparr>,
      pending = 0, drained = 0, cap = max n 1, commits = 0, jobs = 0\<rparr>"

text \<open>Run a computation on the state the mutex protects.\<close>

definition on_state :: "('c batch_state, 'a) async \<Rightarrow> ('c group_commit, 'a) async" where
  "on_state m g = (case m (state g) of (s, r) \<Rightarrow> (g\<lparr>state := s\<rparr>, r))"

text \<open>\<open>Queue::enter\<close>, and dropping the \<open>PendingSlot\<close> it gave: at zero the waiters are notified.\<close>

definition queue_enter :: "'c group_commit \<Rightarrow> 'c group_commit" where
  "queue_enter g = g\<lparr>pending := pending g + 1\<rparr>"

definition slot_drop :: "'c group_commit \<Rightarrow> 'c group_commit" where
  "slot_drop g =
     g\<lparr>pending := pending g - 1, drained := (if pending g = 1 then drained g + 1 else drained g)\<rparr>"

definition count_commit :: "nat \<Rightarrow> 'c group_commit \<Rightarrow> 'c group_commit" where
  "count_commit n g =
     (if n > 0 then g\<lparr>commits := commits g + 1, jobs := jobs g + of_nat n\<rparr> else g)"

definition close_batch :: "'c batch_conn \<Rightarrow> ('c group_commit, store_error + unit) async" where
  "close_batch D =
     await_ok (on_state (commit_batch D)) (\<lambda>n g. (count_commit n g, Ready (Inr ())))"

definition settle_unknown_commit :: "'c batch_conn \<Rightarrow> ('c group_commit, unit) async" where
  "settle_unknown_commit D g =
     (if open_b (state g) = None then (g\<lparr>state := (state g)\<lparr>in_flight := None\<rparr>\<rparr>, Ready ())
      else await (on_state (run_control D Commit)) (\<lambda>r.
        if is_ok r then (\<lambda>g.
          let b = (case open_b (state g) of Some b \<Rightarrow> b | None \<Rightarrow> open_batch_default);
              g' = count_commit (ob_jobs b) (g\<lparr>state := (state g)\<lparr>open_b := None\<rparr>\<rparr>)
          in (g'\<lparr>state := answer_waiters b (Inr ()) (state g')\<rparr>, Ready ()))
        else on_state (discard_transaction D)) g)"

definition reconcile :: "'c batch_conn \<Rightarrow> ('c group_commit, unit) async" where
  "reconcile D g =
     (case in_flight (state g) of
        None \<Rightarrow> ret () g
      | Some Begin \<Rightarrow> on_state (discard_transaction D) g
      | Some Rollback \<Rightarrow> on_state (discard_transaction D) g
      | Some Commit \<Rightarrow> settle_unknown_commit D g
      | Some _ \<Rightarrow> on_state (undo_savepoint D) g)"

text \<open>\<open>begin_job\<close> once the lock is granted (the slot was taken before, by \<^const>\<open>queue_enter\<close>).\<close>

definition begin_job :: "'c batch_conn \<Rightarrow> ('c group_commit, store_error + unit) async" where
  "begin_job D = await (reconcile D) (\<lambda>_. on_state (start_job D))"

definition lock :: "'c batch_conn \<Rightarrow> ('c group_commit, unit) async" where
  "lock D =
     await (reconcile D) (\<lambda>_.
     await (on_state (settle_abandoned D)) (\<lambda>_ g.
       (if pending g = 0 then await (close_batch D) (\<lambda>_. ret ()) g else ret () g)))"

definition lock_autocommit :: "'c batch_conn \<Rightarrow> ('c group_commit, store_error + unit) async" where
  "lock_autocommit D =
     await (reconcile D) (\<lambda>_.
     await_ok (on_state (settle_abandoned D)) (\<lambda>_. close_batch D))"

definition stats :: "'c group_commit \<Rightarrow> commit_stats" where
  "stats g = \<lparr>cs_commits = commits g, cs_jobs = jobs g\<rparr>"

text \<open>
  \<open>JobGuard::finish\<close> up to the point where the lock is released: \<open>Inr None\<close> is the return of a
  closed batch, \<open>Inr (Some ())\<close> the caller goes on to wait on its channel \<open>w\<close>.
\<close>

definition finish :: "'c batch_conn \<Rightarrow> nat \<Rightarrow> ('c group_commit, store_error + unit option) async" where
  "finish D w =
     await_ok (on_state (end_job D)) (\<lambda>n g.
       let others = pending g - 1 in
       if others = 0 \<or> n \<ge> cap g then await_ok (close_batch D) (\<lambda>_. ret (Inr None)) g
       else (g\<lparr>state := (state g)\<lparr>open_b :=
               map_option (\<lambda>b. b\<lparr>ob_waiters := ob_waiters b @ [w]\<rparr>) (open_b (state g))\<rparr>\<rparr>,
             Ready (Inr (Some ()))))"

definition fail :: "'c batch_conn \<Rightarrow> ('c group_commit, unit) async" where
  "fail D =
     await (on_state (rollback_job_or_discard D)) (\<lambda>kept g.
       if \<not> kept then ret () g
       else if pending g - 1 = 0 then await (close_batch D) (\<lambda>_. ret ()) g
       else ret () g)"

text \<open>
  What \<open>try_recv\<close> finds on a waiter's channel. Its sender lives in the open batch until the batch
  leaves the state, so an unanswered channel whose sender is in no batch is closed.
\<close>

datatype recv = Got batch_answer | Empty | Closed

definition channel :: "'c batch_state \<Rightarrow> nat \<Rightarrow> recv" where
  "channel s w =
     (case answers s w of
        Some a \<Rightarrow> Got a
      | None \<Rightarrow> (case open_b s of
                  Some b \<Rightarrow> if w \<in> set (ob_waiters b) then Empty else Closed
                | None \<Rightarrow> Closed))"

text \<open>The part of \<open>commit_if_drained\<close> that runs under the lock, once \<open>pending\<close> was seen at zero.\<close>

definition recv_result :: "recv \<Rightarrow> (store_error + unit) option" where
  "recv_result r =
     (case r of
        Empty \<Rightarrow> None
      | Got a \<Rightarrow> Some (batch_answer_result (Some a))
      | Closed \<Rightarrow> Some (batch_answer_result None))"

definition commit_if_drained ::
  "'c batch_conn \<Rightarrow> nat \<Rightarrow> ('c group_commit, (store_error + unit) option) async" where
  "commit_if_drained D w =
     await (reconcile D) (\<lambda>_.
     await (\<lambda>g. if pending g = 0
                 then await (on_state (settle_abandoned D)) (\<lambda>_.
                      await (close_batch D) (\<lambda>_. ret ())) g
                 else ret () g) (\<lambda>_ g.
       (g, Ready (recv_result (channel (state g) w)))))"

end
