(* ===== verification/Group_Commit_System.thy ===== *)
theory Group_Commit_System
  imports Group_Commit
begin

text \<open>
  The writers, the readers and the one mutex around \<^typ>\<open>'c group_commit\<close>, as a step relation. A
  step is one section that runs without giving the mutex up, or one event outside it: a writer
  queueing, a notification, a future being dropped. Every caller of the API is a numbered writer,
  whose number also names its oneshot channel; \<open>wrote\<close> records the statements a writer's job ran.
  Between any two steps the engine may do something of its own to its connection (\<open>fault\<close>).
  The order in which the mutex is granted is left open, so what holds here holds for its FIFO order.
\<close>

datatype writer_state =
    Idle
  | Queued
  | Running
  | Waiting
  | Registered nat
  | Draining nat
  | Parked nat
  | Finished "store_error + unit"
  | Gone

record ('c, 'w) gc_sys =
  gc :: "'c group_commit"
  holder :: "nat option"
  writer :: "nat \<Rightarrow> writer_state"
  wrote :: "nat \<Rightarrow> 'w list"

definition gc_init :: "'c \<Rightarrow> nat \<Rightarrow> ('c, 'w) gc_sys" where
  "gc_init c n = \<lparr>gc = gc_new c n, holder = None, writer = (\<lambda>_. Idle), wrote = (\<lambda>_. [])\<rparr>"

definition on_conn :: "('c \<Rightarrow> 'c) \<Rightarrow> 'c group_commit \<Rightarrow> 'c group_commit" where
  "on_conn f g = g\<lparr>state := (state g)\<lparr>conn := f (conn (state g))\<rparr>\<rparr>"

definition goes :: "('c, 'w) gc_sys \<Rightarrow> nat \<Rightarrow> writer_state \<Rightarrow> 'c group_commit \<Rightarrow> ('c, 'w) gc_sys" where
  "goes S i x g = S\<lparr>gc := g, writer := (writer S)(i := x)\<rparr>"

lemma goes_sel [simp]:
  "gc (goes S i x g) = g" "wrote (goes S i x g) = wrote S" "holder (goes S i x g) = holder S"
  "writer (goes S i x g) = (writer S)(i := x)"
  by (simp_all add: goes_def)

text \<open>The end of a job: the guard and the slot are dropped, the writer goes on as \<open>x\<close>.\<close>

definition leaves :: "('c, 'w) gc_sys \<Rightarrow> nat \<Rightarrow> writer_state \<Rightarrow> 'c group_commit \<Rightarrow> ('c, 'w) gc_sys" where
  "leaves S i x g = (goes S i x (slot_drop g))\<lparr>holder := None\<rparr>"

primrec waits_for_commit :: "writer_state \<Rightarrow> bool" where
  "waits_for_commit Idle = False"
| "waits_for_commit Queued = False"
| "waits_for_commit Running = False"
| "waits_for_commit Waiting = True"
| "waits_for_commit (Registered e) = True"
| "waits_for_commit (Draining e) = True"
| "waits_for_commit (Parked e) = True"
| "waits_for_commit (Finished r) = False"
| "waits_for_commit Gone = False"

definition is_pending :: "writer_state \<Rightarrow> bool" where
  "is_pending x \<longleftrightarrow> x = Queued \<or> x = Running"

inductive gc_step ::
  "'c batch_conn \<Rightarrow> ('w \<Rightarrow> 'c \<Rightarrow> 'c) \<Rightarrow> ('c \<Rightarrow> 'c \<Rightarrow> bool) \<Rightarrow>
   ('c, 'w) gc_sys \<Rightarrow> ('c, 'w) gc_sys \<Rightarrow> bool"
  for D work fault where
  enter: "writer S i = Idle \<Longrightarrow>
     gc_step D work fault S (goes S i Queued (queue_enter (gc S)))"
| cancel_queued: "writer S i = Queued \<Longrightarrow>
     gc_step D work fault S (goes S i Gone (slot_drop (gc S)))"
| begin_ok: "writer S i = Queued \<Longrightarrow> holder S = None \<Longrightarrow>
     begin_job D (gc S) = (g, Ready (Inr ())) \<Longrightarrow>
     gc_step D work fault S ((goes S i Running g)\<lparr>holder := Some i\<rparr>)"
| begin_err: "writer S i = Queued \<Longrightarrow> holder S = None \<Longrightarrow>
     begin_job D (gc S) = (g, Ready (Inl e)) \<Longrightarrow>
     gc_step D work fault S (leaves S i (Finished (Inl e)) g)"
| begin_dropped: "writer S i = Queued \<Longrightarrow> holder S = None \<Longrightarrow>
     begin_job D (gc S) = (g, Dropped) \<Longrightarrow>
     gc_step D work fault S (leaves S i Gone g)"
| job_work: "holder S = Some i \<Longrightarrow>
     gc_step D work fault S
       (S\<lparr>gc := on_conn (work w) (gc S), wrote := (wrote S)(i := wrote S i @ [w])\<rparr>)"
| engine_fault: "fault (conn (state (gc S))) c \<Longrightarrow>
     gc_step D work fault S (S\<lparr>gc := on_conn (\<lambda>_. c) (gc S)\<rparr>)"
| finish_done: "holder S = Some i \<Longrightarrow> finish D i (gc S) = (g, Ready (Inr None)) \<Longrightarrow>
     gc_step D work fault S (leaves S i (Finished (Inr ())) g)"
| finish_waits: "holder S = Some i \<Longrightarrow> finish D i (gc S) = (g, Ready (Inr (Some ()))) \<Longrightarrow>
     gc_step D work fault S (leaves S i Waiting g)"
| finish_err: "holder S = Some i \<Longrightarrow> finish D i (gc S) = (g, Ready (Inl e)) \<Longrightarrow>
     gc_step D work fault S (leaves S i (Finished (Inl e)) g)"
| finish_dropped: "holder S = Some i \<Longrightarrow> finish D i (gc S) = (g, Dropped) \<Longrightarrow>
     gc_step D work fault S (leaves S i Gone g)"
| job_fail: "holder S = Some i \<Longrightarrow> fail D (gc S) = (g, r) \<Longrightarrow>
     gc_step D work fault S (leaves S i Gone g)"
| abandon: "holder S = Some i \<Longrightarrow>
     gc_step D work fault S (leaves S i Gone (gc S))"
| register: "writer S i = Waiting \<Longrightarrow>
     gc_step D work fault S (goes S i (Registered (drained (gc S))) (gc S))"
| check_busy: "writer S i = Registered e \<Longrightarrow> pending (gc S) \<noteq> 0 \<Longrightarrow>
     gc_step D work fault S (goes S i (Parked e) (gc S))"
| check_drained: "writer S i = Registered e \<Longrightarrow> pending (gc S) = 0 \<Longrightarrow>
     gc_step D work fault S (goes S i (Draining e) (gc S))"
| drain_some: "writer S i = Draining e \<Longrightarrow> holder S = None \<Longrightarrow>
     commit_if_drained D i (gc S) = (g, Ready (Some r)) \<Longrightarrow>
     gc_step D work fault S (goes S i (Finished r) g)"
| drain_none: "writer S i = Draining e \<Longrightarrow> holder S = None \<Longrightarrow>
     commit_if_drained D i (gc S) = (g, Ready None) \<Longrightarrow>
     gc_step D work fault S (goes S i (Parked e) g)"
| drain_dropped: "writer S i = Draining e \<Longrightarrow> holder S = None \<Longrightarrow>
     commit_if_drained D i (gc S) = (g, Dropped) \<Longrightarrow>
     gc_step D work fault S (goes S i Gone g)"
| receive: "writer S i = Parked e \<Longrightarrow> recv_result (channel (state (gc S)) i) = Some r \<Longrightarrow>
     gc_step D work fault S (goes S i (Finished r) (gc S))"
| wake: "writer S i = Parked e \<Longrightarrow> e < drained (gc S) \<Longrightarrow>
     gc_step D work fault S (goes S i Waiting (gc S))"
| cancel_waiting: "waits_for_commit (writer S i) \<Longrightarrow>
     gc_step D work fault S (goes S i Gone (gc S))"
| read: "holder S = None \<Longrightarrow> lock D (gc S) = (g, r) \<Longrightarrow>
     gc_step D work fault S (S\<lparr>gc := g\<rparr>)"
| autocommit: "holder S = None \<Longrightarrow> lock_autocommit D (gc S) = (g, r') \<Longrightarrow>
     gc_step D work fault S (S\<lparr>gc := g\<rparr>)"

inductive gc_reachable ::
  "'c batch_conn \<Rightarrow> ('w \<Rightarrow> 'c \<Rightarrow> 'c) \<Rightarrow> ('c \<Rightarrow> 'c \<Rightarrow> bool) \<Rightarrow> 'c \<Rightarrow> nat \<Rightarrow>
   ('c, 'w) gc_sys \<Rightarrow> bool"
  for D work fault c n where
  gc_start: "gc_reachable D work fault c n (gc_init c n)"
| gc_more: "gc_reachable D work fault c n S \<Longrightarrow> gc_step D work fault S T \<Longrightarrow>
     gc_reachable D work fault c n T"

end
