(* ===== verification/Fake_Db.thy ===== *)
theory Fake_Db
  imports Group_Commit
begin

text \<open>
  The connection the repository's group commit tests drive (\<open>storage/group_commit_fake.rs\<close>). It
  answers as SQLite does when a statement finds nothing to act on, keeps the writes of the open
  transaction apart from the committed ones, honours the savepoint, can fail its COMMIT, and can
  stall one statement, after running it or without running it: a stalled statement's future never
  returns, so its caller is dropped. It is the connection on which the interface of the durability
  proof is interpreted.
\<close>

datatype stall = RunsThenHangs | HangsWithoutRunning

record 'w fake_db =
  fake_log :: "string list"
  open_writes :: "'w list"
  committed :: "'w list"
  savepoint_mark :: "nat option"
  in_transaction :: bool
  implicit :: bool
  fail_commit :: bool
  stall_at :: "(control_statement \<times> stall) option"

definition fake_default :: "'w fake_db" where
  "fake_default =
     \<lparr>fake_log = [], open_writes = [], committed = [], savepoint_mark = None,
      in_transaction = False, implicit = False, fail_commit = False, stall_at = None\<rparr>"

definition fake_write :: "'w \<Rightarrow> 'w fake_db \<Rightarrow> 'w fake_db" where
  "fake_write w db =
     (if in_transaction db then db\<lparr>open_writes := open_writes db @ [w]\<rparr>
      else db\<lparr>committed := committed db @ [w]\<rparr>)"

definition refused :: "string \<Rightarrow> store_error + unit" where
  "refused message = Inl (Connection message)"

definition commit_open :: "'w fake_db \<Rightarrow> 'w fake_db" where
  "commit_open db =
     db\<lparr>open_writes := [], committed := committed db @ open_writes db,
        in_transaction := False, implicit := False, savepoint_mark := None\<rparr>"

definition rollback_open :: "'w fake_db \<Rightarrow> 'w fake_db" where
  "rollback_open db =
     db\<lparr>open_writes := [], in_transaction := False, implicit := False, savepoint_mark := None\<rparr>"

definition abort_transaction :: "'w fake_db \<Rightarrow> 'w fake_db" where
  "abort_transaction db = rollback_open db"

definition fake_begin :: "'w fake_db \<Rightarrow> 'w fake_db \<times> (store_error + unit)" where
  "fake_begin db =
     (if in_transaction db
      then (db, refused ''cannot start a transaction within a transaction'')
      else (db\<lparr>in_transaction := True\<rparr>, Inr ()))"

definition fake_savepoint :: "'w fake_db \<Rightarrow> 'w fake_db \<times> (store_error + unit)" where
  "fake_savepoint db =
     (let db' = (if \<not> in_transaction db then db\<lparr>in_transaction := True, implicit := True\<rparr> else db)
      in (db'\<lparr>savepoint_mark := Some (length (open_writes db'))\<rparr>, Inr ()))"

definition fake_release :: "'w fake_db \<Rightarrow> 'w fake_db \<times> (store_error + unit)" where
  "fake_release db =
     (case savepoint_mark db of
        None \<Rightarrow> (db, refused ''no such savepoint: wamux_job'')
      | Some _ \<Rightarrow>
          (let db' = db\<lparr>savepoint_mark := None\<rparr>
           in (if implicit db' then commit_open db' else db', Inr ())))"

definition fake_rollback_to :: "'w fake_db \<Rightarrow> 'w fake_db \<times> (store_error + unit)" where
  "fake_rollback_to db =
     (case savepoint_mark db of
        None \<Rightarrow> (db, refused ''no such savepoint: wamux_job'')
      | Some mark \<Rightarrow> (db\<lparr>open_writes := take mark (open_writes db)\<rparr>, Inr ()))"

definition fake_commit :: "'w fake_db \<Rightarrow> 'w fake_db \<times> (store_error + unit)" where
  "fake_commit db =
     (if \<not> in_transaction db then (db, refused ''cannot commit - no transaction is active'')
      else if fail_commit db then (db, refused ''disk full (fake)'')
      else (commit_open db, Inr ()))"

definition fake_rollback :: "'w fake_db \<Rightarrow> 'w fake_db \<times> (store_error + unit)" where
  "fake_rollback db =
     (if \<not> in_transaction db then (db, refused ''cannot rollback - no transaction is active'')
      else (rollback_open db, Inr ()))"

primrec fake_run :: "control_statement \<Rightarrow> 'w fake_db \<Rightarrow> 'w fake_db \<times> (store_error + unit)" where
  "fake_run Begin = fake_begin"
| "fake_run Savepoint = fake_savepoint"
| "fake_run Release = fake_release"
| "fake_run RollbackToSavepoint = fake_rollback_to"
| "fake_run Commit = fake_commit"
| "fake_run Rollback = fake_rollback"

definition take_stall :: "control_statement \<Rightarrow> 'w fake_db \<Rightarrow> 'w fake_db \<times> stall option" where
  "take_stall stmt db =
     (case stall_at db of
        Some (stalled, how) \<Rightarrow>
          if stalled = stmt then (db\<lparr>stall_at := None\<rparr>, Some how) else (db, None)
      | None \<Rightarrow> (db, None))"

definition fake_control :: "control_statement \<Rightarrow> ('w fake_db, store_error + unit) async" where
  "fake_control stmt db =
     (let (db1, stall) = take_stall stmt (db\<lparr>fake_log := fake_log db @ [sql stmt]\<rparr>)
      in case stall of
           Some HangsWithoutRunning \<Rightarrow> (db1, Dropped)
         | Some RunsThenHangs \<Rightarrow> (fst (fake_run stmt db1), Dropped)
         | None \<Rightarrow> (case fake_run stmt db1 of (db2, outcome) \<Rightarrow> (db2, Ready outcome)))"

text \<open>\<open>StoreError\<close>'s \<open>Display\<close> belongs to another crate; the fake's errors are all \<open>Connection\<close>s.\<close>

definition fake_conn :: "(store_error \<Rightarrow> string) \<Rightarrow> 'w fake_db batch_conn" where
  "fake_conn render = \<lparr>control = fake_control, error_text = render\<rparr>"

end
