(* ===== verification/Group_Commit_Durability.thy ===== *)
theory Group_Commit_Durability
  imports Group_Commit_System Fake_Db "HOL-Library.Sublist"
begin

text \<open>
  What an answer \<open>Ok\<close> of the group commit is worth. The interface \<open>transactional_conn\<close> states what
  the batch relies on from the engine's connection: what each control statement does to the open
  transaction, its savepoint and the durable writes, whether its future is awaited to the end or
  dropped. The proof that an \<open>Ok\<close> means durable is done once from those laws, for every
  interleaving of writers, cancellations and engine faults, and is then obtained for the connection
  of \<^theory_text>\<open>Fake_Db\<close> by interpretation.
\<close>

section \<open>The interface\<close>

locale transactional_conn =
  fixes D :: "'c batch_conn"
    and work :: "'w \<Rightarrow> 'c \<Rightarrow> 'c"
    and fault :: "'c \<Rightarrow> 'c \<Rightarrow> bool"
    and wf :: "'c \<Rightarrow> bool"
    and tx :: "'c \<Rightarrow> bool"
    and staged :: "'c \<Rightarrow> 'w list"
    and mark :: "'c \<Rightarrow> nat option"
    and durable :: "'c \<Rightarrow> 'w list"
  assumes wf_control: "wf c \<Longrightarrow> control D st c = (c', r) \<Longrightarrow> wf c'"
    and durable_control: "wf c \<Longrightarrow> control D st c = (c', r) \<Longrightarrow> prefix (durable c) (durable c')"
    and tx_control: "wf c \<Longrightarrow> control D st c = (c', r) \<Longrightarrow> st \<noteq> Begin \<Longrightarrow> tx c' \<Longrightarrow> tx c"
    and begin_mark: "wf c \<Longrightarrow> control D Begin c = (c', r) \<Longrightarrow> mark c = None \<Longrightarrow> mark c' = None"
    and savepoint_staged: "wf c \<Longrightarrow> control D Savepoint c = (c', r) \<Longrightarrow> tx c' \<Longrightarrow>
          staged c' = staged c \<and> (mark c' = Some (length (staged c)) \<or> mark c' = mark c)"
    and savepoint_mark: "wf c \<Longrightarrow> control D Savepoint c = (c', Ready (Inl e)) \<Longrightarrow> mark c' = mark c"
    and release_staged: "wf c \<Longrightarrow> control D Release c = (c', r) \<Longrightarrow> tx c' \<Longrightarrow>
          staged c' = staged c \<and> (mark c' = None \<or> mark c' = mark c)"
    and release_mark: "wf c \<Longrightarrow> control D Release c = (c', Ready x) \<Longrightarrow> mark c' = None"
    and rollback_to_staged: "wf c \<Longrightarrow> control D RollbackToSavepoint c = (c', r) \<Longrightarrow> tx c' \<Longrightarrow>
          mark c' = mark c \<and>
          (staged c' = staged c \<or> (\<exists>k. mark c = Some k \<and> staged c' = take k (staged c)))"
    and rollback_to_mark: "wf c \<Longrightarrow> control D RollbackToSavepoint c = (c', Ready (Inl e)) \<Longrightarrow>
          mark c' = None"
    and commit_staged: "wf c \<Longrightarrow> control D Commit c = (c', r) \<Longrightarrow> tx c' \<Longrightarrow>
          staged c' = staged c \<and> mark c' = mark c"
    and commit_mark: "wf c \<Longrightarrow> control D Commit c = (c', r) \<Longrightarrow> mark c = None \<Longrightarrow> mark c' = None"
    and commit_ok: "wf c \<Longrightarrow> control D Commit c = (c', Ready (Inr ())) \<Longrightarrow> mark c = None \<Longrightarrow>
          tx c \<and> durable c' = durable c @ staged c"
    and rollback_staged: "wf c \<Longrightarrow> control D Rollback c = (c', r) \<Longrightarrow> tx c' \<Longrightarrow>
          staged c' = staged c \<and> mark c' = mark c"
    and rollback_ready: "wf c \<Longrightarrow> control D Rollback c = (c', Ready x) \<Longrightarrow> \<not> tx c' \<and> mark c' = None"
    and mark_bound: "wf c \<Longrightarrow> tx c \<Longrightarrow> mark c = Some k \<Longrightarrow> k \<le> length (staged c)"
    and work_wf: "wf c \<Longrightarrow> wf (work w c)"
    and work_durable: "wf c \<Longrightarrow> prefix (durable c) (durable (work w c))"
    and work_tx: "wf c \<Longrightarrow> tx (work w c) = tx c"
    and work_staged: "wf c \<Longrightarrow> tx c \<Longrightarrow> staged (work w c) = staged c @ [w]"
    and work_mark: "wf c \<Longrightarrow> mark (work w c) = mark c"
    and fault_wf: "wf c \<Longrightarrow> fault c c' \<Longrightarrow> wf c'"
    and fault_durable: "wf c \<Longrightarrow> fault c c' \<Longrightarrow> prefix (durable c) (durable c')"
    and fault_tx: "wf c \<Longrightarrow> fault c c' \<Longrightarrow> tx c' \<Longrightarrow> tx c \<and> staged c' = staged c \<and> mark c' = mark c"
    and fault_mark: "wf c \<Longrightarrow> fault c c' \<Longrightarrow> mark c' = None \<or> mark c' = mark c"
begin

text \<open>The staged writes a rollback to the savepoint keeps.\<close>

definition kept :: "'c \<Rightarrow> 'w list" where
  "kept c = (case mark c of None \<Rightarrow> staged c | Some k \<Rightarrow> take k (staged c))"

definition waiting :: "'c batch_state \<Rightarrow> nat set" where
  "waiting s = (case open_b s of None \<Rightarrow> {} | Some b \<Rightarrow> set (ob_waiters b))"

text \<open>
  The invariant of the state under the lock, over the writes \<open>W\<close> of every writer, the writes \<open>F\<close>
  already promised durable, and the writers \<open>K\<close> whose job has ended.
\<close>

definition core :: "(nat \<Rightarrow> 'w list) \<Rightarrow> 'w list set \<Rightarrow> nat set \<Rightarrow> 'c batch_state \<Rightarrow> bool" where
  "core W F K s \<longleftrightarrow>
     wf (conn s) \<and>
     (\<forall>i\<in>waiting s. tx (conn s) \<longrightarrow> sublist (W i) (kept (conn s))) \<and>
     (\<forall>i. answers s i = Some (Inr ()) \<longrightarrow> sublist (W i) (durable (conn s))) \<and>
     (\<forall>ws\<in>F. sublist ws (durable (conn s))) \<and>
     waiting s \<union> dom (answers s) \<subseteq> K"

definition safe :: "(nat \<Rightarrow> 'w list) \<Rightarrow> 'w list set \<Rightarrow> nat set \<Rightarrow> 'c batch_state \<Rightarrow> bool" where
  "safe W F K s \<longleftrightarrow>
     core W F K s \<and>
     (in_flight s = None \<and> \<not> job_open s \<longrightarrow> mark (conn s) = None) \<and>
     (in_flight s = Some Begin \<or> in_flight s = Some Commit \<longrightarrow>
        mark (conn s) = None \<and> \<not> job_open s) \<and>
     (in_flight s = Some Begin \<longrightarrow> open_b s = None)"

definition settled :: "(nat \<Rightarrow> 'w list) \<Rightarrow> 'w list set \<Rightarrow> nat set \<Rightarrow> 'c batch_state \<Rightarrow> bool" where
  "settled W F K s \<longleftrightarrow>
     core W F K s \<and> in_flight s = None \<and> \<not> job_open s \<and> mark (conn s) = None"

lemma settled_safe: "settled W F K s \<Longrightarrow> safe W F K s"
  by (simp add: settled_def safe_def)

lemma safe_core: "safe W F K s \<Longrightarrow> core W F K s"
  by (simp add: safe_def)

lemma waiting_cong: "open_b t = open_b s \<Longrightarrow> waiting t = waiting s"
  by (simp add: waiting_def)

lemma run_control_frame:
  assumes "run_control D st s = (t, r)"
  shows "control D st (conn s) = (conn t, r) \<and> open_b t = open_b s \<and> job_open t = job_open s \<and>
         answers t = answers s \<and> in_flight t = (case r of Ready _ \<Rightarrow> None | Dropped \<Rightarrow> Some st)"
  using assms by (auto simp: run_control_def split: prod.splits fut.splits)

lemma kept_cong: "staged c' = staged c \<Longrightarrow> mark c' = mark c \<Longrightarrow> kept c' = kept c"
  by (cases "mark c") (simp_all add: kept_def)

lemma kept_all: "mark c = None \<or> mark c = Some (length (staged c)) \<Longrightarrow> kept c = staged c"
  by (auto simp: kept_def)

lemma sublist_kept_staged: "sublist ws (kept c) \<Longrightarrow> sublist ws (staged c)"
  by (auto simp: kept_def split: option.splits intro: sublist_order.order_trans sublist_take)

lemma kept_control:
  assumes "wf c" "control D st c = (c', r)" "st \<noteq> Begin" "tx c'" "sublist ws (kept c)"
  shows "sublist ws (kept c')"
proof -
  have "tx c" using assms tx_control by blast
  have kept: "sublist ws (staged c)"
    using assms(5) by (rule sublist_kept_staged)
  show ?thesis
  proof (cases st)
    case Savepoint
    with assms have "staged c' = staged c" "mark c' = Some (length (staged c)) \<or> mark c' = mark c"
      using savepoint_staged by blast+
    with kept assms(5) show ?thesis by (metis kept_cong kept_all)
  next
    case Release
    with assms have "staged c' = staged c" "mark c' = None \<or> mark c' = mark c"
      using release_staged by blast+
    with kept assms(5) show ?thesis by (metis kept_cong kept_all)
  next
    case RollbackToSavepoint
    with assms have m: "mark c' = mark c"
      and st: "staged c' = staged c \<or> (\<exists>k. mark c = Some k \<and> staged c' = take k (staged c))"
      using rollback_to_staged by blast+
    from st show ?thesis
    proof
      assume "staged c' = staged c"
      with m assms(5) kept_cong show ?thesis by metis
    next
      assume "\<exists>k. mark c = Some k \<and> staged c' = take k (staged c)"
      with m assms(5) show ?thesis by (auto simp: kept_def)
    qed
  next
    case Commit
    with assms have "staged c' = staged c" "mark c' = mark c" using commit_staged by blast+
    with assms(5) kept_cong show ?thesis by metis
  next
    case Rollback
    with assms have "staged c' = staged c" "mark c' = mark c" using rollback_staged by blast+
    with assms(5) kept_cong show ?thesis by metis
  qed (use assms in simp)
qed

lemma core_run_control:
  assumes "core W F K s" "run_control D st s = (t, r)" "st = Begin \<Longrightarrow> open_b s = None"
  shows "core W F K t"
proof -
  note fr = run_control_frame [OF assms(2)]
  have wf: "wf (conn s)" using assms(1) by (simp add: core_def)
  have pre: "prefix (durable (conn s)) (durable (conn t))"
    using durable_control wf fr by blast
  have dur: "sublist ws (durable (conn t))" if "sublist ws (durable (conn s))" for ws
    using that pre by (blast intro: sublist_order.order_trans prefix_imp_sublist)
  have waits: "sublist (W i) (kept (conn t))" if "i \<in> waiting t" "tx (conn t)" for i
  proof (cases "st = Begin")
    case True
    with assms(3) fr that show ?thesis by (simp add: waiting_def)
  next
    case False
    then show ?thesis
      using that assms(1) fr wf kept_control tx_control
      by (metis core_def waiting_cong)
  qed
  show ?thesis
    using assms(1) fr wf wf_control dur waits unfolding core_def by (auto simp: waiting_def)
qed

lemma run_control_core:
  assumes "core W F K s" "run_control D st s = (t, r)" "st = Begin \<Longrightarrow> open_b s = None"
  shows "core W F K t \<and> wf (conn s) \<and> control D st (conn s) = (conn t, r) \<and>
         open_b t = open_b s \<and> job_open t = job_open s \<and> answers t = answers s \<and>
         in_flight t = (case r of Ready _ \<Rightarrow> None | Dropped \<Rightarrow> Some st)"
  using core_run_control [OF assms] run_control_frame [OF assms(2)] assms(1)
  by (simp add: core_def)

lemma run_begin:
  assumes "core W F K s" "run_control D Begin s = (t, r)"
    and "open_b s = None"
  shows "core W F K t \<and> open_b t = open_b s \<and> job_open t = job_open s \<and> answers t = answers s \<and>
         in_flight t = (case r of Ready _ \<Rightarrow> None | Dropped \<Rightarrow> Some Begin) \<and>
         (mark (conn s) = None \<longrightarrow> mark (conn t) = None)"
proof -
  note rc = run_control_core [OF assms(1,2)]
  have c: "wf (conn s)" "control D Begin (conn s) = (conn t, r)" using rc assms(3) by auto
  have "(mark (conn s) = None \<longrightarrow> mark (conn t) = None)" using c begin_mark assms by metis
  with rc assms(3) show ?thesis by auto
qed

lemma run_savepoint:
  assumes "core W F K s" "run_control D Savepoint s = (t, r)"
  shows "core W F K t \<and> open_b t = open_b s \<and> job_open t = job_open s \<and> answers t = answers s \<and>
         in_flight t = (case r of Ready _ \<Rightarrow> None | Dropped \<Rightarrow> Some Savepoint) \<and>
         (\<forall>e. r = Ready (Inl e) \<longrightarrow> mark (conn t) = mark (conn s))"
proof -
  note rc = run_control_core [OF assms(1,2)]
  have c: "wf (conn s)" "control D Savepoint (conn s) = (conn t, r)" using rc by auto
  have "(\<forall>e. r = Ready (Inl e) \<longrightarrow> mark (conn t) = mark (conn s))" using c savepoint_mark by metis
  with rc show ?thesis by auto
qed

lemma run_release:
  assumes "core W F K s" "run_control D Release s = (t, r)"
  shows "core W F K t \<and> open_b t = open_b s \<and> job_open t = job_open s \<and> answers t = answers s \<and>
         in_flight t = (case r of Ready _ \<Rightarrow> None | Dropped \<Rightarrow> Some Release) \<and>
         (\<forall>x. r = Ready x \<longrightarrow> mark (conn t) = None)"
proof -
  note rc = run_control_core [OF assms(1,2)]
  have c: "wf (conn s)" "control D Release (conn s) = (conn t, r)" using rc by auto
  have "(\<forall>x. r = Ready x \<longrightarrow> mark (conn t) = None)" using c release_mark by metis
  with rc show ?thesis by auto
qed

lemma run_rollback_to:
  assumes "core W F K s" "run_control D RollbackToSavepoint s = (t, r)"
  shows "core W F K t \<and> open_b t = open_b s \<and> job_open t = job_open s \<and> answers t = answers s \<and>
         in_flight t = (case r of Ready _ \<Rightarrow> None | Dropped \<Rightarrow> Some RollbackToSavepoint) \<and>
         (\<forall>e. r = Ready (Inl e) \<longrightarrow> mark (conn t) = None)"
proof -
  note rc = run_control_core [OF assms(1,2)]
  have c: "wf (conn s)" "control D RollbackToSavepoint (conn s) = (conn t, r)" using rc by auto
  have "(\<forall>e. r = Ready (Inl e) \<longrightarrow> mark (conn t) = None)" using c rollback_to_mark by metis
  with rc show ?thesis by auto
qed

lemma run_commit:
  assumes "core W F K s" "run_control D Commit s = (t, r)"
  shows "core W F K t \<and> open_b t = open_b s \<and> job_open t = job_open s \<and> answers t = answers s \<and>
         in_flight t = (case r of Ready _ \<Rightarrow> None | Dropped \<Rightarrow> Some Commit) \<and>
         (mark (conn s) = None \<longrightarrow> mark (conn t) = None) \<and>
         (mark (conn s) = None \<longrightarrow> r = Ready (Inr ()) \<longrightarrow>
            tx (conn s) \<and> durable (conn t) = durable (conn s) @ staged (conn s))"
proof -
  note rc = run_control_core [OF assms(1,2)]
  have c: "wf (conn s)" "control D Commit (conn s) = (conn t, r)" using rc by auto
  have "(mark (conn s) = None \<longrightarrow> mark (conn t) = None) \<and>
         (mark (conn s) = None \<longrightarrow> r = Ready (Inr ()) \<longrightarrow>
            tx (conn s) \<and> durable (conn t) = durable (conn s) @ staged (conn s))" using c commit_mark commit_ok by metis
  with rc show ?thesis by auto
qed

lemma run_rollback:
  assumes "core W F K s" "run_control D Rollback s = (t, r)"
  shows "core W F K t \<and> open_b t = open_b s \<and> job_open t = job_open s \<and> answers t = answers s \<and>
         in_flight t = (case r of Ready _ \<Rightarrow> None | Dropped \<Rightarrow> Some Rollback) \<and>
         (\<forall>x. r = Ready x \<longrightarrow> \<not> tx (conn t) \<and> mark (conn t) = None)"
proof -
  note rc = run_control_core [OF assms(1,2)]
  have c: "wf (conn s)" "control D Rollback (conn s) = (conn t, r)" using rc by auto
  have "(\<forall>x. r = Ready x \<longrightarrow> \<not> tx (conn t) \<and> mark (conn t) = None)" using c rollback_ready by metis
  with rc show ?thesis by auto
qed

lemma core_job_open [simp]: "core W F K (s\<lparr>job_open := b\<rparr>) = core W F K s"
  by (simp add: core_def waiting_def)

lemma core_in_flight [simp]: "core W F K (s\<lparr>in_flight := b\<rparr>) = core W F K s"
  by (simp add: core_def waiting_def)

lemma core_frame:
  assumes "core W F K s" "conn t = conn s" "answers t = answers s" "waiting t \<subseteq> waiting s"
  shows "core W F K t"
  using assms unfolding core_def by auto

text \<open>Taking the batch out of the state and answering it.\<close>

lemma core_answer:
  assumes "core W F K s" "open_b s = Some b"
    and "a = Inr () \<Longrightarrow> \<forall>i\<in>set (ob_waiters b). sublist (W i) (durable (conn s))"
  shows "core W F K (answer_waiters b a (s\<lparr>open_b := None\<rparr>))"
  using assms unfolding core_def answer_waiters_def waiting_def
  by (auto simp: dom_def split: if_splits)

subsection \<open>The operations under the lock\<close>

lemma rollback_job_spec:
  "keeps (\<lambda>s. core W F K s \<and> open_b s = ob) (rollback_job D)
     (\<lambda>t r. case r of
        Ready x \<Rightarrow> core W F K t \<and> open_b t = ob \<and> in_flight t = None \<and> mark (conn t) = None \<and>
                   (is_ok x \<longrightarrow> \<not> job_open t)
      | Dropped \<Rightarrow> core W F K t \<and> in_flight t \<in> {Some RollbackToSavepoint, Some Release})"
  unfolding rollback_job_def
proof (rule keeps_await_ok [where R = "\<lambda>t r. core W F K t \<and> open_b t = ob \<and>
    in_flight t = (case r of Ready _ \<Rightarrow> None | Dropped \<Rightarrow> Some RollbackToSavepoint) \<and>
    (\<forall>e. r = Ready (Inl e) \<longrightarrow> mark (conn t) = None)"], goal_cases)
  case 1
  show ?case
  proof (rule keepsI, goal_cases)
    case (1 s t r)
    with run_rollback_to [of W F K s t r] show ?case by simp
  qed
next
  case (2 x)
  show ?case
  proof (rule keeps_await_ok [where R = "\<lambda>t r. core W F K t \<and> open_b t = ob \<and>
      in_flight t = (case r of Ready _ \<Rightarrow> None | Dropped \<Rightarrow> Some Release) \<and>
      (\<forall>y. r = Ready y \<longrightarrow> mark (conn t) = None)"], goal_cases)
    case 1
    show ?case
    proof (rule keepsI, goal_cases)
      case (1 s t r)
      with run_release [of W F K s t r] show ?case by simp
    qed
  next
    case (2 y)
    show ?case
      by (rule keepsI) auto
  qed auto
qed auto

lemma discard_batch_spec:
  "keeps (core W F K) (discard_batch D message)
     (\<lambda>t r. case r of
        Ready _ \<Rightarrow> settled W F K t \<and> open_b t = None
      | Dropped \<Rightarrow> core W F K t \<and> in_flight t = Some Rollback)"
  unfolding discard_batch_def
proof (rule keeps_await [where R = "\<lambda>t r. core W F K t \<and>
    in_flight t = (case r of Ready _ \<Rightarrow> None | Dropped \<Rightarrow> Some Rollback) \<and>
    (\<forall>y. r = Ready y \<longrightarrow> mark (conn t) = None)"], goal_cases)
  case 1
  show ?case
  proof (rule keepsI, goal_cases)
    case (1 s t r)
    with run_rollback [of W F K s t r] show ?case by simp
  qed
next
  case (2 x)
  show ?case
  proof (rule keeps_modify, goal_cases)
    case (1 s)
    then have c: "core W F K s" by simp
    show ?case
    proof (cases "open_b s")
      case None
      with 1 show ?thesis by (simp add: settled_def)
    next
      case (Some b)
      let ?t = "answer_waiters b (Inl message) (s\<lparr>open_b := None\<rparr>)"
      have "core W F K ?t" by (rule core_answer [OF c Some]) simp
      with 1 Some show ?thesis by (simp add: settled_def answer_waiters_def)
    qed
  qed
qed auto

lemma rollback_job_or_discard_spec:
  "keeps (\<lambda>s. core W F K s \<and> open_b s = ob) (rollback_job_or_discard D)
     (\<lambda>t r. case r of
        Ready b \<Rightarrow> settled W F K t \<and> open_b t = (if b then ob else None)
      | Dropped \<Rightarrow> safe W F K t)"
  unfolding rollback_job_or_discard_def discard_after_lost_savepoint_def
proof (rule keeps_await [OF rollback_job_spec], goal_cases)
  case (1 x)
  show ?case
  proof (cases x)
    case (Inl e)
    show ?thesis unfolding Inl sum.case
      by (rule keeps_await_from [OF discard_batch_spec])
        (auto intro: keeps_ret simp: safe_def)
  next
    case (Inr u)
    then show ?thesis by (auto intro!: keeps_ret simp: settled_def)
  qed
next
  case (2 s)
  then show ?case by (auto simp: safe_def)
qed

lemma undo_savepoint_spec:
  "keeps (core W F K) (undo_savepoint D)
     (\<lambda>t r. case r of Ready _ \<Rightarrow> settled W F K t | Dropped \<Rightarrow> safe W F K t)"
  unfolding undo_savepoint_def
proof (rule keepsI, goal_cases)
  case (1 s t r)
  have "keeps (\<lambda>s'. core W F K s' \<and> open_b s' = open_b s)
      (await (rollback_job D) (\<lambda>_. modify (\<lambda>s. s\<lparr>job_open := False\<rparr>)))
      (\<lambda>t r. case r of Ready _ \<Rightarrow> settled W F K t | Dropped \<Rightarrow> safe W F K t)"
    by (rule keeps_await [OF rollback_job_spec])
      (auto intro!: keeps_modify simp: settled_def safe_def)
  with 1 show ?case by (auto dest: keepsD)
qed

lemma settle_abandoned_spec:
  "keeps (\<lambda>s. safe W F K s \<and> in_flight s = None) (settle_abandoned D)
     (\<lambda>t r. case r of Ready x \<Rightarrow> settled W F K t \<and> x = Inr () | Dropped \<Rightarrow> safe W F K t)"
proof (rule keepsI, goal_cases)
  case (1 s t r)
  show ?case
  proof (cases "job_open s")
    case False
    with 1 show ?thesis by (auto simp: settle_abandoned_def settled_def safe_def)
  next
    case True
    have "keeps (\<lambda>s'. core W F K s' \<and> open_b s' = open_b s)
        (await (rollback_job_or_discard D) (\<lambda>_. ret (Inr ())))
        (\<lambda>t r. case r of Ready x \<Rightarrow> settled W F K t \<and> x = Inr () | Dropped \<Rightarrow> safe W F K t)"
      by (rule keeps_await [OF rollback_job_or_discard_spec]) (auto intro: keeps_ret)
    with 1 True show ?thesis
      by (auto simp: settle_abandoned_def safe_def dest: keepsD)
  qed
qed

lemma begin_batch_spec:
  "keeps (\<lambda>s. settled W F K s \<and> open_b s = None) (begin_batch D)
     (\<lambda>t r. case r of
        Ready x \<Rightarrow> settled W F K t \<and> (is_ok x \<longrightarrow> open_b t = Some open_batch_default)
      | Dropped \<Rightarrow> safe W F K t)"
  unfolding begin_batch_def
proof (rule keeps_await_ok [where R = "\<lambda>t r. core W F K t \<and> open_b t = None \<and>
    \<not> job_open t \<and> mark (conn t) = None \<and>
    in_flight t = (case r of Ready _ \<Rightarrow> None | Dropped \<Rightarrow> Some Begin)"], goal_cases)
  case 1
  show ?case
  proof (rule keepsI, goal_cases)
    case (1 s t r)
    with run_begin [of W F K s t r] show ?case by (simp add: settled_def)
  qed
next
  case (2 x)
  show ?case
    by (rule keepsI)
      (auto simp: settled_def open_batch_default_def waiting_def elim!: core_frame)
qed (auto simp: settled_def safe_def)

text \<open>A job in progress: its savepoint is open and everything it wrote is the end of the transaction.\<close>

definition running ::
  "(nat \<Rightarrow> 'w list) \<Rightarrow> 'w list set \<Rightarrow> nat set \<Rightarrow> 'w list \<Rightarrow> 'c batch_state \<Rightarrow> bool" where
  "running W F K ws s \<longleftrightarrow>
     core W F K s \<and> in_flight s = None \<and> job_open s \<and> open_b s \<noteq> None \<and>
     (tx (conn s) \<longrightarrow> suffix ws (staged (conn s)))"

lemma running_safe: "running W F K ws s \<Longrightarrow> safe W F K s"
  by (simp add: running_def safe_def)

lemma start_job_spec:
  "keeps (\<lambda>s. safe W F K s \<and> in_flight s = None) (start_job D)
     (\<lambda>t r. case r of
        Ready x \<Rightarrow> safe W F K t \<and> in_flight t = None \<and> (is_ok x \<longrightarrow> running W F K [] t)
      | Dropped \<Rightarrow> safe W F K t)"
  unfolding start_job_def
proof (rule keeps_await_ok [OF settle_abandoned_spec], goal_cases)
  case (1 x)
  show ?case
  proof (rule keeps_await_ok [where R = "\<lambda>t r. case r of
        Ready y \<Rightarrow> settled W F K t \<and> (is_ok y \<longrightarrow> open_b t \<noteq> None) | Dropped \<Rightarrow> safe W F K t"], goal_cases)
    case 1
    show ?case
    proof (rule keepsI, goal_cases)
      case (1 s t r)
      then show ?case
        using keepsD [OF begin_batch_spec, of W F K s t r]
        by (cases "open_b s") (auto split: fut.splits)
    qed
  next
    case (2 y)
    show ?case
    proof (rule keeps_await_ok [where R = "\<lambda>t r. core W F K t \<and> open_b t \<noteq> None \<and> \<not> job_open t \<and>
        in_flight t = (case r of Ready _ \<Rightarrow> None | Dropped \<Rightarrow> Some Savepoint) \<and>
        (\<forall>e. r = Ready (Inl e) \<longrightarrow> mark (conn t) = None)"], goal_cases)
      case 1
      show ?case
      proof (rule keepsI, goal_cases)
        case (1 s t r)
        with run_savepoint [of W F K s t r] show ?case by (simp add: settled_def)
      qed
    next
      case (2 z)
      show ?case by (rule keepsI) (auto simp: running_def safe_def)
    qed (auto simp: safe_def)
  qed (auto simp: settled_safe settled_def)
qed (auto simp: settled_safe settled_def)

lemma end_job_spec:
  "keeps (running W F K ws) (end_job D)
     (\<lambda>t r. case r of
        Ready (Inr n) \<Rightarrow> settled W F K t \<and> (\<exists>b. open_b t = Some b \<and> ob_jobs b = n) \<and>
                         (tx (conn t) \<longrightarrow> sublist ws (staged (conn t)))
      | _ \<Rightarrow> safe W F K t)"
  unfolding end_job_def
proof (rule keeps_await [where R = "\<lambda>t r. core W F K t \<and> open_b t \<noteq> None \<and>
    in_flight t = (case r of Ready _ \<Rightarrow> None | Dropped \<Rightarrow> Some Release) \<and>
    (\<forall>x. r = Ready x \<longrightarrow> mark (conn t) = None) \<and>
    (tx (conn t) \<longrightarrow> sublist ws (staged (conn t)))"], goal_cases)
  case 1
  show ?case
  proof (rule keepsI, goal_cases)
    case (1 s t r)
    have "wf (conn s)" "control D Release (conn s) = (conn t, r)"
      using run_control_core [OF _ 1(2)] 1(1) by (auto simp: running_def)
    then have "tx (conn t) \<Longrightarrow> tx (conn s) \<and> staged (conn t) = staged (conn s)"
      using release_staged tx_control by blast
    with 1 run_release [of W F K s t r] show ?case
      by (auto simp: running_def intro: suffix_imp_sublist)
  qed
next
  case (2 x)
  show ?case
  proof (cases x)
    case (Inl e)
    show ?thesis unfolding Inl sum.case
    proof (rule keepsI, goal_cases)
      case (1 s t r)
      have "keeps (\<lambda>s'. core W F K s' \<and> open_b s' = open_b s)
          (await (rollback_job_or_discard D) (\<lambda>_. ret (Inl e)))
          (\<lambda>t r. case r of Ready y \<Rightarrow> y = Inl e \<and> safe W F K t | Dropped \<Rightarrow> safe W F K t)"
        by (rule keeps_await [OF rollback_job_or_discard_spec]) (auto intro!: keeps_ret intro: settled_safe)
      with keepsD [of _ _ _ s t r] 1 show ?case by (fastforce split: fut.splits)
    qed
  next
    case (Inr u)
    show ?thesis unfolding Inr sum.case
      by (rule keepsI)
        (auto simp: settled_def Let_def waiting_def elim!: core_frame)
  qed
qed (auto simp: safe_def)

text \<open>A COMMIT that answered \<open>Ok\<close> made the writes of every waiter of the batch durable.\<close>

lemma waiters_durable:
  assumes "core W F K s" "mark (conn s) = None" "run_control D Commit s = (t, Ready (Inr ()))"
    and "open_b s = Some b" "i \<in> set (ob_waiters b)"
  shows "sublist (W i) (durable (conn t))"
proof -
  have "tx (conn s)" "durable (conn t) = durable (conn s) @ staged (conn s)"
    using run_commit [OF assms(1,3)] assms(2) by auto
  moreover have "sublist (W i) (staged (conn s))"
    using calculation(1) assms by (auto simp: core_def waiting_def kept_def)
  ultimately show ?thesis by (auto intro: sublist_order.order_trans sublist_append_leftI)
qed

lemma commit_batch_spec:
  "keeps (\<lambda>s. settled W F K s \<and> open_b s = ob \<and> (\<forall>ws\<in>X. tx (conn s) \<longrightarrow> sublist ws (staged (conn s))))
     (commit_batch D)
     (\<lambda>t r. case r of
        Ready x \<Rightarrow> settled W F K t \<and> open_b t = None \<and>
                   (is_ok x \<longrightarrow> ob \<noteq> None \<longrightarrow> (\<forall>ws\<in>X. sublist ws (durable (conn t))))
      | Dropped \<Rightarrow> safe W F K t)"
proof (rule keepsI, goal_cases)
  case (1 s t r)
  show ?case
  proof (cases "open_b s")
    case None
    with 1 show ?thesis by (auto simp: commit_batch_def)
  next
    case (Some b)
    obtain s1 r1 where c: "run_control D Commit s = (s1, r1)" by fastforce
    from 1 have set: "core W F K s" "mark (conn s) = None" "\<not> job_open s"
      by (auto simp: settled_def)
    note rc = run_commit [OF set(1) c]
    have dur: "sublist ws (durable (conn s1))"
      if "r1 = Ready (Inr ())" "sublist ws (staged (conn s))" for ws
      using rc that set by (auto intro: sublist_order.order_trans sublist_append_leftI)
    have mine: "\<forall>ws\<in>X. sublist ws (durable (conn s1))" if "r1 = Ready (Inr ())"
      using 1 rc that set dur by auto
    have theirs: "sublist (W i) (durable (conn s1))"
      if "r1 = Ready (Inr ())" "i \<in> set (ob_waiters b)" for i
      using waiters_durable [OF set(1,2)] c that Some by blast
    show ?thesis
    proof (cases r1)
      case Dropped
      with 1(2) c Some have "t = s1 \<and> r = Dropped" by (simp add: commit_batch_def await_def)
      with rc set Dropped show ?thesis by (simp add: safe_def)
    next
      case (Ready x)
      show ?thesis
      proof (cases x)
        case (Inr u)
        let ?t = "answer_waiters b (Inr ()) (s1\<lparr>open_b := None\<rparr>)"
        have "core W F K ?t"
          using rc Some theirs Ready Inr by (intro core_answer) auto
        moreover from 1(2) c Some Ready Inr rc have "t = ?t \<and> r = Ready (Inr (ob_jobs b))"
          by (simp add: commit_batch_def await_def)
        ultimately show ?thesis
          using Ready Inr rc set mine by (simp add: settled_def answer_waiters_def)
      next
        case (Inl e)
        obtain s2 r2 where rb: "run_control D Rollback s1 = (s2, r2)" by fastforce
        note rr = run_rollback [OF conjunct1 [OF rc] rb]
        show ?thesis
        proof (cases r2)
          case Dropped
          with 1(2) c Some Ready Inl rb have "t = s2 \<and> r = Dropped"
            by (simp add: commit_batch_def await_def)
          with rr Dropped show ?thesis by (simp add: safe_def)
        next
          case R2: (Ready y)
          let ?t = "answer_waiters b (Inl (error_text D e)) (s2\<lparr>open_b := None\<rparr>)"
          have "core W F K ?t" using rr rc Some by (intro core_answer) auto
          moreover from 1(2) c Some Ready Inl rb R2 rr rc have "t = ?t \<and> r = Ready (Inl e)"
            by (simp add: commit_batch_def await_def)
          ultimately show ?thesis
            using R2 rr rc set by (simp add: settled_def answer_waiters_def)
        qed
      qed
    qed
  qed
qed

end

end
