(* ===== verification/Group_Commit_Invariant.thy ===== *)
theory Group_Commit_Invariant
  imports Group_Commit_Durability
begin

text \<open>
  The group commit's operations above the lock, and the invariant of the whole system of writers,
  both from the interface \<open>transactional_conn\<close>. The last section interprets the interface on the
  connection of \<^theory_text>\<open>Fake_Db\<close> and states the durability theorem there.
\<close>

lemma keeps_on_state:
  "keeps P m Q \<Longrightarrow> keeps (\<lambda>g. P (state g)) (on_state m) (\<lambda>g. Q (state g))"
  by (auto simp: keeps_def on_state_def split: prod.splits)

lemma state_count_commit [simp]: "state (count_commit n g) = state g"
  by (simp add: count_commit_def)

lemma state_slot_drop [simp]: "state (slot_drop g) = state g"
  by (simp add: slot_drop_def)

lemma state_queue_enter [simp]: "state (queue_enter g) = state g"
  by (simp add: queue_enter_def)

text \<open>The writes promised durable, and the writers whose job has ended.\<close>

definition promised :: "('c, 'w) gc_sys \<Rightarrow> 'w list set" where
  "promised S = wrote S ` {i. writer S i = Finished (Inr ())}"

definition ended :: "('c, 'w) gc_sys \<Rightarrow> nat set" where
  "ended S = {i. writer S i \<notin> {Idle, Queued, Running}}"

context transactional_conn
begin

lemma safe_mono:
  assumes "safe W F K s" "F' \<subseteq> F" "K \<subseteq> K'"
  shows "safe W F' K' s"
  using assms unfolding safe_def core_def by blast

lemma safe_promise:
  assumes "safe W F K s" "sublist ws (durable (conn s))" "F' \<subseteq> insert ws F" "K \<subseteq> K'"
  shows "safe W F' K' s"
  using assms unfolding safe_def core_def by blast

lemma running_mono:
  assumes "running W F K ws s" "F' \<subseteq> F" "K \<subseteq> K'"
  shows "running W F' K' ws s"
  using assms unfolding running_def core_def by blast

lemma close_batch_spec:
  "keeps (\<lambda>g. settled W F K (state g) \<and> open_b (state g) = ob \<and>
            (\<forall>ws\<in>X. tx (conn (state g)) \<longrightarrow> sublist ws (staged (conn (state g)))))
     (close_batch D)
     (\<lambda>g r. case r of
        Ready x \<Rightarrow> settled W F K (state g) \<and> open_b (state g) = None \<and>
                   (is_ok x \<longrightarrow> ob \<noteq> None \<longrightarrow> (\<forall>ws\<in>X. sublist ws (durable (conn (state g)))))
      | Dropped \<Rightarrow> safe W F K (state g))"
  unfolding close_batch_def
  by (rule keeps_await_ok [OF keeps_on_state [OF commit_batch_spec]]) (auto intro!: keepsI)

lemma close_batch_settled:
  "keeps (\<lambda>g. settled W F K (state g)) (close_batch D)
     (\<lambda>g r. case r of Ready x \<Rightarrow> settled W F K (state g) | Dropped \<Rightarrow> safe W F K (state g))"
proof (rule keepsI, goal_cases)
  case (1 g h r)
  with keepsD [OF close_batch_spec, of W F K g "open_b (state g)" "{}" h r]
  show ?case by (simp split: fut.splits)
qed

lemma settle_unknown_commit_spec:
  "keeps (\<lambda>g. safe W F K (state g) \<and> in_flight (state g) = Some Commit) (settle_unknown_commit D)
     (\<lambda>g r. case r of Ready x \<Rightarrow> settled W F K (state g) | Dropped \<Rightarrow> safe W F K (state g))"
proof (rule keepsI, goal_cases)
  case (1 g h r)
  then have pre: "core W F K (state g)" "mark (conn (state g)) = None" "\<not> job_open (state g)"
    by (auto simp: safe_def)
  show ?case
  proof (cases "open_b (state g)")
    case None
    with 1 pre show ?thesis by (auto simp: settle_unknown_commit_def settled_def)
  next
    case (Some b)
    obtain s1 r1 where c: "run_control D Commit (state g) = (s1, r1)" by fastforce
    note rc = run_commit [OF pre(1) c]
    show ?thesis
    proof (cases r1)
      case Dropped
      with 1(2) Some c have "state h = s1 \<and> r = Dropped"
        by (auto simp: settle_unknown_commit_def await_def on_state_def)
      with rc Dropped pre show ?thesis by (simp add: safe_def)
    next
      case (Ready x)
      show ?thesis
      proof (cases x)
        case (Inr u)
        let ?t = "answer_waiters b (Inr ()) (s1\<lparr>open_b := None\<rparr>)"
        have "core W F K ?t"
          using rc Ready Inr Some c waiters_durable [OF pre(1,2)] by (intro core_answer) auto
        moreover from 1(2) Some c Ready Inr rc have "state h = ?t \<and> r = Ready ()"
          by (auto simp: settle_unknown_commit_def await_def on_state_def)
        ultimately show ?thesis
          using Ready Inr rc pre by (simp add: settled_def answer_waiters_def)
      next
        case (Inl e)
        with 1(2) Some c Ready have run: "on_state (discard_transaction D) (g\<lparr>state := s1\<rparr>) = (h, r)"
          by (simp add: settle_unknown_commit_def await_def on_state_def)
        with rc keepsD [OF keeps_on_state [OF discard_batch_spec] _ run [unfolded discard_transaction_def],
            of W F K]
        show ?thesis by (auto simp: safe_def split: fut.splits)
      qed
    qed
  qed
qed

lemma discard_transaction_spec:
  "keeps (core W F K) (discard_transaction D)
     (\<lambda>t r. case r of Ready _ \<Rightarrow> settled W F K t | Dropped \<Rightarrow> safe W F K t)"
  unfolding discard_transaction_def
  by (rule keeps_weaken [OF discard_batch_spec]) (auto simp: safe_def split: fut.splits)

lemma reconcile_spec:
  "keeps (\<lambda>g. safe W F K (state g)) (reconcile D)
     (\<lambda>g r. safe W F K (state g) \<and> (case r of Ready _ \<Rightarrow> in_flight (state g) = None | Dropped \<Rightarrow> True))"
proof (rule keepsI, goal_cases)
  case (1 g h r)
  then have core: "core W F K (state g)" by (simp add: safe_def)
  note discard = keepsD [OF keeps_on_state [OF discard_transaction_spec], of W F K g h r]
  note undo = keepsD [OF keeps_on_state [OF undo_savepoint_spec], of W F K g h r]
  note unknown = keepsD [OF settle_unknown_commit_spec, of W F K g h r]
  show ?case
  proof (cases "in_flight (state g)")
    case None
    with 1 show ?thesis by (auto simp: reconcile_def)
  next
    case (Some st)
    have "case r of Ready _ \<Rightarrow> settled W F K (state h) | Dropped \<Rightarrow> safe W F K (state h)"
      using Some 1 core discard undo unknown by (cases st) (simp_all add: reconcile_def)
    then show ?thesis by (auto simp: settled_def intro: settled_safe split: fut.splits)
  qed
qed

lemma begin_job_spec:
  "keeps (\<lambda>g. safe W F K (state g)) (begin_job D)
     (\<lambda>g r. safe W F K (state g) \<and> (\<forall>x. r = Ready (Inr x) \<longrightarrow> running W F K [] (state g)))"
  unfolding begin_job_def
proof (rule keeps_await [OF reconcile_spec], goal_cases)
  case (1 x)
  show ?case
    by (rule keeps_weaken [OF keeps_on_state [OF start_job_spec]]) (auto split: fut.splits)
qed simp

lemma lock_spec:
  "keeps (\<lambda>g. safe W F K (state g)) (lock D) (\<lambda>g r. safe W F K (state g))"
  unfolding lock_def
proof (rule keeps_await [OF reconcile_spec], goal_cases)
  case (1 x)
  show ?case
  proof (rule keeps_await_from [OF keeps_on_state [OF settle_abandoned_spec [of W F K]]], goal_cases)
    case (2 y)
    have "keeps (\<lambda>g. settled W F K (state g)) (await (close_batch D) (\<lambda>_. ret ()))
        (\<lambda>g r. safe W F K (state g))"
      by (rule keeps_await [OF close_batch_settled]) (auto intro: keeps_ret settled_safe)
    then show ?case by (auto simp: keeps_def settled_safe split: prod.splits)
  qed auto
qed simp

lemma lock_autocommit_spec:
  "keeps (\<lambda>g. safe W F K (state g)) (lock_autocommit D) (\<lambda>g r. safe W F K (state g))"
  unfolding lock_autocommit_def
proof (rule keeps_await [OF reconcile_spec], goal_cases)
  case (1 x)
  show ?case unfolding await_ok_def
  proof (rule keeps_await_from [OF keeps_on_state [OF settle_abandoned_spec [of W F K]]], goal_cases)
    case (2 y)
    have "keeps (\<lambda>g. settled W F K (state g)) (close_batch D) (\<lambda>g r. safe W F K (state g))"
      by (rule keeps_weaken [OF close_batch_settled]) (auto intro: settled_safe split: fut.splits)
    then show ?case by (auto simp: keeps_def split: prod.splits sum.splits)
  qed auto
qed simp

lemma commit_if_drained_spec:
  "keeps (\<lambda>g. safe W F K (state g)) (commit_if_drained D w)
     (\<lambda>g r. safe W F K (state g) \<and>
            (r = Ready (Some (Inr ())) \<longrightarrow> answers (state g) w = Some (Inr ())))"
  unfolding commit_if_drained_def
proof (rule keeps_await [OF reconcile_spec], goal_cases)
  case (1 x)
  have drain: "keeps (\<lambda>g. safe W F K (state g) \<and> in_flight (state g) = None)
      (await (on_state (settle_abandoned D)) (\<lambda>_. await (close_batch D) (\<lambda>_. ret ())))
      (\<lambda>g r. safe W F K (state g))"
  proof (rule keeps_await [OF keeps_on_state [OF settle_abandoned_spec]], goal_cases)
    case (1 y)
    show ?case
      by (rule keeps_await_from [OF close_batch_settled]) (auto intro: keeps_ret settled_safe)
  qed simp
  show ?case
  proof (rule keeps_await [where R = "\<lambda>g r. safe W F K (state g)"], goal_cases)
    case 1
    from drain show ?case by (auto simp: keeps_def split: prod.splits)
  next
    case (2 y)
    show ?case
      by (rule keepsI)
        (auto simp: recv_result_def channel_def batch_answer_result_def
          split: option.splits if_splits sum.splits)
  qed simp
qed simp

lemma fail_spec:
  "keeps (\<lambda>g. running W F K ws (state g)) (fail D) (\<lambda>g r. safe W F K (state g))"
proof (rule keepsI, goal_cases)
  case (1 g h r)
  have "keeps (\<lambda>g'. core W F K (state g') \<and> open_b (state g') = open_b (state g)) (fail D)
      (\<lambda>g r. safe W F K (state g))"
    unfolding fail_def
  proof (rule keeps_await [OF keeps_on_state [OF rollback_job_or_discard_spec]], goal_cases)
    case (1 kept)
    have "keeps (\<lambda>g. settled W F K (state g)) (await (close_batch D) (\<lambda>_. ret ()))
        (\<lambda>g r. safe W F K (state g))"
      by (rule keeps_await [OF close_batch_settled]) (auto intro: keeps_ret settled_safe)
    then show ?case by (auto simp: keeps_def settled_safe split: prod.splits)
  qed simp
  with 1 show ?case by (auto simp: running_def dest: keepsD)
qed

lemma settled_wait:
  assumes "settled W F K s" "open_b s = Some b" "tx (conn s) \<longrightarrow> sublist (W w) (staged (conn s))"
  shows "safe W F (insert w K) (s\<lparr>open_b := Some (b\<lparr>ob_waiters := ob_waiters b @ [w]\<rparr>)\<rparr>)"
  using assms by (auto simp: settled_def safe_def core_def waiting_def kept_def)

lemma finish_spec:
  "keeps (\<lambda>g. running W F K (W w) (state g)) (finish D w)
     (\<lambda>g r. case r of
        Ready (Inr None) \<Rightarrow> safe W F K (state g) \<and> sublist (W w) (durable (conn (state g)))
      | Ready (Inr (Some _)) \<Rightarrow> safe W F (insert w K) (state g)
      | _ \<Rightarrow> safe W F K (state g))"
  unfolding finish_def
proof (rule keeps_await_ok [OF keeps_on_state [OF end_job_spec]], goal_cases)
  case (1 n)
  show ?case
  proof (rule keepsI, goal_cases)
    case (1 g h r)
    then obtain b where b: "open_b (state g) = Some b" and set: "settled W F K (state g)"
      and mine: "tx (conn (state g)) \<longrightarrow> sublist (W w) (staged (conn (state g)))"
      by auto
    show ?case
    proof (cases "pending g - 1 = 0 \<or> n \<ge> cap g")
      case True
      have "keeps (\<lambda>g'. settled W F K (state g') \<and> open_b (state g') = Some b \<and>
          (\<forall>ws\<in>{W w}. tx (conn (state g')) \<longrightarrow> sublist ws (staged (conn (state g')))))
          (await_ok (close_batch D) (\<lambda>_. ret (Inr None)))
          (\<lambda>g r. case r of
              Ready (Inr None) \<Rightarrow> safe W F K (state g) \<and> sublist (W w) (durable (conn (state g)))
            | Ready (Inr (Some _)) \<Rightarrow> safe W F (insert w K) (state g)
            | _ \<Rightarrow> safe W F K (state g))"
        by (rule keeps_await_ok [OF close_batch_spec]) (auto intro!: keeps_ret intro: settled_safe)
      moreover have "await_ok (close_batch D) (\<lambda>_. ret (Inr None)) g = (h, r)"
        using 1(2) True by (simp add: Let_def)
      ultimately show ?thesis using b set mine by (auto dest!: keepsD)
    next
      case False
      then have "h = g\<lparr>state := (state g)\<lparr>open_b := Some (b\<lparr>ob_waiters := ob_waiters b @ [w]\<rparr>)\<rparr>\<rparr>"
          "r = Ready (Inr (Some ()))"
        using 1(2) b by (auto simp: Let_def)
      with settled_wait [OF set b mine] show ?thesis by simp
    qed
  qed
qed auto

subsection \<open>The system of writers\<close>

definition system_inv :: "('c, 'w) gc_sys \<Rightarrow> bool" where
  "system_inv S \<longleftrightarrow>
     safe (wrote S) (promised S) (ended S) (state (gc S)) \<and>
     (\<forall>i. writer S i = Running \<longleftrightarrow> holder S = Some i) \<and>
     (\<forall>i. holder S = Some i \<longrightarrow>
        running (wrote S) (promised S) (ended S) (wrote S i) (state (gc S))) \<and>
     (\<forall>i. writer S i \<in> {Idle, Queued} \<longrightarrow> wrote S i = [])"

lemma system_invD:
  assumes "system_inv S"
  shows "safe (wrote S) (promised S) (ended S) (state (gc S))"
    and "holder S = Some i \<Longrightarrow> running (wrote S) (promised S) (ended S) (wrote S i) (state (gc S))"
    and "holder S = Some i \<Longrightarrow> writer S i = Running"
    and "writer S i = Idle \<or> writer S i = Queued \<Longrightarrow> wrote S i = []"
  using assms by (auto simp: system_inv_def)

lemma promised_goes:
  "promised (goes S i x g) \<subseteq> (if x = Finished (Inr ()) then insert (wrote S i) (promised S) else promised S)"
  by (auto simp: promised_def goes_def split: if_splits)

lemma leaves_sel [simp]:
  "gc (leaves S i x g) = slot_drop g" "wrote (leaves S i x g) = wrote S" "holder (leaves S i x g) = None"
  "writer (leaves S i x g) = (writer S)(i := x)" "promised (leaves S i x g) = promised (goes S i x g)"
  "ended (leaves S i x g) = ended (goes S i x g)"
  by (simp_all add: leaves_def goes_def promised_def ended_def)

lemma ended_goes:
  "x \<notin> {Idle, Queued, Running} \<Longrightarrow> ended (goes S i x g) = insert i (ended S)"
  "x \<in> {Idle, Queued, Running} \<Longrightarrow> i \<notin> ended S \<Longrightarrow> ended (goes S i x g) = ended S"
  by (auto simp: ended_def goes_def)

text \<open>A writer that has left its job goes on to \<open>x\<close>; the state under the lock is still safe.\<close>

lemma safe_goes:
  assumes "safe (wrote S) (promised S) K (state g)" "K \<subseteq> ended (goes S i x g')"
    and "x = Finished (Inr ()) \<Longrightarrow> sublist (wrote S i) (durable (conn (state g)))"
  shows "safe (wrote S) (promised (goes S i x g')) (ended (goes S i x g')) (state g)"
proof (cases "x = Finished (Inr ())")
  case True
  then show ?thesis using assms promised_goes [of S i x g'] by (intro safe_promise [OF assms(1)]) auto
next
  case False
  then show ?thesis using assms promised_goes [of S i x g'] by (intro safe_mono [OF assms(1)]) auto
qed

lemma inv_leaves:
  assumes "system_inv S" "safe (wrote S) (promised S) K (state g)"
    and "K \<subseteq> insert i (ended S)" "x \<notin> {Idle, Queued, Running}"
    and "x = Finished (Inr ()) \<Longrightarrow> sublist (wrote S i) (durable (conn (state g)))"
    and "holder S = Some i \<or> holder S = None"
  shows "system_inv (leaves S i x g)"
  using assms safe_goes [OF assms(2), of i x g]
  unfolding system_inv_def by (auto simp: ended_goes)

text \<open>A writer outside the mutex changes; nobody holds it, or its holder's job is as it was.\<close>

lemma inv_goes:
  assumes "system_inv S" "safe (wrote S) (promised S) (ended S) (state g)"
    and "x \<notin> {Idle, Queued, Running}" "writer S i \<noteq> Running"
    and "x = Finished (Inr ()) \<Longrightarrow> sublist (wrote S i) (durable (conn (state g)))"
    and "holder S = None \<or> state g = state (gc S)"
  shows "system_inv (goes S i x g)"
proof -
  have safe: "safe (wrote S) (promised (goes S i x g)) (ended (goes S i x g)) (state g)"
    using assms(2,3,5) by (intro safe_goes) (auto simp: ended_goes)
  have "running (wrote S) (promised (goes S i x g)) (ended (goes S i x g)) (wrote S j) (state g)"
    if "holder S = Some j" for j
    using system_invD(2) [OF assms(1) that] safe assms(6) that
    by (auto simp: running_def safe_def)
  with safe assms show ?thesis unfolding system_inv_def by auto
qed

lemma inv_queue:
  assumes "system_inv S" "writer S i = Idle" "x = Queued"
  shows "system_inv (goes S i x (queue_enter (gc S)))"
proof -
  have "i \<notin> ended S" using assms(2) by (simp add: ended_def)
  then have "ended (goes S i x (queue_enter (gc S))) = ended S" using assms by (simp add: ended_goes)
  moreover have "promised (goes S i x (queue_enter (gc S))) = promised S"
    using assms by (auto simp: promised_def goes_def)
  moreover have "holder S \<noteq> Some i" using system_invD(3) [OF assms(1), of i] assms(2) by auto
  ultimately show ?thesis using assms unfolding system_inv_def by auto
qed

lemma inv_begin:
  assumes inv: "system_inv S" and i: "writer S i = Queued" "holder S = None"
    and run: "begin_job D (gc S) = (g, Ready (Inr ()))"
  shows "system_inv ((goes S i Running g)\<lparr>holder := Some i\<rparr>)"
proof -
  let ?T = "(goes S i Running g)\<lparr>holder := Some i\<rparr>"
  have "i \<notin> ended S" using i by (simp add: ended_def)
  then have "ended ?T = ended S" by (auto simp: ended_def goes_def)
  moreover have "promised ?T = promised S" using i by (auto simp: promised_def goes_def)
  moreover have "running (wrote S) (promised S) (ended S) [] (state g)"
    using keepsD [OF begin_job_spec system_invD(1) [OF inv] run] by simp
  moreover have "wrote S i = []" using system_invD(4) [OF inv] i by simp
  ultimately show ?thesis using inv i unfolding system_inv_def by (auto simp: running_safe)
qed

lemma inv_begin_leaves:
  assumes inv: "system_inv S" and i: "writer S i = Queued" "holder S = None"
    and run: "begin_job D (gc S) = (g, r)" and x: "x = Gone \<or> x = Finished (Inl e)"
  shows "system_inv (leaves S i x g)"
proof (rule inv_leaves [OF inv])
  show "safe (wrote S) (promised S) (ended S) (state g)"
    using keepsD [OF begin_job_spec system_invD(1) [OF inv] run] by simp
qed (use i x in auto)

lemma core_conn:
  assumes "core W F K s" "wf c" "prefix (durable (conn s)) (durable c)"
    and "\<And>i. i \<in> waiting s \<Longrightarrow> tx c \<Longrightarrow> sublist (W i) (kept c)"
  shows "core W F K (s\<lparr>conn := c\<rparr>)"
proof -
  have "sublist ws (durable c)" if "sublist ws (durable (conn s))" for ws
    using that assms(3) by (blast intro: sublist_order.order_trans prefix_imp_sublist)
  with assms show ?thesis unfolding core_def by (auto simp: waiting_def)
qed

lemma core_writes:
  assumes "core W F K s" "i \<notin> K"
  shows "core (W(i := ws)) F K s"
  using assms unfolding core_def by (auto simp: waiting_def)

lemma kept_work:
  assumes "wf c" "tx c" "sublist ws (kept c)"
  shows "sublist ws (kept (work w c))"
proof (cases "mark c")
  case None
  with assms show ?thesis
    by (auto simp: kept_def work_mark work_staged intro: sublist_order.order_trans sublist_append_rightI)
next
  case (Some k)
  with assms mark_bound show ?thesis by (auto simp: kept_def work_mark work_staged)
qed

lemma inv_work:
  assumes inv: "system_inv S" and i: "holder S = Some i"
  shows "system_inv (S\<lparr>gc := on_conn (work w) (gc S), wrote := (wrote S)(i := wrote S i @ [w])\<rparr>)"
    (is "system_inv ?T")
proof -
  let ?s = "state (gc S)" and ?W = "(wrote S)(i := wrote S i @ [w])"
  let ?t = "?s\<lparr>conn := work w (conn ?s)\<rparr>"
  have run: "running (wrote S) (promised S) (ended S) (wrote S i) ?s"
    and wi: "writer S i = Running" using system_invD(2,3) [OF inv i] by auto
  have wf: "wf (conn ?s)" using run by (simp add: running_def core_def)
  have core: "core ?W (promised S) (ended S) ?s"
    using run wi by (intro core_writes) (auto simp: running_def ended_def)
  have "core ?W (promised S) (ended S) ?t"
  proof (rule core_conn [OF core])
    fix j assume "j \<in> waiting ?s" "tx (work w (conn ?s))"
    with core show "sublist (?W j) (kept (work w (conn ?s)))"
      by (intro kept_work [OF wf]) (auto simp: core_def work_tx)
  qed (use wf work_wf work_durable in auto)
  then have "running ?W (promised S) (ended S) (wrote S i @ [w]) ?t"
    using run wf by (auto simp: running_def work_tx work_staged)
  moreover have "promised ?T = promised S" "ended ?T = ended S"
    using wi by (auto simp: promised_def ended_def)
  moreover have "writer S i \<noteq> Idle \<and> writer S i \<noteq> Queued" using wi by simp
  ultimately show ?thesis
    using inv i unfolding system_inv_def by (auto simp: on_conn_def intro: running_safe)
qed

lemma inv_fault:
  assumes inv: "system_inv S" and fault: "fault (conn (state (gc S))) c"
  shows "system_inv (S\<lparr>gc := on_conn (\<lambda>_. c) (gc S)\<rparr>)" (is "system_inv ?T")
proof -
  let ?s = "state (gc S)"
  let ?t = "?s\<lparr>conn := c\<rparr>"
  have safe: "safe (wrote S) (promised S) (ended S) ?s" using system_invD(1) [OF inv] .
  then have core: "core (wrote S) (promised S) (ended S) ?s" and wf: "wf (conn ?s)"
    by (auto simp: safe_def core_def)
  note tx = fault_tx [OF wf fault]
  have core': "core (wrote S) (promised S) (ended S) ?t"
  proof (rule core_conn [OF core])
    fix i assume "i \<in> waiting ?s" "tx c"
    with tx core show "sublist (wrote S i) (kept c)"
      by (auto simp: core_def kept_cong [of c "conn ?s"])
  qed (use wf fault fault_wf fault_durable in auto)
  moreover have "promised ?T = promised S" "ended ?T = ended S"
    by (auto simp: promised_def ended_def)
  moreover have "safe (wrote S) (promised S) (ended S) ?t"
    using safe core' fault_mark [OF wf fault] by (auto simp: safe_def)
  ultimately show ?thesis
    using inv tx unfolding system_inv_def by (auto simp: on_conn_def running_def)
qed

lemma inv_finish:
  assumes inv: "system_inv S" and i: "holder S = Some i" and run: "finish D i (gc S) = (g, r)"
    and x: "x = (case r of Ready (Inr None) \<Rightarrow> Finished (Inr ()) | Ready (Inr (Some _)) \<Rightarrow> Waiting
                  | Ready (Inl e) \<Rightarrow> Finished (Inl e) | Dropped \<Rightarrow> Gone)"
  shows "system_inv (leaves S i x g)"
proof -
  note post = keepsD [OF finish_spec system_invD(2) [OF inv i] run]
  have "safe (wrote S) (promised S) (insert i (ended S)) (state g)"
    using post by (auto intro: safe_mono split: fut.splits sum.splits option.splits)
  moreover have "x = Finished (Inr ()) \<longrightarrow> sublist (wrote S i) (durable (conn (state g)))"
    using post x by (auto split: fut.splits sum.splits option.splits)
  ultimately show ?thesis
    using x i by (intro inv_leaves [OF inv]) (auto split: fut.splits sum.splits option.splits)
qed

lemma inv_leaves_running:
  assumes inv: "system_inv S" and i: "holder S = Some i"
    and "safe (wrote S) (promised S) (ended S) (state g)"
  shows "system_inv (leaves S i Gone g)"
  using assms(3) i by (intro inv_leaves [OF inv]) auto

lemma received_durable:
  assumes "safe W F K s" "recv_result (channel s i) = Some (Inr ())"
  shows "sublist (W i) (durable (conn s))"
  using assms by (auto simp: recv_result_def channel_def batch_answer_result_def safe_def core_def
      split: option.splits if_splits sum.splits)

lemma inv_drain:
  assumes inv: "system_inv S" and i: "writer S i = Draining e" "holder S = None"
    and run: "commit_if_drained D i (gc S) = (g, r)"
    and x: "x = (case r of Ready (Some y) \<Rightarrow> Finished y | Ready None \<Rightarrow> Parked e | Dropped \<Rightarrow> Gone)"
  shows "system_inv (goes S i x g)"
proof -
  note post = keepsD [OF commit_if_drained_spec system_invD(1) [OF inv] run]
  have "x = Finished (Inr ()) \<longrightarrow> sublist (wrote S i) (durable (conn (state g)))"
    using post x by (auto simp: safe_def core_def split: fut.splits option.splits)
  with post x i show ?thesis by (intro inv_goes [OF inv]) (auto split: fut.splits option.splits)
qed

lemma inv_lock:
  assumes "system_inv S" "holder S = None" "safe (wrote S) (promised S) (ended S) (state g)"
  shows "system_inv (S\<lparr>gc := g\<rparr>)"
  using assms unfolding system_inv_def by (simp add: promised_def ended_def)

lemma inv_step:
  assumes step: "gc_step D work fault S T" and inv: "system_inv S"
  shows "system_inv T"
  using step
proof cases
  case (enter i)
  with inv show ?thesis by (simp add: inv_queue)
next
  case (cancel_queued i)
  with inv system_invD(1) [OF inv] show ?thesis by (auto intro!: inv_goes)
next
  case (begin_ok i g)
  with inv show ?thesis by (simp add: inv_begin)
next
  case (begin_err i g e)
  with inv show ?thesis by (auto intro: inv_begin_leaves)
next
  case (begin_dropped i g)
  with inv show ?thesis by (auto intro: inv_begin_leaves)
next
  case (job_work i w)
  with inv show ?thesis by (simp add: inv_work)
next
  case (engine_fault c)
  with inv show ?thesis by (simp add: inv_fault)
next
  case (finish_done i g)
  with inv show ?thesis by (auto intro: inv_finish)
next
  case (finish_waits i g)
  with inv show ?thesis by (auto intro: inv_finish)
next
  case (finish_err i g e)
  with inv show ?thesis by (auto intro: inv_finish)
next
  case (finish_dropped i g)
  with inv show ?thesis by (auto intro: inv_finish)
next
  case (job_fail i g r)
  with keepsD [OF fail_spec system_invD(2) [OF inv]] show ?thesis
    by (auto intro: inv_leaves_running [OF inv])
next
  case (abandon i)
  with system_invD(1) [OF inv] show ?thesis by (auto intro: inv_leaves_running [OF inv])
next
  case (register i)
  with inv system_invD(1) [OF inv] show ?thesis by (auto intro!: inv_goes)
next
  case (check_busy i e)
  with inv system_invD(1) [OF inv] show ?thesis by (auto intro!: inv_goes)
next
  case (check_drained i e)
  with inv system_invD(1) [OF inv] show ?thesis by (auto intro!: inv_goes)
next
  case (drain_some i e g r)
  with inv show ?thesis by (auto intro: inv_drain)
next
  case (drain_none i e g)
  with inv show ?thesis by (auto intro: inv_drain)
next
  case (drain_dropped i e g)
  with inv show ?thesis by (auto intro: inv_drain)
next
  case (receive i e r)
  with inv system_invD(1) [OF inv] received_durable [OF system_invD(1) [OF inv]] show ?thesis
    by (auto intro!: inv_goes)
next
  case (wake i e)
  with inv system_invD(1) [OF inv] show ?thesis by (auto intro!: inv_goes)
next
  case (cancel_waiting i)
  then have "writer S i \<noteq> Running" by (cases "writer S i") auto
  with cancel_waiting inv system_invD(1) [OF inv] show ?thesis by (auto intro!: inv_goes)
next
  case (read g r)
  with keepsD [OF lock_spec system_invD(1) [OF inv]] inv show ?thesis by (auto intro: inv_lock)
next
  case (autocommit g r)
  with keepsD [OF lock_autocommit_spec system_invD(1) [OF inv]] inv show ?thesis
    by (auto intro: inv_lock)
qed

lemma inv_init:
  assumes "wf c" "mark c = None"
  shows "system_inv (gc_init c n)"
  using assms
  by (auto simp: system_inv_def gc_init_def gc_new_def safe_def core_def waiting_def promised_def)

lemma inv_reachable:
  assumes "gc_reachable D work fault c n S" "wf c" "mark c = None"
  shows "system_inv S"
  using assms(1)
  by induction (use assms(2,3) inv_init inv_step in blast)+

lemma finished_durable:
  assumes "gc_reachable D work fault c n S" "wf c" "mark c = None"
    and "writer S i = Finished (Inr ())"
  shows "sublist (wrote S i) (durable (conn (state (gc S))))"
  using inv_reachable [OF assms(1-3)] assms(4)
  by (auto simp: system_inv_def safe_def core_def promised_def)

end

section \<open>The connection of the tests\<close>

text \<open>What every statement of \<^theory_text>\<open>Fake_Db\<close> keeps.\<close>

definition fake_wf :: "'w fake_db \<Rightarrow> bool" where
  "fake_wf db \<longleftrightarrow>
     (savepoint_mark db \<noteq> None \<longrightarrow> in_transaction db) \<and>
     (implicit db \<longrightarrow> savepoint_mark db \<noteq> None) \<and>
     (\<not> in_transaction db \<longrightarrow> open_writes db = []) \<and>
     (\<forall>k. savepoint_mark db = Some k \<longrightarrow> k \<le> length (open_writes db))"

definition fake_tx :: "'w fake_db \<Rightarrow> bool" where
  "fake_tx db \<longleftrightarrow> in_transaction db \<and> \<not> implicit db"

lemmas fake_defs = fake_begin_def fake_savepoint_def fake_release_def fake_rollback_to_def
  fake_commit_def fake_rollback_def commit_open_def rollback_open_def abort_transaction_def
  fake_write_def refused_def fake_wf_def fake_tx_def Let_def

text \<open>A control statement logs itself, may use its stall up, and then runs or does not.\<close>

lemma fake_control_cases:
  assumes "control (fake_conn render) st c = (c', r)"
  obtains (skipped) l where "c' = c\<lparr>fake_log := l, stall_at := None\<rparr>" "r = Dropped"
  | (ran) l s out where "fake_run st (c\<lparr>fake_log := l, stall_at := s\<rparr>) = (c', out)"
      "r = Ready out \<or> r = Dropped"
proof -
  let ?l = "fake_log c @ [sql st]"
  have ran_case: thesis if "fake_run st (c\<lparr>fake_log := ?l, stall_at := s\<rparr>) = (c', out)"
      "r = Ready out \<or> r = Dropped" for s out
    using that by (rule ran)
  have id: "c\<lparr>fake_log := l\<rparr> = c\<lparr>fake_log := l, stall_at := stall_at c\<rparr>" for l by simp
  show thesis
  proof (cases "\<exists>how. stall_at c = Some (st, how)")
    case True
    then obtain how where how: "stall_at c = Some (st, how)" by blast
    show thesis
    proof (cases how)
      case RunsThenHangs
      with how assms ran_case [of None] show thesis
        by (cases "fake_run st (c\<lparr>fake_log := ?l, stall_at := None\<rparr>)")
          (auto simp: fake_conn_def fake_control_def take_stall_def)
    next
      case HangsWithoutRunning
      with how assms skipped show thesis
        by (auto simp: fake_conn_def fake_control_def take_stall_def)
    qed
  next
    case False
    then have "take_stall st (c\<lparr>fake_log := ?l\<rparr>) = (c\<lparr>fake_log := ?l\<rparr>, None)"
      by (auto simp: take_stall_def split: option.splits)
    with assms ran_case [of "stall_at c"] show thesis
      by (auto simp: fake_conn_def fake_control_def id [symmetric] split: prod.splits)
  qed
qed

lemma fake_run_wf:
  assumes "fake_wf db" "fake_run st db = (db', out)"
  shows "fake_wf db'" "prefix (committed db) (committed db')" "st \<noteq> Begin \<Longrightarrow> fake_tx db' \<Longrightarrow> fake_tx db"
  using assms by (cases st; auto simp: fake_defs split: option.splits if_splits)+

lemma fake_wf_irrelevant [simp]:
  "fake_wf (c\<lparr>fake_log := l, stall_at := s\<rparr>) = fake_wf c"
  "fake_tx (c\<lparr>fake_log := l, stall_at := s\<rparr>) = fake_tx c"
  by (simp_all add: fake_wf_def fake_tx_def)

text \<open>
  What the tests do to the connection between two statements: roll its transaction back under the
  group commit, make its COMMITs fail or succeed, and set which statement stalls next and how.
\<close>

definition fake_fault :: "'w fake_db \<Rightarrow> 'w fake_db \<Rightarrow> bool" where
  "fake_fault db db' \<longleftrightarrow>
     db' = abort_transaction db \<or> (\<exists>b s. db' = db\<lparr>fail_commit := b, stall_at := s\<rparr>)"

interpretation fake: transactional_conn
  "fake_conn render" fake_write fake_fault fake_wf fake_tx open_writes savepoint_mark committed
  for render
proof (unfold_locales, goal_cases)
  case (1 c st c' r)
  from 1(2,1) show ?case by (cases rule: fake_control_cases) (auto dest: fake_run_wf(1) [rotated])
next
  case (2 c st c' r)
  from 2(2,1) show ?case by (cases rule: fake_control_cases) (auto dest: fake_run_wf(2) [rotated])
next
  case (3 c st c' r)
  from 3(2,1,3,4) show ?case by (cases rule: fake_control_cases) (auto dest: fake_run_wf(3) [rotated])
qed (auto simp: fake_defs fake_fault_def elim!: fake_control_cases split: option.splits if_splits)

end
