(* ===== verification/Group_Commit_Liveness.thy ===== *)
theory Group_Commit_Liveness
  imports Group_Commit_System
begin

text \<open>
  What holds for every connection, whatever its statements do: the counter of pending writers is the
  number of writers that hold a slot, no wake-up of a waiting writer is lost, a waiting writer whose
  queue has drained can always run on to an answer, and no batch grows beyond the cap.
\<close>

section \<open>What the operations leave alone\<close>

definition still :: "nat \<Rightarrow> nat \<Rightarrow> nat \<Rightarrow> 'c group_commit \<Rightarrow> bool" where
  "still p d k g \<longleftrightarrow> pending g = p \<and> drained g = d \<and> cap g = k"

lemma still_on_state: "keeps (still p d k) (on_state m) (\<lambda>g _. still p d k g)"
  by (auto simp: keeps_def still_def on_state_def split: prod.splits)

lemma still_count [simp]: "still p d k (count_commit n g) = still p d k g"
  by (simp add: still_def count_commit_def)

lemma still_state [simp]: "still p d k (g\<lparr>state := s\<rparr>) = still p d k g"
  by (simp add: still_def)

lemma still_ret: "keeps (still p d k) (ret x) (\<lambda>g _. still p d k g)"
  by (simp add: keeps_ret)

lemma still_await:
  assumes "keeps (still p d k) m (\<lambda>g _. still p d k g)"
    and "\<And>x. keeps (still p d k) (f x) (\<lambda>g _. still p d k g)"
  shows "keeps (still p d k) (await m f) (\<lambda>g _. still p d k g)"
  by (rule keeps_await [OF assms(1)]) (auto intro: assms(2))

lemma still_await_ok:
  assumes "keeps (still p d k) m (\<lambda>g _. still p d k g)"
    and "\<And>x. keeps (still p d k) (f x) (\<lambda>g _. still p d k g)"
  shows "keeps (still p d k) (await_ok m f) (\<lambda>g _. still p d k g)"
  by (rule keeps_await_ok [OF assms(1)]) (auto intro: assms(2))

lemma still_if:
  assumes "keeps (still p d k) m (\<lambda>g _. still p d k g)" "keeps (still p d k) n (\<lambda>g _. still p d k g)"
  shows "keeps (still p d k) (\<lambda>g. if b g then m g else n g) (\<lambda>g _. still p d k g)"
  using assms by (auto simp: keeps_def)

lemmas still_rules = still_on_state still_ret still_await still_await_ok still_if

lemma still_close_batch: "keeps (still p d k) (close_batch D) (\<lambda>g _. still p d k g)"
  unfolding close_batch_def by (rule still_rules)+ (auto intro: keepsI)

lemma still_settle_unknown: "keeps (still p d k) (settle_unknown_commit D) (\<lambda>g _. still p d k g)"
proof (rule keepsI, goal_cases)
  case (1 g h r)
  have "keeps (still p d k) (await (on_state (run_control D Commit)) (\<lambda>r.
        if is_ok r then (\<lambda>g.
          let b = (case open_b (state g) of Some b \<Rightarrow> b | None \<Rightarrow> open_batch_default);
              g' = count_commit (ob_jobs b) (g\<lparr>state := (state g)\<lparr>open_b := None\<rparr>\<rparr>)
          in (g'\<lparr>state := answer_waiters b (Inr ()) (state g')\<rparr>, Ready ()))
        else on_state (discard_transaction D))) (\<lambda>g _. still p d k g)"
    by (rule still_await [OF still_on_state]) (auto simp: still_on_state Let_def intro: keepsI)
  with 1 show ?case
    by (cases "open_b (state g)") (auto simp: settle_unknown_commit_def dest: keepsD)
qed

lemma still_reconcile: "keeps (still p d k) (reconcile D) (\<lambda>g _. still p d k g)"
proof (rule keepsI, goal_cases)
  case (1 g h r)
  show ?case
  proof (cases "in_flight (state g)")
    case (Some st)
    with 1 show ?thesis
      by (cases st)
        (auto simp: reconcile_def dest: keepsD [OF still_on_state] keepsD [OF still_settle_unknown])
  qed (use 1 in \<open>auto simp: reconcile_def\<close>)
qed

lemma still_begin_job: "keeps (still p d k) (begin_job D) (\<lambda>g _. still p d k g)"
  unfolding begin_job_def by (intro still_rules still_reconcile)

lemma still_lock: "keeps (still p d k) (lock D) (\<lambda>g _. still p d k g)"
  unfolding lock_def by (intro still_rules still_reconcile still_close_batch)

lemma still_lock_autocommit: "keeps (still p d k) (lock_autocommit D) (\<lambda>g _. still p d k g)"
  unfolding lock_autocommit_def by (intro still_rules still_reconcile still_close_batch)

lemma still_finish: "keeps (still p d k) (finish D w) (\<lambda>g _. still p d k g)"
  unfolding finish_def Let_def
  by (intro still_rules still_close_batch) (auto intro: keepsI)

lemma still_fail: "keeps (still p d k) (fail D) (\<lambda>g _. still p d k g)"
proof -
  have "keeps (still p d k) (\<lambda>g. if \<not> kept then ret () g
      else if pending g - 1 = 0 then await (close_batch D) (\<lambda>_. ret ()) g else ret () g)
      (\<lambda>g _. still p d k g)" for kept
    by (intro still_rules still_close_batch)
  then show ?thesis unfolding fail_def by (rule still_await [OF still_on_state])
qed

lemma still_commit_if_drained: "keeps (still p d k) (commit_if_drained D w) (\<lambda>g _. still p d k g)"
  unfolding commit_if_drained_def
  by (intro still_rules still_reconcile still_close_batch) (auto intro: keepsI)

section \<open>A drained queue has an answer for everyone\<close>

lemma close_batch_open:
  assumes "close_batch D g = (h, Ready r)"
  shows "open_b (state h) = None"
  using assms
  by (auto simp: close_batch_def await_ok_def await_def on_state_def commit_batch_def
      answer_waiters_def Let_def count_commit_def split: prod.splits fut.splits sum.splits if_splits)

lemma channel_no_batch: "open_b s = None \<Longrightarrow> recv_result (channel s w) \<noteq> None"
  by (simp add: channel_def recv_result_def split: option.splits)

lemma await_ReadyE:
  assumes "await m f s = (t, Ready r)"
  obtains s1 x where "m s = (s1, Ready x)" "f x s1 = (t, Ready r)"
  using assms by (auto simp: await_def split: prod.splits fut.splits)

lemma drained_answers:
  assumes "commit_if_drained D w g = (h, Ready r)" "pending g = 0"
  shows "r \<noteq> None"
proof -
  obtain g1 where g1: "reconcile D g = (g1, Ready ())"
    and rest: "await (\<lambda>g. if pending g = 0
                 then await (on_state (settle_abandoned D)) (\<lambda>_.
                      await (close_batch D) (\<lambda>_. ret ())) g
                 else ret () g) (\<lambda>_ g. (g, Ready (recv_result (channel (state g) w)))) g1 = (h, Ready r)"
    using assms(1) by (auto simp: commit_if_drained_def elim: await_ReadyE)
  have "pending g1 = 0"
    using keepsD [OF still_reconcile [of 0 "drained g" "cap g"] _ g1] assms(2) by (simp add: still_def)
  with rest obtain g2 y g3 where "close_batch D g2 = (g3, Ready y)"
      "r = recv_result (channel (state g3) w)"
    by (elim await_ReadyE) (auto elim!: await_ReadyE)
  with close_batch_open channel_no_batch show ?thesis by metis
qed

section \<open>The invariant of the schedule\<close>

definition waits_since :: "writer_state \<Rightarrow> nat option" where
  "waits_since x = (case x of Registered e \<Rightarrow> Some e | Draining e \<Rightarrow> Some e | Parked e \<Rightarrow> Some e | _ \<Rightarrow> None)"

definition schedule_inv :: "('c, 'w) gc_sys \<Rightarrow> bool" where
  "schedule_inv S \<longleftrightarrow>
     finite {i. is_pending (writer S i)} \<and>
     pending (gc S) = card {i. is_pending (writer S i)} \<and>
     (\<forall>i. holder S = Some i \<longrightarrow> writer S i = Running) \<and>
     (\<forall>i e. waits_since (writer S i) = Some e \<longrightarrow> e \<le> drained (gc S)) \<and>
     (\<forall>i e. writer S i = Parked e \<longrightarrow> pending (gc S) = 0 \<longrightarrow> e < drained (gc S))"

lemma pending_update:
  "{j. is_pending ((wr(i := x)) j)} =
     (if is_pending x then insert i {j. is_pending (wr j)} else {j. is_pending (wr j)} - {i})"
  by auto

lemma schedule_goes:
  assumes "schedule_inv S" "is_pending x = is_pending (writer S i)" "writer S i \<noteq> Running"
    and "still (pending (gc S)) (drained (gc S)) (cap (gc S)) g"
    and "\<And>e. waits_since x = Some e \<Longrightarrow> e \<le> drained (gc S)"
    and "\<And>e. x = Parked e \<Longrightarrow> pending (gc S) = 0 \<Longrightarrow> e < drained (gc S)"
  shows "schedule_inv (goes S i x g)"
proof -
  have "{j. is_pending (((writer S)(i := x)) j)} = {j. is_pending (writer S j)}"
    using assms(2) by auto
  with assms show ?thesis unfolding schedule_inv_def goes_def still_def by auto
qed

lemma schedule_drop:
  assumes "schedule_inv S" "is_pending (writer S i)" "holder S = Some i \<or> holder S = None \<or> \<not> b"
    and "still (pending (gc S)) (drained (gc S)) (cap (gc S)) g"
    and "\<not> is_pending x" "waits_since x = None" "\<not> b \<Longrightarrow> writer S i = Queued"
  shows "schedule_inv ((goes S i x (slot_drop g))\<lparr>holder := (if b then None else holder S)\<rparr>)"
proof -
  let ?P = "{j. is_pending (writer S j)}"
  have P: "finite ?P" "i \<in> ?P" "pending (gc S) = card ?P" using assms by (auto simp: schedule_inv_def)
  have P': "{j. is_pending (((writer S)(i := x)) j)} = ?P - {i}" using assms(5) by auto
  have card: "card (?P - {i}) = card ?P - 1" "card ?P > 0" using P by (auto simp: card_gt_0_iff)
  have wait: "waits_since (((writer S)(i := x)) j) = Some e \<longrightarrow> e \<le> drained (gc S)" for j e
    using assms(1,6) by (auto simp: schedule_inv_def)
  have park: "((writer S)(i := x)) j = Parked e \<longrightarrow> e \<le> drained (gc S)" for j e
    using wait [of j e] by (auto simp: waits_since_def)
  have hold: "(if b then None else holder S) = Some j \<longrightarrow> ((writer S)(i := x)) j = Running" for j
    using assms(1,7) by (auto simp: schedule_inv_def)
  show ?thesis
    unfolding schedule_inv_def
  proof (intro conjI allI)
    fix j e
    show "waits_since (writer ((goes S i x (slot_drop g))\<lparr>holder := if b then None else holder S\<rparr>) j) = Some e \<longrightarrow>
        e \<le> drained (gc ((goes S i x (slot_drop g))\<lparr>holder := if b then None else holder S\<rparr>))"
      using wait [of j e] assms(4) by (auto simp: goes_def slot_drop_def still_def)
    show "writer ((goes S i x (slot_drop g))\<lparr>holder := if b then None else holder S\<rparr>) j = Parked e \<longrightarrow>
        pending (gc ((goes S i x (slot_drop g))\<lparr>holder := if b then None else holder S\<rparr>)) = 0 \<longrightarrow>
        e < drained (gc ((goes S i x (slot_drop g))\<lparr>holder := if b then None else holder S\<rparr>))"
      using park [of j e] assms(4) P card by (auto simp: goes_def slot_drop_def still_def)
  qed (use hold P P' card assms(4) in \<open>auto simp: goes_def slot_drop_def still_def\<close>)
qed

lemma schedule_leaves:
  assumes "schedule_inv S" "is_pending (writer S i)" "holder S = Some i \<or> holder S = None"
    and "still (pending (gc S)) (drained (gc S)) (cap (gc S)) g"
    and "\<not> is_pending x" "waits_since x = None"
  shows "schedule_inv (leaves S i x g)"
  using schedule_drop [OF assms(1,2) _ assms(4-6), of True] assms(3) by (simp add: leaves_def)

lemma schedule_cancel:
  assumes "schedule_inv S" "writer S i = Queued"
  shows "schedule_inv (goes S i Gone (slot_drop (gc S)))"
  using schedule_drop [OF assms(1), of i False "gc S" Gone] assms(2)
  by (simp add: is_pending_def waits_since_def still_def goes_def)

lemma schedule_enter:
  assumes "schedule_inv S" "writer S i = Idle"
  shows "schedule_inv (goes S i Queued (queue_enter (gc S)))"
proof -
  let ?P = "{j. is_pending (writer S j)}"
  have "{j. is_pending (((writer S)(i := Queued)) j)} = insert i ?P" "i \<notin> ?P"
    using assms(2) by (auto simp: is_pending_def)
  with assms show ?thesis
    by (auto simp: schedule_inv_def goes_def queue_enter_def waits_since_def)
qed

lemma schedule_begin:
  assumes "schedule_inv S" "writer S i = Queued" "holder S = None"
    and "still (pending (gc S)) (drained (gc S)) (cap (gc S)) g"
  shows "schedule_inv ((goes S i Running g)\<lparr>holder := Some i\<rparr>)"
proof -
  have "{j. is_pending (((writer S)(i := Running)) j)} = {j. is_pending (writer S j)}"
    using assms(2) by (auto simp: is_pending_def)
  with assms show ?thesis
    by (auto simp: schedule_inv_def goes_def waits_since_def still_def)
qed

lemma schedule_gc:
  assumes "schedule_inv S" "still (pending (gc S)) (drained (gc S)) (cap (gc S)) g"
  shows "schedule_inv (S\<lparr>gc := g\<rparr>)"
  using assms by (simp add: schedule_inv_def still_def)

lemma still_refl [simp]: "still (pending g) (drained g) (cap g) g"
  by (simp add: still_def)

lemma holder_pending: "schedule_inv S \<Longrightarrow> holder S = Some i \<Longrightarrow> is_pending (writer S i)"
  by (simp add: schedule_inv_def is_pending_def)

lemma waits_not_pending: "waits_for_commit x \<Longrightarrow> \<not> is_pending x \<and> x \<noteq> Running"
  by (cases x) (auto simp: is_pending_def)

lemmas schedule_simps = is_pending_def waits_since_def

text \<open>A step changes the counters only through a slot: every operation under the lock leaves them.\<close>

lemma still_runs:
  "begin_job D g = (h, r1) \<Longrightarrow> still (pending g) (drained g) (cap g) h"
  "finish D w g = (h, r2) \<Longrightarrow> still (pending g) (drained g) (cap g) h"
  "fail D g = (h, r3) \<Longrightarrow> still (pending g) (drained g) (cap g) h"
  "commit_if_drained D w g = (h, r4) \<Longrightarrow> still (pending g) (drained g) (cap g) h"
  "lock D g = (h, r5) \<Longrightarrow> still (pending g) (drained g) (cap g) h"
  "lock_autocommit D g = (h, r6) \<Longrightarrow> still (pending g) (drained g) (cap g) h"
  by (rule keepsD [OF still_begin_job still_refl], assumption)
    (rule keepsD [OF still_finish still_refl] keepsD [OF still_fail still_refl]
      keepsD [OF still_commit_if_drained still_refl] keepsD [OF still_lock still_refl]
      keepsD [OF still_lock_autocommit still_refl], assumption)+

lemma waits_epoch: "schedule_inv S \<Longrightarrow> waits_since (writer S i) = Some e \<Longrightarrow> e \<le> drained (gc S)"
  by (simp add: schedule_inv_def)

lemma schedule_step:
  assumes step: "gc_step D work fault S T" and inv: "schedule_inv S"
  shows "schedule_inv T"
  using step
proof cases
  case (job_work i w)
  have "schedule_inv (S\<lparr>gc := on_conn (work w) (gc S)\<rparr>)"
    by (rule schedule_gc [OF inv]) (simp add: on_conn_def)
  with job_work show ?thesis by (simp add: schedule_inv_def)
next
  case (engine_fault c)
  with inv show ?thesis by (auto intro!: schedule_gc simp: on_conn_def)
next
  case (register i)
  with inv show ?thesis by (auto intro!: schedule_goes simp: schedule_simps)
next
  case (check_busy i e)
  with inv waits_epoch [OF inv, of i e] show ?thesis
    by (auto intro!: schedule_goes simp: schedule_simps)
next
  case (check_drained i e)
  with inv waits_epoch [OF inv, of i e] show ?thesis
    by (auto intro!: schedule_goes simp: schedule_simps still_def)
next
  case (drain_some i e g r)
  with inv still_runs(4) show ?thesis by (auto intro!: schedule_goes simp: schedule_simps)
next
  case (drain_none i e g)
  have "e \<le> drained (gc S)" using drain_none waits_epoch [OF inv, of i e] by (simp add: waits_since_def)
  moreover have "pending (gc S) \<noteq> 0" using drain_none drained_answers by blast
  ultimately show ?thesis
    using drain_none inv still_runs(4) by (auto intro!: schedule_goes simp: schedule_simps)
next
  case (drain_dropped i e g)
  with inv still_runs(4) show ?thesis by (auto intro!: schedule_goes simp: schedule_simps)
next
  case (receive i e r)
  with inv show ?thesis by (auto intro!: schedule_goes simp: schedule_simps)
next
  case (wake i e)
  with inv show ?thesis by (auto intro!: schedule_goes simp: schedule_simps)
next
  case (cancel_waiting i)
  with inv waits_not_pending show ?thesis by (auto intro!: schedule_goes simp: schedule_simps)
qed (use inv still_runs holder_pending [OF inv] in
      \<open>auto intro!: schedule_enter schedule_cancel schedule_begin schedule_leaves schedule_gc
        simp: schedule_simps\<close>)

lemma schedule_reachable: "gc_reachable D work fault c n S \<Longrightarrow> schedule_inv S"
proof (induction rule: gc_reachable.induct)
  case gc_start
  then show ?case by (simp add: schedule_inv_def gc_init_def gc_new_def schedule_simps)
next
  case (gc_more S T)
  then show ?case by (blast intro: schedule_step)
qed

section \<open>A waiting writer runs on to an answer\<close>

text \<open>A connection whose statements all return.\<close>

definition never_hangs :: "'c batch_conn \<Rightarrow> bool" where
  "never_hangs D \<longleftrightarrow> (\<forall>st c. snd (control D st c) \<noteq> Dropped)"

definition returns :: "('s, 'a) async \<Rightarrow> bool" where
  "returns m \<longleftrightarrow> (\<forall>s. snd (m s) \<noteq> Dropped)"

lemma returns_ret [simp]: "returns (ret x)"
  by (simp add: returns_def)

lemma returns_modify [simp]: "returns (modify f)"
  by (simp add: returns_def)

lemma returns_pure [simp]: "returns (\<lambda>s. (f s, Ready (h s)))"
  by (simp add: returns_def)

lemma returns_await: "returns m \<Longrightarrow> (\<And>x. returns (f x)) \<Longrightarrow> returns (await m f)"
  by (auto simp: returns_def await_def split: prod.splits fut.splits) (metis snd_conv)+

lemma returns_await_ok: "returns m \<Longrightarrow> (\<And>x. returns (f x)) \<Longrightarrow> returns (await_ok m f)"
  unfolding await_ok_def by (rule returns_await) (auto split: sum.splits)

lemma returns_if: "returns m \<Longrightarrow> returns n \<Longrightarrow> returns (\<lambda>s. if b s then m s else n s)"
  by (auto simp: returns_def)

lemma returns_on_state: "returns m \<Longrightarrow> returns (on_state m)"
  by (auto simp: returns_def on_state_def split: prod.splits) (metis snd_conv)

lemma returns_run_control: "never_hangs D \<Longrightarrow> returns (run_control D st)"
  by (auto simp: never_hangs_def returns_def run_control_def split: prod.splits fut.splits)
    (metis snd_conv)

lemmas returns_rules = returns_await returns_await_ok returns_if returns_on_state returns_run_control

lemma returns_rollback_job: "never_hangs D \<Longrightarrow> returns (rollback_job D)"
  unfolding rollback_job_def by (intro returns_rules) auto

lemma returns_discard_batch: "never_hangs D \<Longrightarrow> returns (discard_batch D m)"
  unfolding discard_batch_def by (intro returns_rules) auto

lemma returns_settle_abandoned: "never_hangs D \<Longrightarrow> returns (settle_abandoned D)"
proof -
  assume D: "never_hangs D"
  have "returns (case r of Inr _ \<Rightarrow> ret True | Inl _ \<Rightarrow> await (discard_after_lost_savepoint D) (\<lambda>_. ret False))"
    for r :: "store_error + unit"
    using returns_discard_batch [OF D]
    by (cases r) (auto simp: discard_after_lost_savepoint_def intro: returns_await)
  then have "returns (rollback_job_or_discard D)"
    unfolding rollback_job_or_discard_def by (intro returns_rules returns_rollback_job D)
  then have "returns (\<lambda>s. if \<not> job_open s then ret (Inr ()) s
      else await (rollback_job_or_discard D) (\<lambda>_. ret (Inr ())) s)"
    by (intro returns_rules) auto
  then show ?thesis by (simp add: settle_abandoned_def [abs_def])
qed

lemma returns_commit_batch: "never_hangs D \<Longrightarrow> returns (commit_batch D)"
proof -
  assume D: "never_hangs D"
  have "returns (if is_ok r then ret () else await (run_control D Rollback) (\<lambda>_. ret ()))"
    for r :: "store_error + unit"
    using D by (auto intro: returns_rules)
  then show ?thesis
    unfolding commit_batch_def [abs_def] Let_def by (intro returns_rules D) auto
qed

lemma returns_close_batch: "never_hangs D \<Longrightarrow> returns (close_batch D)"
  unfolding close_batch_def by (intro returns_rules returns_commit_batch) auto

lemma returns_reconcile:
  assumes D: "never_hangs D"
  shows "returns (reconcile D)"
proof -
  have "returns (\<lambda>g. if open_b (state g) = None then (g\<lparr>state := (state g)\<lparr>in_flight := None\<rparr>\<rparr>, Ready ())
      else await (on_state (run_control D Commit)) (\<lambda>r.
        if is_ok r then (\<lambda>g.
          let b = (case open_b (state g) of Some b \<Rightarrow> b | None \<Rightarrow> open_batch_default);
              g' = count_commit (ob_jobs b) (g\<lparr>state := (state g)\<lparr>open_b := None\<rparr>\<rparr>)
          in (g'\<lparr>state := answer_waiters b (Inr ()) (state g')\<rparr>, Ready ()))
        else on_state (discard_transaction D)) g)"
    unfolding discard_transaction_def
    using returns_on_state [OF returns_discard_batch [OF D]]
    by (intro returns_rules D) (auto simp: Let_def)
  then have unknown: "returns (settle_unknown_commit D)"
    by (simp add: settle_unknown_commit_def [abs_def])
  have discard: "returns (on_state (discard_transaction D))"
    unfolding discard_transaction_def by (intro returns_rules returns_discard_batch D)
  have undo: "returns (on_state (undo_savepoint D))"
    unfolding undo_savepoint_def by (intro returns_rules returns_rollback_job D) auto
  have "snd (reconcile D g) \<noteq> Dropped" for g
  proof (cases "in_flight (state g)")
    case (Some st)
    then show ?thesis using unknown discard undo
      by (cases st) (auto simp: reconcile_def returns_def)
  qed (simp add: reconcile_def)
  then show ?thesis by (auto simp: returns_def)
qed

lemma returns_commit_if_drained: "never_hangs D \<Longrightarrow> returns (commit_if_drained D w)"
  unfolding commit_if_drained_def
  by (intro returns_rules returns_reconcile returns_settle_abandoned returns_close_batch) auto

lemma pending_no_holder: "schedule_inv S \<Longrightarrow> pending (gc S) = 0 \<Longrightarrow> holder S = None"
  by (cases "holder S") (auto simp: schedule_inv_def is_pending_def)

text \<open>The four steps a waiting writer takes alone once the queue is empty: wake, register, see it
  drained, and commit.\<close>

lemma drain_progress:
  assumes D: "never_hangs D" and inv: "schedule_inv S" and zero: "pending (gc S) = 0"
    and i: "writer S i = Draining e"
  shows "\<exists>T r. gc_step D work fault S T \<and> writer T i = Finished r"
proof -
  obtain g r where run: "commit_if_drained D i (gc S) = (g, Ready r)"
    using returns_commit_if_drained [OF D, of i]
    by (metis fut.exhaust prod.collapse returns_def)
  then obtain x where "r = Some x" using drained_answers [OF run zero] by auto
  with run have "gc_step D work fault S (goes S i (Finished x) g)"
    using drain_some [OF i pending_no_holder [OF inv zero]] by blast
  then show ?thesis by (metis fun_upd_same goes_sel(4))
qed

lemma registered_progress:
  assumes D: "never_hangs D" and inv: "schedule_inv S" and zero: "pending (gc S) = 0"
    and i: "writer S i = Registered e"
  shows "\<exists>T r. (gc_step D work fault)\<^sup>*\<^sup>* S T \<and> writer T i = Finished r"
proof -
  let ?S = "goes S i (Draining e) (gc S)"
  have step: "gc_step D work fault S ?S" using i zero by (rule check_drained)
  from drain_progress [OF D schedule_step [OF step inv]] zero
  have "\<exists>T r. gc_step D work fault ?S T \<and> writer T i = Finished r" by simp
  with step show ?thesis by (meson converse_rtranclp_into_rtranclp r_into_rtranclp)
qed

lemma waiting_progress:
  assumes D: "never_hangs D" and inv: "schedule_inv S" and zero: "pending (gc S) = 0"
    and i: "writer S i = Waiting"
  shows "\<exists>T r. (gc_step D work fault)\<^sup>*\<^sup>* S T \<and> writer T i = Finished r"
proof -
  let ?S = "goes S i (Registered (drained (gc S))) (gc S)"
  have step: "gc_step D work fault S ?S" using i by (rule register)
  from registered_progress [OF D schedule_step [OF step inv]] zero
  have "\<exists>T r. (gc_step D work fault)\<^sup>*\<^sup>* ?S T \<and> writer T i = Finished r" by simp
  with step show ?thesis by (meson converse_rtranclp_into_rtranclp)
qed

lemma parked_progress:
  assumes D: "never_hangs D" and inv: "schedule_inv S" and zero: "pending (gc S) = 0"
    and i: "writer S i = Parked e"
  shows "\<exists>T r. (gc_step D work fault)\<^sup>*\<^sup>* S T \<and> writer T i = Finished r"
proof -
  let ?S = "goes S i Waiting (gc S)"
  have "e < drained (gc S)" using inv i zero by (simp add: schedule_inv_def)
  with i have step: "gc_step D work fault S ?S" by (rule wake)
  from waiting_progress [OF D schedule_step [OF step inv]] zero
  have "\<exists>T r. (gc_step D work fault)\<^sup>*\<^sup>* ?S T \<and> writer T i = Finished r" by simp
  with step show ?thesis by (meson converse_rtranclp_into_rtranclp)
qed

lemma drained_writer_progress:
  assumes "never_hangs D" "schedule_inv S" "pending (gc S) = 0" "waits_for_commit (writer S i)"
  shows "\<exists>T r. (gc_step D work fault)\<^sup>*\<^sup>* S T \<and> writer T i = Finished r"
proof (cases "writer S i")
  case (Draining e)
  with drain_progress [OF assms(1-3)] show ?thesis by (meson r_into_rtranclp)
qed (use assms(4) waiting_progress [OF assms(1-3), of i work fault]
      registered_progress [OF assms(1-3), of i _ work fault]
      parked_progress [OF assms(1-3), of i _ work fault] in simp_all)

section \<open>The cap\<close>

text \<open>Between two operations a batch is below the cap, unless its COMMIT was cut short.\<close>

definition jobs_le :: "nat \<Rightarrow> 'c batch_state \<Rightarrow> bool" where
  "jobs_le k s \<longleftrightarrow> (\<forall>b. open_b s = Some b \<longrightarrow> ob_jobs b \<le> k)"

definition jobs_lt :: "nat \<Rightarrow> 'c batch_state \<Rightarrow> bool" where
  "jobs_lt k s \<longleftrightarrow> (\<forall>b. open_b s = Some b \<longrightarrow> ob_jobs b < k)"

definition capped :: "nat \<Rightarrow> 'c batch_state \<Rightarrow> bool" where
  "capped k s \<longleftrightarrow> jobs_lt k s \<or> jobs_le k s \<and> in_flight s \<in> {Some Commit, Some Rollback}"

lemma run_control_open:
  assumes "run_control D st s = (t, r)"
  shows "open_b t = open_b s \<and> in_flight t = (case r of Ready _ \<Rightarrow> None | Dropped \<Rightarrow> Some st)"
  using assms by (auto simp: run_control_def split: prod.splits fut.splits)

lemma jobs_cong:
  "open_b t = open_b s \<Longrightarrow> jobs_le k t = jobs_le k s" "open_b t = open_b s \<Longrightarrow> jobs_lt k t = jobs_lt k s"
  by (simp_all add: jobs_le_def jobs_lt_def)

lemma jobs_lt_le: "jobs_lt k s \<Longrightarrow> jobs_le k s"
  by (auto simp: jobs_lt_def jobs_le_def)

lemma jobs_upd [simp]:
  "jobs_lt k (s\<lparr>job_open := b\<rparr>) = jobs_lt k s" "jobs_lt k (s\<lparr>in_flight := f\<rparr>) = jobs_lt k s"
  "jobs_lt k (s\<lparr>conn := c\<rparr>) = jobs_lt k s"
  by (simp_all add: jobs_lt_def)

text \<open>The outcome of an operation that starts below the cap and is not a COMMIT.\<close>

fun below :: "nat \<Rightarrow> 'c batch_state \<Rightarrow> 'a fut \<Rightarrow> bool" where
  "below k t (Ready _) \<longleftrightarrow> jobs_lt k t \<and> in_flight t = None"
| "below k t Dropped \<longleftrightarrow> capped k t"

lemma below_capped: "below k t r \<Longrightarrow> capped k t"
  by (cases r) (auto simp: capped_def)

lemma below_ret: "keeps (\<lambda>s. jobs_lt k s \<and> in_flight s = None) (ret y) (below k)"
  by (simp add: keeps_def)

lemma below_await:
  assumes "keeps P m (below k)" "\<And>x. keeps (\<lambda>s. jobs_lt k s \<and> in_flight s = None) (f x) (below k)"
  shows "keeps P (await m f) (below k)"
  using assms(2) by (intro keeps_await [OF assms(1)]) auto

lemma below_await_ok:
  assumes "keeps P m (below k)" "\<And>x. keeps (\<lambda>s. jobs_lt k s \<and> in_flight s = None) (f x) (below k)"
  shows "keeps P (await_ok m f) (below k)"
  using assms(2) by (intro keeps_await_ok [OF assms(1)]) auto

lemma below_run_control: "keeps (jobs_lt k) (run_control D st) (below k)"
proof (rule keepsI, goal_cases)
  case (1 s t r)
  with run_control_open [OF 1(2)] show ?case
    by (cases r) (auto simp: capped_def jobs_cong(2) [of t s])
qed

lemma below_from: "keeps (jobs_lt k) m (below k) \<Longrightarrow> keeps (\<lambda>s. jobs_lt k s \<and> in_flight s = None) m (below k)"
  by (auto simp: keeps_def)

lemma below_rollback_job: "keeps (jobs_lt k) (rollback_job D) (below k)"
  unfolding rollback_job_def
  by (intro below_await_ok below_run_control below_from [OF below_run_control]) (simp add: keeps_def)

lemma below_discard_batch: "keeps (jobs_le k) (discard_batch D m) (below k)"
proof (rule keepsI, goal_cases)
  case (1 s t r)
  obtain s1 r1 where "run_control D Rollback s = (s1, r1)" by fastforce
  with 1 run_control_open [OF this] show ?case
    by (cases r1; cases "open_b s")
      (auto simp: discard_batch_def await_def jobs_le_def jobs_lt_def answer_waiters_def capped_def)
qed

lemma below_discard_from: "keeps (\<lambda>s. jobs_lt k s \<and> in_flight s = None) (discard_batch D m) (below k)"
  by (rule keeps_weaken [OF below_discard_batch]) (auto simp: jobs_lt_le)

lemma below_rollback_or_discard: "keeps (jobs_lt k) (rollback_job_or_discard D) (below k)"
  unfolding rollback_job_or_discard_def discard_after_lost_savepoint_def
proof (rule below_await [OF below_rollback_job], goal_cases)
  case (1 x)
  show ?case by (cases x) (auto intro: below_await below_discard_from below_ret)
qed

lemma below_settle_abandoned:
  "keeps (\<lambda>s. jobs_lt k s \<and> in_flight s = None) (settle_abandoned D) (below k)"
proof -
  have "keeps (jobs_lt k) (await (rollback_job_or_discard D) (\<lambda>_. ret (Inr ()))) (below k)"
    by (intro below_await below_rollback_or_discard below_ret)
  then show ?thesis
    by (intro keepsI) (auto simp: settle_abandoned_def dest: keepsD split: if_splits)
qed

lemma below_start_job:
  assumes "k > 0"
  shows "keeps (\<lambda>s. jobs_lt k s \<and> in_flight s = None) (start_job D) (below k)"
proof -
  have "keeps (jobs_lt k) (begin_batch D) (below k)"
    unfolding begin_batch_def using assms
    by (intro below_await_ok below_run_control) (simp add: keeps_def jobs_lt_def open_batch_default_def)
  then have "keeps (\<lambda>s. jobs_lt k s \<and> in_flight s = None)
      (\<lambda>s. if open_b s = None then begin_batch D s else ret (Inr ()) s) (below k)"
    by (auto simp: keeps_def)
  then show ?thesis
    unfolding start_job_def
    by (intro below_await_ok below_settle_abandoned below_from [OF below_run_control])
      (simp_all add: keeps_def)
qed

lemma capped_commit_batch:
  "keeps (jobs_le k) (commit_batch D)
     (\<lambda>t r. case r of Ready _ \<Rightarrow> open_b t = None | Dropped \<Rightarrow> capped k t)"
proof (rule keepsI, goal_cases)
  case (1 s t r)
  obtain s1 r1 where c: "run_control D Commit s = (s1, r1)" by fastforce
  obtain s2 r2 where rb: "run_control D Rollback s1 = (s2, r2)" by fastforce
  from 1 c rb run_control_open [OF c] run_control_open [OF rb] show ?case
    by (cases r1; cases r2)
      (auto simp: commit_batch_def await_def capped_def jobs_le_def jobs_lt_def answer_waiters_def
        split: if_splits)
qed

lemma capped_end_job:
  assumes "k > 0"
  shows "keeps (jobs_lt k) (end_job D)
     (\<lambda>t r. case r of Ready (Inr n) \<Rightarrow> jobs_le k t \<and> (n < k \<longrightarrow> jobs_lt k t)
                    | _ \<Rightarrow> capped k t)"
proof -
  have undo: "keeps (jobs_lt k) (await (rollback_job_or_discard D) (\<lambda>_. ret (Inl error)))
      (\<lambda>t r. case r of Ready (Inr n) \<Rightarrow> jobs_le k t \<and> (n < k \<longrightarrow> jobs_lt k t) | _ \<Rightarrow> capped k t)" for error
    by (rule keeps_await [OF below_rollback_or_discard]) (auto simp: keeps_def capped_def)
  show ?thesis
    unfolding end_job_def
  proof (rule keeps_await [OF below_run_control], goal_cases)
    case (1 x)
    show ?case
    proof (cases x)
      case (Inl e)
      with undo [of e] show ?thesis by (auto simp: keeps_def)
    next
      case (Inr u)
      with assms show ?thesis
        by (auto simp: keeps_def jobs_lt_def jobs_le_def Let_def open_batch_default_def split: option.splits)
    qed
  qed simp
qed

text \<open>The same above the lock.\<close>

lemma keeps_lift: "keeps P m Q \<Longrightarrow> keeps (\<lambda>g. P (state g)) (on_state m) (\<lambda>g. Q (state g))"
  by (auto simp: keeps_def on_state_def split: prod.splits)

lemma capped_close_batch:
  "keeps (\<lambda>g. jobs_le k (state g)) (close_batch D)
     (\<lambda>g r. case r of Ready _ \<Rightarrow> open_b (state g) = None | Dropped \<Rightarrow> capped k (state g))"
  unfolding close_batch_def
  by (rule keeps_await_ok [OF keeps_lift [OF capped_commit_batch]])
    (auto simp: keeps_def count_commit_def)

lemma jobs_lt_capped: "jobs_lt k s \<Longrightarrow> capped k s"
  by (simp add: capped_def)

lemma capped_le: "capped k s \<Longrightarrow> jobs_le k s"
  by (auto simp: capped_def jobs_lt_le)

lemma no_batch_capped: "open_b s = None \<Longrightarrow> capped k s" "open_b s = None \<Longrightarrow> jobs_lt k s"
  by (auto simp: capped_def jobs_lt_def)

lemma capped_close:
  "keeps (\<lambda>g. jobs_le k (state g)) (close_batch D) (\<lambda>g _. capped k (state g))"
  by (rule keeps_weaken [OF capped_close_batch]) (auto simp: no_batch_capped split: fut.splits)

lemma below_settle_unknown:
  "keeps (\<lambda>g. jobs_le k (state g)) (settle_unknown_commit D) (\<lambda>g. below k (state g))"
proof (rule keepsI, goal_cases)
  case (1 g h r)
  obtain s1 r1 where c: "run_control D Commit (state g) = (s1, r1)" by fastforce
  note fr = run_control_open [OF c]
  have le: "jobs_le k s1" using 1(1) jobs_cong(1) [of s1 "state g" k] fr by simp
  show ?case
  proof (cases "open_b (state g)")
    case None
    with 1 show ?thesis by (auto simp: settle_unknown_commit_def jobs_lt_def)
  next
    case (Some b)
    show ?thesis
    proof (cases r1)
      case Dropped
      with 1(2) c Some have "h = g\<lparr>state := s1\<rparr>" "r = Dropped"
        by (auto simp: settle_unknown_commit_def await_def on_state_def)
      with fr le Dropped show ?thesis by (simp add: capped_def)
    next
      case (Ready x)
      show ?thesis
      proof (cases x)
        case (Inr u)
        with 1(2) c Some Ready fr
        have "state h = answer_waiters b (Inr ()) (s1\<lparr>open_b := None\<rparr>)" "r = Ready ()"
          by (auto simp: settle_unknown_commit_def await_def on_state_def Let_def count_commit_def)
        with fr Ready show ?thesis by (simp add: jobs_lt_def answer_waiters_def)
      next
        case (Inl e)
        with 1(2) c Some Ready have run: "on_state (discard_transaction D) (g\<lparr>state := s1\<rparr>) = (h, r)"
          by (simp add: settle_unknown_commit_def await_def on_state_def)
        show ?thesis
          by (rule keepsD [OF keeps_lift [OF below_discard_batch] _ run [unfolded discard_transaction_def]])
            (simp add: le)
      qed
    qed
  qed
qed

lemma below_reconcile:
  "keeps (\<lambda>g. capped k (state g)) (reconcile D) (\<lambda>g. below k (state g))"
proof (rule keepsI, goal_cases)
  case (1 g h r)
  have le: "jobs_le k (state g)" using 1(1) by (rule capped_le)
  have undo: "keeps (jobs_lt k) (undo_savepoint D) (below k)"
    unfolding undo_savepoint_def
    by (intro below_await below_rollback_job) (simp add: keeps_def)
  show ?case
  proof (cases "in_flight (state g)")
    case None
    with 1 show ?thesis by (auto simp: reconcile_def capped_def)
  next
    case (Some st)
    show ?thesis
    proof (cases "st \<in> {Begin, Rollback, Commit}")
      case True
      with Some 1(2) le keepsD [OF keeps_lift [OF below_discard_batch], of k g D]
        keepsD [OF below_settle_unknown, of k g D]
      show ?thesis by (auto simp: reconcile_def discard_transaction_def)
    next
      case False
      with Some 1 have "on_state (undo_savepoint D) g = (h, r)" "jobs_lt k (state g)"
        by (cases st; simp add: reconcile_def capped_def)+
      with keepsD [OF keeps_lift [OF undo]] show ?thesis by blast
    qed
  qed
qed

lemma capped_begin_job:
  assumes "k > 0"
  shows "keeps (\<lambda>g. capped k (state g)) (begin_job D) (\<lambda>g. below k (state g))"
  unfolding begin_job_def
  by (rule keeps_await [OF below_reconcile]) (use keeps_lift [OF below_start_job [OF assms]] in auto)

lemma capped_lock: "keeps (\<lambda>g. capped k (state g)) (lock D) (\<lambda>g _. capped k (state g))"
  unfolding lock_def
proof (rule keeps_await [OF below_reconcile], goal_cases)
  case (1 x)
  show ?case
  proof (rule keeps_await_from [OF keeps_lift [OF below_settle_abandoned [of k]]], goal_cases)
    case (2 y)
    have "keeps (\<lambda>g. jobs_le k (state g)) (await (close_batch D) (\<lambda>_. ret ())) (\<lambda>g _. capped k (state g))"
      by (rule keeps_await [OF capped_close]) (auto simp: keeps_def)
    then show ?case by (auto simp: keeps_def jobs_lt_le capped_def split: prod.splits)
  qed auto
qed simp

lemma capped_lock_autocommit:
  "keeps (\<lambda>g. capped k (state g)) (lock_autocommit D) (\<lambda>g _. capped k (state g))"
  unfolding lock_autocommit_def
proof (rule keeps_await [OF below_reconcile], goal_cases)
  case (1 x)
  have close: "keeps (\<lambda>g. jobs_lt k (state g) \<and> in_flight (state g) = None) (close_batch D)
      (\<lambda>g _. capped k (state g))"
    by (rule keeps_weaken [OF capped_close [of k]]) (auto simp: jobs_lt_le)
  then have "keeps (\<lambda>g. jobs_lt k (state g) \<and> in_flight (state g) = None)
      (await_ok (on_state (settle_abandoned D)) (\<lambda>_. close_batch D)) (\<lambda>g _. capped k (state g))"
    by (intro keeps_await_ok [OF keeps_lift [OF below_settle_abandoned]])
      (auto simp: jobs_lt_capped)
  then show ?case by simp
qed simp

lemma capped_commit_if_drained:
  "keeps (\<lambda>g. capped k (state g)) (commit_if_drained D w) (\<lambda>g _. capped k (state g))"
  unfolding commit_if_drained_def
proof (rule keeps_await [OF below_reconcile], goal_cases)
  case (1 x)
  have "keeps (\<lambda>g. jobs_le k (state g)) (await (close_batch D) (\<lambda>_. ret ())) (\<lambda>g _. capped k (state g))"
    by (rule keeps_await [OF capped_close]) (auto simp: keeps_def)
  then have "keeps (\<lambda>g. jobs_lt k (state g) \<and> in_flight (state g) = None)
      (await (on_state (settle_abandoned D)) (\<lambda>_. await (close_batch D) (\<lambda>_. ret ())))
      (\<lambda>g _. capped k (state g))"
    by (intro keeps_await [OF keeps_lift [OF below_settle_abandoned]])
      (auto elim: keeps_weaken simp: jobs_lt_le)
  then have "keeps (\<lambda>g. jobs_lt k (state g) \<and> in_flight (state g) = None)
      (\<lambda>g. if pending g = 0
            then await (on_state (settle_abandoned D)) (\<lambda>_. await (close_batch D) (\<lambda>_. ret ())) g
            else ret () g) (\<lambda>g _. capped k (state g))"
    by (auto simp: keeps_def capped_def)
  then have "keeps (\<lambda>g. jobs_lt k (state g) \<and> in_flight (state g) = None)
      (await (\<lambda>g. if pending g = 0
            then await (on_state (settle_abandoned D)) (\<lambda>_. await (close_batch D) (\<lambda>_. ret ())) g
            else ret () g) (\<lambda>_ g. (g, Ready (recv_result (channel (state g) w)))))
      (\<lambda>g _. capped k (state g))"
    by (rule keeps_await) (auto simp: keeps_def)
  then show ?case by simp
qed simp

lemma capped_fail: "keeps (\<lambda>g. jobs_lt k (state g)) (fail D) (\<lambda>g _. capped k (state g))"
  unfolding fail_def
proof (rule keeps_await [OF keeps_lift [OF below_rollback_or_discard]], goal_cases)
  case (1 kept)
  have "keeps (\<lambda>g. jobs_le k (state g)) (await (close_batch D) (\<lambda>_. ret ())) (\<lambda>g _. capped k (state g))"
    by (rule keeps_await [OF capped_close]) (auto simp: keeps_def)
  then show ?case by (auto simp: keeps_def jobs_lt_le capped_def split: prod.splits)
qed simp

lemma jobs_lt_waiter:
  "jobs_lt k s \<Longrightarrow>
   jobs_lt k (s\<lparr>open_b := map_option (\<lambda>b. b\<lparr>ob_waiters := ob_waiters b @ [w]\<rparr>) (open_b s)\<rparr>)"
  by (auto simp: jobs_lt_def)

lemma capped_finish:
  assumes "cap g = k" "k > 0" "jobs_lt k (state g)" "finish D w g = (h, r)"
  shows "capped k (state h)"
proof -
  have "keeps (\<lambda>g. jobs_lt k (state g) \<and> cap g = k) (finish D w) (\<lambda>g _. capped k (state g))"
    unfolding finish_def
  proof (rule keeps_await_ok [where R = "\<lambda>g r. cap g = k \<and> (case r of
      Ready (Inr n) \<Rightarrow> jobs_le k (state g) \<and> (n < k \<longrightarrow> jobs_lt k (state g)) | _ \<Rightarrow> capped k (state g))"],
      goal_cases)
    case 1
    from keeps_lift [OF capped_end_job [OF assms(2)], of D] show ?case
      by (auto simp: keeps_def on_state_def split: prod.splits)
  next
    case (2 n)
    have "keeps (\<lambda>g. jobs_le k (state g)) (await_ok (close_batch D) (\<lambda>_. ret (Inr None)))
        (\<lambda>g _. capped k (state g))"
      by (rule keeps_await_ok [OF capped_close]) (auto simp: keeps_def)
    then show ?case
      by (auto simp: keeps_def Let_def capped_def jobs_lt_waiter split: prod.splits)
  qed auto
  with assms show ?thesis by (auto dest: keepsD)
qed

definition cap_inv :: "('c, 'w) gc_sys \<Rightarrow> bool" where
  "cap_inv S \<longleftrightarrow>
     cap (gc S) > 0 \<and> capped (cap (gc S)) (state (gc S)) \<and>
     (holder S \<noteq> None \<longrightarrow> jobs_lt (cap (gc S)) (state (gc S)))"

lemma still_cap: "still (pending g) (drained g) (cap g) h \<Longrightarrow> cap h = cap g"
  by (simp add: still_def)

lemma cap_inv_gc:
  assumes "cap_inv S" "capped (cap (gc S)) (state g)" "cap g = cap (gc S)"
    and "holder T \<noteq> None \<Longrightarrow> jobs_lt (cap (gc S)) (state g)"
    and "gc T = g \<or> gc T = slot_drop g \<or> gc T = queue_enter g"
  shows "cap_inv T"
  using assms by (auto simp: cap_inv_def slot_drop_def queue_enter_def)

lemma cap_inv_step:
  assumes step: "gc_step D work fault S T" and inv: "cap_inv S"
  shows "cap_inv T"
proof -
  let ?k = "cap (gc S)"
  have pos: "?k > 0" and now: "capped ?k (state (gc S))"
    and held: "\<And>i. holder S = Some i \<Longrightarrow> jobs_lt ?k (state (gc S))"
    using inv by (auto simp: cap_inv_def)
  note runs = still_runs [THEN still_cap]
  have begun: "capped ?k (state g)" if "begin_job D (gc S) = (g, r)" for g r
    using keepsD [OF capped_begin_job [OF pos] now that] by (rule below_capped)
  show ?thesis
    using step
  proof cases
    case (begin_ok i g)
    then have "jobs_lt ?k (state g)"
      using keepsD [OF capped_begin_job [OF pos] now] by fastforce
    with begin_ok runs(1) show ?thesis
      by (intro cap_inv_gc [OF inv, of g]) (auto simp: jobs_lt_capped)
  next
    case (begin_err i g e)
    with begun runs(1) show ?thesis
      by (intro cap_inv_gc [OF inv, of g]) (auto simp: leaves_def)
  next
    case (begin_dropped i g)
    with begun runs(1) show ?thesis
      by (intro cap_inv_gc [OF inv, of g]) (auto simp: leaves_def)
  next
    case (job_work i w)
    with inv held show ?thesis by (auto simp: cap_inv_def on_conn_def jobs_lt_capped)
  next
    case (engine_fault c)
    with inv show ?thesis by (auto simp: cap_inv_def on_conn_def capped_def jobs_le_def)
  next
    case (finish_done i g)
    with capped_finish [OF refl pos held] runs(2) show ?thesis
      by (intro cap_inv_gc [OF inv, of g]) (auto simp: leaves_def)
  next
    case (finish_waits i g)
    with capped_finish [OF refl pos held] runs(2) show ?thesis
      by (intro cap_inv_gc [OF inv, of g]) (auto simp: leaves_def)
  next
    case (finish_err i g e)
    with capped_finish [OF refl pos held] runs(2) show ?thesis
      by (intro cap_inv_gc [OF inv, of g]) (auto simp: leaves_def)
  next
    case (finish_dropped i g)
    with capped_finish [OF refl pos held] runs(2) show ?thesis
      by (intro cap_inv_gc [OF inv, of g]) (auto simp: leaves_def)
  next
    case (job_fail i g r)
    with keepsD [OF capped_fail held] runs(3) show ?thesis
      by (intro cap_inv_gc [OF inv, of g]) (auto simp: leaves_def)
  next
    case (drain_some i e g r)
    with keepsD [OF capped_commit_if_drained now] runs(4) show ?thesis
      by (intro cap_inv_gc [OF inv, of g]) auto
  next
    case (drain_none i e g)
    with keepsD [OF capped_commit_if_drained now] runs(4) show ?thesis
      by (intro cap_inv_gc [OF inv, of g]) auto
  next
    case (drain_dropped i e g)
    with keepsD [OF capped_commit_if_drained now] runs(4) show ?thesis
      by (intro cap_inv_gc [OF inv, of g]) auto
  next
    case (read g r)
    with keepsD [OF capped_lock now] runs(5) show ?thesis by (intro cap_inv_gc [OF inv, of g]) auto
  next
    case (autocommit g r)
    with keepsD [OF capped_lock_autocommit now] runs(6) show ?thesis
      by (intro cap_inv_gc [OF inv, of g]) auto
  qed (use now held in \<open>auto intro!: cap_inv_gc [OF inv, of "gc S"] simp: leaves_def\<close>)
qed

lemma cap_inv_reachable: "gc_reachable D work fault c n S \<Longrightarrow> cap_inv S"
proof (induction rule: gc_reachable.induct)
  case gc_start
  then show ?case by (simp add: cap_inv_def gc_init_def gc_new_def no_batch_capped)
next
  case (gc_more S T)
  then show ?case by (blast intro: cap_inv_step)
qed

lemma cap_reachable: "gc_reachable D work fault c n S \<Longrightarrow> cap (gc S) = max n 1"
proof (induction rule: gc_reachable.induct)
  case gc_start
  then show ?case by (simp add: gc_init_def gc_new_def)
next
  case (gc_more S T)
  from gc_more(2) have "cap (gc T) = cap (gc S)"
    by cases (auto simp: leaves_def slot_drop_def queue_enter_def on_conn_def
        dest: still_runs [THEN still_cap])
  with gc_more show ?case by simp
qed

end
