(* ===== verification/Group_Commit_Properties.thy ===== *)
theory Group_Commit_Properties
  imports Group_Commit_Invariant Group_Commit_Liveness
begin

text \<open>
  The properties of the group commit, and one run of it that their witnesses use: two writers on the
  connection of \<^theory_text>\<open>Fake_Db\<close> share a batch, the first waits, the second closes it.
\<close>

section \<open>A run\<close>

definition demo_conn :: "nat fake_db batch_conn" where
  "demo_conn = fake_conn (\<lambda>_. ''error'')"

text \<open>The same connection without its stalls.\<close>

definition steady_conn :: "nat fake_db batch_conn" where
  "steady_conn =
     \<lparr>control = (\<lambda>st db. (fst (fake_run st db), Ready (snd (fake_run st db)))),
      error_text = (\<lambda>_. ''error'')\<rparr>"

type_synonym demo_sys = "(nat fake_db, nat) gc_sys"

definition demo_reachable :: "nat fake_db batch_conn \<Rightarrow> demo_sys \<Rightarrow> bool" where
  "demo_reachable D = gc_reachable D fake_write fake_fault fake_default 2"

definition demo_enter :: "nat \<Rightarrow> demo_sys \<Rightarrow> demo_sys" where
  "demo_enter i S = goes S i Queued (queue_enter (gc S))"

definition demo_begin :: "nat fake_db batch_conn \<Rightarrow> nat \<Rightarrow> demo_sys \<Rightarrow> demo_sys" where
  "demo_begin D i S = (goes S i Running (fst (begin_job D (gc S))))\<lparr>holder := Some i\<rparr>"

definition demo_work :: "nat \<Rightarrow> nat \<Rightarrow> demo_sys \<Rightarrow> demo_sys" where
  "demo_work i w S = S\<lparr>gc := on_conn (fake_write w) (gc S), wrote := (wrote S)(i := wrote S i @ [w])\<rparr>"

definition demo_finish ::
  "nat fake_db batch_conn \<Rightarrow> nat \<Rightarrow> writer_state \<Rightarrow> demo_sys \<Rightarrow> demo_sys" where
  "demo_finish D i x S = leaves S i x (fst (finish D i (gc S)))"

lemma demo_start: "demo_reachable D (gc_init fake_default 2)"
  unfolding demo_reachable_def by (rule gc_start)

lemma demo_enterI: "demo_reachable D S \<Longrightarrow> writer S i = Idle \<Longrightarrow> demo_reachable D (demo_enter i S)"
  unfolding demo_reachable_def demo_enter_def by (blast intro: gc_more enter)

lemma demo_beginI:
  assumes "demo_reachable D S" "writer S i = Queued" "holder S = None"
    and "snd (begin_job D (gc S)) = Ready (Inr ())"
  shows "demo_reachable D (demo_begin D i S)"
proof -
  have "begin_job D (gc S) = (fst (begin_job D (gc S)), Ready (Inr ()))"
    using assms(4) by (simp add: prod_eq_iff)
  then show ?thesis
    using assms(1-3) unfolding demo_reachable_def demo_begin_def by (blast intro: gc_more begin_ok)
qed

lemma demo_workI: "demo_reachable D S \<Longrightarrow> holder S = Some i \<Longrightarrow> demo_reachable D (demo_work i w S)"
  unfolding demo_reachable_def demo_work_def by (blast intro: gc_more job_work)

lemma demo_finishI:
  assumes "demo_reachable D S" "holder S = Some i"
    and "snd (finish D i (gc S)) = Ready (Inr r)"
    and "x = (case r of None \<Rightarrow> Finished (Inr ()) | Some _ \<Rightarrow> Waiting)"
  shows "demo_reachable D (demo_finish D i x S)"
proof (cases r)
  case None
  then have "finish D i (gc S) = (fst (finish D i (gc S)), Ready (Inr None))"
    using assms(3) by (simp add: prod_eq_iff)
  then show ?thesis
    using assms(1,2,4) None unfolding demo_reachable_def demo_finish_def
    by (auto intro: gc_more finish_done)
next
  case (Some u)
  then have "finish D i (gc S) = (fst (finish D i (gc S)), Ready (Inr (Some ())))"
    using assms(3) by (simp add: prod_eq_iff)
  then show ?thesis
    using assms(1,2,4) Some unfolding demo_reachable_def demo_finish_def
    by (auto intro: gc_more finish_waits)
qed

definition demo1 :: "nat fake_db batch_conn \<Rightarrow> demo_sys" where
  "demo1 D = demo_work 0 7 (demo_begin D 0 (demo_enter 1 (demo_enter 0 (gc_init fake_default 2))))"

definition demo2 :: "nat fake_db batch_conn \<Rightarrow> demo_sys" where
  "demo2 D = demo_work 1 8 (demo_begin D 1 (demo_finish D 0 Waiting (demo1 D)))"

definition demo3 :: "nat fake_db batch_conn \<Rightarrow> demo_sys" where
  "demo3 D = demo_finish D 1 (Finished (Inr ())) (demo2 D)"

definition demo_runs :: "nat fake_db batch_conn \<Rightarrow> bool" where
  "demo_runs D \<longleftrightarrow>
     snd (begin_job D (gc (demo_enter 1 (demo_enter 0 (gc_init fake_default 2))))) = Ready (Inr ()) \<and>
     snd (finish D 0 (gc (demo1 D))) = Ready (Inr (Some ())) \<and> holder (demo1 D) = Some 0 \<and>
     snd (begin_job D (gc (demo_finish D 0 Waiting (demo1 D)))) = Ready (Inr ()) \<and>
     writer (demo_finish D 0 Waiting (demo1 D)) 1 = Queued \<and>
     holder (demo_finish D 0 Waiting (demo1 D)) = None \<and>
     snd (finish D 1 (gc (demo2 D))) = Ready (Inr None) \<and> holder (demo2 D) = Some 1"

lemma demo_runs_both: "demo_runs demo_conn" "demo_runs steady_conn"
  by code_simp+

lemma demo_reachable:
  assumes "demo_runs D"
  shows "demo_reachable D (demo2 D)" "demo_reachable D (demo3 D)"
proof -
  have "demo_reachable D (demo1 D)"
    using assms unfolding demo1_def demo_runs_def
    by (intro demo_workI demo_beginI demo_enterI demo_start)
      (simp_all add: demo_enter_def demo_begin_def gc_init_def)
  then have "demo_reachable D (demo_finish D 0 Waiting (demo1 D))"
    using assms by (auto simp: demo_runs_def intro: demo_finishI)
  then show "demo_reachable D (demo2 D)"
    using assms unfolding demo2_def demo_runs_def
    by (intro demo_workI demo_beginI) (auto simp: demo_begin_def)
  then show "demo_reachable D (demo3 D)"
    using assms unfolding demo3_def by (auto simp: demo_runs_def intro: demo_finishI)
qed

lemma demo3_eval:
  "writer (demo3 demo_conn) 1 = Finished (Inr ())" "wrote (demo3 demo_conn) 1 = [8]"
  "committed (conn (state (gc (demo3 demo_conn)))) = [7, 8]"
  "pending (gc (demo3 steady_conn)) = 0" "writer (demo3 steady_conn) 0 = Waiting"
  by code_simp+

lemma steady_returns: "never_hangs steady_conn"
  by (simp add: never_hangs_def steady_conn_def)

section \<open>The properties\<close>

text \<open>
  C1. A writer that was answered \<open>Ok\<close> has its writes durable, in one piece and in the order its job
  made them, whatever the other writers did, whichever futures were dropped at whichever control
  statement, and whatever the engine did to its transaction in between. It holds for every connection
  that keeps the laws of \<open>transactional_conn\<close>, and for ever: a later step never takes it back.
\<close>

theorem group_commit_ok_is_durable:
  assumes "transactional_conn D work fault ok tx staged mark durable"
    and "gc_reachable D work fault c n S" and "ok c" and "mark c = None"
    and "writer S i = Finished (Inr ())"
  shows "sublist (wrote S i) (durable (conn (state (gc S))))"
  using transactional_conn.finished_durable [OF assms] .

theorem group_commit_ok_is_durable_witness:
  "gc_reachable demo_conn fake_write fake_fault fake_default 2 (demo3 demo_conn) \<and>
   sublist (wrote (demo3 demo_conn) 1) (committed (conn (state (gc (demo3 demo_conn)))))"
proof -
  have reach: "gc_reachable demo_conn fake_write fake_fault fake_default 2 (demo3 demo_conn)"
    using demo_reachable(2) [OF demo_runs_both(1)] by (simp add: demo_reachable_def)
  moreover have "transactional_conn demo_conn fake_write fake_fault fake_wf fake_tx open_writes
      savepoint_mark committed"
    unfolding demo_conn_def by (rule fake.transactional_conn_axioms)
  then have "sublist (wrote (demo3 demo_conn) 1) (committed (conn (state (gc (demo3 demo_conn)))))"
    by (rule group_commit_ok_is_durable [OF _ reach _ _ demo3_eval(1)])
      (simp_all add: fake_wf_def fake_default_def)
  ultimately show ?thesis by blast
qed



text \<open>
  C4. The counter of pending writers is exact, the lock is held by a writer that counts in it, and a
  parked writer whose queue has drained has seen the notification it registered for. A batch never
  carries more jobs than the cap it was built with, or one when that was zero, and it is at the cap
  only while its COMMIT or its ROLLBACK was cut short.
\<close>

theorem group_commit_counts:
  assumes "gc_reachable D work fault c n S"
  shows "pending (gc S) = card {i. is_pending (writer S i)} \<and>
         (\<forall>i. holder S = Some i \<longrightarrow> is_pending (writer S i)) \<and>
         (\<forall>i e. writer S i = Parked e \<and> pending (gc S) = 0 \<longrightarrow> e < drained (gc S)) \<and>
         (\<forall>b. open_b (state (gc S)) = Some b \<longrightarrow>
            ob_jobs b \<le> max n 1 \<and> (ob_jobs b < max n 1 \<or> in_flight (state (gc S)) \<in> {Some Commit, Some Rollback}))"
  using schedule_reachable [OF assms] cap_inv_reachable [OF assms] cap_reachable [OF assms]
  by (auto simp: schedule_inv_def is_pending_def cap_inv_def capped_def jobs_lt_def jobs_le_def)

theorem group_commit_counts_witness:
  "pending (gc (demo2 demo_conn)) = card {i. is_pending (writer (demo2 demo_conn) i)} \<and>
   (\<exists>b. open_b (state (gc (demo2 demo_conn))) = Some b \<and> ob_jobs b \<le> max 2 1)"
proof -
  have "open_b (state (gc (demo2 demo_conn))) = Some \<lparr>ob_jobs = 1, ob_waiters = [0]\<rparr>" by code_simp
  with group_commit_counts [OF demo_reachable(1) [OF demo_runs_both(1), unfolded demo_reachable_def]]
  show ?thesis by blast
qed

end
