(* ===== verification/Event_Stream.thy ===== *)
theory Event_Stream
  imports Prelude "HOL-Library.Sublist"
begin

text \<open>
  One account's event stream (\<open>state/event_ring.rs\<close>, \<open>state/event_bridge.rs\<close>,
  \<open>state/event_publisher.rs\<close>): the replay ring, the stamping and publishing of an event, the
  connection state, and the queue with the one task that drains it.

  The wire events are generated from \<open>events.proto\<close>; only the variants this code tells apart are
  constructors, the rest is \<open>OtherEvent\<close>. The encoder's length and the mapping of a library event to
  wire events are arguments. \<open>monotonic_seq\<close> is an \<open>i64\<close>, read as an \<^typ>\<open>int\<close>, and its increment
  wraps as \<open>fetch_add\<close> does.
\<close>

section \<open>Data\<close>

datatype connection_state =
  Unspecified | Disconnected | Connecting | Connected | LoggedOut | Banned

record raw_event =
  raw_kind :: string
  raw_payload :: bytes
  raw_note :: string

datatype 'e wire_event = Raw raw_event | HistorySync 'e | OtherEvent 'e

record 'e envelope =
  account_uuid :: string
  monotonic_seq :: i64
  ts_unix_ms :: i64
  event :: "'e wire_event option"

definition i64_succ :: "i64 \<Rightarrow> i64" where
  "i64_succ n = (if n = 2 ^ 63 - 1 then - (2 ^ 63) else n + 1)"

section \<open>The replay ring\<close>

record 'e event_ring =
  ring_items :: "'e envelope list"
  capacity :: nat

definition ring_new :: "nat \<Rightarrow> 'e event_ring" where
  "ring_new n = \<lparr>ring_items = [], capacity = n\<rparr>"

text \<open>\<open>while queue.len() >= capacity { pop_front }\<close>\<close>

fun pop_to :: "nat \<Rightarrow> 'a list \<Rightarrow> 'a list" where
  "pop_to n [] = []"
| "pop_to n (x # xs) = (if length (x # xs) \<ge> n then pop_to n xs else x # xs)"

definition ring_push :: "'e envelope \<Rightarrow> 'e event_ring \<Rightarrow> 'e event_ring" where
  "ring_push e r =
     (if capacity r = 0 then r
      else r\<lparr>ring_items := pop_to (capacity r) (ring_items r) @ [e]\<rparr>)"

definition ring_snapshot :: "nat \<Rightarrow> 'e event_ring \<Rightarrow> 'e envelope list" where
  "ring_snapshot n r =
     (let take = min n (length (ring_items r))
      in drop (length (ring_items r) - take) (ring_items r))"

section \<open>Publishing\<close>

text \<open>\<open>broadcast\<close> is what was sent on the account's channel, oldest first.\<close>

record 'e event_ctx =
  ctx_uuid :: string
  broadcast :: "'e envelope list"
  ring :: "'e event_ring"
  seq :: i64
  replay_max_event_bytes :: nat

definition ctx_new :: "string \<Rightarrow> nat \<Rightarrow> nat \<Rightarrow> 'e event_ctx" where
  "ctx_new uuid ring_capacity max_bytes =
     \<lparr>ctx_uuid = uuid, broadcast = [], ring = ring_new ring_capacity, seq = 0,
      replay_max_event_bytes = max_bytes\<rparr>"

definition replayable :: "('e envelope \<Rightarrow> nat) \<Rightarrow> 'e envelope \<Rightarrow> nat \<Rightarrow> bool" where
  "replayable encoded_len e max_bytes =
     (if (case event e of Some (HistorySync _) \<Rightarrow> True | _ \<Rightarrow> False) then False
      else if max_bytes > 0 \<and> encoded_len e > max_bytes then False
      else True)"

definition publish_wire_event ::
  "('e envelope \<Rightarrow> nat) \<Rightarrow> i64 \<Rightarrow> 'e wire_event \<Rightarrow> 'e event_ctx \<Rightarrow> 'e event_ctx" where
  "publish_wire_event encoded_len now inner ctx =
     (let e = \<lparr>account_uuid = ctx_uuid ctx, monotonic_seq = seq ctx, ts_unix_ms = now,
               event = Some inner\<rparr>;
          ctx1 = ctx\<lparr>seq := i64_succ (seq ctx)\<rparr>;
          ctx2 = (if replayable encoded_len e (replay_max_event_bytes ctx1)
                  then ctx1\<lparr>ring := ring_push e (ring ctx1)\<rparr> else ctx1)
      in ctx2\<lparr>broadcast := broadcast ctx2 @ [e]\<rparr>)"

text \<open>\<open>dispatch\<close>, with the wire events \<open>map_event\<close> gave and the clock at each of them.\<close>

definition dispatch ::
  "('e envelope \<Rightarrow> nat) \<Rightarrow> (i64 \<times> 'e wire_event) list \<Rightarrow> 'e event_ctx \<Rightarrow> 'e event_ctx" where
  "dispatch encoded_len inners ctx =
     fold (\<lambda>(now, inner). publish_wire_event encoded_len now inner) inners ctx"

section \<open>Connection state\<close>

text \<open>The library events that touch the connection state; every other event is \<open>LibOther\<close>.\<close>

datatype 'l lib_event =
  LibConnected | LibPairSuccess | LibDisconnected | LibLoggedOut | LibTemporaryBan | LibOther 'l

fun is_terminal :: "connection_state \<Rightarrow> bool" where
  "is_terminal LoggedOut = True"
| "is_terminal Banned = True"
| "is_terminal _ = False"

fun next_state :: "'l lib_event \<Rightarrow> connection_state option" where
  "next_state LibConnected = Some Connected"
| "next_state LibPairSuccess = Some Connected"
| "next_state LibDisconnected = Some Disconnected"
| "next_state LibLoggedOut = Some LoggedOut"
| "next_state LibTemporaryBan = Some Banned"
| "next_state (LibOther _) = None"

definition update_state :: "'l lib_event \<Rightarrow> connection_state \<Rightarrow> connection_state" where
  "update_state ev current =
     (case next_state ev of
        None \<Rightarrow> current
      | Some st \<Rightarrow> if st = Disconnected \<and> is_terminal current then current else st)"

section \<open>The publisher\<close>

text \<open>
  A queued job; a \<open>Wire\<close> job carries the number of the oneshot channel that confirms it. The jobs of
  an account go through one unbounded queue. \<open>run_job\<close> is \<open>None\<close> when the mapping panicked, which
  \<open>drain\<close> catches: the account's context is then as it was.
\<close>

datatype ('l, 'e) job = Lib "'l lib_event" | Wire "'e wire_event" nat

record ('l, 'e) publisher =
  queue :: "('l, 'e) job list"
  state_tx :: connection_state
  ctx :: "'e event_ctx"
  confirmed :: "nat list"

definition publish_lib :: "'l lib_event \<Rightarrow> ('l, 'e) publisher \<Rightarrow> ('l, 'e) publisher" where
  "publish_lib ev p = p\<lparr>state_tx := update_state ev (state_tx p), queue := queue p @ [Lib ev]\<rparr>"

definition publish_wire :: "'e wire_event \<Rightarrow> nat \<Rightarrow> ('l, 'e) publisher \<Rightarrow> ('l, 'e) publisher" where
  "publish_wire ev done p = p\<lparr>queue := queue p @ [Wire ev done]\<rparr>"

definition run_job ::
  "('e envelope \<Rightarrow> nat) \<Rightarrow> ('l lib_event \<Rightarrow> 'e wire_event list option) \<Rightarrow> i64 \<Rightarrow>
   ('l, 'e) job \<Rightarrow> ('l, 'e) publisher \<Rightarrow> ('l, 'e) publisher option" where
  "run_job encoded_len map_event now j p =
     (case j of
        Lib ev \<Rightarrow> map_option (\<lambda>inners.
          p\<lparr>ctx := dispatch encoded_len (map (Pair now) inners) (ctx p)\<rparr>) (map_event ev)
      | Wire ev done \<Rightarrow>
          Some (p\<lparr>ctx := publish_wire_event encoded_len now ev (ctx p),
                  confirmed := confirmed p @ [done]\<rparr>))"

text \<open>One turn of \<open>drain\<close>: the oldest job is taken; a panic costs only its own event.\<close>

definition drain_step ::
  "('e envelope \<Rightarrow> nat) \<Rightarrow> ('l lib_event \<Rightarrow> 'e wire_event list option) \<Rightarrow> i64 \<Rightarrow>
   ('l, 'e) publisher \<Rightarrow> ('l, 'e) publisher" where
  "drain_step encoded_len map_event now p =
     (case queue p of
        [] \<Rightarrow> p
      | j # js \<Rightarrow>
          (let p' = p\<lparr>queue := js\<rparr>
           in case run_job encoded_len map_event now j p' of None \<Rightarrow> p' | Some q \<Rightarrow> q))"

section \<open>The ring\<close>

lemma pop_to_drop: "pop_to (Suc n) xs = last_n n xs"
  by (induction xs) (auto simp: last_n_def Suc_diff_le)

definition ring_wf :: "'e event_ring \<Rightarrow> bool" where
  "ring_wf r \<longleftrightarrow> length (ring_items r) \<le> capacity r"

lemma ring_push_items:
  assumes "ring_wf r"
  shows "ring_items (ring_push e r) = last_n (capacity r) (ring_items r @ [e])"
proof (cases "capacity r")
  case 0
  with assms show ?thesis by (simp add: ring_push_def ring_wf_def last_n_def)
next
  case (Suc n)
  then show ?thesis by (simp add: ring_push_def pop_to_drop last_n_snoc)
qed

lemma ring_push_capacity [simp]: "capacity (ring_push e r) = capacity r"
  by (simp add: ring_push_def)

lemma ring_push_wf: "ring_wf r \<Longrightarrow> ring_wf (ring_push e r)"
  using ring_push_items [of r e] by (simp add: ring_wf_def)

lemma ring_snapshot_last: "ring_snapshot n r = last_n n (ring_items r)"
  by (simp add: ring_snapshot_def last_n_def Let_def min_def)

section \<open>What publishing leaves behind\<close>

text \<open>
  The stream of an account that has published \<open>evs\<close>: consecutive sequence numbers, everything on the
  broadcast in that order, and in the ring the newest replayable ones.
\<close>

definition stream_ok :: "('e envelope \<Rightarrow> nat) \<Rightarrow> 'e event_ctx \<Rightarrow> bool" where
  "stream_ok encoded_len c \<longleftrightarrow>
     map monotonic_seq (broadcast c) = map int [0..<length (broadcast c)] \<and>
     seq c = int (length (broadcast c)) \<and>
     ring_items (ring c) =
       last_n (capacity (ring c))
         (filter (\<lambda>e. replayable encoded_len e (replay_max_event_bytes c)) (broadcast c))"

lemma stream_ok_ring: "stream_ok encoded_len c \<Longrightarrow> ring_wf (ring c)"
  by (simp add: stream_ok_def ring_wf_def)

lemma last_n_append_last_n: "last_n n (last_n n xs @ ys) = last_n n (xs @ ys)"
proof (cases "length xs \<le> n")
  case True
  then show ?thesis by simp
next
  case False
  then have "n \<le> length xs" by simp
  then show ?thesis by (cases "n \<le> length ys") (auto simp: last_n_def add.commute)
qed

lemma publish_stream_ok:
  assumes "stream_ok encoded_len c" and "length (broadcast c) < 2 ^ 63 - 1"
  shows "stream_ok encoded_len (publish_wire_event encoded_len now inner c)"
proof -
  have wf: "ring_wf (ring c)" using assms(1) by (rule stream_ok_ring)
  have succ: "i64_succ (int (length (broadcast c))) = int (length (broadcast c)) + 1"
    using assms(2) by (simp add: i64_succ_def)
  show ?thesis
    using assms(1) succ wf
    by (auto simp: stream_ok_def publish_wire_event_def Let_def ring_push_items last_n_append_last_n)
qed

lemma publish_broadcast:
  "broadcast (publish_wire_event encoded_len now inner c) =
     broadcast c @ [\<lparr>account_uuid = ctx_uuid c, monotonic_seq = seq c, ts_unix_ms = now, event = Some inner\<rparr>]"
  by (simp add: publish_wire_event_def Let_def)

lemma publish_uuid [simp]: "ctx_uuid (publish_wire_event encoded_len now inner c) = ctx_uuid c"
  "replay_max_event_bytes (publish_wire_event encoded_len now inner c) = replay_max_event_bytes c"
  "capacity (ring (publish_wire_event encoded_len now inner c)) = capacity (ring c)"
  by (simp_all add: publish_wire_event_def Let_def)

lemma dispatch_Nil [simp]: "dispatch encoded_len [] c = c"
  by (simp add: dispatch_def)

lemma dispatch_Cons [simp]:
  "dispatch encoded_len ((now, ev) # xs) c =
     dispatch encoded_len xs (publish_wire_event encoded_len now ev c)"
  by (simp add: dispatch_def)

lemma dispatch_events:
  "map event (broadcast (dispatch encoded_len xs c)) = map event (broadcast c) @ map (Some \<circ> snd) xs"
  by (induction xs arbitrary: c) (auto simp: publish_broadcast)

lemma dispatch_length [simp]:
  "length (broadcast (dispatch encoded_len xs c)) = length (broadcast c) + length xs"
  using dispatch_events [of encoded_len xs c] by (metis length_append length_map)

lemma dispatch_stream_ok:
  assumes "stream_ok encoded_len c" and "length (broadcast c) + length xs < 2 ^ 63"
  shows "stream_ok encoded_len (dispatch encoded_len xs c)"
  using assms
proof (induction xs arbitrary: c)
  case (Cons x xs)
  obtain now ev where x: "x = (now, ev)" by fastforce
  have "stream_ok encoded_len (publish_wire_event encoded_len now ev c)"
    using Cons.prems by (intro publish_stream_ok) auto
  then show ?case using Cons x by (simp add: publish_broadcast)
qed simp

lemma ctx_new_ok: "stream_ok encoded_len (ctx_new uuid n m)"
  by (simp add: stream_ok_def ctx_new_def ring_new_def)

lemma dispatch_fixed [simp]:
  "replay_max_event_bytes (dispatch encoded_len xs c) = replay_max_event_bytes c"
  "capacity (ring (dispatch encoded_len xs c)) = capacity (ring c)"
  by (induction xs arbitrary: c) auto

lemma dispatch_broadcast: "prefix (broadcast c) (broadcast (dispatch encoded_len xs c))"
proof (induction xs arbitrary: c)
  case (Cons x xs)
  obtain now ev where x: "x = (now, ev)" by fastforce
  from Cons [of "publish_wire_event encoded_len now ev c"] show ?case
    unfolding x dispatch_Cons publish_broadcast by (rule append_prefixD)
qed simp

section \<open>What the connection state says\<close>

text \<open>The state the events \<open>evs\<close>, oldest first, leave.\<close>

definition run_states :: "'l lib_event list \<Rightarrow> connection_state \<Rightarrow> connection_state" where
  "run_states evs st = fold update_state evs st"

text \<open>
  What the state should say: the newest event that sets one decides, except that a disconnect says
  nothing about an account that is logged out or banned.
\<close>

fun truth :: "'l lib_event list \<Rightarrow> connection_state \<Rightarrow> connection_state" where
  "truth [] st = st"
| "truth (ev # older) st =
     (case ev of
        LibOther _ \<Rightarrow> truth older st
      | LibDisconnected \<Rightarrow>
          (let before = truth older st in if is_terminal before then before else Disconnected)
      | LibConnected \<Rightarrow> Connected
      | LibPairSuccess \<Rightarrow> Connected
      | LibLoggedOut \<Rightarrow> LoggedOut
      | LibTemporaryBan \<Rightarrow> Banned)"

lemma run_states_truth: "run_states evs st = truth (rev evs) st"
proof (induction evs rule: rev_induct)
  case Nil
  then show ?case by (simp add: run_states_def)
next
  case (snoc ev evs)
  then show ?case
    by (cases ev) (auto simp: run_states_def update_state_def Let_def)
qed

lemma terminal_kept:
  assumes "is_terminal st" and "\<forall>ev\<in>set evs. next_state ev = None \<or> ev = LibDisconnected"
  shows "run_states evs st = st"
  using assms
proof (induction evs arbitrary: st)
  case (Cons ev evs)
  then have "update_state ev st = st" by (auto simp: update_state_def)
  with Cons show ?case by (simp add: run_states_def)
qed (simp add: run_states_def)

section \<open>The publisher task\<close>

text \<open>The wire events a queue publishes, in its order: a panicking mapping publishes none.\<close>

fun published_by :: "('l lib_event \<Rightarrow> 'e wire_event list option) \<Rightarrow> ('l, 'e) job \<Rightarrow> 'e wire_event list" where
  "published_by map_event (Lib ev) = (case map_event ev of None \<Rightarrow> [] | Some es \<Rightarrow> es)"
| "published_by map_event (Wire ev done) = [ev]"

definition drain_all ::
  "('e envelope \<Rightarrow> nat) \<Rightarrow> ('l lib_event \<Rightarrow> 'e wire_event list option) \<Rightarrow> i64 list \<Rightarrow>
   ('l, 'e) publisher \<Rightarrow> ('l, 'e) publisher" where
  "drain_all encoded_len map_event clock p = fold (drain_step encoded_len map_event) clock p"

lemma drain_step_events:
  assumes "queue p = j # js"
  shows "map event (broadcast (ctx (drain_step encoded_len map_event now p))) =
           map event (broadcast (ctx p)) @ map Some (published_by map_event j) \<and>
         queue (drain_step encoded_len map_event now p) = js"
  using assms
  by (cases j)
    (auto simp: drain_step_def run_job_def Let_def dispatch_events publish_broadcast comp_def
      split: option.splits)

lemma drain_step_empty [simp]: "queue p = [] \<Longrightarrow> drain_step encoded_len map_event now p = p"
  by (simp add: drain_step_def)

lemma drain_all_events:
  assumes "length clock = length (queue p)"
  shows "map event (broadcast (ctx (drain_all encoded_len map_event clock p))) =
           map event (broadcast (ctx p)) @ map Some (concat (map (published_by map_event) (queue p))) \<and>
         queue (drain_all encoded_len map_event clock p) = []"
  using assms
proof (induction "queue p" arbitrary: p clock)
  case Nil
  then show ?case by (simp add: drain_all_def)
next
  case (Cons j js)
  obtain now clock' where clock: "clock = now # clock'" using Cons by (cases clock) auto
  let ?p = "drain_step encoded_len map_event now p"
  have step: "map event (broadcast (ctx ?p)) =
      map event (broadcast (ctx p)) @ map Some (published_by map_event j)" "queue ?p = js"
    using drain_step_events [OF Cons.hyps(2) [symmetric], of encoded_len map_event now] by auto
  have q: "queue p = j # js" using Cons.hyps(2) by simp
  have "length clock' = length (queue ?p)" using Cons.prems q clock step(2) by simp
  from Cons.hyps(1) [OF step(2) [symmetric] this] step(1) show ?case
    unfolding drain_all_def clock q step(2) by simp
qed

lemma drain_step_stream_ok:
  assumes "stream_ok encoded_len (ctx p)"
    and "length (broadcast (ctx (drain_step encoded_len map_event now p))) < 2 ^ 63"
  shows "stream_ok encoded_len (ctx (drain_step encoded_len map_event now p))"
proof (cases "queue p")
  case (Cons j js)
  show ?thesis
  proof (cases j)
    case (Lib ev)
    with assms Cons show ?thesis
      by (auto simp: drain_step_def run_job_def Let_def dispatch_stream_ok split: option.splits)
  next
    case (Wire ev k)
    with assms Cons show ?thesis
      by (auto simp: drain_step_def run_job_def Let_def publish_broadcast publish_stream_ok)
  qed
qed (use assms in simp)

text \<open>A confirmed \<open>publish_wire\<close> is already on the broadcast, and in the ring when it belongs there.\<close>

lemma publish_wire_visible:
  assumes "c' = publish_wire_event encoded_len now ev c"
  shows "\<exists>e. event e = Some ev \<and> last (broadcast c') = e \<and> broadcast c' \<noteq> [] \<and>
             (capacity (ring c) > 0 \<and> replayable encoded_len e (replay_max_event_bytes c) \<longrightarrow>
                ring_items (ring c') \<noteq> [] \<and> last (ring_items (ring c')) = e)"
proof -
  define e where "e = \<lparr>account_uuid = ctx_uuid c, monotonic_seq = seq c, ts_unix_ms = now, event = Some ev\<rparr>"
  have bc: "broadcast c' = broadcast c @ [e]" by (simp add: assms publish_broadcast e_def)
  have ring: "ring c' = (if replayable encoded_len e (replay_max_event_bytes c)
      then ring_push e (ring c) else ring c)"
    by (simp add: assms publish_wire_event_def Let_def e_def)
  have "ring_items (ring_push e (ring c)) \<noteq> [] \<and> last (ring_items (ring_push e (ring c))) = e"
    if "capacity (ring c) > 0"
    using that by (simp add: ring_push_def)
  with bc ring show ?thesis by (intro exI [of _ e]) (auto simp: e_def)
qed

end
