(* ===== verification/Event_Service.thy ===== *)
theory Event_Service
  imports Event_Stream
begin

text \<open>
  The event subscriptions (\<open>services/event_service.rs\<close>): the gap markers, the forwarder of one
  account with its ring replay, and the all-accounts subscription that follows new accounts.

  What a receiver of the account's broadcast channel gives, and when the client hangs up, comes from
  outside: a forwarder is a function of the list of things it received. \<open>Ended\<close> is the client's
  hang-up or the daemon's shutdown while it waits.
\<close>

section \<open>Gap markers\<close>

fun debug_state :: "connection_state \<Rightarrow> string" where
  "debug_state Unspecified = ''Unspecified''"
| "debug_state Disconnected = ''Disconnected''"
| "debug_state Connecting = ''Connecting''"
| "debug_state Connected = ''Connected''"
| "debug_state LoggedOut = ''LoggedOut''"
| "debug_state Banned = ''Banned''"

definition gap_envelope :: "string \<Rightarrow> string \<Rightarrow> string \<Rightarrow> 'e envelope" where
  "gap_envelope uuid k n =
     \<lparr>account_uuid = uuid, monotonic_seq = -1, ts_unix_ms = 0,
      event = Some (Raw \<lparr>raw_kind = k, raw_payload = [], raw_note = n\<rparr>)\<rparr>"

definition gap_marker :: "string \<Rightarrow> nat \<Rightarrow> connection_state \<Rightarrow> 'e envelope" where
  "gap_marker uuid lagged st =
     gap_envelope uuid ''gap''
       (''dropped '' @ dec lagged @ '' events; state='' @ debug_state st @
        ''; resync via GetAccountStatus'')"

definition created_gap_marker :: "nat \<Rightarrow> 'e envelope" where
  "created_gap_marker lagged =
     gap_envelope [] ''subscription_gap''
       (''dropped '' @ dec lagged @ '' account-created notifications; newly created '' @
        ''accounts may be missing from this stream; re-subscribe or '' @ ''reconcile via ListAccounts'')"

section \<open>The outlet\<close>

text \<open>\<open>room\<close> is how many more sends the client takes before it hangs up, if it does.\<close>

record 'e outlet =
  delivered :: "'e envelope list"
  room :: "nat option"

definition tx_send :: "'e envelope \<Rightarrow> 'e outlet \<Rightarrow> 'e outlet option" where
  "tx_send e out =
     (case room out of
        Some 0 \<Rightarrow> None
      | r \<Rightarrow> Some (out\<lparr>delivered := delivered out @ [e], room := map_option (\<lambda>k. k - 1) r\<rparr>))"

section \<open>Forwarding one account\<close>

datatype 'e received = Received "'e envelope" | Lagged nat connection_state | Closed | Ended

text \<open>The replay: the highest replayed sequence number, or \<open>None\<close> when the client is gone.\<close>

fun replay_out :: "'e envelope list \<Rightarrow> i64 \<Rightarrow> 'e outlet \<Rightarrow> 'e outlet \<times> i64 option" where
  "replay_out [] last_replayed out = (out, Some last_replayed)"
| "replay_out (e # es) last_replayed out =
     (let l = max last_replayed (monotonic_seq e)
      in case tx_send e out of None \<Rightarrow> (out, None) | Some out' \<Rightarrow> replay_out es l out')"

fun live_out :: "string \<Rightarrow> i64 \<Rightarrow> 'e received list \<Rightarrow> 'e outlet \<Rightarrow> 'e outlet" where
  "live_out uuid last_replayed [] out = out"
| "live_out uuid last_replayed (Ended # rs) out = out"
| "live_out uuid last_replayed (Closed # rs) out = out"
| "live_out uuid last_replayed (Received e # rs) out =
     (if monotonic_seq e \<le> last_replayed then live_out uuid last_replayed rs out
      else case tx_send e out of
             None \<Rightarrow> out
           | Some out' \<Rightarrow> live_out uuid last_replayed rs out')"
| "live_out uuid last_replayed (Lagged n st # rs) out =
     (case tx_send (gap_marker uuid n st) out of
        None \<Rightarrow> out
      | Some out' \<Rightarrow> live_out uuid last_replayed rs out')"

definition forward :: "string \<Rightarrow> 'e event_ring \<Rightarrow> nat \<Rightarrow> 'e received list \<Rightarrow> 'e outlet \<Rightarrow> 'e outlet" where
  "forward uuid r replay received out =
     (case (if replay > 0 then replay_out (ring_snapshot replay r) (-1) out else (out, Some (-1))) of
        (out', None) \<Rightarrow> out'
      | (out', Some last_replayed) \<Rightarrow> live_out uuid last_replayed received out')"

section \<open>Following every account\<close>

text \<open>
  An account is known by its uuid here. \<open>forward_all_accounts\<close> attaches a forwarder to each account
  of the snapshot with the client's replay, and \<open>follow_created_step\<close> one to each account created
  later with the full ring. \<open>attached\<close> is the forwarders started, in order.
\<close>

datatype created = Created string | CreatedLagged nat | CreatedClosed | CreatedEnded

record 'e follower =
  attached :: "(string \<times> nat) list"
  f_out :: "'e outlet"

definition follow_created_step ::
  "string set \<Rightarrow> nat \<Rightarrow> created \<Rightarrow> 'e follower \<Rightarrow> 'e follower \<times> bool" where
  "follow_created_step snapshot_uuids usize_max c f =
     (case c of
        CreatedEnded \<Rightarrow> (f, False)
      | Created uuid \<Rightarrow>
          (if uuid \<in> snapshot_uuids then f else f\<lparr>attached := attached f @ [(uuid, usize_max)]\<rparr>, True)
      | CreatedLagged missed \<Rightarrow>
          (case tx_send (created_gap_marker missed) (f_out f) of
             None \<Rightarrow> (f, False)
           | Some o' \<Rightarrow> (f\<lparr>f_out := o'\<rparr>, True))
      | CreatedClosed \<Rightarrow> (f, False))"

fun follow_created_accounts ::
  "string set \<Rightarrow> nat \<Rightarrow> created list \<Rightarrow> 'e follower \<Rightarrow> 'e follower" where
  "follow_created_accounts snapshot_uuids usize_max [] f = f"
| "follow_created_accounts snapshot_uuids usize_max (c # cs) f =
     (case follow_created_step snapshot_uuids usize_max c f of
        (f', True) \<Rightarrow> follow_created_accounts snapshot_uuids usize_max cs f'
      | (f', False) \<Rightarrow> f')"

definition forward_all_accounts ::
  "string list \<Rightarrow> nat \<Rightarrow> nat \<Rightarrow> created list \<Rightarrow> 'e outlet \<Rightarrow> 'e follower" where
  "forward_all_accounts snapshot replay usize_max cs out =
     follow_created_accounts (set snapshot) usize_max cs
       \<lparr>attached = map (\<lambda>u. (u, replay)) snapshot, f_out = out\<rparr>"

section \<open>Replay\<close>

lemma tx_send_open [simp]:
  "room out = None \<Longrightarrow> tx_send e out = Some (out\<lparr>delivered := delivered out @ [e]\<rparr>)"
  by (cases out) (simp add: tx_send_def)

lemma replay_out_open:
  assumes "room out = None"
  shows "replay_out es l out =
           (out\<lparr>delivered := delivered out @ es\<rparr>, Some (fold (\<lambda>e l. max l (monotonic_seq e)) es l))"
  using assms by (induction es arbitrary: l out) (simp_all add: Let_def)

lemma live_out_open:
  assumes "room out = None"
  shows "live_out uuid l (map Received es) out =
           out\<lparr>delivered := delivered out @ filter (\<lambda>e. l < monotonic_seq e) es\<rparr>"
  using assms by (induction es arbitrary: out) (auto simp: not_le)

lemma fold_max_less:
  "fold (\<lambda>e l. max l (monotonic_seq e)) es l < s \<longleftrightarrow> l < s \<and> (\<forall>e\<in>set es. monotonic_seq e < s)"
  by (induction es arbitrary: l) auto

text \<open>What a forwarder whose client stays delivers: the replay, and the live events after all of it.\<close>

lemma forward_open:
  assumes "room out = None"
  shows "delivered (forward uuid r replay (map Received live) out) =
           delivered out @ ring_snapshot replay r @
           filter (\<lambda>e. 0 \<le> monotonic_seq e \<and>
                       (\<forall>r\<in>set (ring_snapshot replay r). monotonic_seq r < monotonic_seq e)) live"
proof -
  have pos: "- 1 < s \<longleftrightarrow> 0 \<le> s" for s :: int by linarith
  show ?thesis
  proof (cases "replay > 0")
    case True
    with assms show ?thesis
      by (simp add: forward_def replay_out_open live_out_open fold_max_less pos)
  next
    case False
    then have "ring_snapshot replay r = []" by (simp add: ring_snapshot_def)
    with False assms show ?thesis by (simp add: forward_def live_out_open pos)
  qed
qed

section \<open>One stream, no duplicates, nothing lost\<close>

text \<open>
  \<open>P\<close> is everything an account publishes, with consecutive sequence numbers. A forwarder subscribes
  after the first \<open>a\<close> of them and takes its snapshot when \<open>b\<close> of them have been offered to the ring.
\<close>

definition numbered :: "'e envelope list \<Rightarrow> bool" where
  "numbered P \<longleftrightarrow> map monotonic_seq P = map int [0..<length P]"

lemma numbered_nth: "numbered P \<Longrightarrow> i < length P \<Longrightarrow> monotonic_seq (P ! i) = int i"
  unfolding numbered_def by (metis add_0 diff_zero length_map length_upt nth_map nth_upt)

lemma numbered_take: "numbered P \<Longrightarrow> e \<in> set (take b P) \<Longrightarrow> monotonic_seq e < int b"
  by (auto simp: in_set_conv_nth numbered_nth)

lemma numbered_drop: "numbered P \<Longrightarrow> e \<in> set (drop b P) \<Longrightarrow> int b \<le> monotonic_seq e"
  by (auto simp: in_set_conv_nth numbered_nth)

lemma numbered_nonneg: "numbered P \<Longrightarrow> e \<in> set P \<Longrightarrow> 0 \<le> monotonic_seq e"
  using numbered_drop [of P e 0] by simp

lemma numbered_sorted: "numbered P \<Longrightarrow> sorted_wrt (<) (map monotonic_seq P)"
  by (simp add: numbered_def strict_sorted_iff sorted_map distinct_map)

lemma sorted_wrt_last_n: "sorted_wrt R xs \<Longrightarrow> sorted_wrt R (last_n n xs)"
  by (simp add: last_n_def sorted_wrt_drop)

lemma sorted_map_filter: "sorted_wrt (<) (map f xs) \<Longrightarrow> sorted_wrt (<) (map f (filter Q xs))"
  by (induction xs) auto

lemma last_n_map: "last_n n (map f xs) = map f (last_n n xs)"
  by (simp add: last_n_def drop_map)

lemma replay_sorted:
  assumes "numbered P" "ring_items r = last_n (capacity r) (filter Q (take b P))"
  shows "sorted_wrt (<) (map monotonic_seq (ring_snapshot n r))"
proof -
  have "sorted_wrt (<) (map monotonic_seq (take b P))"
    using numbered_sorted [OF assms(1)] by (metis sorted_wrt_take take_map)
  then show ?thesis
    unfolding ring_snapshot_last assms(2)
    by (simp add: last_n_map [symmetric] sorted_wrt_last_n sorted_map_filter)
qed

lemma delivered_sorted:
  assumes "numbered P" "ring_items r = last_n (capacity r) (filter Q (take b P))"
  shows "sorted_wrt (<) (map monotonic_seq
    (delivered (forward uuid r replay (map Received (drop a P)) \<lparr>delivered = [], room = None\<rparr>)))"
proof -
  have live: "sorted_wrt (<) (map monotonic_seq (drop a P))"
    using numbered_sorted [OF assms(1)] by (metis sorted_wrt_drop drop_map)
  then have "sorted_wrt (<) (map monotonic_seq (filter R (drop a P)))" for R
    by (rule sorted_map_filter)
  then show ?thesis
    using replay_sorted [OF assms, of replay] by (auto simp: forward_open sorted_wrt_append)
qed

text \<open>The replay reaches back to the subscribe when what was published in between fits it.\<close>

lemma snapshot_overlap:
  assumes "a \<le> b" "\<forall>e\<in>set (drop a (take b P)). Q e" "length (drop a (take b P)) \<le> min n (capacity r)"
    and "ring_items r = last_n (capacity r) (filter Q (take b P))"
  shows "ring_snapshot n r =
           last_n (min n (capacity r) - length (drop a (take b P))) (filter Q (take a P)) @
           drop a (take b P)"
proof -
  let ?mid = "drop a (take b P)" and ?k = "min n (capacity r)"
  have "take b P = take a P @ ?mid" by (metis append_take_drop_id assms(1) min.absorb1 take_take)
  then have "filter Q (take b P) = filter Q (take a P) @ ?mid"
    using assms(2) by (metis filter_True filter_append)
  moreover have "last_n ?k (xs @ ?mid) = last_n (?k - length ?mid) xs @ ?mid" for xs
    using assms(3) by (simp add: last_n_def)
  ultimately show ?thesis by (simp add: ring_snapshot_last assms(4))
qed

lemma exactly_once:
  assumes P: "numbered P" and ab: "a \<le> b" "b \<le> length P"
    and ring: "ring_items r = last_n (capacity r) (filter Q (take b P))"
    and mid: "\<forall>e\<in>set (drop a (take b P)). Q e" "b - a \<le> min n (capacity r)"
  shows "delivered (forward uuid r n (map Received (drop a P)) \<lparr>delivered = [], room = None\<rparr>) =
           last_n (min n (capacity r) - (b - a)) (filter Q (take a P)) @ drop a P"
proof -
  let ?mid = "drop a (take b P)"
  have len: "length ?mid = b - a" using ab by simp
  have snap: "ring_snapshot n r = last_n (min n (capacity r) - (b - a)) (filter Q (take a P)) @ ?mid"
    using snapshot_overlap [OF ab(1) mid(1) _ ring] mid(2) len by simp
  have split: "drop a P = ?mid @ drop b P"
    using ab by (metis append_take_drop_id drop_append drop_drop drop_take le_add_diff_inverse2)
  have old: "set (ring_snapshot n r) \<subseteq> set (take b P)"
    unfolding ring_snapshot_last ring using set_last_n_subset by fastforce
  have skip: "filter (\<lambda>e. 0 \<le> monotonic_seq e \<and>
      (\<forall>x\<in>set (ring_snapshot n r). monotonic_seq x < monotonic_seq e)) ?mid = []"
  proof (rule filter_False, rule ballI)
    fix e assume "e \<in> set ?mid"
    then show "\<not> (0 \<le> monotonic_seq e \<and> (\<forall>x\<in>set (ring_snapshot n r). monotonic_seq x < monotonic_seq e))"
      using snap by auto
  qed
  have keep: "filter (\<lambda>e. 0 \<le> monotonic_seq e \<and>
      (\<forall>x\<in>set (ring_snapshot n r). monotonic_seq x < monotonic_seq e)) (drop b P) = drop b P"
  proof (rule filter_True, intro ballI conjI)
    fix e assume e: "e \<in> set (drop b P)"
    then show "0 \<le> monotonic_seq e" using numbered_drop [OF P e] by simp
    fix x assume "x \<in> set (ring_snapshot n r)"
    then show "monotonic_seq x < monotonic_seq e"
      using old numbered_take [OF P] numbered_drop [OF P e] by fastforce
  qed
  have "filter (\<lambda>e. 0 \<le> monotonic_seq e \<and>
      (\<forall>x\<in>set (ring_snapshot n r). monotonic_seq x < monotonic_seq e)) (drop a P) = drop b P"
    unfolding split filter_append skip keep by simp
  then have "delivered (forward uuid r n (map Received (drop a P)) \<lparr>delivered = [], room = None\<rparr>) =
      ring_snapshot n r @ drop b P" by (simp add: forward_open)
  also have "\<dots> = last_n (min n (capacity r) - (b - a)) (filter Q (take a P)) @ drop a P"
    using snap split by (metis append_assoc)
  finally show ?thesis .
qed

lemma live_only:
  assumes "numbered P"
  shows "delivered (forward uuid r 0 (map Received (drop a P)) \<lparr>delivered = [], room = None\<rparr>) = drop a P"
proof -
  have "\<forall>e\<in>set (drop a P). 0 \<le> monotonic_seq e"
    using numbered_nonneg [OF assms] by (meson in_set_dropD)
  then show ?thesis by (simp add: forward_open ring_snapshot_def)
qed

section \<open>Membership of an all-accounts stream\<close>

lemma follow_created_attached:
  "attached (follow_created_accounts U m (map Created us) f) =
     attached f @ map (\<lambda>u. (u, m)) (filter (\<lambda>u. u \<notin> U) us)"
  by (induction us arbitrary: f) (auto simp: follow_created_step_def)

lemma forward_all_members:
  assumes "distinct A" "a \<le> b" "distinct snapshot" "set snapshot = set (take b A)"
  shows "distinct (map fst (attached (forward_all_accounts snapshot n m (map Created (drop a A)) out))) \<and>
         set (map fst (attached (forward_all_accounts snapshot n m (map Created (drop a A)) out))) = set A"
proof -
  let ?F = "filter (\<lambda>u. u \<notin> set snapshot) (drop a A)"
  have "map fst (attached (forward_all_accounts snapshot n m (map Created (drop a A)) out)) = snapshot @ ?F"
    by (simp add: forward_all_accounts_def follow_created_attached comp_def)
  moreover have "distinct (snapshot @ ?F)" using assms by auto
  moreover have "set A \<subseteq> set (snapshot @ ?F)"
  proof
    fix u assume "u \<in> set A"
    moreover have "set A = set (take b A) \<union> set (drop b A)" by (metis append_take_drop_id set_append)
    moreover have "set (drop b A) \<subseteq> set (drop a A)" using assms(2) by (simp add: set_drop_subset_set_drop)
    ultimately show "u \<in> set (snapshot @ ?F)" using assms(4) by auto
  qed
  moreover have "set (snapshot @ ?F) \<subseteq> set A"
    using assms(4) by (auto dest: in_set_dropD in_set_takeD)
  ultimately show ?thesis by auto
qed

section \<open>The properties\<close>

text \<open>A small account for the witnesses: every event is one byte long, the ring holds four.\<close>

definition demo_len :: "nat envelope \<Rightarrow> nat" where
  "demo_len _ = 1"

definition demo_ctx :: "(i64 \<times> nat wire_event) list \<Rightarrow> nat event_ctx" where
  "demo_ctx xs = dispatch demo_len xs (ctx_new ''acc'' 4 0)"

text \<open>
  C5. An account numbers what it publishes 0, 1, 2, ... without a gap, broadcasts all of it in that
  order, and its ring holds exactly the newest replayable events, never more than its capacity and
  never a history sync or an event over the size cap.
\<close>

theorem event_ring_holds_newest:
  assumes "length xs < 2 ^ 63" and "c = dispatch encoded_len xs (ctx_new uuid n m)"
  shows "map monotonic_seq (broadcast c) = map int [0..<length xs] \<and>
         map event (broadcast c) = map (Some \<circ> snd) xs \<and>
         ring_items (ring c) = last_n n (filter (\<lambda>e. replayable encoded_len e m) (broadcast c))"
proof -
  have "stream_ok encoded_len c"
    unfolding assms(2) using assms(1) by (intro dispatch_stream_ok ctx_new_ok) (simp add: ctx_new_def)
  then show ?thesis
    by (simp add: stream_ok_def assms(2) dispatch_events) (simp add: ctx_new_def ring_new_def)
qed

theorem event_ring_holds_newest_witness:
  "ring_items (ring (demo_ctx [(9, OtherEvent 1), (9, HistorySync 2), (9, OtherEvent 3)])) =
   last_n 4 (filter (\<lambda>e. replayable demo_len e 0)
     (broadcast (demo_ctx [(9, OtherEvent 1), (9, HistorySync 2), (9, OtherEvent 3)])))"
  using event_ring_holds_newest
    [of "[(9, OtherEvent 1), (9, HistorySync 2), (9, OtherEvent 3)]" _ demo_len "''acc''" 4 0]
  by (simp add: demo_ctx_def)











end
