(* ===== verification/Wamux_Error.thy ===== *)
theory Wamux_Error
  imports Store_Error
begin

text \<open>
  The daemon's error type and what a client sees of it (\<open>wamux-types/src/error.rs\<close>,
  \<open>wamux/src/error.rs\<close>): \<open>WamuxError\<close>, its conversion to a gRPC status, and the lifting of a
  WhatsApp server's rejection out of a library error's cause chain.

  A status is its code, its message and its metadata. Whether a text is a legal metadata value is
  tonic's rule, an argument here. A cause of the library's error chain is one of the types the code
  downcasts to, with its display text; every other type is \<open>OtherCause\<close>.
\<close>

section \<open>The error and its status\<close>

datatype wamux_error =
    AccountNotFound string
  | NotFound string
  | NotConnected
  | InvalidArgument string
  | FailedPrecondition string
  | ResourceExhausted string
  | PeerNotAllowed "u32 option" "u32 option"
  | Store store_error
  | Client string
  | WaServer u16 string
  | Other string

datatype grpc_code =
    CodeInvalidArgument | CodeUnauthenticated | CodePermissionDenied | CodeNotFound
  | CodeResourceExhausted | CodeFailedPrecondition | CodeInternal | CodeUnavailable

record status =
  status_code :: grpc_code
  message :: string
  metadata :: "string \<rightharpoonup> string"

definition plain_status :: "grpc_code \<Rightarrow> string \<Rightarrow> status" where
  "plain_status c m = \<lparr>status_code = c, message = m, metadata = Map.empty\<rparr>"

definition is_ascii :: "string \<Rightarrow> bool" where
  "is_ascii s \<longleftrightarrow> list_all (\<lambda>c. of_char c < (128 :: nat)) s"

definition wa_grpc_code :: "u16 \<Rightarrow> grpc_code" where
  "wa_grpc_code code =
     (if code = 400 then CodeInvalidArgument
      else if code = 401 then CodeUnauthenticated
      else if code = 403 then CodePermissionDenied
      else if code = 404 then CodeNotFound
      else if code = 405 then CodePermissionDenied
      else if code = 429 then CodeResourceExhausted
      else CodeUnavailable)"

definition wa_server_status :: "(string \<Rightarrow> bool) \<Rightarrow> u16 \<Rightarrow> string \<Rightarrow> string \<Rightarrow> status" where
  "wa_server_status valid code txt msg =
     (let s = plain_status (wa_grpc_code code) msg;
          digits = dec (unat code);
          s1 = (if valid digits then s\<lparr>metadata := (metadata s)(''wa-code'' \<mapsto> digits)\<rparr> else s)
      in if is_ascii txt \<and> valid txt
         then s1\<lparr>metadata := (metadata s1)(''wa-text'' \<mapsto> txt)\<rparr> else s1)"

definition wa_server_text :: "u16 \<Rightarrow> string \<Rightarrow> string" where
  "wa_server_text code txt =
     ''whatsapp server rejected the request: code='' @ dec (unat code) @ '', text='' @ [CHR 0x27] @ txt @ [CHR 0x27]"

fun status_from :: "(string \<Rightarrow> bool) \<Rightarrow> wamux_error \<Rightarrow> status" where
  "status_from valid (AccountNotFound uid) = plain_status CodeNotFound (''account '' @ uid @ '' not found'')"
| "status_from valid (NotFound m) = plain_status CodeNotFound m"
| "status_from valid NotConnected = plain_status CodeFailedPrecondition ''account is not connected''"
| "status_from valid (InvalidArgument m) = plain_status CodeInvalidArgument m"
| "status_from valid (FailedPrecondition m) = plain_status CodeFailedPrecondition m"
| "status_from valid (ResourceExhausted m) = plain_status CodeResourceExhausted m"
| "status_from valid (PeerNotAllowed uid gid) = plain_status CodePermissionDenied ''peer not allowed''"
| "status_from valid (Store e) = plain_status CodeInternal ''internal error''"
| "status_from valid (Other e) = plain_status CodeInternal ''internal error''"
| "status_from valid (Client e) = plain_status CodeUnavailable ''whatsapp operation failed''"
| "status_from valid (WaServer code txt) = wa_server_status valid code txt (wa_server_text code txt)"

section \<open>Library errors\<close>

datatype cause =
    ServerErrorCode u16 string
  | ClientIqServerError u16 string
  | WacoreIqServerError u16 string
  | DescriptionConflict
  | MexGraphQl int string
  | InvalidPoll
  | AppStateInvalidRequest
  | OtherCause

record library_error =
  cause_of :: cause
  display :: string

definition u16_try_from :: "int \<Rightarrow> u16 option" where
  "u16_try_from i = (if 0 \<le> i \<and> i < 2 ^ 16 then Some (word_of_int i) else None)"

definition mex_server_rejection :: "library_error \<Rightarrow> (u16 \<times> string) option" where
  "mex_server_rejection e =
     (case cause_of e of
        MexGraphQl code m \<Rightarrow> map_option (\<lambda>c. (c, m)) (u16_try_from code)
      | _ \<Rightarrow> None)"

definition iq_server_rejection :: "library_error \<Rightarrow> (u16 \<times> string) option" where
  "iq_server_rejection e =
     (case cause_of e of
        ServerErrorCode code t \<Rightarrow> Some (code, t)
      | ClientIqServerError code t \<Rightarrow> Some (code, t)
      | WacoreIqServerError code t \<Rightarrow> Some (code, t)
      | DescriptionConflict \<Rightarrow> Some (409, display e)
      | _ \<Rightarrow> mex_server_rejection e)"

definition invalid_request_message :: "library_error \<Rightarrow> string option" where
  "invalid_request_message e =
     (case cause_of e of
        InvalidPoll \<Rightarrow> Some (display e)
      | AppStateInvalidRequest \<Rightarrow> Some (display e)
      | _ \<Rightarrow> None)"

primrec find_map :: "('a \<Rightarrow> 'b option) \<Rightarrow> 'a list \<Rightarrow> 'b option" where
  "find_map f [] = None"
| "find_map f (x # xs) = (case f x of Some y \<Rightarrow> Some y | None \<Rightarrow> find_map f xs)"

fun chain_text :: "library_error list \<Rightarrow> string" where
  "chain_text [] = []"
| "chain_text [e] = display e"
| "chain_text (e # es) = display e @ '': '' @ chain_text es"

definition client_err :: "library_error list \<Rightarrow> wamux_error" where
  "client_err chain =
     (case find_map iq_server_rejection chain of
        Some (code, t) \<Rightarrow> WaServer code t
      | None \<Rightarrow>
          (case find_map invalid_request_message chain of
             Some reason \<Rightarrow> InvalidArgument reason
           | None \<Rightarrow> Client (chain_text chain)))"

section \<open>What the client learns\<close>

lemma find_map_None_iff: "find_map f xs = None \<longleftrightarrow> (\<forall>x\<in>set xs. f x = None)"
  by (induction xs) (auto split: option.splits)

lemma find_map_first:
  assumes "\<forall>x\<in>set xs. f x = None" "f y = Some z"
  shows "find_map f (xs @ y # ys) = Some z"
  using assms by (induction xs) auto

lemma wa_server_status_code [simp]: "status_code (wa_server_status valid code t m) = wa_grpc_code code"
  by (simp add: wa_server_status_def plain_status_def Let_def)

lemma wa_server_status_trailers:
  "metadata (wa_server_status valid code t m) ''wa-code'' =
     (if valid (dec (unat code)) then Some (dec (unat code)) else None)"
  "metadata (wa_server_status valid code t m) ''wa-text'' = (if is_ascii t \<and> valid t then Some t else None)"
  by (simp_all add: wa_server_status_def plain_status_def Let_def)





end
