(* ===== verification/Account_Store.thy ===== *)
theory Account_Store
  imports Store_Error
begin

text \<open>
  The \<open>accounts\<close> table (\<open>storage/sql/accounts.rs\<close>, \<open>storage/statements/accounts.rs\<close>), the interface
  the registry has of it (\<open>StorageEngine\<close> of \<open>storage/engine.rs\<close>), and that the table keeps the
  interface's laws.

  A uuid is its text. \<open>Uuid::new_v4\<close> draws from \<open>uuids\<close>, the stream of values the generator gives;
  the table's constraints are those of the migrations: the uuid is the primary key, \<open>external_ref\<close> is
  unique, and \<open>device_id\<close> counts up.
\<close>

section \<open>Data\<close>

record account_row =
  ar_uuid :: string
  ar_external_ref :: "string option"
  ar_device_id :: nat
  ar_push_name :: "string option"
  ar_created_at :: i64

record accounts_db =
  rows :: "account_row list"
  next_device_id :: nat
  uuids :: "nat \<Rightarrow> string"
  drawn :: nat
  clock :: i64
  reachable :: bool

definition accounts_new :: "(nat \<Rightarrow> string) \<Rightarrow> accounts_db" where
  "accounts_new src =
     \<lparr>rows = [], next_device_id = 1, uuids = src, drawn = 0, clock = 0, reachable = True\<rparr>"

section \<open>The statements\<close>

text \<open>\<open>INSERT_ACCOUNT\<close>: a row whose uuid or external reference is taken is refused by its constraint.\<close>

definition insert_account :: "string \<Rightarrow> string option \<Rightarrow> accounts_db \<Rightarrow> accounts_db \<times> (store_error + account_row)" where
  "insert_account uuid external db =
     (if uuid \<in> ar_uuid ` set (rows db) \<or>
         (external \<noteq> None \<and> external \<in> ar_external_ref ` set (rows db))
      then (db, Inl (Database ''UNIQUE constraint failed''))
      else let row = \<lparr>ar_uuid = uuid, ar_external_ref = external, ar_device_id = next_device_id db,
                      ar_push_name = None, ar_created_at = clock db\<rparr>
           in (db\<lparr>rows := rows db @ [row], next_device_id := next_device_id db + 1\<rparr>, Inr row))"

definition create_account :: "string option \<Rightarrow> accounts_db \<Rightarrow> accounts_db \<times> (store_error + account_row)" where
  "create_account external db =
     (let uuid = uuids db (drawn db); db1 = db\<lparr>drawn := drawn db + 1\<rparr>
      in if \<not> reachable db1 then (db1, Inl (Connection ''storage unreachable''))
         else insert_account uuid external db1)"

definition list_accounts :: "accounts_db \<Rightarrow> store_error + account_row list" where
  "list_accounts db =
     (if \<not> reachable db then Inl (Connection ''storage unreachable'')
      else Inr (sort_key ar_device_id (rows db)))"

definition delete_account :: "string \<Rightarrow> accounts_db \<Rightarrow> accounts_db \<times> (store_error + bool)" where
  "delete_account uuid db =
     (if \<not> reachable db then (db, Inl (Connection ''storage unreachable''))
      else (db\<lparr>rows := filter (\<lambda>r. ar_uuid r \<noteq> uuid) (rows db)\<rparr>,
            Inr (length (filter (\<lambda>r. ar_uuid r = uuid) (rows db)) > 0)))"

section \<open>The interface\<close>

text \<open>What the registry calls, on a storage of type \<open>'s\<close>.\<close>

record 's storage_engine =
  se_create :: "string option \<Rightarrow> 's \<Rightarrow> 's \<times> (store_error + account_row)"
  se_list :: "'s \<Rightarrow> store_error + account_row list"
  se_delete :: "string \<Rightarrow> 's \<Rightarrow> 's \<times> (store_error + bool)"

definition accounts_engine :: "accounts_db storage_engine" where
  "accounts_engine = \<lparr>se_create = create_account, se_list = list_accounts, se_delete = delete_account\<rparr>"

text \<open>
  \<open>stored s\<close> is the accounts a storage holds. Distinct accounts have distinct uuids and distinct
  external references, an account is listed once, and an operation that failed changed nothing.
\<close>

locale account_storage =
  fixes E :: "'s storage_engine"
    and wf :: "'s \<Rightarrow> bool"
    and stored :: "'s \<Rightarrow> account_row set"
  assumes wf_uuid: "wf s \<Longrightarrow> r \<in> stored s \<Longrightarrow> r' \<in> stored s \<Longrightarrow> ar_uuid r = ar_uuid r' \<Longrightarrow> r = r'"
    and wf_external: "wf s \<Longrightarrow> r \<in> stored s \<Longrightarrow> r' \<in> stored s \<Longrightarrow>
          ar_external_ref r = ar_external_ref r' \<Longrightarrow> ar_external_ref r \<noteq> None \<Longrightarrow> r = r'"
    and create_ok: "wf s \<Longrightarrow> se_create E x s = (s', Inr r) \<Longrightarrow>
          wf s' \<and> stored s' = insert r (stored s) \<and> ar_external_ref r = x \<and> r \<notin> stored s"
    and create_err: "wf s \<Longrightarrow> se_create E x s = (s', Inl e) \<Longrightarrow> wf s' \<and> stored s' = stored s"
    and list_ok: "wf s \<Longrightarrow> se_list E s = Inr rs \<Longrightarrow> set rs = stored s \<and> distinct rs"
    and delete_ok: "wf s \<Longrightarrow> se_delete E u s = (s', Inr b) \<Longrightarrow>
          wf s' \<and> stored s' = {r \<in> stored s. ar_uuid r \<noteq> u} \<and> (b \<longleftrightarrow> u \<in> ar_uuid ` stored s)"
    and delete_err: "wf s \<Longrightarrow> se_delete E u s = (s', Inl e) \<Longrightarrow> wf s' \<and> stored s' = stored s"
begin

lemma create_fresh:
  assumes "wf s" "se_create E x s = (s', Inr r)" "r' \<in> stored s"
  shows "ar_uuid r' \<noteq> ar_uuid r \<and> (ar_external_ref r' = ar_external_ref r \<longrightarrow> x = None)"
proof -
  have c: "wf s'" "stored s' = insert r (stored s)" "ar_external_ref r = x" "r \<notin> stored s"
    using create_ok [OF assms(1,2)] by auto
  have in_s: "r \<in> stored s'" "r' \<in> stored s'" "r \<noteq> r'" using c assms(3) by auto
  show ?thesis
    using wf_uuid [OF c(1) in_s(1,2)] wf_external [OF c(1) in_s(1,2)] in_s(3) c(3) by metis
qed

end

section \<open>The table keeps the laws\<close>

definition accounts_wf :: "accounts_db \<Rightarrow> bool" where
  "accounts_wf db \<longleftrightarrow>
     distinct (map ar_uuid (rows db)) \<and> distinct (map ar_device_id (rows db)) \<and>
     distinct (filter (\<lambda>x. x \<noteq> None) (map ar_external_ref (rows db))) \<and>
     (\<forall>r\<in>set (rows db). ar_device_id r < next_device_id db)"

lemma distinct_filter_map_unique:
  assumes "distinct (filter P (map f xs))" "x \<in> set xs" "y \<in> set xs" "f x = f y" "P (f x)"
  shows "x = y"
  using assms
proof (induction xs)
  case (Cons a xs)
  show ?case
  proof (cases "P (f a)")
    case True
    with Cons.prems have new: "f a \<noteq> f z" if "z \<in> set xs" for z using that by auto
    with Cons.prems have "x = a \<longleftrightarrow> y = a" by (metis set_ConsD)
    moreover have "x = y" if "x \<in> set xs" "y \<in> set xs"
      using Cons True that by (intro Cons.IH) auto
    ultimately show ?thesis using Cons.prems(2,3) by auto
  next
    case False
    with Cons show ?thesis by auto
  qed
qed simp

lemma distinct_map_filter: "distinct (map f xs) \<Longrightarrow> distinct (map f (filter P xs))"
  by (induction xs) auto

lemma insert_account_cases:
  assumes "insert_account u x db = (db', r)"
  obtains (refused) e where "r = Inl e" "db' = db"
  | (inserted) row where "r = Inr row" "u \<notin> ar_uuid ` set (rows db)"
      "x = None \<or> x \<notin> ar_external_ref ` set (rows db)"
      "row = \<lparr>ar_uuid = u, ar_external_ref = x, ar_device_id = next_device_id db,
              ar_push_name = None, ar_created_at = clock db\<rparr>"
      "db' = db\<lparr>rows := rows db @ [row], next_device_id := next_device_id db + 1\<rparr>"
proof (cases "u \<in> ar_uuid ` set (rows db) \<or> (x \<noteq> None \<and> x \<in> ar_external_ref ` set (rows db))")
  case True
  with assms show thesis by (intro refused) (auto simp: insert_account_def)
next
  case False
  with assms show thesis by (intro inserted) (auto simp: insert_account_def Let_def)
qed

lemma insert_account_wf:
  assumes "accounts_wf db" "insert_account u x db = (db', r)"
  shows "accounts_wf db'"
  using assms(2)
proof (cases rule: insert_account_cases)
  case (refused e)
  with assms(1) show ?thesis by simp
next
  case (inserted row)
  with assms(1) show ?thesis by (auto simp: accounts_wf_def less_Suc_eq)
qed

lemma accounts_wf_drawn [simp]: "accounts_wf (db\<lparr>drawn := n\<rparr>) = accounts_wf db"
  by (simp add: accounts_wf_def)

lemma distinct_filter_filter:
  "distinct (filter P (map f xs)) \<Longrightarrow> distinct (filter P (map f (filter Q xs)))"
  by (induction xs) auto

interpretation accounts: account_storage accounts_engine accounts_wf "\<lambda>db. set (rows db)"
proof (unfold_locales, goal_cases)
  case (1 s r r')
  then show ?case by (auto simp: accounts_wf_def distinct_map inj_on_def)
next
  case (2 s r r')
  then show ?case by (auto simp: accounts_wf_def intro: distinct_filter_map_unique)
next
  case (3 s x s' r)
  let ?s = "s\<lparr>drawn := drawn s + 1\<rparr>"
  from 3(2) have ins: "insert_account (uuids s (drawn s)) x ?s = (s', Inr r)"
    by (simp add: accounts_engine_def create_account_def Let_def split: if_splits)
  have "accounts_wf s'" using insert_account_wf [OF _ ins] 3(1) by simp
  from ins show ?case
  proof (cases rule: insert_account_cases)
    case (inserted row)
    have "ar_uuid row \<notin> ar_uuid ` set (rows s)" using inserted(2,4) by simp
    then have "row \<notin> set (rows s)" by blast
    with \<open>accounts_wf s'\<close> inserted show ?thesis by simp
  qed simp
next
  case (4 s x s' e)
  then have "s' = s\<lparr>drawn := drawn s + 1\<rparr>"
    by (auto simp: accounts_engine_def create_account_def insert_account_def Let_def split: if_splits)
  with 4(1) show ?case by simp
next
  case (5 s rs)
  then show ?case
    by (auto simp: accounts_engine_def list_accounts_def accounts_wf_def distinct_map split: if_splits)
next
  case (6 s u s' b)
  then have s': "s' = s\<lparr>rows := filter (\<lambda>r. ar_uuid r \<noteq> u) (rows s)\<rparr>"
    and b: "b \<longleftrightarrow> (\<exists>r\<in>set (rows s). ar_uuid r = u)"
    by (auto simp: accounts_engine_def delete_account_def filter_empty_conv split: if_splits)
  have "accounts_wf s'"
    using 6(1) unfolding s' by (auto simp: accounts_wf_def distinct_map_filter distinct_filter_filter)
  with s' b show ?case by auto
next
  case (7 s u s' e)
  then show ?case by (auto simp: accounts_engine_def delete_account_def split: if_splits)
qed

end
