(* ===== verification/Account_Registry.thy ===== *)
theory Account_Registry
  imports Account_Store Wamux_Error Event_Stream
begin

text \<open>
  The account registry and the account handles (\<open>state/account_registry.rs\<close>,
  \<open>state/account_handle.rs\<close>): creating, resolving, connecting, stopping, logging out and deleting
  accounts over a storage engine, and the supervisor tasks of the running bots.

  The WhatsApp library is outside: building a bot gives a client or the cause chain of an error, a
  client's socket is connected or not, and a bot's run loop ends when it ends. A supervisor is a
  number with the uuid of the handle it marks down; \<open>supervisors\<close> is those still waiting for their
  run loop. Each operation is one step, as its caller awaits it.
\<close>

section \<open>Data\<close>

record account_handle =
  h_uuid :: string
  h_external_ref :: "string option"
  h_device_id :: nat
  h_push_name :: "string option"
  h_state :: connection_state
  h_client :: "nat option"
  h_running :: "nat option"

record 's registry =
  reg_storage :: 's
  max_connected_accounts :: nat
  connected :: nat
  handles :: "string \<rightharpoonup> account_handle"
  by_external :: "string \<rightharpoonup> string"
  created :: "string list"
  supervisors :: "(nat \<times> string) list"
  next_supervisor :: nat

definition registry_new :: "'s \<Rightarrow> nat \<Rightarrow> 's registry" where
  "registry_new s budget =
     \<lparr>reg_storage = s, max_connected_accounts = budget, connected = 0, handles = Map.empty,
      by_external = Map.empty, created = [], supervisors = [], next_supervisor = 0\<rparr>"

definition handle_new :: "account_row \<Rightarrow> account_handle" where
  "handle_new row =
     \<lparr>h_uuid = ar_uuid row, h_external_ref = ar_external_ref row, h_device_id = ar_device_id row,
      h_push_name = ar_push_name row, h_state = Disconnected, h_client = None, h_running = None\<rparr>"

section \<open>Accounts\<close>

definition insert_handle :: "account_row \<Rightarrow> 's registry \<Rightarrow> 's registry" where
  "insert_handle row r =
     (let h = handle_new row;
          r1 = (case h_external_ref h of
                  Some x \<Rightarrow> r\<lparr>by_external := (by_external r)(x \<mapsto> h_uuid h)\<rparr>
                | None \<Rightarrow> r)
      in r1\<lparr>handles := (handles r1)(h_uuid h \<mapsto> h), created := created r1 @ [h_uuid h]\<rparr>)"

definition load_existing :: "'s storage_engine \<Rightarrow> 's registry \<Rightarrow> 's registry \<times> (wamux_error + unit)" where
  "load_existing E r =
     (case se_list E (reg_storage r) of
        Inl e \<Rightarrow> (r, Inl (Store e))
      | Inr rs \<Rightarrow> (fold insert_handle rs r, Inr ()))"

definition reg_create_account ::
  "'s storage_engine \<Rightarrow> string option \<Rightarrow> 's registry \<Rightarrow> 's registry \<times> (wamux_error + string)" where
  "reg_create_account E external r =
     (case se_create E external (reg_storage r) of
        (s, Inl e) \<Rightarrow> (r\<lparr>reg_storage := s\<rparr>, Inl (Store e))
      | (s, Inr row) \<Rightarrow> (insert_handle row (r\<lparr>reg_storage := s\<rparr>), Inr (ar_uuid row)))"

datatype account_ref = RefId string | RefExternal string

definition get_handle :: "'s registry \<Rightarrow> string \<Rightarrow> account_handle option" where
  "get_handle r u = handles r u"

definition resolve :: "account_ref \<Rightarrow> 's registry \<Rightarrow> wamux_error + account_handle" where
  "resolve a r =
     (case a of
        RefId u \<Rightarrow> ok_or (AccountNotFound u) (get_handle r u)
      | RefExternal x \<Rightarrow>
          and_then (ok_or (AccountNotFound x) (by_external r x)) (\<lambda>u.
          ok_or (AccountNotFound x) (get_handle r u)))"

section \<open>Connections\<close>

definition within_connection_budget :: "nat \<Rightarrow> nat \<Rightarrow> bool" where
  "within_connection_budget current budget \<longleftrightarrow> budget = 0 \<or> current < budget"

definition put_handle :: "account_handle \<Rightarrow> 's registry \<Rightarrow> 's registry" where
  "put_handle h r = r\<lparr>handles := (handles r)(h_uuid h \<mapsto> h)\<rparr>"

text \<open>\<open>connect\<close>; \<open>built\<close> is what building the bot gave.\<close>

definition connect ::
  "library_error list + nat \<Rightarrow> account_handle \<Rightarrow> 's registry \<Rightarrow> 's registry \<times> (wamux_error + unit)" where
  "connect built h r =
     (if h_running h \<noteq> None then (r, Inr ())
      else if \<not> within_connection_budget (connected r) (max_connected_accounts r)
      then (r, Inl (ResourceExhausted
                 (''connection budget reached ('' @ dec (max_connected_accounts r) @ '')'')))
      else let before = h_state h; h1 = h\<lparr>h_state := Connecting\<rparr>
           in case built of
                Inl err \<Rightarrow> (put_handle (h1\<lparr>h_state := before\<rparr>) r, Inl (client_err err))
              | Inr client \<Rightarrow>
                  (let k = next_supervisor r;
                       h2 = h1\<lparr>h_client := Some client, h_running := Some k\<rparr>
                   in ((put_handle h2 r)\<lparr>connected := connected r + 1,
                         supervisors := supervisors r @ [(k, h_uuid h)], next_supervisor := k + 1\<rparr>,
                       Inr ())))"

definition on_bot_exited :: "account_handle \<Rightarrow> account_handle" where
  "on_bot_exited h =
     h\<lparr>h_running := None, h_client := None,
       h_state := (if is_terminal (h_state h) then h_state h else Disconnected)\<rparr>"

text \<open>A supervisor whose run loop has ended: it marks its handle down and gives its slot back.\<close>

definition supervisor_exits :: "nat \<Rightarrow> string \<Rightarrow> 's registry \<Rightarrow> 's registry" where
  "supervisor_exits k u r =
     (let r1 = (case handles r u of Some h \<Rightarrow> put_handle (on_bot_exited h) r | None \<Rightarrow> r)
      in r1\<lparr>connected := connected r1 - 1, supervisors := removeAll (k, u) (supervisors r1)\<rparr>)"

text \<open>
  \<open>stop\<close>: the running slot is taken, the run loop is asked to end, and its supervisor is awaited for
  the grace period; \<open>in_time\<close> says whether it ended within it.
\<close>

definition stop :: "bool \<Rightarrow> account_handle \<Rightarrow> 's registry \<Rightarrow> 's registry" where
  "stop in_time h r =
     (let r1 = put_handle (h\<lparr>h_running := None\<rparr>) r;
          r2 = (case h_running h of
                  Some k \<Rightarrow> if in_time then supervisor_exits k (h_uuid h) r1 else r1
                | None \<Rightarrow> r1);
          h2 = (case handles r2 (h_uuid h) of Some g \<Rightarrow> g | None \<Rightarrow> h)
      in put_handle (h2\<lparr>h_client := None,
           h_state := (if is_terminal (h_state h2) then h_state h2 else Disconnected)\<rparr>) r2)"

text \<open>
  \<open>logout\<close>: refused without a client or a connected socket; otherwise the account is stopped, whatever
  the deregistration request answered. The event the library publishes for it is a step of its own.
\<close>

definition logout :: "bool \<Rightarrow> bool \<Rightarrow> account_handle \<Rightarrow> 's registry \<Rightarrow> 's registry \<times> (wamux_error + unit)" where
  "logout socket_connected in_time h r =
     (case h_client h of
        None \<Rightarrow> (r, Inl NotConnected)
      | Some _ \<Rightarrow>
          if \<not> socket_connected then (r, Inl NotConnected)
          else (stop in_time h r, Inr ()))"

definition reg_delete ::
  "'s storage_engine \<Rightarrow> bool \<Rightarrow> account_handle \<Rightarrow> 's registry \<Rightarrow> 's registry \<times> (wamux_error + unit)" where
  "reg_delete E in_time h r =
     (let r1 = stop in_time h r
      in case se_delete E (h_uuid h) (reg_storage r1) of
           (s, Inl e) \<Rightarrow> (r1\<lparr>reg_storage := s\<rparr>, Inl (Store e))
         | (s, Inr _) \<Rightarrow>
             (let r2 = r1\<lparr>reg_storage := s\<rparr>;
                  r3 = (case h_external_ref h of
                          Some x \<Rightarrow> r2\<lparr>by_external := (by_external r2)(x := None)\<rparr>
                        | None \<Rightarrow> r2)
              in (r3\<lparr>handles := (handles r3)(h_uuid h := None)\<rparr>, Inr ())))"

text \<open>A library event reaches the account's state (\<open>publish_lib\<close>).\<close>

definition lib_event_arrives :: "'l lib_event \<Rightarrow> account_handle \<Rightarrow> 's registry \<Rightarrow> 's registry" where
  "lib_event_arrives ev h r = put_handle (h\<lparr>h_state := update_state ev (h_state h)\<rparr>) r"

section \<open>Steps\<close>

inductive reg_step :: "'s storage_engine \<Rightarrow> 's registry \<Rightarrow> 's registry \<Rightarrow> bool" for E where
  step_create: "reg_step E r (fst (reg_create_account E x r))"
| step_connect: "handles r u = Some h \<Longrightarrow> reg_step E r (fst (connect built h r))"
| step_exit: "(k, u) \<in> set (supervisors r) \<Longrightarrow> reg_step E r (supervisor_exits k u r)"
| step_stop: "handles r u = Some h \<Longrightarrow> reg_step E r (stop in_time h r)"
| step_logout: "handles r u = Some h \<Longrightarrow> reg_step E r (fst (logout conn in_time h r))"
| step_delete: "handles r u = Some h \<Longrightarrow> reg_step E r (fst (reg_delete E in_time h r))"
| step_event: "handles r u = Some h \<Longrightarrow> reg_step E r (lib_event_arrives (ev :: unit lib_event) h r)"

inductive reg_reachable :: "'s storage_engine \<Rightarrow> 's registry \<Rightarrow> 's registry \<Rightarrow> bool" for E r0 where
  reg_start: "reg_reachable E r0 r0"
| reg_more: "reg_reachable E r0 r \<Longrightarrow> reg_step E r r' \<Longrightarrow> reg_reachable E r0 r'"

section \<open>What the operations keep\<close>

text \<open>The external reference of every account held in memory.\<close>

definition refs :: "'s registry \<Rightarrow> string \<rightharpoonup> string option" where
  "refs r u = map_option h_external_ref (handles r u)"

definition keyed :: "'s registry \<Rightarrow> bool" where
  "keyed r \<longleftrightarrow> (\<forall>u h. handles r u = Some h \<longrightarrow> h_uuid h = u)"

lemma storage_irrelevant [simp]:
  "refs (r\<lparr>reg_storage := s\<rparr>) = refs r" "keyed (r\<lparr>reg_storage := s\<rparr>) = keyed r"
  by (simp_all add: refs_def keyed_def fun_eq_iff)

text \<open>The same accounts, the same index and the same storage.\<close>

definition same_accounts :: "'s registry \<Rightarrow> 's registry \<Rightarrow> bool" where
  "same_accounts r r' \<longleftrightarrow>
     refs r' = refs r \<and> by_external r' = by_external r \<and> reg_storage r' = reg_storage r \<and>
     keyed r' \<and> created r' = created r \<and> max_connected_accounts r' = max_connected_accounts r"

lemma same_accounts_refl: "keyed r \<Longrightarrow> same_accounts r r"
  by (simp add: same_accounts_def)

lemma same_accounts_trans: "same_accounts a b \<Longrightarrow> same_accounts b c \<Longrightarrow> same_accounts a c"
  by (simp add: same_accounts_def)

lemma put_handle_same:
  assumes "keyed r" "handles r (h_uuid h') = Some h" "h_external_ref h' = h_external_ref h"
  shows "same_accounts r (put_handle h' r)"
  using assms by (auto simp: same_accounts_def put_handle_def refs_def keyed_def)

lemma same_accounts_slots [simp]:
  "same_accounts r (r'\<lparr>connected := c, supervisors := ss\<rparr>) = same_accounts r r'"
  "same_accounts r (r'\<lparr>connected := c, supervisors := ss, next_supervisor := n\<rparr>) = same_accounts r r'"
  by (auto simp: same_accounts_def refs_def keyed_def fun_eq_iff)

lemma exits_same:
  assumes "keyed r"
  shows "same_accounts r (supervisor_exits k u r)"
proof (cases "handles r u")
  case None
  with assms show ?thesis by (simp add: supervisor_exits_def same_accounts_refl)
next
  case (Some h)
  moreover have "h_uuid h = u" using assms Some by (simp add: keyed_def)
  moreover have "h_uuid (on_bot_exited h) = h_uuid h" "h_external_ref (on_bot_exited h) = h_external_ref h"
    by (simp_all add: on_bot_exited_def)
  ultimately show ?thesis
    using assms put_handle_same [of r "on_bot_exited h" h] by (simp add: supervisor_exits_def Let_def)
qed

lemma connect_same:
  assumes "keyed r" "handles r u = Some h"
  shows "same_accounts r (fst (connect built h r))"
proof -
  have u: "h_uuid h = u" using assms by (simp add: keyed_def)
  have put: "same_accounts r (put_handle (h\<lparr>h_state := s, h_client := c, h_running := k\<rparr>) r)"
      "same_accounts r (put_handle h r)" for s c k
    using assms u by (auto intro!: put_handle_same)
  show ?thesis
    using put same_accounts_refl [OF assms(1)]
    by (auto simp: connect_def Let_def split: sum.splits)
qed

lemma stop_same:
  assumes "keyed r" "handles r u = Some h"
  shows "same_accounts r (stop in_time h r)"
proof -
  have u: "h_uuid h = u" using assms by (simp add: keyed_def)
  let ?r1 = "put_handle (h\<lparr>h_running := None\<rparr>) r"
  define r2 where "r2 = (case h_running h of
      Some k \<Rightarrow> if in_time then supervisor_exits k (h_uuid h) ?r1 else ?r1 | None \<Rightarrow> ?r1)"
  have r1: "same_accounts r ?r1" using assms u by (auto intro!: put_handle_same)
  then have "keyed ?r1" by (simp add: same_accounts_def)
  with r1 have r2: "same_accounts r r2"
    by (auto simp: r2_def split: option.splits intro: same_accounts_trans exits_same)
  then have "refs r2 u = Some (h_external_ref h)" "keyed r2"
    using assms(2) by (auto simp: same_accounts_def refs_def)
  then obtain g where g: "handles r2 u = Some g" "h_external_ref g = h_external_ref h" "h_uuid g = u"
    by (auto simp: refs_def keyed_def)
  let ?h2 = "g\<lparr>h_client := None, h_state := (if is_terminal (h_state g) then h_state g else Disconnected)\<rparr>"
  have "stop in_time h r = put_handle ?h2 r2"
    using g(1) u unfolding stop_def Let_def r2_def [symmetric] by simp
  moreover have "same_accounts r2 (put_handle ?h2 r2)"
    using g \<open>keyed r2\<close> by (intro put_handle_same [where h = g]) auto
  ultimately show ?thesis using same_accounts_trans [OF r2] by simp
qed

lemma logout_same:
  assumes "keyed r" "handles r u = Some h"
  shows "same_accounts r (fst (logout conn in_time h r))"
  using assms stop_same [OF assms, of in_time] same_accounts_refl [OF assms(1)]
  by (auto simp: logout_def split: option.splits)

lemma event_same:
  assumes "keyed r" "handles r u = Some h"
  shows "same_accounts r (lib_event_arrives ev h r)"
proof -
  have "h_uuid h = u" using assms by (simp add: keyed_def)
  with assms show ?thesis unfolding lib_event_arrives_def by (intro put_handle_same) auto
qed

context account_storage
begin

text \<open>
  Memory and storage hold the same accounts, and the index by external reference is exactly theirs.
\<close>

definition accounts_agree :: "'s registry \<Rightarrow> bool" where
  "accounts_agree r \<longleftrightarrow>
     wf (reg_storage r) \<and> keyed r \<and>
     (\<forall>x u. by_external r x = Some u \<longleftrightarrow> refs r u = Some (Some x)) \<and>
     (\<forall>u x. refs r u = Some x \<longleftrightarrow>
        (\<exists>row\<in>stored (reg_storage r). ar_uuid row = u \<and> ar_external_ref row = x))"

lemma agree_same: "accounts_agree r \<Longrightarrow> same_accounts r r' \<Longrightarrow> accounts_agree r'"
  unfolding accounts_agree_def same_accounts_def by simp

lemma refs_insert:
  "refs (insert_handle row r) = (refs r)(ar_uuid row \<mapsto> ar_external_ref row)"
  "by_external (insert_handle row r) =
     (case ar_external_ref row of Some x \<Rightarrow> (by_external r)(x \<mapsto> ar_uuid row) | None \<Rightarrow> by_external r)"
  "reg_storage (insert_handle row r) = reg_storage r"
  "keyed r \<Longrightarrow> keyed (insert_handle row r)"
  by (auto simp: insert_handle_def handle_new_def Let_def refs_def keyed_def fun_eq_iff split: option.splits)

lemma agree_create:
  assumes agree: "accounts_agree r"
  shows "accounts_agree (fst (reg_create_account E x r))"
proof -
  obtain s res where c: "se_create E x (reg_storage r) = (s, res)" by fastforce
  have wf: "wf (reg_storage r)" using agree by (simp add: accounts_agree_def)
  show ?thesis
  proof (cases res)
    case (Inl e)
    with create_err [OF wf] c agree show ?thesis
      by (auto simp: reg_create_account_def accounts_agree_def refs_def keyed_def)
  next
    case (Inr row)
    let ?r = "insert_handle row (r\<lparr>reg_storage := s\<rparr>)"
    have new: "wf s" "stored s = insert row (stored (reg_storage r))" "ar_external_ref row = x"
      using create_ok [OF wf] c Inr by auto
    have fresh: "ar_uuid r' \<noteq> ar_uuid row \<and> (ar_external_ref r' = ar_external_ref row \<longrightarrow> x = None)"
      if "r' \<in> stored (reg_storage r)" for r'
      using create_fresh [OF wf _ that] c Inr by auto
    have refs: "refs ?r = (refs r)(ar_uuid row \<mapsto> x)"
      using refs_insert(1) [of row "r\<lparr>reg_storage := s\<rparr>"] new(3) by (simp add: refs_def fun_eq_iff)
    have none: "refs r (ar_uuid row) = None"
      using agree fresh unfolding accounts_agree_def by (metis not_Some_eq)
    have unused: "by_external r y = None" if "x = Some y" for y
      using agree fresh that new(3) unfolding accounts_agree_def by (metis not_Some_eq option.distinct(1))
    have ext: "by_external ?r = (case x of Some y \<Rightarrow> (by_external r)(y \<mapsto> ar_uuid row) | None \<Rightarrow> by_external r)"
      using refs_insert(2) [of row "r\<lparr>reg_storage := s\<rparr>"] new(3) by (simp split: option.splits)
    have "keyed ?r" using agree by (intro refs_insert(4)) (simp add: accounts_agree_def)
    moreover have index: "refs r u = Some (Some y) \<longleftrightarrow> by_external r y = Some u" for y u
      using agree by (simp add: accounts_agree_def)
    have "by_external ?r y = Some u \<longleftrightarrow> refs ?r u = Some (Some y)" for y u
      using none unused index [of "ar_uuid row" y] unfolding ext refs by (cases x) (auto simp: index)
    moreover have "refs ?r u = Some y \<longleftrightarrow> (\<exists>row\<in>stored s. ar_uuid row = u \<and> ar_external_ref row = y)" for u y
      using agree none new fresh unfolding accounts_agree_def refs by auto
    ultimately show ?thesis
      using new(1) c Inr by (simp add: reg_create_account_def accounts_agree_def refs_insert(3))
  qed
qed

lemma agree_delete:
  assumes agree: "accounts_agree r" and h: "handles r u = Some h"
  shows "accounts_agree (fst (reg_delete E in_time h r))"
proof -
  let ?r1 = "stop in_time h r"
  have same: "same_accounts r ?r1" using agree h by (intro stop_same) (auto simp: accounts_agree_def)
  then have agree1: "accounts_agree ?r1" by (rule agree_same [OF agree])
  then have wf: "wf (reg_storage ?r1)" by (simp add: accounts_agree_def)
  have u: "h_uuid h = u" using agree h by (simp add: accounts_agree_def keyed_def)
  have ref: "refs ?r1 u = Some (h_external_ref h)" using same h by (simp add: same_accounts_def refs_def)
  obtain s res where d: "se_delete E u (reg_storage ?r1) = (s, res)" by fastforce
  show ?thesis
  proof (cases res)
    case (Inl e)
    with delete_err [OF wf] d agree1 u show ?thesis
      by (auto simp: reg_delete_def Let_def accounts_agree_def)
  next
    case (Inr b)
    let ?r = "fst (reg_delete E in_time h r)"
    have st: "wf s" "stored s = {r \<in> stored (reg_storage ?r1). ar_uuid r \<noteq> u}"
      using delete_ok [OF wf] d Inr by auto
    have refs: "refs ?r = (refs ?r1)(u := None)" and ext: "by_external ?r =
        (case h_external_ref h of Some x \<Rightarrow> (by_external ?r1)(x := None) | None \<Rightarrow> by_external ?r1)"
      and sto: "reg_storage ?r = s" and key: "keyed ?r"
      using d Inr u agree1
      by (auto simp: reg_delete_def Let_def refs_def fun_eq_iff keyed_def accounts_agree_def
          split: option.splits if_splits)
    have index: "by_external ?r1 x = Some v \<longleftrightarrow> refs ?r1 v = Some (Some x)" for x v
      using agree1 by (simp add: accounts_agree_def)
    have "by_external ?r x = Some v \<longleftrightarrow> refs ?r v = Some (Some x)" for x v
      using index [of x v] index [of x u] ref unfolding ext refs
      by (cases "h_external_ref h") auto
    moreover have "refs ?r v = Some x \<longleftrightarrow> (\<exists>row\<in>stored s. ar_uuid row = v \<and> ar_external_ref row = x)" for v x
      using agree1 unfolding accounts_agree_def refs st(2) by auto
    ultimately show ?thesis using st(1) key sto by (simp add: accounts_agree_def)
  qed
qed

lemma agree_step: "reg_step E r r' \<Longrightarrow> accounts_agree r \<Longrightarrow> accounts_agree r'"
proof (induction rule: reg_step.induct)
  case (step_connect r u h built)
  then show ?case by (blast intro: agree_same connect_same dest: accounts_agree_def [THEN iffD1])
next
  case (step_exit k u r)
  then show ?case by (blast intro: agree_same exits_same dest: accounts_agree_def [THEN iffD1])
next
  case (step_stop r u h in_time)
  then show ?case by (blast intro: agree_same stop_same dest: accounts_agree_def [THEN iffD1])
next
  case (step_logout r u h conn in_time)
  then show ?case by (blast intro: agree_same logout_same dest: accounts_agree_def [THEN iffD1])
next
  case (step_event r u h ev)
  then show ?case by (blast intro: agree_same event_same dest: accounts_agree_def [THEN iffD1])
qed (simp_all add: agree_create agree_delete)

lemma agree_reachable: "reg_reachable E r0 r \<Longrightarrow> accounts_agree r0 \<Longrightarrow> accounts_agree r"
  by (induction rule: reg_reachable.induct) (auto intro: agree_step)

text \<open>Resolving an account by either name finds exactly the stored account of that name.\<close>

lemma resolve_agree:
  assumes "accounts_agree r"
  shows "(\<exists>h. resolve (RefExternal x) r = Inr h \<and> h_uuid h = u) \<longleftrightarrow>
           (\<exists>row\<in>stored (reg_storage r). ar_uuid row = u \<and> ar_external_ref row = Some x)"
    and "(\<exists>h. resolve (RefId u) r = Inr h \<and> h_uuid h = u) \<longleftrightarrow>
           (\<exists>row\<in>stored (reg_storage r). ar_uuid row = u)"
proof -
  have key: "handles r v = Some h \<Longrightarrow> h_uuid h = v" for v h
    using assms by (simp add: accounts_agree_def keyed_def)
  have index: "by_external r x = Some v \<longleftrightarrow> refs r v = Some (Some x)" for v
    using assms by (simp add: accounts_agree_def)
  have "(\<exists>h. resolve (RefExternal x) r = Inr h \<and> h_uuid h = u) \<longleftrightarrow> by_external r x = Some u"
  proof (cases "by_external r x")
    case (Some v)
    then obtain h where "handles r v = Some h" using index [of v] by (auto simp: refs_def)
    with Some key show ?thesis by (auto simp: resolve_def get_handle_def)
  qed (simp add: resolve_def)
  then have "(\<exists>h. resolve (RefExternal x) r = Inr h \<and> h_uuid h = u) \<longleftrightarrow> refs r u = Some (Some x)"
    using index by simp
  then show "(\<exists>h. resolve (RefExternal x) r = Inr h \<and> h_uuid h = u) \<longleftrightarrow>
      (\<exists>row\<in>stored (reg_storage r). ar_uuid row = u \<and> ar_external_ref row = Some x)"
    using assms by (simp add: accounts_agree_def)
  have "(\<exists>h. resolve (RefId u) r = Inr h \<and> h_uuid h = u) \<longleftrightarrow> (\<exists>x. refs r u = Some x)"
    using key by (auto simp: resolve_def get_handle_def ok_or_def refs_def split: option.splits)
  then show "(\<exists>h. resolve (RefId u) r = Inr h \<and> h_uuid h = u) \<longleftrightarrow>
      (\<exists>row\<in>stored (reg_storage r). ar_uuid row = u)"
    using assms unfolding accounts_agree_def by metis
qed

end

section \<open>The connection slots\<close>

text \<open>
  The counter is the number of supervisors whose run loop has not ended, it stays within the budget,
  and a handle that is running has its supervisor among them.
\<close>

definition slots_ok :: "'s registry \<Rightarrow> bool" where
  "slots_ok r \<longleftrightarrow>
     keyed r \<and> connected r = length (supervisors r) \<and> distinct (map fst (supervisors r)) \<and>
     (\<forall>p\<in>set (supervisors r). fst p < next_supervisor r) \<and>
     (max_connected_accounts r = 0 \<or> connected r \<le> max_connected_accounts r) \<and>
     (\<forall>u h k. handles r u = Some h \<longrightarrow> h_running h = Some k \<longrightarrow> (k, u) \<in> set (supervisors r))"

lemma slots_put:
  assumes "slots_ok r" "\<And>k. h_running h = Some k \<Longrightarrow> (k, h_uuid h) \<in> set (supervisors r)"
  shows "slots_ok (put_handle h r)"
  using assms by (auto simp: slots_ok_def put_handle_def keyed_def)

lemma slots_remove:
  assumes "slots_ok r" "(k, u) \<in> set (supervisors r)" "\<And>h. handles r u = Some h \<Longrightarrow> h_running h \<noteq> Some k"
  shows "slots_ok (r\<lparr>connected := connected r - 1, supervisors := removeAll (k, u) (supervisors r)\<rparr>)"
proof -
  have "distinct (supervisors r)" using assms(1) by (auto simp: slots_ok_def distinct_map)
  then have len: "length (removeAll (k, u) (supervisors r)) = length (supervisors r) - 1"
    using assms(2) by (simp add: distinct_remove1_removeAll [symmetric] length_remove1)
  have fst: "distinct (map fst (removeAll (k, u) (supervisors r)))"
    using assms(1) by (auto simp: slots_ok_def removeAll_filter_not_eq distinct_map_filter)
  have "(j, v) \<in> set (removeAll (k, u) (supervisors r))"
    if "handles r v = Some h" "h_running h = Some j" for v h j
    using assms(1,3) that by (auto simp: slots_ok_def)
  with assms(1) len fst show ?thesis by (auto simp: slots_ok_def keyed_def)
qed

lemma slots_exit:
  assumes "slots_ok r" "(k, u) \<in> set (supervisors r)"
  shows "slots_ok (supervisor_exits k u r)"
proof (cases "handles r u")
  case None
  with slots_remove [OF assms] show ?thesis by (simp add: supervisor_exits_def)
next
  case (Some h)
  let ?r = "put_handle (on_bot_exited h) r"
  have "h_uuid h = u" using assms(1) Some by (simp add: slots_ok_def keyed_def)
  then have "(k, u) \<in> set (supervisors ?r)" "\<And>g. handles ?r u = Some g \<Longrightarrow> h_running g \<noteq> Some k"
    using assms by (auto simp: on_bot_exited_def put_handle_def)
  moreover have "slots_ok ?r" using assms(1) by (intro slots_put) (auto simp: on_bot_exited_def)
  ultimately have "slots_ok (?r\<lparr>connected := connected ?r - 1, supervisors := removeAll (k, u) (supervisors ?r)\<rparr>)"
    by (intro slots_remove) auto
  with Some show ?thesis by (simp add: supervisor_exits_def Let_def)
qed

lemma slots_connect:
  assumes ok: "slots_ok r" and h: "handles r u = Some h"
  shows "slots_ok (fst (connect built h r))"
proof -
  have u: "h_uuid h = u" using ok h by (simp add: slots_ok_def keyed_def)
  have same: "slots_ok (put_handle h r)"
    using ok h u by (intro slots_put) (auto simp: slots_ok_def)
  show ?thesis
  proof (cases "h_running h = None \<and> within_connection_budget (connected r) (max_connected_accounts r)")
    case True
    show ?thesis
    proof (cases built)
      case (Inl err)
      with True same show ?thesis by (simp add: connect_def Let_def)
    next
      case (Inr c)
      let ?k = "next_supervisor r"
      have "?k \<notin> fst ` set (supervisors r)" using ok by (auto simp: slots_ok_def)
      with Inr True ok u show ?thesis
        by (auto simp: connect_def Let_def slots_ok_def put_handle_def keyed_def
            within_connection_budget_def less_Suc_eq)
    qed
  qed (use ok in \<open>auto simp: connect_def\<close>)
qed

lemma slots_stop:
  assumes ok: "slots_ok r" and h: "handles r u = Some h"
  shows "slots_ok (stop in_time h r)"
proof -
  have u: "h_uuid h = u" using ok h by (simp add: slots_ok_def keyed_def)
  let ?r1 = "put_handle (h\<lparr>h_running := None\<rparr>) r"
  define r2 where "r2 = (case h_running h of
      Some k \<Rightarrow> if in_time then supervisor_exits k (h_uuid h) ?r1 else ?r1 | None \<Rightarrow> ?r1)"
  have r1: "slots_ok ?r1" using ok by (intro slots_put) auto
  have "(k, u) \<in> set (supervisors ?r1)" if "h_running h = Some k" for k
    using ok h that by (auto simp: slots_ok_def put_handle_def)
  with r1 u have r2: "slots_ok r2" by (auto simp: r2_def slots_exit split: option.splits)
  let ?h2 = "case handles r2 (h_uuid h) of Some g \<Rightarrow> g | None \<Rightarrow> h"
  have "handles r2 u \<noteq> None"
    using u by (auto simp: r2_def put_handle_def supervisor_exits_def on_bot_exited_def Let_def
        split: option.splits)
  then obtain g where g: "handles r2 u = Some g" by auto
  then have "h_uuid g = u" using r2 by (simp add: slots_ok_def keyed_def)
  then have "slots_ok (put_handle (g\<lparr>h_client := None,
      h_state := (if is_terminal (h_state g) then h_state g else Disconnected)\<rparr>) r2)"
    using r2 g by (intro slots_put) (auto simp: slots_ok_def)
  moreover have "stop in_time h r = put_handle (g\<lparr>h_client := None,
      h_state := (if is_terminal (h_state g) then h_state g else Disconnected)\<rparr>) r2"
    using g u unfolding stop_def Let_def r2_def [symmetric] by simp
  ultimately show ?thesis by (simp only:)
qed

lemma slots_frame:
  "slots_ok (r\<lparr>reg_storage := s\<rparr>) = slots_ok r" "slots_ok (r\<lparr>by_external := x\<rparr>) = slots_ok r"
  "slots_ok r \<Longrightarrow> slots_ok (r\<lparr>handles := (handles r)(u := None)\<rparr>)"
  by (auto simp: slots_ok_def keyed_def)

lemma slots_delete:
  assumes "slots_ok r" "handles r u = Some h"
  shows "slots_ok (fst (reg_delete E in_time h r))"
  using slots_stop [OF assms, of in_time]
  by (auto simp: reg_delete_def Let_def slots_ok_def keyed_def split: prod.splits sum.splits option.splits)

lemma slots_insert: "slots_ok r \<Longrightarrow> slots_ok (insert_handle row r)"
  by (auto simp: insert_handle_def handle_new_def Let_def slots_ok_def keyed_def split: option.splits)

lemma slots_create: "slots_ok r \<Longrightarrow> slots_ok (fst (reg_create_account E x r))"
  by (auto simp: reg_create_account_def slots_insert slots_frame split: prod.splits sum.splits)

lemma slots_event:
  assumes "slots_ok r" "handles r u = Some h"
  shows "slots_ok (lib_event_arrives ev h r)"
proof -
  have "h_uuid h = u" using assms by (simp add: slots_ok_def keyed_def)
  with assms show ?thesis
    unfolding lib_event_arrives_def by (intro slots_put) (auto simp: slots_ok_def)
qed

lemma slots_logout:
  assumes "slots_ok r" "handles r u = Some h"
  shows "slots_ok (fst (logout c in_time h r))"
  using assms slots_stop [OF assms, of in_time] by (auto simp: logout_def split: option.splits)

lemma slots_step: "reg_step E r r' \<Longrightarrow> slots_ok r \<Longrightarrow> slots_ok r'"
  by (induction rule: reg_step.induct)
    (auto intro: slots_create slots_connect slots_exit slots_stop slots_logout slots_delete slots_event)

lemma slots_reachable: "reg_reachable E r0 r \<Longrightarrow> slots_ok r0 \<Longrightarrow> slots_ok r"
  by (induction rule: reg_reachable.induct) (auto intro: slots_step)

lemma slots_new: "slots_ok (registry_new s n)"
  by (simp add: slots_ok_def registry_new_def keyed_def)

section \<open>Starting on an existing storage\<close>

context account_storage
begin

lemma loaded_refs:
  assumes "distinct rs" "\<And>a b. a \<in> set rs \<Longrightarrow> b \<in> set rs \<Longrightarrow> ar_uuid a = ar_uuid b \<Longrightarrow> a = b"
    and "\<And>a b. a \<in> set rs \<Longrightarrow> b \<in> set rs \<Longrightarrow> ar_external_ref a = ar_external_ref b \<Longrightarrow>
           ar_external_ref a \<noteq> None \<Longrightarrow> a = b"
    and "r = fold insert_handle rs (registry_new s n)"
  shows "keyed r \<and> reg_storage r = s \<and>
         (\<forall>u x. refs r u = Some x \<longleftrightarrow> (\<exists>row\<in>set rs. ar_uuid row = u \<and> ar_external_ref row = x)) \<and>
         (\<forall>x u. by_external r x = Some u \<longleftrightarrow> refs r u = Some (Some x))"
  using assms
proof (induction rs arbitrary: r rule: rev_induct)
  case Nil
  then show ?case by (simp add: registry_new_def keyed_def refs_def)
next
  case (snoc row rs)
  let ?r = "fold insert_handle rs (registry_new s n)"
  have d: "distinct rs" using snoc.prems(1) by simp
  have i: "a = b" if "a \<in> set rs" "b \<in> set rs" "ar_uuid a = ar_uuid b" for a b
    using snoc.prems(2) that by simp
  have e: "a = b" if "a \<in> set rs" "b \<in> set rs" "ar_external_ref a = ar_external_ref b"
      "ar_external_ref a \<noteq> None" for a b
    using snoc.prems(3) [of a b] that by simp
  note ih = snoc.IH [OF d i e refl]
  have IH: "keyed ?r" "reg_storage ?r = s"
      "\<And>u x. refs ?r u = Some x \<longleftrightarrow> (\<exists>row\<in>set rs. ar_uuid row = u \<and> ar_external_ref row = x)"
      "\<And>x u. by_external ?r x = Some u \<longleftrightarrow> refs ?r u = Some (Some x)"
    using ih by blast+
  have new: "row \<notin> set rs" using snoc.prems(1) by simp
  have none: "refs ?r (ar_uuid row) = None"
    using IH(3) [of "ar_uuid row"] snoc.prems(2) new by (cases "refs ?r (ar_uuid row)") auto
  have unused: "by_external ?r x = None" if "ar_external_ref row = Some x" for x
  proof (cases "by_external ?r x")
    case (Some u)
    then obtain a where "a \<in> set rs" "ar_external_ref a = Some x" using IH(3,4) by auto
    with snoc.prems(3) [of a row] that new show ?thesis by auto
  qed
  have r: "r = insert_handle row ?r" using snoc.prems(4) by simp
  have "refs r u = Some x \<longleftrightarrow> (\<exists>row\<in>set (rs @ [row]). ar_uuid row = u \<and> ar_external_ref row = x)" for u x
  proof (cases "u = ar_uuid row")
    case True
    moreover have "\<nexists>a. a \<in> set rs \<and> ar_uuid a = ar_uuid row" using snoc.prems(2) new by auto
    ultimately show ?thesis unfolding r refs_insert(1) by auto
  next
    case False
    then show ?thesis unfolding r refs_insert(1) using IH(3) [of u x] by auto
  qed
  moreover have "by_external r x = Some u \<longleftrightarrow> refs r u = Some (Some x)" for x u
    unfolding r refs_insert using IH(4) [of x u] IH(4) [of x "ar_uuid row"] none unused
    by (cases "ar_external_ref row") auto
  moreover have "keyed r" "reg_storage r = s" using IH(1,2) by (auto simp: r refs_insert)
  ultimately show ?case by blast
qed

lemma agree_load:
  assumes "wf s" "load_existing E (registry_new s n) = (r, Inr ())"
  shows "accounts_agree r"
proof -
  obtain rs where rs: "se_list E s = Inr rs" "r = fold insert_handle rs (registry_new s n)"
    using assms(2) by (auto simp: load_existing_def registry_new_def split: sum.splits)
  have set: "set rs = stored s" "distinct rs" using list_ok [OF assms(1) rs(1)] by auto
  have i: "a = b" if "a \<in> set rs" "b \<in> set rs" "ar_uuid a = ar_uuid b" for a b
    using wf_uuid [OF assms(1)] that set(1) by simp
  have e: "a = b" if "a \<in> set rs" "b \<in> set rs" "ar_external_ref a = ar_external_ref b"
      "ar_external_ref a \<noteq> None" for a b
    using wf_external [OF assms(1), of a b] that set(1) by simp
  note loaded = loaded_refs [OF set(2) i e rs(2)]
  have st: "reg_storage r = s" using loaded by blast
  show ?thesis unfolding accounts_agree_def st set(1) [symmetric] using loaded assms(1) by blast
qed

end

section \<open>The properties\<close>

definition demo_registry :: "accounts_db registry" where
  "demo_registry = registry_new (accounts_new dec) 2"

definition demo_created :: "accounts_db registry" where
  "demo_created = fst (reg_create_account accounts_engine (Some ''shop'') demo_registry)"

lemma demo_created_reachable: "reg_reachable accounts_engine demo_registry demo_created"
  unfolding demo_created_def by (rule reg_more [OF reg_start step_create])





text \<open>
  A connect whose bot cannot be built leaves the registry exactly as it was, a logged out or
  banned account included, and tells the caller why; one over the budget or on an account that is
  already running changes nothing either.
\<close>

lemma failed_connect_changes_nothing:
  assumes "handles r u = Some h" and "h_uuid h = u" and "connect built h r = (r', Inl e)"
  shows "r' = r"
proof -
  have "put_handle h r = r" using assms(1,2) by (simp add: put_handle_def fun_upd_idem)
  with assms(3) show ?thesis by (auto simp: connect_def Let_def split: if_splits sum.splits)
qed


end
