(* ===== verification/Store_Key.thy ===== *)
theory Store_Key
  imports Store_Error
begin

unbundle bit_operations_syntax

text \<open>
  The store key and its file (\<open>storage/store_key.rs\<close>): 64 hex digits in a file only its owner can
  read. SHA-256 is an argument; a key is its 32 bytes. What opening, inspecting and reading the file
  gave is the argument of \<open>from_file\<close>.
\<close>

datatype store_key_error =
    Unreadable string string
  | LooseMode string u32
  | BadFormat

type_synonym store_key = bytes

definition hex_digit :: "u8 \<Rightarrow> char" where
  "hex_digit n = (if n < 10 then char_of (48 + unat n) else char_of (87 + unat n))"

text \<open>\<open>{b:02x}\<close>\<close>

definition hex_byte :: "u8 \<Rightarrow> string" where
  "hex_byte b = [hex_digit (drop_bit 4 b), hex_digit (b AND 15)]"

definition key_id_hex :: "bytes \<Rightarrow> string" where
  "key_id_hex ident = concat (map hex_byte ident)"

definition hex_nibble :: "u8 \<Rightarrow> store_key_error + u8" where
  "hex_nibble digit =
     (if 48 \<le> digit \<and> digit \<le> 57 then Inr (digit - 48)
      else if 97 \<le> digit \<and> digit \<le> 102 then Inr (digit - 97 + 10)
      else if 65 \<le> digit \<and> digit \<le> 70 then Inr (digit - 65 + 10)
      else Inl BadFormat)"

fun hex_pairs :: "bytes \<Rightarrow> store_key_error + bytes" where
  "hex_pairs (a # b # rest) =
     and_then (hex_nibble a) (\<lambda>hi.
     and_then (hex_nibble b) (\<lambda>lo.
     and_then (hex_pairs rest) (\<lambda>bs. Inr ((push_bit 4 hi OR lo) # bs))))"
| "hex_pairs _ = Inr []"

definition strip_suffix :: "string \<Rightarrow> string \<Rightarrow> string option" where
  "strip_suffix suf s =
     (if length suf \<le> length s \<and> drop (length s - length suf) s = suf
      then Some (take (length s - length suf) s) else None)"

definition parse_hex :: "string \<Rightarrow> store_key_error + store_key" where
  "parse_hex s =
     (let digits = (case strip_suffix [CHR 0x0D, CHR 0x0A] s of
                      Some d \<Rightarrow> d
                    | None \<Rightarrow> (case strip_suffix [CHR 0x0A] s of Some d \<Rightarrow> d | None \<Rightarrow> s));
          raw = str_bytes digits
      in if length raw \<noteq> 64 then Inl BadFormat else hex_pairs raw)"

datatype read_outcome = Content string | NotUtf8 | ReadFails string

datatype file_outcome =
    OpenFails string
  | MetadataFails string
  | Opened u32 read_outcome

definition from_file :: "string \<Rightarrow> file_outcome \<Rightarrow> store_key_error + store_key" where
  "from_file path f =
     (case f of
        OpenFails e \<Rightarrow> Inl (Unreadable path e)
      | MetadataFails e \<Rightarrow> Inl (Unreadable path e)
      | Opened mode r \<Rightarrow>
          (if mode AND 63 \<noteq> 0 then Inl (LooseMode path (mode AND 4095))
           else case r of
                  NotUtf8 \<Rightarrow> Inl BadFormat
                | ReadFails e \<Rightarrow> Inl (Unreadable path e)
                | Content s \<Rightarrow> parse_hex s))"

definition key_id :: "(bytes \<Rightarrow> bytes) \<Rightarrow> store_key \<Rightarrow> bytes" where
  "key_id sha256 k = take 4 (sha256 k)"

section \<open>Digits\<close>

lemma hex_digit_table:
  "\<forall>n\<in>set [0..<16]. hex_nibble (byte_of_char (hex_digit (word_of_nat n))) = Inr (word_of_nat n) \<and>
     hex_digit (word_of_nat n) \<noteq> CHR 0x0A \<and> hex_digit (word_of_nat n) \<noteq> CHR 0x0D"
  by code_simp

lemma nibble_digit:
  assumes "n < 16"
  shows "hex_nibble (byte_of_char (hex_digit n)) = Inr n" "hex_digit n \<noteq> CHR 0x0A"
    "hex_digit n \<noteq> CHR 0x0D"
proof -
  have "unat n < 16" using assms by (simp add: word_less_nat_alt)
  then have "unat n \<in> set [0..<16]" by simp
  with hex_digit_table
  have "hex_nibble (byte_of_char (hex_digit (word_of_nat (unat n)))) = Inr (word_of_nat (unat n)) \<and>
      hex_digit (word_of_nat (unat n)) \<noteq> CHR 0x0A \<and> hex_digit (word_of_nat (unat n)) \<noteq> CHR 0x0D"
    by blast
  then show "hex_nibble (byte_of_char (hex_digit n)) = Inr n" "hex_digit n \<noteq> CHR 0x0A"
      "hex_digit n \<noteq> CHR 0x0D"
    by simp_all
qed

lemma nibbles_small: "drop_bit 4 (b :: u8) < 16" "(b :: u8) AND 15 < 16"
proof -
  have "drop_bit 4 b AND mask 4 = drop_bit 4 b"
    by (rule bit_word_eqI) (auto simp: bit_simps dest: bit_imp_le_length)
  moreover have "drop_bit 4 b AND mask 4 < 2 ^ 4" by (rule and_mask_less') simp
  ultimately show "drop_bit 4 b < 16" by simp
  have "b AND mask 4 < 2 ^ 4" by (rule and_mask_less') simp
  then show "b AND 15 < 16" by (simp add: mask_eq_exp_minus_1)
qed

lemma nibbles_join: "push_bit 4 (drop_bit 4 b) OR (b AND 15) = (b :: u8)"
proof -
  have "b AND 15 = take_bit 4 b" by (simp add: take_bit_eq_mask mask_eq_exp_minus_1)
  then show ?thesis by (rule_tac bit_word_eqI) (auto simp: bit_simps)
qed

lemma hex_pairs_hex: "hex_pairs (str_bytes (key_id_hex k)) = Inr k"
  by (induction k)
    (simp_all add: key_id_hex_def hex_byte_def str_bytes_def nibble_digit nibbles_small nibbles_join)

lemma length_key_id_hex [simp]: "length (key_id_hex k) = 2 * length k"
  by (induction k) (simp_all add: key_id_hex_def hex_byte_def)

lemma key_id_hex_no_newline: "CHR 0x0A \<notin> set (key_id_hex k)" "CHR 0x0D \<notin> set (key_id_hex k)"
  using nibble_digit(2,3) [OF nibbles_small(1)] nibble_digit(2,3) [OF nibbles_small(2)]
  by (force simp: key_id_hex_def hex_byte_def)+

lemma strip_suffix_append [simp]: "strip_suffix suf (s @ suf) = Some s"
  by (simp add: strip_suffix_def)

lemma strip_suffix_absent:
  assumes "x \<in> set suf" "x \<notin> set s"
  shows "strip_suffix suf s = None"
proof -
  have "drop n s \<noteq> suf" for n
    using assms by (metis in_set_dropD)
  then show ?thesis by (simp add: strip_suffix_def)
qed

lemma hex_pairs_length: "hex_pairs raw = Inr k \<Longrightarrow> length k = length raw div 2"
  by (induction raw arbitrary: k rule: hex_pairs.induct) (auto simp: and_then_Inr_iff)

section \<open>The properties\<close>

text \<open>
  A key printed as lowercase hex is read back as itself, with no newline, a \<open>\n\<close> or a \<open>\r\n\<close> at
  the end, and every key that is read has 32 bytes.
\<close>

lemma store_key_round_trip:
  assumes "length k = 32" and "nl \<in> {[], [CHR 0x0A], [CHR 0x0D, CHR 0x0A]}"
  shows "parse_hex (key_id_hex k @ nl) = Inr k \<and> (\<forall>s k'. parse_hex s = Inr k' \<longrightarrow> length k' = 32)"
proof -
  let ?h = "key_id_hex k"
  have "strip_suffix [CHR 0x0D, CHR 0x0A] ?h = None" "strip_suffix [CHR 0x0A] ?h = None"
      "strip_suffix [CHR 0x0D, CHR 0x0A] (?h @ [CHR 0x0A]) = None"
    using key_id_hex_no_newline [of k]
    by (auto intro: strip_suffix_absent [where x = "CHR 0x0D"] strip_suffix_absent [where x = "CHR 0x0A"])
  then have "parse_hex (?h @ nl) = Inr k"
    using assms strip_suffix_append [of "[CHR 0x0D, CHR 0x0A]" ?h]
    by (auto simp: parse_hex_def hex_pairs_hex)
  then show ?thesis
    by (auto simp: parse_hex_def Let_def dest: hex_pairs_length split: if_splits)
qed

end
