(* ===== verification/Blob_Cipher.thy ===== *)
theory Blob_Cipher
  imports Store_Key
begin

text \<open>
  Sealing and opening the blobs of the secret columns (\<open>storage/blob_cipher.rs\<close>) and the list of
  those columns with how their rows are named (\<open>storage/sealed_columns.rs\<close>).

  XChaCha20-Poly1305 and SHA-256 are third-party: the record \<open>crypto\<close> holds them and \<open>aead_ok\<close> says
  what is relied on, that a ciphertext opens to its message under the same key, nonce and associated
  data and is 16 bytes longer. The nonce a seal draws is an argument, an error when there is no
  randomness.
\<close>

section \<open>Data\<close>

record crypto =
  encrypt :: "bytes \<Rightarrow> bytes \<Rightarrow> bytes \<Rightarrow> bytes \<Rightarrow> bytes option"
  decrypt :: "bytes \<Rightarrow> bytes \<Rightarrow> bytes \<Rightarrow> bytes \<Rightarrow> bytes option"
  sha256 :: "bytes \<Rightarrow> bytes"

definition aead_ok :: "crypto \<Rightarrow> bool" where
  "aead_ok A \<longleftrightarrow>
     (\<forall>k n a m c. encrypt A k n a m = Some c \<longrightarrow>
        decrypt A k n a c = Some m \<and> length c = length m + 16) \<and>
     (\<forall>k. length (sha256 A k) = 32)"

record blob_context =
  bc_device_id :: bits32
  bc_table :: string
  bc_column :: string
  bc_row :: bytes

type_synonym blob_cipher = "store_key option"

definition BLOB_VERSION :: u8 where
  "BLOB_VERSION = 1"

definition HEADER_LEN :: nat where
  "HEADER_LEN = 1 + 4 + 24"

definition TAG_LEN :: nat where
  "TAG_LEN = 16"

definition joined_row :: "bytes list \<Rightarrow> bytes" where
  "joined_row parts = join_with 0 parts"

definition passthrough :: blob_cipher where
  "passthrough = None"

definition sealing :: "store_key \<Rightarrow> blob_cipher" where
  "sealing k = Some k"

definition is_sealing :: "blob_cipher \<Rightarrow> bool" where
  "is_sealing c \<longleftrightarrow> c \<noteq> None"

section \<open>Sealing and opening\<close>

definition context_aad :: "blob_context \<Rightarrow> bytes" where
  "context_aad x =
     be_bytes32 (bc_device_id x) @ str_bytes (bc_table x) @ [0] @ str_bytes (bc_column x) @ [0] @ bc_row x"

definition describe :: "blob_context \<Rightarrow> string" where
  "describe x = bc_table x @ ''.'' @ bc_column x @ '' of device '' @ dec_int (sint (bc_device_id x))"

definition seal ::
  "crypto \<Rightarrow> string + bytes \<Rightarrow> blob_cipher \<Rightarrow> blob_context \<Rightarrow> bytes \<Rightarrow> store_error + bytes" where
  "seal A nonce cipher x plaintext =
     (case cipher of
        None \<Rightarrow> Inr plaintext
      | Some k \<Rightarrow>
          (if plaintext = [] then Inr []
           else case nonce of
                  Inl e \<Rightarrow> Inl (Validation (''no randomness for a nonce: '' @ e))
                | Inr n \<Rightarrow>
                    (case encrypt A k n (context_aad x) plaintext of
                       None \<Rightarrow> Inl (Validation (''cannot seal '' @ describe x))
                     | Some sealed \<Rightarrow> Inr (BLOB_VERSION # key_id (sha256 A) k @ n @ sealed))))"

definition split_blob ::
  "crypto \<Rightarrow> store_key \<Rightarrow> blob_context \<Rightarrow> bytes \<Rightarrow> store_error + (bytes \<times> bytes)" where
  "split_blob A k x stored =
     (if length stored < HEADER_LEN + TAG_LEN
      then Inl (Validation (describe x @ '' is '' @ dec (length stored) @
                  '' bytes, shorter than a sealed blob ('' @ dec (HEADER_LEN + TAG_LEN) @ '' at least)''))
      else if stored ! 0 \<noteq> BLOB_VERSION
      then Inl (Validation (describe x @ '' has sealed-blob version '' @ dec (unat (stored ! 0)) @
                  '', this build reads version '' @ dec (unat BLOB_VERSION)))
      else if take 4 (drop 1 stored) \<noteq> key_id (sha256 A) k
      then Inl (Validation (describe x @ '' was sealed with key id '' @ key_id_hex (take 4 (drop 1 stored)) @
                  '', the configured key is '' @ key_id_hex (key_id (sha256 A) k)))
      else Inr (take 24 (drop 5 stored), drop HEADER_LEN stored))"

definition open_blob ::
  "crypto \<Rightarrow> blob_cipher \<Rightarrow> blob_context \<Rightarrow> bytes \<Rightarrow> store_error + bytes" where
  "open_blob A cipher x stored =
     (case cipher of
        None \<Rightarrow> Inr stored
      | Some k \<Rightarrow>
          (if stored = [] then Inr []
           else and_then (split_blob A k x stored) (\<lambda>(n, sealed).
             ok_or (Validation (describe x @
                 '' did not authenticate: moved to another row or account, or corrupted''))
               (decrypt A k n (context_aad x) sealed))))"

definition seal_at ::
  "crypto \<Rightarrow> string + bytes \<Rightarrow> blob_cipher \<Rightarrow> bits32 \<Rightarrow> string \<Rightarrow> string \<Rightarrow> bytes \<Rightarrow> bytes \<Rightarrow>
   store_error + bytes" where
  "seal_at A nonce cipher d t col row plaintext =
     seal A nonce cipher \<lparr>bc_device_id = d, bc_table = t, bc_column = col, bc_row = row\<rparr> plaintext"

definition open_at ::
  "crypto \<Rightarrow> blob_cipher \<Rightarrow> bits32 \<Rightarrow> string \<Rightarrow> string \<Rightarrow> bytes \<Rightarrow> bytes \<Rightarrow> store_error + bytes" where
  "open_at A cipher d t col row stored =
     open_blob A cipher \<lparr>bc_device_id = d, bc_table = t, bc_column = col, bc_row = row\<rparr> stored"

section \<open>The sealed columns\<close>

datatype key_column = KText string | KId string | KBytes string

datatype row_part = PText string | PInt int | PBytes bytes

record sealed_column =
  sc_table :: string
  sc_column :: string
  sc_key :: "key_column list"

definition sealed :: "string \<Rightarrow> string \<Rightarrow> key_column list \<Rightarrow> sealed_column" where
  "sealed t c k = \<lparr>sc_table = t, sc_column = c, sc_key = k\<rparr>"

definition sealed_columns :: "sealed_column list" where
  "sealed_columns =
    [sealed ''device'' ''data'' [],
     sealed ''identities'' ''key'' [KText ''address''],
     sealed ''sessions'' ''record'' [KText ''address''],
     sealed ''prekeys'' ''key'' [KId ''id''],
     sealed ''signed_prekeys'' ''record'' [KId ''id''],
     sealed ''sender_keys'' ''record'' [KText ''address''],
     sealed ''app_state_keys'' ''key_data'' [KBytes ''key_id''],
     sealed ''app_state_versions'' ''state_data'' [KText ''name''],
     sealed ''app_state_mutation_macs'' ''value_mac'' [KText ''name'', KBytes ''index_mac''],
     sealed ''base_keys'' ''base_key'' [KText ''address'', KText ''message_id''],
     sealed ''tc_tokens'' ''token'' [KText ''jid''],
     sealed ''msg_secrets'' ''secret'' [KText ''chat'', KText ''sender'', KText ''msg_id''],
     sealed ''sent_messages'' ''payload'' [KText ''chat_jid'', KText ''message_id'']]"

fun part_bytes :: "row_part \<Rightarrow> bytes" where
  "part_bytes (PText t) = str_bytes t"
| "part_bytes (PInt i) = be_bytes32 (word_of_int i)"
| "part_bytes (PBytes b) = b"

definition row_key :: "row_part list \<Rightarrow> bytes" where
  "row_key parts = joined_row (map part_bytes parts)"

section \<open>Round trip\<close>

lemma key_id_length: "aead_ok A \<Longrightarrow> length (key_id (sha256 A) k) = 4"
  by (simp add: aead_ok_def key_id_def)

lemma seal_passthrough [simp]: "seal A n None x p = Inr p" "open_blob A None x p = Inr p"
  by (simp_all add: seal_def open_blob_def)

lemma seal_empty [simp]: "seal A n (Some k) x [] = Inr []" "open_blob A (Some k) x [] = Inr []"
  by (simp_all add: seal_def open_blob_def)

text \<open>A blob that is not empty, sealed under a key.\<close>

lemma seal_cases:
  assumes "seal A nonce (Some k) x p = Inr b" "p \<noteq> []"
  obtains n c where "nonce = Inr n" "encrypt A k n (context_aad x) p = Some c"
    "b = BLOB_VERSION # key_id (sha256 A) k @ n @ c"
  using assms by (auto simp: seal_def split: option.splits sum.splits)

lemma split_sealed:
  assumes "aead_ok A" "length n = 24" "length c \<ge> 16"
  shows "split_blob A k x (BLOB_VERSION # key_id (sha256 A) k @ n @ c) = Inr (n, c)"
  using assms key_id_length [OF assms(1), of k]
  by (simp add: split_blob_def HEADER_LEN_def TAG_LEN_def)

lemma open_seal:
  assumes A: "aead_ok A" and nonce: "\<forall>n. nonce = Inr n \<longrightarrow> length n = 24"
    and seal: "seal A nonce c x p = Inr b"
  shows "open_blob A c x b = Inr p"
proof (cases c)
  case None
  with seal show ?thesis by simp
next
  case (Some k)
  show ?thesis
  proof (cases "p = []")
    case True
    with seal Some show ?thesis by simp
  next
    case False
    obtain n ct where n: "nonce = Inr n" "encrypt A k n (context_aad x) p = Some ct"
        "b = BLOB_VERSION # key_id (sha256 A) k @ n @ ct"
      using seal_cases [OF seal [unfolded Some] False] .
    have dec: "decrypt A k n (context_aad x) ct = Some p" "length ct \<ge> 16"
      using A n(2) unfolding aead_ok_def by auto
    have "split_blob A k x b = Inr (n, ct)"
      unfolding n(3) using nonce n(1) dec(2) by (intro split_sealed [OF A]) auto
    then show ?thesis using dec(1) n(3) by (simp add: open_blob_def Some)
  qed
qed

lemma seal_empty_iff:
  assumes "aead_ok A" "seal A nonce c x p = Inr b"
  shows "b = [] \<longleftrightarrow> p = []"
proof (cases c)
  case (Some k)
  with assms show ?thesis by (cases "p = []") (auto elim!: seal_cases)
qed (use assms in simp)

text \<open>A key with another id opens nothing of this one but the empty blob.\<close>

lemma open_other_key:
  assumes A: "aead_ok A" and nonce: "length n = 24"
    and seal: "seal A (Inr n) (Some k) x p = Inr b" "p \<noteq> []"
    and other: "key_id (sha256 A) k' \<noteq> key_id (sha256 A) k"
  shows "\<exists>e. open_blob A (Some k') y b = Inl e"
proof -
  obtain ct where b: "b = BLOB_VERSION # key_id (sha256 A) k @ n @ ct"
      and ct: "encrypt A k n (context_aad x) p = Some ct"
    using seal_cases [OF seal] by blast
  then have "length ct \<ge> 16" using A unfolding aead_ok_def by force
  then have "\<exists>e. split_blob A k' y b = Inl e"
    using other b nonce key_id_length [OF A, of k]
    by (simp add: split_blob_def HEADER_LEN_def TAG_LEN_def)
  then show ?thesis using b by (auto simp: open_blob_def)
qed

section \<open>What a blob is bound to\<close>

lemma context_aad_inject:
  assumes "0 \<notin> set (str_bytes (bc_table x))" "0 \<notin> set (str_bytes (bc_column x))"
    and "0 \<notin> set (str_bytes (bc_table y))" "0 \<notin> set (str_bytes (bc_column y))"
    and eq: "context_aad x = context_aad y"
  shows "x = y"
proof -
  have "be_bytes32 (bc_device_id x) = be_bytes32 (bc_device_id y) \<and>
      str_bytes (bc_table x) @ 0 # str_bytes (bc_column x) @ 0 # bc_row x =
      str_bytes (bc_table y) @ 0 # str_bytes (bc_column y) @ 0 # bc_row y"
    using eq by (simp add: context_aad_def append_eq_append_conv)
  then show ?thesis using assms(1-4) by (simp add: sep_append_eq)
qed

text \<open>The values a table can hold in a key column, of which a zero byte is never part.\<close>

fun part_fits :: "key_column \<Rightarrow> row_part \<Rightarrow> bool" where
  "part_fits (KText _) (PText t) \<longleftrightarrow> 0 \<notin> set (str_bytes t)"
| "part_fits (KId _) (PInt i) \<longleftrightarrow> 0 \<le> i \<and> i < 2 ^ 32"
| "part_fits (KBytes _) (PBytes b) \<longleftrightarrow> True"
| "part_fits _ _ \<longleftrightarrow> False"

definition parts_fit :: "sealed_column \<Rightarrow> row_part list \<Rightarrow> bool" where
  "parts_fit col parts \<longleftrightarrow> list_all2 part_fits (sc_key col) parts"

lemma part_bytes_inject:
  assumes "part_fits k p" "part_fits k q" "part_bytes p = part_bytes q"
  shows "p = q"
proof (cases k)
  case (KId n)
  with assms obtain i j where p: "p = PInt i" "q = PInt j" "0 \<le> i" "i < 2 ^ 32" "0 \<le> j" "j < 2 ^ 32"
    by (cases p; cases q) auto
  with assms(3) have "(word_of_int i :: bits32) = word_of_int j" by simp
  then have "uint (word_of_int i :: bits32) = uint (word_of_int j :: bits32)" by simp
  with p show ?thesis by (simp add: uint_word_of_int)
qed (use assms in \<open>cases p; cases q; simp\<close>)+

text \<open>In every sealed column only the last key column can hold a zero byte.\<close>

lemma sealed_columns_table:
  "\<forall>col\<in>set sealed_columns.
     list_all (\<lambda>k. case k of KText _ \<Rightarrow> True | _ \<Rightarrow> False) (butlast (sc_key col)) \<and>
     0 \<notin> set (str_bytes (sc_table col)) \<and> 0 \<notin> set (str_bytes (sc_column col))"
  "distinct (map sc_table sealed_columns)"
  by code_simp+

lemma parts_map_inject:
  assumes "list_all2 part_fits ks ps" "list_all2 part_fits ks qs" "map part_bytes ps = map part_bytes qs"
  shows "ps = qs"
  using assms
proof (induction ks arbitrary: ps qs)
  case (Cons k ks)
  then show ?case by (auto simp: list_all2_Cons1 intro: part_bytes_inject)
qed simp

lemma butlast_fits:
  assumes "list_all2 part_fits ks ps"
    and "list_all (\<lambda>k. case k of KText _ \<Rightarrow> True | _ \<Rightarrow> False) (butlast ks)"
    and "p \<in> set (butlast (map part_bytes ps))"
  shows "0 \<notin> set p"
  using assms
proof (induction ks arbitrary: ps)
  case (Cons k ks)
  obtain q qs where ps: "ps = q # qs" "part_fits k q" "list_all2 part_fits ks qs"
    using Cons.prems(1) by (auto simp: list_all2_Cons1)
  show ?case
  proof (cases "ks = []")
    case True
    with Cons.prems ps show ?thesis by simp
  next
    case False
    then have "qs \<noteq> []" using ps(3) by auto
    with Cons False ps show ?thesis by (cases k; cases q) auto
  qed
qed simp

lemma row_key_inject:
  assumes "col \<in> set sealed_columns" "parts_fit col ps" "parts_fit col qs" "row_key ps = row_key qs"
  shows "ps = qs"
proof -
  have texts: "list_all (\<lambda>k. case k of KText _ \<Rightarrow> True | _ \<Rightarrow> False) (butlast (sc_key col))"
    using sealed_columns_table(1) assms(1) by blast
  have fits: "list_all2 part_fits (sc_key col) ps" "list_all2 part_fits (sc_key col) qs"
    using assms(2,3) by (auto simp: parts_fit_def)
  have "map part_bytes ps = map part_bytes qs"
  proof (rule join_with_inject)
    show "length (map part_bytes ps) = length (map part_bytes qs)"
      using fits by (auto dest!: list_all2_lengthD)
    show "join_with 0 (map part_bytes ps) = join_with 0 (map part_bytes qs)"
      using assms(4) by (simp add: row_key_def joined_row_def)
  qed (use butlast_fits [OF fits(1) texts] butlast_fits [OF fits(2) texts] in auto)
  then show ?thesis by (rule parts_map_inject [OF fits])
qed

section \<open>The properties\<close>

text \<open>A stand-in for the cipher: the message, then the tag's 16 bytes.\<close>

definition demo_crypto :: crypto where
  "demo_crypto =
     \<lparr>encrypt = (\<lambda>k n a m. Some (m @ replicate 16 7)),
      decrypt = (\<lambda>k n a c. if length c < 16 then None else Some (take (length c - 16) c)),
      sha256 = (\<lambda>k. take 32 (k @ replicate 32 0))\<rparr>"

lemma demo_crypto_ok: "aead_ok demo_crypto"
  by (auto simp: aead_ok_def demo_crypto_def min_def)

text \<open>
  C19. What was sealed for a place in the store opens there to the same bytes, sealed or passed
  through, and it is empty exactly when they are; a key with another id refuses it.
\<close>

theorem sealed_blob_round_trip:
  assumes "aead_ok A" and "length n = 24" and "seal A (Inr n) c x p = Inr b"
  shows "open_blob A c x b = Inr p \<and> (b = [] \<longleftrightarrow> p = []) \<and>
         (\<forall>k k' y. c = sealing k \<and> p \<noteq> [] \<and> key_id (sha256 A) k' \<noteq> key_id (sha256 A) k \<longrightarrow>
            \<not> is_ok (open_blob A (sealing k') y b))"
proof (intro conjI allI impI)
  show "open_blob A c x b = Inr p" using assms by (intro open_seal [of A "Inr n"]) auto
  show "b = [] \<longleftrightarrow> p = []" using assms by (intro seal_empty_iff) auto
  fix k k' y
  assume "c = sealing k \<and> p \<noteq> [] \<and> key_id (sha256 A) k' \<noteq> key_id (sha256 A) k"
  with open_other_key [OF assms(1,2), of k x p b k' y] assms(3)
  show "\<not> is_ok (open_blob A (sealing k') y b)" by (auto simp: sealing_def)
qed

theorem sealed_blob_round_trip_witness:
  "\<exists>b. seal demo_crypto (Inr (replicate 24 5)) (sealing (replicate 32 1))
         \<lparr>bc_device_id = 4, bc_table = ''identities'', bc_column = ''key'', bc_row = [9]\<rparr> [1, 2, 3] = Inr b \<and>
       open_blob demo_crypto (sealing (replicate 32 1))
         \<lparr>bc_device_id = 4, bc_table = ''identities'', bc_column = ''key'', bc_row = [9]\<rparr> b = Inr [1, 2, 3]"
proof -
  let ?x = "\<lparr>bc_device_id = 4, bc_table = ''identities'', bc_column = ''key'', bc_row = [9]\<rparr>"
  obtain b where b: "seal demo_crypto (Inr (replicate 24 5)) (sealing (replicate 32 1)) ?x [1, 2, 3] = Inr b"
    by (auto simp: seal_def sealing_def demo_crypto_def)
  with sealed_blob_round_trip [OF demo_crypto_ok _ b] show ?thesis by auto
qed

text \<open>
  C20. The associated data of a blob names one place only: two rows of the secret columns with the
  same associated data are the same row of the same column of the same account. A blob moved
  elsewhere is opened with other associated data than it was sealed with.
\<close>

theorem associated_data_names_one_place:
  assumes "col \<in> set sealed_columns" and "col' \<in> set sealed_columns"
    and "parts_fit col ps" and "parts_fit col' ps'"
    and "context_aad \<lparr>bc_device_id = d, bc_table = sc_table col, bc_column = sc_column col, bc_row = row_key ps\<rparr> =
         context_aad \<lparr>bc_device_id = d', bc_table = sc_table col', bc_column = sc_column col', bc_row = row_key ps'\<rparr>"
  shows "d = d' \<and> col = col' \<and> ps = ps'"
proof -
  have same: "d = d' \<and> sc_table col = sc_table col' \<and> row_key ps = row_key ps'"
    using context_aad_inject [OF _ _ _ _ assms(5)] sealed_columns_table(1) assms(1,2) by auto
  moreover have "col = col'"
    using same sealed_columns_table(2) assms(1,2) by (auto simp: distinct_map inj_on_def)
  ultimately show ?thesis using row_key_inject [OF assms(1,3)] assms(4) by auto
qed

theorem associated_data_names_one_place_witness:
  "context_aad \<lparr>bc_device_id = 1, bc_table = ''base_keys'', bc_column = ''base_key'', bc_row = row_key [PText ''ab'', PText ''c'']\<rparr>
   \<noteq> context_aad \<lparr>bc_device_id = 1, bc_table = ''base_keys'', bc_column = ''base_key'', bc_row = row_key [PText ''a'', PText ''bc'']\<rparr>"
proof -
  let ?col = "sealed ''base_keys'' ''base_key'' [KText ''address'', KText ''message_id'']"
  have "?col \<in> set sealed_columns" "parts_fit ?col [PText ''ab'', PText ''c'']"
      "parts_fit ?col [PText ''a'', PText ''bc'']"
    by code_simp+
  from associated_data_names_one_place [OF this(1,1,2,3), of 1 1] show ?thesis
    by (auto simp: sealed_def)
qed

end
