(* ===== verification/Sql_Store.thy ===== *)
theory Sql_Store
  imports Blob_Cipher "HOL-Library.AList"
begin

text \<open>
  The SQL engine under the store traits (\<open>storage/sql/mod.rs\<close>, \<open>macros.rs\<close>, \<open>transaction.rs\<close>,
  \<open>storage/batch_chunks.rs\<close>): the tables, the ways a statement can end, transactions and batched
  reads. A table is the list of its rows by primary key. The engine is not modelled: how it answers
  the n-th statement of a call is an argument (\<open>e_answer\<close>), and so is the randomness of the call. A
  statement that fails may still have taken effect (a connection lost after the COMMIT), which is
  \<open>Unknown\<close>; a foreign key that is violated is a \<open>Failed\<close> answer.
\<close>

section \<open>Answers and statements\<close>

datatype answer = Ran | Failed store_error | Unknown store_error

record sql_env =
  e_crypto :: crypto
  e_nonce :: "nat \<Rightarrow> string + bytes"
  e_answer :: "nat \<Rightarrow> answer"

type_synonym ('k, 'v) tbl = "('k \<times> 'v) list"

definition execute_sql :: "answer \<Rightarrow> ('db \<Rightarrow> 'db) \<Rightarrow> 'db \<Rightarrow> 'db \<times> (store_error + unit)" where
  "execute_sql ans stmt db =
     (case ans of Ran \<Rightarrow> (stmt db, Inr ()) | Failed e \<Rightarrow> (db, Inl e) | Unknown e \<Rightarrow> (stmt db, Inl e))"

text \<open>A statement that reports the rows it affected.\<close>

definition execute_count_sql ::
  "answer \<Rightarrow> ('db \<Rightarrow> 'db) \<Rightarrow> ('db \<Rightarrow> nat) \<Rightarrow> 'db \<Rightarrow> 'db \<times> (store_error + u32)" where
  "execute_count_sql ans stmt affected db =
     (case execute_sql ans stmt db of (db', res) \<Rightarrow> (db', map_ok (\<lambda>_. of_nat (affected db)) res))"

definition query_sql :: "answer \<Rightarrow> 'a \<Rightarrow> store_error + 'a" where
  "query_sql ans rows = (case ans of Ran \<Rightarrow> Inr rows | Failed e \<Rightarrow> Inl e | Unknown e \<Rightarrow> Inl e)"

text \<open>
  A transaction with a loop of statements: \<open>BEGIN\<close> is answer 0, the statement of the i-th item answer
  \<open>i + 1\<close>, \<open>COMMIT\<close> the one after. An error before the \<open>COMMIT\<close> drops the transaction.
\<close>

fun tx_loop ::
  "(nat \<Rightarrow> answer) \<Rightarrow> nat \<Rightarrow> (nat \<Rightarrow> 'x \<Rightarrow> store_error + ('db \<Rightarrow> 'db)) \<Rightarrow> 'x list \<Rightarrow> 'db \<Rightarrow> store_error + 'db" where
  "tx_loop ans i stmt [] db = Inr db"
| "tx_loop ans i stmt (x # xs) db =
     and_then (stmt i x) (\<lambda>run.
     and_then (query_sql (ans (Suc i)) (run db)) (\<lambda>db'. tx_loop ans (Suc i) stmt xs db'))"

definition commit_tx :: "answer \<Rightarrow> 'db \<Rightarrow> store_error + 'db \<Rightarrow> 'db \<times> (store_error + unit)" where
  "commit_tx ans db body =
     (case body of Inl e \<Rightarrow> (db, Inl e) | Inr db' \<Rightarrow> execute_sql ans (\<lambda>_. db') db)"

definition in_tx ::
  "(nat \<Rightarrow> answer) \<Rightarrow> (nat \<Rightarrow> 'x \<Rightarrow> store_error + ('db \<Rightarrow> 'db)) \<Rightarrow> 'x list \<Rightarrow> 'db \<Rightarrow> 'db \<times> (store_error + unit)" where
  "in_tx ans stmt xs db =
     commit_tx (ans (Suc (length xs))) db
       (and_then (query_sql (ans 0) ()) (\<lambda>_. tx_loop ans 0 stmt xs db))"

lemma execute_sql_cases:
  "execute_sql ans stmt db = (db', res) \<Longrightarrow>
   (db' = db \<or> db' = stmt db) \<and> (res = Inr () \<longrightarrow> db' = stmt db)"
  by (auto simp: execute_sql_def split: answer.splits)

lemma query_sql_Inr [simp]: "query_sql ans rows = Inr x \<longleftrightarrow> ans = Ran \<and> x = rows"
  by (auto simp: query_sql_def split: answer.splits)

lemma execute_sql_Ran [simp]: "execute_sql Ran stmt db = (stmt db, Inr ())"
  by (simp add: execute_sql_def)

text \<open>A transaction is all or nothing, whatever the answers.\<close>

lemma in_tx_cases:
  assumes "in_tx ans stmt xs db = (db', res)"
  shows "(db' = db \<or> tx_loop ans 0 stmt xs db = Inr db') \<and>
         (res = Inr () \<longrightarrow> tx_loop ans 0 stmt xs db = Inr db')"
  using assms
  by (auto simp: in_tx_def commit_tx_def execute_sql_def and_then_def query_sql_def
      split: sum.splits answer.splits)

lemma tx_loop_invariant:
  assumes "tx_loop ans i stmt xs db = Inr db'" and "P db"
    and "\<And>i x run db. x \<in> set xs \<Longrightarrow> stmt i x = Inr run \<Longrightarrow> P db \<Longrightarrow> P (run db)"
  shows "P db'"
  using assms
proof (induction xs arbitrary: i db)
  case (Cons x xs)
  then obtain run where run: "stmt i x = Inr run" "tx_loop ans (Suc i) stmt xs (run db) = Inr db'"
    by (auto simp: and_then_Inr_iff)
  have "P (run db)" using Cons.prems(3) [OF _ run(1) Cons.prems(2)] by simp
  show ?case by (rule Cons.IH [OF run(2) \<open>P (run db)\<close>]) (use Cons.prems(3) in auto)
qed simp

lemma in_tx_invariant:
  assumes "in_tx ans stmt xs db = (db', res)" and "P db"
    and "\<And>i x run db. x \<in> set xs \<Longrightarrow> stmt i x = Inr run \<Longrightarrow> P db \<Longrightarrow> P (run db)"
  shows "P db'"
proof -
  from in_tx_cases [OF assms(1)] have "db' = db \<or> tx_loop ans 0 stmt xs db = Inr db'" by blast
  then show ?thesis using tx_loop_invariant [of ans 0 stmt xs db db' P] assms(2,3) by blast
qed

section \<open>Batched reads\<close>

definition READ_CHUNK :: nat where
  "READ_CHUNK = 100"

fun unique_from :: "'a list \<Rightarrow> 'a list \<Rightarrow> 'a list" where
  "unique_from seen [] = []"
| "unique_from seen (x # xs) = (if x \<in> set seen then unique_from seen xs else x # unique_from (x # seen) xs)"

definition pad_to_read_chunk :: "'a list \<Rightarrow> 'a list" where
  "pad_to_read_chunk chunk =
     (if chunk = [] then []
      else take READ_CHUNK chunk @ replicate (READ_CHUNK - length chunk) (last chunk))"

definition padded_chunks :: "'a list \<Rightarrow> 'a list list" where
  "padded_chunks items = map pad_to_read_chunk (chunks READ_CHUNK (unique_from [] items))"

lemma unique_from_props:
  "set (unique_from seen xs) = set xs - set seen" "distinct (unique_from seen xs)"
  by (induction seen xs rule: unique_from.induct) auto

lemma pad_props:
  assumes "c \<noteq> []" "length c \<le> READ_CHUNK"
  shows "length (pad_to_read_chunk c) = READ_CHUNK" "set (pad_to_read_chunk c) = set c"
  using assms by (auto simp: pad_to_read_chunk_def dest: in_set_takeD)

text \<open>
  A batched read over the chunks: the rows of each chunk in turn. The chunks part the distinct keys,
  so the rows read are the rows of the asked keys, each once.
\<close>

definition select_in :: "('r \<Rightarrow> 'k) \<Rightarrow> 'k list \<Rightarrow> 'r list \<Rightarrow> 'r list" where
  "select_in key ks rows = filter (\<lambda>r. key r \<in> set ks) rows"

definition rows_in_chunks :: "('r \<Rightarrow> 'k) \<Rightarrow> 'k list \<Rightarrow> 'r list \<Rightarrow> 'r list" where
  "rows_in_chunks key ks rows = concat (map (\<lambda>c. select_in key c rows) (padded_chunks ks))"

fun select_chunks ::
  "(nat \<Rightarrow> answer) \<Rightarrow> nat \<Rightarrow> ('r \<Rightarrow> 'k) \<Rightarrow> ('r \<Rightarrow> store_error + 'x) \<Rightarrow> 'k list list \<Rightarrow> 'r list \<Rightarrow>
   store_error + 'x list" where
  "select_chunks ans i key conv [] rows = Inr []"
| "select_chunks ans i key conv (c # cs) rows =
     and_then (query_sql (ans i) (select_in key c rows)) (\<lambda>found.
     and_then (try_map conv found) (\<lambda>xs.
     and_then (select_chunks ans (Suc i) key conv cs rows) (\<lambda>ys. Inr (xs @ ys))))"

lemma try_map_append: "try_map f (xs @ ys) = and_then (try_map f xs) (\<lambda>a. and_then (try_map f ys) (\<lambda>b. Inr (a @ b)))"
  by (induction xs) (auto simp: and_then_def split: sum.splits)

lemma select_chunks_rows:
  assumes "select_chunks ans i key conv cs rows = Inr ys"
  shows "try_map conv (concat (map (\<lambda>c. select_in key c rows) cs)) = Inr ys"
  using assms
proof (induction cs arbitrary: i ys)
  case (Cons c cs)
  then obtain xs zs where "try_map conv (select_in key c rows) = Inr xs"
      "select_chunks ans (Suc i) key conv cs rows = Inr zs" "ys = xs @ zs"
    by (auto simp: and_then_Inr_iff)
  with Cons.IH show ?case by (simp add: try_map_append)
qed simp

lemma padded_chunks_props:
  "(\<Union>c\<in>set (padded_chunks ks). set c) = set ks"
  "c \<in> set (padded_chunks ks) \<Longrightarrow> length c = READ_CHUNK"
proof -
  let ?u = "unique_from [] ks"
  have pad: "set (pad_to_read_chunk c) = set c \<and> length (pad_to_read_chunk c) = READ_CHUNK"
    if "c \<in> set (chunks READ_CHUNK ?u)" for c
    using chunks_parts [OF that] pad_props by blast
  have "(\<Union>c\<in>set (padded_chunks ks). set c) = (\<Union>c\<in>set (chunks READ_CHUNK ?u). set c)"
    using pad by (auto simp: padded_chunks_def)
  also have "\<dots> = set (concat (chunks READ_CHUNK ?u))" by simp
  also have "\<dots> = set ks" by (simp add: concat_chunks READ_CHUNK_def unique_from_props)
  finally show "(\<Union>c\<in>set (padded_chunks ks). set c) = set ks" .
  show "length c = READ_CHUNK" if "c \<in> set (padded_chunks ks)"
    using that pad by (auto simp: padded_chunks_def)
qed

lemma chunks_disjoint:
  "distinct xs \<Longrightarrow> distinct (map set (chunks n xs)) \<and>
   (\<forall>a\<in>set (chunks n xs). \<forall>b\<in>set (chunks n xs). a \<noteq> b \<longrightarrow> set a \<inter> set b = {})"
proof (induction n xs rule: chunks.induct)
  case (1 n xs)
  show ?case
  proof (cases "n = 0 \<or> xs = []")
    case True
    then show ?thesis by (subst (1 2 3) chunks.simps) simp
  next
    case False
    then have c: "chunks n xs = take n xs # chunks n (drop n xs)" by (subst chunks.simps) simp
    have ih: "distinct (map set (chunks n (drop n xs)))"
        "\<forall>a\<in>set (chunks n (drop n xs)). \<forall>b\<in>set (chunks n (drop n xs)). a \<noteq> b \<longrightarrow> set a \<inter> set b = {}"
      using 1 False by auto
    have parts: "set b \<subseteq> set (drop n xs)" if "b \<in> set (chunks n (drop n xs))" for b
    proof -
      have "set b \<subseteq> set (concat (chunks n (drop n xs)))" using that by auto
      then show ?thesis using False concat_chunks [of n "drop n xs"] by (simp del: set_concat)
    qed
    have apart: "set (take n xs) \<inter> set (drop n xs) = {}"
      using 1(2) by (metis append_take_drop_id distinct_append)
    obtain x where x: "x \<in> set (take n xs)" using False by (cases xs; cases n) auto
    have "set (take n xs) \<noteq> set z" if "z \<in> set (chunks n (drop n xs))" for z
      using parts [OF that] apart x by blast
    then have "set (take n xs) \<notin> set ` set (chunks n (drop n xs))" by blast
    moreover have "set a \<inter> set b = {}" if "a \<in> set (chunks n xs)" "b \<in> set (chunks n xs)" "a \<noteq> b" for a b
    proof -
      have "set (take n xs) \<inter> set z = {}" if "z \<in> set (chunks n (drop n xs))" for z
        using parts [OF that] apart by blast
      then show ?thesis using that ih(2) unfolding c by (metis inf_commute set_ConsD)
    qed
    ultimately show ?thesis using ih(1) c by simp
  qed
qed

lemma rows_in_chunks_set: "set (rows_in_chunks key ks rows) = {r \<in> set rows. key r \<in> set ks}"
  using padded_chunks_props(1) [of ks] by (auto simp: rows_in_chunks_def select_in_def)

lemma distinct_concat_select:
  assumes "distinct (map key rows)" "distinct (map set cs)"
    and "\<forall>a\<in>set cs. \<forall>b\<in>set cs. a \<noteq> b \<longrightarrow> set a \<inter> set b = {}"
  shows "distinct (map key (concat (map (\<lambda>c. select_in key c rows) cs)))"
  using assms(2,3)
proof (induction cs)
  case (Cons c cs)
  have d: "distinct (map key (select_in key c rows))"
    using assms(1) by (auto simp: select_in_def distinct_map inj_on_def)
  have "set c \<inter> set b = {}" if "b \<in> set cs" for b
    using Cons.prems that by (auto simp: image_iff)
  then show ?case using Cons d by (auto simp: select_in_def image_iff) blast+
qed simp

lemma rows_in_chunks_distinct:
  assumes "distinct (map key rows)"
  shows "distinct (map key (rows_in_chunks key ks rows))"
proof -
  let ?cs = "chunks READ_CHUNK (unique_from [] ks)"
  have cs: "distinct (map set ?cs)" "\<forall>a\<in>set ?cs. \<forall>b\<in>set ?cs. a \<noteq> b \<longrightarrow> set a \<inter> set b = {}"
    using chunks_disjoint [OF unique_from_props(2) [of "[]" ks]] by auto
  have same: "select_in key (pad_to_read_chunk c) rows = select_in key c rows" if "c \<in> set ?cs" for c
    using pad_props(2) [of c] chunks_parts [OF that] by (simp add: select_in_def)
  have "map (\<lambda>c. select_in key c rows) (padded_chunks ks) = map (\<lambda>c. select_in key c rows) ?cs"
    using same by (simp add: padded_chunks_def)
  then show ?thesis using distinct_concat_select [OF assms cs] by (simp add: rows_in_chunks_def)
qed

section \<open>The tables and the backend\<close>

record tc_row =
  tc_token :: bytes
  tc_token_timestamp :: i64
  tc_sender_timestamp :: "i64 option"
  tc_updated_at :: i64

record lid_row =
  lid_phone_number :: string
  lid_created_at :: i64
  lid_learning_source :: string
  lid_updated_at :: i64

record device_list_row =
  dl_devices_json :: string
  dl_timestamp :: i64
  dl_phash :: "string option"
  dl_updated_at :: i64
  dl_raw_id :: "bits32 option"

record secret_row =
  sr_secret :: bytes
  sr_expires_at :: i64
  sr_message_ts :: i64

record sql_db =
  device :: "(bits32, bytes) tbl"
  identities :: "(string \<times> bits32, bytes) tbl"
  sessions :: "(string \<times> bits32, bytes) tbl"
  prekeys :: "(bits32 \<times> bits32, bytes \<times> bool) tbl"
  signed_prekeys :: "(bits32 \<times> bits32, bytes) tbl"
  sender_keys :: "(string \<times> bits32, bytes) tbl"
  app_state_keys :: "(bytes \<times> bits32, bytes) tbl"
  app_state_versions :: "(string \<times> bits32, bytes) tbl"
  app_state_mutation_macs :: "((string \<times> bytes) \<times> bits32, i64 \<times> bytes) tbl"
  base_keys :: "((string \<times> string) \<times> bits32, bytes \<times> i64) tbl"
  device_registry :: "(string \<times> bits32, device_list_row) tbl"
  lid_pn_mapping :: "(string \<times> bits32, lid_row) tbl"
  sender_key_devices :: "((string \<times> string) \<times> bits32, bits32 \<times> i64) tbl"
  tc_tokens :: "(string \<times> bits32, tc_row) tbl"
  sent_messages :: "((string \<times> string) \<times> bits32, bytes \<times> i64) tbl"
  msg_secrets :: "((string \<times> string \<times> string) \<times> bits32, secret_row) tbl"

text \<open>\<open>INSERT ... ON CONFLICT DO UPDATE\<close>, where the new row may depend on the old one.\<close>

definition upsert_with :: "'k \<Rightarrow> 'v \<Rightarrow> ('v \<Rightarrow> 'v) \<Rightarrow> ('k, 'v) tbl \<Rightarrow> ('k, 'v) tbl" where
  "upsert_with k new merge t =
     (case map_of t k of None \<Rightarrow> AList.update k new t | Some old \<Rightarrow> AList.update k (merge old) t)"

definition delete_where :: "('k \<Rightarrow> 'v \<Rightarrow> bool) \<Rightarrow> ('k, 'v) tbl \<Rightarrow> ('k, 'v) tbl" where
  "delete_where P t = filter (\<lambda>(k, v). \<not> P k v) t"

definition count_where :: "('k \<Rightarrow> 'v \<Rightarrow> bool) \<Rightarrow> ('k, 'v) tbl \<Rightarrow> nat" where
  "count_where P t = length (filter (\<lambda>(k, v). P k v) t)"

text \<open>The rows of one account.\<close>

definition of_device :: "bits32 \<Rightarrow> ('k \<times> bits32, 'v) tbl \<Rightarrow> ('k \<times> 'v) list" where
  "of_device d t = map (\<lambda>((k, _), v). (k, v)) (filter (\<lambda>((_, e), _). e = d) t)"

record sql_backend =
  be_device :: bits32
  be_cipher :: blob_cipher

definition backend_new :: "bits32 \<Rightarrow> sql_backend" where
  "backend_new d = \<lparr>be_device = d, be_cipher = passthrough\<rparr>"

definition device_backend :: "blob_cipher \<Rightarrow> bits32 \<Rightarrow> sql_backend" where
  "device_backend c d = \<lparr>be_device = d, be_cipher = c\<rparr>"

definition backend_seal_at ::
  "sql_env \<Rightarrow> nat \<Rightarrow> sql_backend \<Rightarrow> string \<Rightarrow> string \<Rightarrow> bytes \<Rightarrow> bytes \<Rightarrow> store_error + bytes" where
  "backend_seal_at E n be table column row plain =
     seal_at (e_crypto E) (e_nonce E n) (be_cipher be) (be_device be) table column row plain"

definition backend_open_at ::
  "sql_env \<Rightarrow> sql_backend \<Rightarrow> string \<Rightarrow> string \<Rightarrow> bytes \<Rightarrow> bytes \<Rightarrow> store_error + bytes" where
  "backend_open_at E be table column row stored =
     open_at (e_crypto E) (be_cipher be) (be_device be) table column row stored"

definition env_ok :: "sql_env \<Rightarrow> bool" where
  "env_ok E \<longleftrightarrow> aead_ok (e_crypto E) \<and> (\<forall>n b. e_nonce E n = Inr b \<longrightarrow> length b = 24)"

lemma backend_open_seal:
  assumes "env_ok E" "env_ok F" "e_crypto F = e_crypto E"
    and "backend_seal_at E n be table column row plain = Inr b"
  shows "backend_open_at F be table column row b = Inr plain"
  using assms open_seal [of "e_crypto E" "e_nonce E n"]
  by (auto simp: backend_seal_at_def backend_open_at_def seal_at_def open_at_def env_ok_def)

text \<open>Tables as maps.\<close>

lemma map_of_upsert_with [simp]:
  "map_of (upsert_with k new merge t) =
   (map_of t)(k \<mapsto> (case map_of t k of None \<Rightarrow> new | Some old \<Rightarrow> merge old))"
  by (auto simp: upsert_with_def AList.update_conv' split: option.splits)

lemma map_of_update_key [simp]: "map_of (AList.update k v t) = (map_of t)(k \<mapsto> v)"
  by (rule AList.update_conv')

lemma distinct_upsert_with [simp]:
  "distinct (map fst t) \<Longrightarrow> distinct (map fst (upsert_with k new merge t))"
  by (auto simp: upsert_with_def AList.distinct_update split: option.splits)

lemma distinct_delete_where [simp]: "distinct (map fst t) \<Longrightarrow> distinct (map fst (delete_where P t))"
  by (auto simp: delete_where_def distinct_map inj_on_def)

lemma map_of_delete_where:
  "distinct (map fst t) \<Longrightarrow>
   map_of (delete_where P t) k = (case map_of t k of None \<Rightarrow> None | Some v \<Rightarrow> if P k v then None else Some v)"
proof (induction t)
  case (Cons r t)
  then show ?case
    by (cases r) (auto simp: delete_where_def image_iff split: option.splits dest!: map_of_SomeD)
qed (simp add: delete_where_def)

text \<open>A write under one account's key leaves the rows of the others.\<close>

lemma of_device_update [simp]: "e \<noteq> d \<Longrightarrow> of_device d (AList.update (k, e) v t) = of_device d t"
  by (induction t) (auto simp: of_device_def)

lemma of_device_upsert_with [simp]: "e \<noteq> d \<Longrightarrow> of_device d (upsert_with (k, e) new merge t) = of_device d t"
  by (auto simp: upsert_with_def split: option.splits)

lemma of_device_delete_where:
  "(\<And>k v. \<not> P (k, d) v) \<Longrightarrow> of_device d (delete_where P t) = of_device d t"
  by (induction t) (auto simp: of_device_def delete_where_def)

lemma of_device_delete [simp]: "e \<noteq> d \<Longrightarrow> of_device d (AList.delete (k, e) t) = of_device d t"
  by (induction t) (auto simp: of_device_def)

end
