(* ===== verification/Signal_Store.thy ===== *)
theory Signal_Store
  imports Sql_Store
begin

text \<open>
  \<open>SignalStore\<close> for the SQL family (\<open>storage/sql/signal_store.rs\<close>, \<open>signal_sql.rs\<close>,
  \<open>prekeys_sql.rs\<close>, \<open>storage/statements/signal.rs\<close>): identities, sessions, prekeys, signed prekeys
  and sender keys of one account, sealed under the store key. A statement is the function of the
  tables it computes, under the name of its text in \<open>statements\<close>; an \<open>id as i32\<close> keeps the 32 bits.
\<close>

section \<open>The statements\<close>

definition PUT_IDENTITY :: "string \<Rightarrow> bytes \<Rightarrow> bits32 \<Rightarrow> sql_db \<Rightarrow> sql_db" where
  "PUT_IDENTITY address key d db = db\<lparr>identities := AList.update (address, d) key (identities db)\<rparr>"

definition LOAD_IDENTITY :: "string \<Rightarrow> bits32 \<Rightarrow> sql_db \<Rightarrow> bytes option" where
  "LOAD_IDENTITY address d db = map_of (identities db) (address, d)"

definition DELETE_IDENTITY :: "string \<Rightarrow> bits32 \<Rightarrow> sql_db \<Rightarrow> sql_db" where
  "DELETE_IDENTITY address d db = db\<lparr>identities := AList.delete (address, d) (identities db)\<rparr>"

definition PUT_SESSION :: "string \<Rightarrow> bytes \<Rightarrow> bits32 \<Rightarrow> sql_db \<Rightarrow> sql_db" where
  "PUT_SESSION address r d db = db\<lparr>sessions := AList.update (address, d) r (sessions db)\<rparr>"

definition GET_SESSION :: "string \<Rightarrow> bits32 \<Rightarrow> sql_db \<Rightarrow> bytes option" where
  "GET_SESSION address d db = map_of (sessions db) (address, d)"

definition DELETE_SESSION :: "string \<Rightarrow> bits32 \<Rightarrow> sql_db \<Rightarrow> sql_db" where
  "DELETE_SESSION address d db = db\<lparr>sessions := AList.delete (address, d) (sessions db)\<rparr>"

definition STORE_PREKEY :: "bits32 \<Rightarrow> bytes \<Rightarrow> bool \<Rightarrow> bits32 \<Rightarrow> sql_db \<Rightarrow> sql_db" where
  "STORE_PREKEY i key uploaded d db = db\<lparr>prekeys := AList.update (i, d) (key, uploaded) (prekeys db)\<rparr>"

definition LOAD_PREKEY :: "bits32 \<Rightarrow> bits32 \<Rightarrow> sql_db \<Rightarrow> bytes option" where
  "LOAD_PREKEY i d db = map_option fst (map_of (prekeys db) (i, d))"

definition DELETE_PREKEY :: "bits32 \<Rightarrow> bits32 \<Rightarrow> sql_db \<Rightarrow> sql_db" where
  "DELETE_PREKEY i d db = db\<lparr>prekeys := AList.delete (i, d) (prekeys db)\<rparr>"

text \<open>The ids are \<open>INTEGER\<close>, so \<open>MAX\<close> compares them as signed.\<close>

definition MAX_PREKEY_ID :: "bits32 \<Rightarrow> sql_db \<Rightarrow> bits32" where
  "MAX_PREKEY_ID d db =
     (case map fst (of_device d (prekeys db)) of
        [] \<Rightarrow> 0
      | i # ids \<Rightarrow> fold (\<lambda>j m. if sint m < sint j then j else m) ids i)"

definition MARK_PREKEY_UPLOADED :: "bits32 \<Rightarrow> bits32 \<Rightarrow> sql_db \<Rightarrow> sql_db" where
  "MARK_PREKEY_UPLOADED i d db =
     db\<lparr>prekeys := map (\<lambda>(k, r). if k = (i, d) then (k, (fst r, True)) else (k, r)) (prekeys db)\<rparr>"

text \<open>The one statement of Postgres alone, \<open>WHERE device_id = $1 AND id = ANY($2)\<close>.\<close>

definition MARK_UPLOADED_ARRAY :: "bits32 list \<Rightarrow> bits32 \<Rightarrow> sql_db \<Rightarrow> sql_db" where
  "MARK_UPLOADED_ARRAY ids d db =
     db\<lparr>prekeys := map (\<lambda>(k, r). if snd k = d \<and> fst k \<in> set ids then (k, (fst r, True)) else (k, r)) (prekeys db)\<rparr>"

definition STORE_SIGNED_PREKEY :: "bits32 \<Rightarrow> bytes \<Rightarrow> bits32 \<Rightarrow> sql_db \<Rightarrow> sql_db" where
  "STORE_SIGNED_PREKEY i r d db = db\<lparr>signed_prekeys := AList.update (i, d) r (signed_prekeys db)\<rparr>"

definition LOAD_SIGNED_PREKEY :: "bits32 \<Rightarrow> bits32 \<Rightarrow> sql_db \<Rightarrow> bytes option" where
  "LOAD_SIGNED_PREKEY i d db = map_of (signed_prekeys db) (i, d)"

definition LOAD_ALL_SIGNED_PREKEYS :: "bits32 \<Rightarrow> sql_db \<Rightarrow> (bits32 \<times> bytes) list" where
  "LOAD_ALL_SIGNED_PREKEYS d db = of_device d (signed_prekeys db)"

definition REMOVE_SIGNED_PREKEY :: "bits32 \<Rightarrow> bits32 \<Rightarrow> sql_db \<Rightarrow> sql_db" where
  "REMOVE_SIGNED_PREKEY i d db = db\<lparr>signed_prekeys := AList.delete (i, d) (signed_prekeys db)\<rparr>"

definition PUT_SENDER_KEY :: "string \<Rightarrow> bytes \<Rightarrow> bits32 \<Rightarrow> sql_db \<Rightarrow> sql_db" where
  "PUT_SENDER_KEY address r d db = db\<lparr>sender_keys := AList.update (address, d) r (sender_keys db)\<rparr>"

definition GET_SENDER_KEY :: "string \<Rightarrow> bits32 \<Rightarrow> sql_db \<Rightarrow> bytes option" where
  "GET_SENDER_KEY address d db = map_of (sender_keys db) (address, d)"

definition DELETE_SENDER_KEY :: "string \<Rightarrow> bits32 \<Rightarrow> sql_db \<Rightarrow> sql_db" where
  "DELETE_SENDER_KEY address d db = db\<lparr>sender_keys := AList.delete (address, d) (sender_keys db)\<rparr>"

lemmas signal_statements =
  PUT_IDENTITY_def LOAD_IDENTITY_def DELETE_IDENTITY_def PUT_SESSION_def GET_SESSION_def DELETE_SESSION_def
  STORE_PREKEY_def LOAD_PREKEY_def DELETE_PREKEY_def MARK_PREKEY_UPLOADED_def MARK_UPLOADED_ARRAY_def
  STORE_SIGNED_PREKEY_def LOAD_SIGNED_PREKEY_def LOAD_ALL_SIGNED_PREKEYS_def REMOVE_SIGNED_PREKEY_def
  PUT_SENDER_KEY_def GET_SENDER_KEY_def DELETE_SENDER_KEY_def

section \<open>One row at a time\<close>

text \<open>What every sealed write does: seal, then run the statement on the sealed bytes.\<close>

definition sealed_write ::
  "sql_env \<Rightarrow> sql_backend \<Rightarrow> string \<Rightarrow> string \<Rightarrow> bytes \<Rightarrow> bytes \<Rightarrow> (bytes \<Rightarrow> 'db \<Rightarrow> 'db) \<Rightarrow> 'db \<Rightarrow>
   'db \<times> (store_error + unit)" where
  "sealed_write E be table column row plain stmt db =
     (case backend_seal_at E 0 be table column row plain of
        Inl e \<Rightarrow> (db, Inl e)
      | Inr b \<Rightarrow> execute_sql (e_answer E 0) (stmt b) db)"

definition sealed_read ::
  "sql_env \<Rightarrow> sql_backend \<Rightarrow> string \<Rightarrow> string \<Rightarrow> bytes \<Rightarrow> bytes option \<Rightarrow> store_error + bytes option" where
  "sealed_read E be table column row found =
     and_then (query_sql (e_answer E 0) found) (\<lambda>stored.
       transpose_opt (map_option (backend_open_at E be table column row) stored))"

definition put_identity :: "sql_env \<Rightarrow> sql_backend \<Rightarrow> string \<Rightarrow> bytes \<Rightarrow> sql_db \<Rightarrow> sql_db \<times> (store_error + unit)" where
  "put_identity E be address key db =
     sealed_write E be ''identities'' ''key'' (str_bytes address) key
       (\<lambda>sealed. PUT_IDENTITY address sealed (be_device be)) db"

definition load_identity :: "sql_env \<Rightarrow> sql_backend \<Rightarrow> string \<Rightarrow> sql_db \<Rightarrow> store_error + bytes option" where
  "load_identity E be address db =
     and_then (query_sql (e_answer E 0) (LOAD_IDENTITY address (be_device be) db)) (\<lambda>row.
       case row of
         None \<Rightarrow> Inr None
       | Some stored \<Rightarrow>
           and_then (backend_open_at E be ''identities'' ''key'' (str_bytes address) stored) (\<lambda>b.
             if length b = 32 then Inr (Some b)
             else Inl (Validation (''Invalid identity key length: '' @ dec (length b)))))"

definition delete_identity :: "sql_env \<Rightarrow> sql_backend \<Rightarrow> string \<Rightarrow> sql_db \<Rightarrow> sql_db \<times> (store_error + unit)" where
  "delete_identity E be address db = execute_sql (e_answer E 0) (DELETE_IDENTITY address (be_device be)) db"

definition get_session :: "sql_env \<Rightarrow> sql_backend \<Rightarrow> string \<Rightarrow> sql_db \<Rightarrow> store_error + bytes option" where
  "get_session E be address db =
     sealed_read E be ''sessions'' ''record'' (str_bytes address) (GET_SESSION address (be_device be) db)"

definition put_session :: "sql_env \<Rightarrow> sql_backend \<Rightarrow> string \<Rightarrow> bytes \<Rightarrow> sql_db \<Rightarrow> sql_db \<times> (store_error + unit)" where
  "put_session E be address session db =
     sealed_write E be ''sessions'' ''record'' (str_bytes address) session
       (\<lambda>sealed. PUT_SESSION address sealed (be_device be)) db"

definition delete_session :: "sql_env \<Rightarrow> sql_backend \<Rightarrow> string \<Rightarrow> sql_db \<Rightarrow> sql_db \<times> (store_error + unit)" where
  "delete_session E be address db = execute_sql (e_answer E 0) (DELETE_SESSION address (be_device be)) db"

definition store_prekey ::
  "sql_env \<Rightarrow> sql_backend \<Rightarrow> u32 \<Rightarrow> bytes \<Rightarrow> bool \<Rightarrow> sql_db \<Rightarrow> sql_db \<times> (store_error + unit)" where
  "store_prekey E be i r uploaded db =
     sealed_write E be ''prekeys'' ''key'' (be_bytes32 i) r
       (\<lambda>sealed. STORE_PREKEY i sealed uploaded (be_device be)) db"

definition load_prekey :: "sql_env \<Rightarrow> sql_backend \<Rightarrow> u32 \<Rightarrow> sql_db \<Rightarrow> store_error + bytes option" where
  "load_prekey E be i db =
     sealed_read E be ''prekeys'' ''key'' (be_bytes32 i) (LOAD_PREKEY i (be_device be) db)"

definition remove_prekey :: "sql_env \<Rightarrow> sql_backend \<Rightarrow> u32 \<Rightarrow> sql_db \<Rightarrow> sql_db \<times> (store_error + unit)" where
  "remove_prekey E be i db = execute_sql (e_answer E 0) (DELETE_PREKEY i (be_device be)) db"

definition get_max_prekey_id :: "sql_env \<Rightarrow> sql_backend \<Rightarrow> sql_db \<Rightarrow> store_error + u32" where
  "get_max_prekey_id E be db = query_sql (e_answer E 0) (MAX_PREKEY_ID (be_device be) db)"

definition store_signed_prekey ::
  "sql_env \<Rightarrow> sql_backend \<Rightarrow> u32 \<Rightarrow> bytes \<Rightarrow> sql_db \<Rightarrow> sql_db \<times> (store_error + unit)" where
  "store_signed_prekey E be i r db =
     sealed_write E be ''signed_prekeys'' ''record'' (be_bytes32 i) r
       (\<lambda>sealed. STORE_SIGNED_PREKEY i sealed (be_device be)) db"

definition load_signed_prekey :: "sql_env \<Rightarrow> sql_backend \<Rightarrow> u32 \<Rightarrow> sql_db \<Rightarrow> store_error + bytes option" where
  "load_signed_prekey E be i db =
     sealed_read E be ''signed_prekeys'' ''record'' (be_bytes32 i) (LOAD_SIGNED_PREKEY i (be_device be) db)"

definition load_all_signed_prekeys ::
  "sql_env \<Rightarrow> sql_backend \<Rightarrow> sql_db \<Rightarrow> store_error + (u32 \<times> bytes) list" where
  "load_all_signed_prekeys E be db =
     and_then (query_sql (e_answer E 0) (LOAD_ALL_SIGNED_PREKEYS (be_device be) db))
       (try_map (\<lambda>(i, stored).
          map_ok (Pair i) (backend_open_at E be ''signed_prekeys'' ''record'' (be_bytes32 i) stored)))"

definition remove_signed_prekey :: "sql_env \<Rightarrow> sql_backend \<Rightarrow> u32 \<Rightarrow> sql_db \<Rightarrow> sql_db \<times> (store_error + unit)" where
  "remove_signed_prekey E be i db = execute_sql (e_answer E 0) (REMOVE_SIGNED_PREKEY i (be_device be)) db"

definition put_sender_key :: "sql_env \<Rightarrow> sql_backend \<Rightarrow> string \<Rightarrow> bytes \<Rightarrow> sql_db \<Rightarrow> sql_db \<times> (store_error + unit)" where
  "put_sender_key E be address r db =
     sealed_write E be ''sender_keys'' ''record'' (str_bytes address) r
       (\<lambda>sealed. PUT_SENDER_KEY address sealed (be_device be)) db"

definition get_sender_key :: "sql_env \<Rightarrow> sql_backend \<Rightarrow> string \<Rightarrow> sql_db \<Rightarrow> store_error + bytes option" where
  "get_sender_key E be address db =
     sealed_read E be ''sender_keys'' ''record'' (str_bytes address) (GET_SENDER_KEY address (be_device be) db)"

definition delete_sender_key :: "sql_env \<Rightarrow> sql_backend \<Rightarrow> string \<Rightarrow> sql_db \<Rightarrow> sql_db \<times> (store_error + unit)" where
  "delete_sender_key E be address db = execute_sql (e_answer E 0) (DELETE_SENDER_KEY address (be_device be)) db"

section \<open>Batches\<close>

text \<open>An empty batch opens no transaction.\<close>

definition batch_tx ::
  "sql_env \<Rightarrow> (nat \<Rightarrow> 'x \<Rightarrow> store_error + ('db \<Rightarrow> 'db)) \<Rightarrow> 'x list \<Rightarrow> 'db \<Rightarrow> 'db \<times> (store_error + unit)" where
  "batch_tx E stmt xs db = (if xs = [] then (db, Inr ()) else in_tx (e_answer E) stmt xs db)"

definition put_identities ::
  "sql_env \<Rightarrow> sql_backend \<Rightarrow> (string \<times> bytes) list \<Rightarrow> sql_db \<Rightarrow> sql_db \<times> (store_error + unit)" where
  "put_identities E be ids db =
     batch_tx E (\<lambda>i (address, key).
       map_ok (\<lambda>sealed. PUT_IDENTITY address sealed (be_device be))
         (backend_seal_at E i be ''identities'' ''key'' (str_bytes address) key)) ids db"

definition put_address_records ::
  "sql_env \<Rightarrow> sql_backend \<Rightarrow> (string \<Rightarrow> bytes \<Rightarrow> bits32 \<Rightarrow> 'db \<Rightarrow> 'db) \<Rightarrow> string \<Rightarrow> string \<Rightarrow>
   (string \<times> bytes) list \<Rightarrow> 'db \<Rightarrow> 'db \<times> (store_error + unit)" where
  "put_address_records E be stmt table column records db =
     batch_tx E (\<lambda>i (address, r).
       map_ok (\<lambda>sealed. stmt address sealed (be_device be))
         (backend_seal_at E i be table column (str_bytes address) r)) records db"

definition delete_by_address ::
  "sql_env \<Rightarrow> sql_backend \<Rightarrow> (string \<Rightarrow> bits32 \<Rightarrow> 'db \<Rightarrow> 'db) \<Rightarrow> string list \<Rightarrow> 'db \<Rightarrow> 'db \<times> (store_error + unit)" where
  "delete_by_address E be stmt addresses db =
     batch_tx E (\<lambda>i address. Inr (stmt address (be_device be))) addresses db"

definition delete_identities ::
  "sql_env \<Rightarrow> sql_backend \<Rightarrow> string list \<Rightarrow> sql_db \<Rightarrow> sql_db \<times> (store_error + unit)" where
  "delete_identities E be addresses db = delete_by_address E be DELETE_IDENTITY addresses db"

definition put_sessions ::
  "sql_env \<Rightarrow> sql_backend \<Rightarrow> (string \<times> bytes) list \<Rightarrow> sql_db \<Rightarrow> sql_db \<times> (store_error + unit)" where
  "put_sessions E be ss db = put_address_records E be PUT_SESSION ''sessions'' ''record'' ss db"

definition delete_sessions ::
  "sql_env \<Rightarrow> sql_backend \<Rightarrow> string list \<Rightarrow> sql_db \<Rightarrow> sql_db \<times> (store_error + unit)" where
  "delete_sessions E be addresses db = delete_by_address E be DELETE_SESSION addresses db"

definition put_sender_keys ::
  "sql_env \<Rightarrow> sql_backend \<Rightarrow> (string \<times> bytes) list \<Rightarrow> sql_db \<Rightarrow> sql_db \<times> (store_error + unit)" where
  "put_sender_keys E be ks db = put_address_records E be PUT_SENDER_KEY ''sender_keys'' ''record'' ks db"

definition delete_sender_keys ::
  "sql_env \<Rightarrow> sql_backend \<Rightarrow> string list \<Rightarrow> sql_db \<Rightarrow> sql_db \<times> (store_error + unit)" where
  "delete_sender_keys E be addresses db = delete_by_address E be DELETE_SENDER_KEY addresses db"

definition store_prekeys ::
  "sql_env \<Rightarrow> sql_backend \<Rightarrow> (u32 \<times> bytes) list \<Rightarrow> bool \<Rightarrow> sql_db \<Rightarrow> sql_db \<times> (store_error + unit)" where
  "store_prekeys E be keys uploaded db =
     batch_tx E (\<lambda>n (i, r).
       map_ok (\<lambda>sealed. STORE_PREKEY i sealed uploaded (be_device be))
         (backend_seal_at E n be ''prekeys'' ''key'' (be_bytes32 i) r)) keys db"

definition remove_prekeys :: "sql_env \<Rightarrow> sql_backend \<Rightarrow> u32 list \<Rightarrow> sql_db \<Rightarrow> sql_db \<times> (store_error + unit)" where
  "remove_prekeys E be ids db = batch_tx E (\<lambda>n i. Inr (DELETE_PREKEY i (be_device be))) ids db"

datatype driver = Postgres | Sqlite

definition mark_uploaded ::
  "sql_env \<Rightarrow> driver \<Rightarrow> sql_backend \<Rightarrow> u32 list \<Rightarrow> sql_db \<Rightarrow> sql_db \<times> (store_error + unit)" where
  "mark_uploaded E drv be ids db =
     (if ids = [] then (db, Inr ())
      else case drv of
             Postgres \<Rightarrow> execute_sql (e_answer E 0) (MARK_UPLOADED_ARRAY ids (be_device be)) db
           | Sqlite \<Rightarrow> in_tx (e_answer E) (\<lambda>n i. Inr (MARK_PREKEY_UPLOADED i (be_device be))) ids db)"

definition get_sessions ::
  "sql_env \<Rightarrow> sql_backend \<Rightarrow> string list \<Rightarrow> sql_db \<Rightarrow> store_error + (string \<times> bytes) list" where
  "get_sessions E be addresses db =
     select_chunks (e_answer E) 0 fst
       (\<lambda>(address, stored). map_ok (Pair address)
          (backend_open_at E be ''sessions'' ''record'' (str_bytes address) stored))
       (padded_chunks addresses) (of_device (be_device be) (sessions db))"

definition load_prekeys ::
  "sql_env \<Rightarrow> sql_backend \<Rightarrow> u32 list \<Rightarrow> sql_db \<Rightarrow> store_error + (u32 \<times> bytes) list" where
  "load_prekeys E be ids db =
     select_chunks (e_answer E) 0 fst
       (\<lambda>(i, stored). map_ok (Pair i) (backend_open_at E be ''prekeys'' ''key'' (be_bytes32 i) stored))
       (padded_chunks ids)
       (map (\<lambda>(i, r). (i, fst r)) (of_device (be_device be) (prekeys db)))"

end
