(* ===== verification/Protocol_Store.thy ===== *)
theory Protocol_Store
  imports Signal_Store
begin

text \<open>
  \<open>ProtocolStore\<close> for the SQL family (\<open>storage/sql/protocol_store.rs\<close>, \<open>protocol_batch_sql.rs\<close>,
  \<open>tc_token_sql.rs\<close>, \<open>storage/protocol_rows.rs\<close> and their statements): sender-key tracking, LID-PN
  mappings, base keys, the device registry, tc tokens and the sent-message cache. The JSON of a
  device list is made by serde, a parameter (\<open>json\<close>); the clock is an argument (\<open>now\<close>).
\<close>

section \<open>Row conversions\<close>

record lid_pn_entry =
  le_lid :: string
  le_phone_number :: string
  le_created_at :: i64
  le_updated_at :: i64
  le_learning_source :: string

record 'd device_list_record =
  dr_user :: string
  dr_devices :: "'d list"
  dr_timestamp :: i64
  dr_phash :: "string option"
  dr_raw_id :: "u32 option"

record tc_token_entry =
  te_token :: bytes
  te_token_timestamp :: i64
  te_sender_timestamp :: "i64 option"

record 'd json =
  to_json :: "'d list \<Rightarrow> string + string"
  from_json :: "string \<Rightarrow> string + 'd list"

definition lid_entry :: "string \<times> lid_row \<Rightarrow> lid_pn_entry" where
  "lid_entry = (\<lambda>(lid, r).
     \<lparr>le_lid = lid, le_phone_number = lid_phone_number r, le_created_at = lid_created_at r,
      le_updated_at = lid_updated_at r, le_learning_source = lid_learning_source r\<rparr>)"

definition devices_json :: "'d json \<Rightarrow> 'd device_list_record \<Rightarrow> store_error + string" where
  "devices_json J r = map_err Serialization (to_json J (dr_devices r))"

definition device_list_record_of ::
  "'d json \<Rightarrow> string \<times> device_list_row \<Rightarrow> store_error + 'd device_list_record" where
  "device_list_record_of J = (\<lambda>(user, r).
     and_then (map_err Serialization (from_json J (dl_devices_json r))) (\<lambda>devices.
       Inr \<lparr>dr_user = user, dr_devices = devices, dr_timestamp = dl_timestamp r,
            dr_phash = dl_phash r, dr_raw_id = dl_raw_id r\<rparr>))"

section \<open>The statements\<close>

definition SET_SENDER_KEY_STATUS :: "string \<Rightarrow> string \<Rightarrow> bits32 \<Rightarrow> bits32 \<Rightarrow> i64 \<Rightarrow> sql_db \<Rightarrow> sql_db" where
  "SET_SENDER_KEY_STATUS g dj has d now db =
     db\<lparr>sender_key_devices := AList.update ((g, dj), d) (has, now) (sender_key_devices db)\<rparr>"

definition GET_SENDER_KEY_DEVICES :: "string \<Rightarrow> bits32 \<Rightarrow> sql_db \<Rightarrow> (string \<times> bits32) list" where
  "GET_SENDER_KEY_DEVICES g d db =
     map (\<lambda>((_, dj), (has, _)). (dj, has)) (filter (\<lambda>((h, _), _). h = g) (of_device d (sender_key_devices db)))"

definition CLEAR_SENDER_KEY_DEVICES :: "string \<Rightarrow> bits32 \<Rightarrow> sql_db \<Rightarrow> sql_db" where
  "CLEAR_SENDER_KEY_DEVICES g d db =
     db\<lparr>sender_key_devices := delete_where (\<lambda>((h, _), e) _. h = g \<and> e = d) (sender_key_devices db)\<rparr>"

definition DELETE_SENDER_KEY_DEVICE_ROW :: "string \<Rightarrow> bits32 \<Rightarrow> sql_db \<Rightarrow> sql_db" where
  "DELETE_SENDER_KEY_DEVICE_ROW dj d db =
     db\<lparr>sender_key_devices := delete_where (\<lambda>((_, j), e) _. j = dj \<and> e = d) (sender_key_devices db)\<rparr>"

definition CLEAR_ALL_SENDER_KEY_DEVICES :: "bits32 \<Rightarrow> sql_db \<Rightarrow> sql_db" where
  "CLEAR_ALL_SENDER_KEY_DEVICES d db =
     db\<lparr>sender_key_devices := delete_where (\<lambda>(_, e) _. e = d) (sender_key_devices db)\<rparr>"

definition GET_LID_MAPPING :: "string \<Rightarrow> bits32 \<Rightarrow> sql_db \<Rightarrow> (string \<times> lid_row) option" where
  "GET_LID_MAPPING lid d db = map_option (Pair lid) (map_of (lid_pn_mapping db) (lid, d))"

text \<open>\<open>ORDER BY updated_at DESC LIMIT 1\<close>; of equal times the table's order decides.\<close>

definition newest_of :: "(string \<times> lid_row) list \<Rightarrow> (string \<times> lid_row) option" where
  "newest_of rows =
     (case rows of
        [] \<Rightarrow> None
      | r # rs \<Rightarrow> Some (fold (\<lambda>x m. if lid_updated_at (snd m) < lid_updated_at (snd x) then x else m) rs r))"

definition GET_PN_MAPPING :: "string \<Rightarrow> bits32 \<Rightarrow> sql_db \<Rightarrow> (string \<times> lid_row) option" where
  "GET_PN_MAPPING phone d db =
     newest_of (filter (\<lambda>(_, r). lid_phone_number r = phone) (of_device d (lid_pn_mapping db)))"

definition GET_ALL_LID_MAPPINGS :: "bits32 \<Rightarrow> sql_db \<Rightarrow> (string \<times> lid_row) list" where
  "GET_ALL_LID_MAPPINGS d db = of_device d (lid_pn_mapping db)"

text \<open>On conflict the time of creation stays.\<close>

definition PUT_LID_MAPPING :: "lid_pn_entry \<Rightarrow> bits32 \<Rightarrow> sql_db \<Rightarrow> sql_db" where
  "PUT_LID_MAPPING e d db =
     db\<lparr>lid_pn_mapping := upsert_with (le_lid e, d)
          \<lparr>lid_phone_number = le_phone_number e, lid_created_at = le_created_at e,
           lid_learning_source = le_learning_source e, lid_updated_at = le_updated_at e\<rparr>
          (\<lambda>old. old\<lparr>lid_phone_number := le_phone_number e, lid_learning_source := le_learning_source e,
                     lid_updated_at := le_updated_at e\<rparr>)
          (lid_pn_mapping db)\<rparr>"

text \<open>On conflict the time of creation stays here too.\<close>

definition SAVE_BASE_KEY :: "string \<Rightarrow> string \<Rightarrow> bytes \<Rightarrow> bits32 \<Rightarrow> i64 \<Rightarrow> sql_db \<Rightarrow> sql_db" where
  "SAVE_BASE_KEY address mid key d now db =
     db\<lparr>base_keys := upsert_with ((address, mid), d) (key, now) (\<lambda>old. (key, snd old)) (base_keys db)\<rparr>"

definition GET_BASE_KEY :: "string \<Rightarrow> string \<Rightarrow> bits32 \<Rightarrow> sql_db \<Rightarrow> bytes option" where
  "GET_BASE_KEY address mid d db = map_option fst (map_of (base_keys db) ((address, mid), d))"

definition DELETE_BASE_KEY :: "string \<Rightarrow> string \<Rightarrow> bits32 \<Rightarrow> sql_db \<Rightarrow> sql_db" where
  "DELETE_BASE_KEY address mid d db = db\<lparr>base_keys := AList.delete ((address, mid), d) (base_keys db)\<rparr>"

definition expired_base_key :: "i64 \<Rightarrow> bits32 \<Rightarrow> (string \<times> string) \<times> bits32 \<Rightarrow> bytes \<times> i64 \<Rightarrow> bool" where
  "expired_base_key cutoff d k r \<longleftrightarrow> snd r < cutoff \<and> snd k = d"

definition DELETE_EXPIRED_BASE_KEYS :: "i64 \<Rightarrow> bits32 \<Rightarrow> sql_db \<Rightarrow> sql_db" where
  "DELETE_EXPIRED_BASE_KEYS cutoff d db =
     db\<lparr>base_keys := delete_where (expired_base_key cutoff d) (base_keys db)\<rparr>"

definition UPDATE_DEVICE_LIST ::
  "string \<Rightarrow> string \<Rightarrow> i64 \<Rightarrow> string option \<Rightarrow> bits32 \<Rightarrow> i64 \<Rightarrow> bits32 option \<Rightarrow> sql_db \<Rightarrow> sql_db" where
  "UPDATE_DEVICE_LIST user js ts phash d now raw db =
     db\<lparr>device_registry := AList.update (user, d)
          \<lparr>dl_devices_json = js, dl_timestamp = ts, dl_phash = phash, dl_updated_at = now, dl_raw_id = raw\<rparr>
          (device_registry db)\<rparr>"

definition GET_DEVICES :: "string \<Rightarrow> bits32 \<Rightarrow> sql_db \<Rightarrow> (string \<times> device_list_row) option" where
  "GET_DEVICES user d db = map_option (Pair user) (map_of (device_registry db) (user, d))"

definition DELETE_DEVICES :: "string \<Rightarrow> bits32 \<Rightarrow> sql_db \<Rightarrow> sql_db" where
  "DELETE_DEVICES user d db = db\<lparr>device_registry := AList.delete (user, d) (device_registry db)\<rparr>"

definition GET_TC_TOKEN :: "string \<Rightarrow> bits32 \<Rightarrow> sql_db \<Rightarrow> tc_row option" where
  "GET_TC_TOKEN jid d db = map_of (tc_tokens db) (jid, d)"

definition PUT_TC_TOKEN :: "string \<Rightarrow> bytes \<Rightarrow> i64 \<Rightarrow> i64 option \<Rightarrow> bits32 \<Rightarrow> i64 \<Rightarrow> sql_db \<Rightarrow> sql_db" where
  "PUT_TC_TOKEN jid tok ts sts d now db =
     db\<lparr>tc_tokens := AList.update (jid, d)
          \<lparr>tc_token = tok, tc_token_timestamp = ts, tc_sender_timestamp = sts, tc_updated_at = now\<rparr>
          (tc_tokens db)\<rparr>"

definition DELETE_TC_TOKEN :: "string \<Rightarrow> bits32 \<Rightarrow> sql_db \<Rightarrow> sql_db" where
  "DELETE_TC_TOKEN jid d db = db\<lparr>tc_tokens := AList.delete (jid, d) (tc_tokens db)\<rparr>"

definition GET_ALL_TC_TOKEN_JIDS :: "bits32 \<Rightarrow> sql_db \<Rightarrow> string list" where
  "GET_ALL_TC_TOKEN_JIDS d db = map fst (of_device d (tc_tokens db))"

definition expired_tc_token :: "i64 \<Rightarrow> i64 \<Rightarrow> bits32 \<Rightarrow> string \<times> bits32 \<Rightarrow> tc_row \<Rightarrow> bool" where
  "expired_tc_token token_cutoff sender_cutoff d k r \<longleftrightarrow>
     (length (tc_token r) = 0 \<or> tc_token_timestamp r < token_cutoff) \<and>
     (case tc_sender_timestamp r of None \<Rightarrow> True | Some s \<Rightarrow> s < sender_cutoff) \<and> snd k = d"

definition DELETE_EXPIRED_TC_TOKENS :: "i64 \<Rightarrow> i64 \<Rightarrow> bits32 \<Rightarrow> sql_db \<Rightarrow> sql_db" where
  "DELETE_EXPIRED_TC_TOKENS tc sc d db =
     db\<lparr>tc_tokens := delete_where (expired_tc_token tc sc d) (tc_tokens db)\<rparr>"

definition TOUCH_SENDER_TIMESTAMP :: "string \<Rightarrow> i64 \<Rightarrow> bits32 \<Rightarrow> i64 \<Rightarrow> sql_db \<Rightarrow> sql_db" where
  "TOUCH_SENDER_TIMESTAMP jid sts d now db =
     db\<lparr>tc_tokens := upsert_with (jid, d)
          \<lparr>tc_token = [], tc_token_timestamp = sts, tc_sender_timestamp = Some sts, tc_updated_at = now\<rparr>
          (\<lambda>old. old\<lparr>tc_sender_timestamp :=
                       Some (let s = (case tc_sender_timestamp old of None \<Rightarrow> sts | Some s \<Rightarrow> s)
                             in if s > sts then s else sts),
                     tc_updated_at := now\<rparr>)
          (tc_tokens db)\<rparr>"

definition STORE_RECEIVED :: "string \<Rightarrow> bytes \<Rightarrow> i64 \<Rightarrow> bits32 \<Rightarrow> i64 \<Rightarrow> sql_db \<Rightarrow> sql_db" where
  "STORE_RECEIVED jid tok ts d now db =
     db\<lparr>tc_tokens := upsert_with (jid, d)
          \<lparr>tc_token = tok, tc_token_timestamp = ts, tc_sender_timestamp = None, tc_updated_at = now\<rparr>
          (\<lambda>old. if length (tc_token old) = 0 \<or> ts \<ge> tc_token_timestamp old
                 then old\<lparr>tc_token := tok, tc_token_timestamp := ts, tc_updated_at := now\<rparr> else old)
          (tc_tokens db)\<rparr>"

definition STORE_SENT_MESSAGE :: "string \<Rightarrow> string \<Rightarrow> bytes \<Rightarrow> bits32 \<Rightarrow> i64 \<Rightarrow> sql_db \<Rightarrow> sql_db" where
  "STORE_SENT_MESSAGE chat mid payload d now db =
     db\<lparr>sent_messages := AList.update ((chat, mid), d) (payload, now) (sent_messages db)\<rparr>"

definition GET_SENT_MESSAGE :: "string \<Rightarrow> string \<Rightarrow> bits32 \<Rightarrow> sql_db \<Rightarrow> bytes option" where
  "GET_SENT_MESSAGE chat mid d db = map_option fst (map_of (sent_messages db) ((chat, mid), d))"

definition DELETE_SENT_MESSAGE :: "string \<Rightarrow> string \<Rightarrow> bits32 \<Rightarrow> sql_db \<Rightarrow> sql_db" where
  "DELETE_SENT_MESSAGE chat mid d db = db\<lparr>sent_messages := AList.delete ((chat, mid), d) (sent_messages db)\<rparr>"

definition expired_sent_message :: "i64 \<Rightarrow> bits32 \<Rightarrow> (string \<times> string) \<times> bits32 \<Rightarrow> bytes \<times> i64 \<Rightarrow> bool" where
  "expired_sent_message cutoff d k r \<longleftrightarrow> snd r < cutoff \<and> snd k = d"

definition DELETE_EXPIRED_SENT_MESSAGES :: "i64 \<Rightarrow> bits32 \<Rightarrow> sql_db \<Rightarrow> sql_db" where
  "DELETE_EXPIRED_SENT_MESSAGES cutoff d db =
     db\<lparr>sent_messages := delete_where (expired_sent_message cutoff d) (sent_messages db)\<rparr>"

lemmas protocol_statements =
  SET_SENDER_KEY_STATUS_def CLEAR_SENDER_KEY_DEVICES_def DELETE_SENDER_KEY_DEVICE_ROW_def
  CLEAR_ALL_SENDER_KEY_DEVICES_def PUT_LID_MAPPING_def SAVE_BASE_KEY_def DELETE_BASE_KEY_def
  DELETE_EXPIRED_BASE_KEYS_def UPDATE_DEVICE_LIST_def DELETE_DEVICES_def PUT_TC_TOKEN_def DELETE_TC_TOKEN_def
  DELETE_EXPIRED_TC_TOKENS_def TOUCH_SENDER_TIMESTAMP_def STORE_RECEIVED_def STORE_SENT_MESSAGE_def
  DELETE_SENT_MESSAGE_def DELETE_EXPIRED_SENT_MESSAGES_def

section \<open>Sender-key tracking and LID-PN mappings\<close>

definition get_sender_key_devices ::
  "sql_env \<Rightarrow> sql_backend \<Rightarrow> string \<Rightarrow> sql_db \<Rightarrow> store_error + (string \<times> bool) list" where
  "get_sender_key_devices E be g db =
     map_ok (map (\<lambda>(jid, has). (jid, has \<noteq> 0)))
       (query_sql (e_answer E 0) (GET_SENDER_KEY_DEVICES g (be_device be) db))"

definition set_sender_key_status ::
  "sql_env \<Rightarrow> i64 \<Rightarrow> sql_backend \<Rightarrow> string \<Rightarrow> (string \<times> bool) list \<Rightarrow> sql_db \<Rightarrow> sql_db \<times> (store_error + unit)" where
  "set_sender_key_status E now be g entries db =
     in_tx (e_answer E) (\<lambda>i (dj, has). Inr (SET_SENDER_KEY_STATUS g dj (if has then 1 else 0) (be_device be) now))
       entries db"

definition clear_sender_key_devices ::
  "sql_env \<Rightarrow> sql_backend \<Rightarrow> string \<Rightarrow> sql_db \<Rightarrow> sql_db \<times> (store_error + unit)" where
  "clear_sender_key_devices E be g db = execute_sql (e_answer E 0) (CLEAR_SENDER_KEY_DEVICES g (be_device be)) db"

definition delete_sender_key_device_rows ::
  "sql_env \<Rightarrow> sql_backend \<Rightarrow> string list \<Rightarrow> sql_db \<Rightarrow> sql_db \<times> (store_error + unit)" where
  "delete_sender_key_device_rows E be jids db =
     in_tx (e_answer E) (\<lambda>i dj. Inr (DELETE_SENDER_KEY_DEVICE_ROW dj (be_device be))) jids db"

definition clear_all_sender_key_devices ::
  "sql_env \<Rightarrow> sql_backend \<Rightarrow> sql_db \<Rightarrow> sql_db \<times> (store_error + unit)" where
  "clear_all_sender_key_devices E be db =
     execute_sql (e_answer E 0) (CLEAR_ALL_SENDER_KEY_DEVICES (be_device be)) db"

definition get_lid_mapping :: "sql_env \<Rightarrow> sql_backend \<Rightarrow> string \<Rightarrow> sql_db \<Rightarrow> store_error + lid_pn_entry option" where
  "get_lid_mapping E be lid db =
     map_ok (map_option lid_entry) (query_sql (e_answer E 0) (GET_LID_MAPPING lid (be_device be) db))"

definition get_pn_mapping :: "sql_env \<Rightarrow> sql_backend \<Rightarrow> string \<Rightarrow> sql_db \<Rightarrow> store_error + lid_pn_entry option" where
  "get_pn_mapping E be phone db =
     map_ok (map_option lid_entry) (query_sql (e_answer E 0) (GET_PN_MAPPING phone (be_device be) db))"

definition put_lid_mapping ::
  "sql_env \<Rightarrow> sql_backend \<Rightarrow> lid_pn_entry \<Rightarrow> sql_db \<Rightarrow> sql_db \<times> (store_error + unit)" where
  "put_lid_mapping E be e db = execute_sql (e_answer E 0) (PUT_LID_MAPPING e (be_device be)) db"

definition get_all_lid_mappings :: "sql_env \<Rightarrow> sql_backend \<Rightarrow> sql_db \<Rightarrow> store_error + lid_pn_entry list" where
  "get_all_lid_mappings E be db =
     map_ok (map lid_entry) (query_sql (e_answer E 0) (GET_ALL_LID_MAPPINGS (be_device be) db))"

definition put_lid_mappings ::
  "sql_env \<Rightarrow> sql_backend \<Rightarrow> lid_pn_entry list \<Rightarrow> sql_db \<Rightarrow> sql_db \<times> (store_error + unit)" where
  "put_lid_mappings E be entries db = batch_tx E (\<lambda>i e. Inr (PUT_LID_MAPPING e (be_device be))) entries db"

section \<open>Base keys and the device registry\<close>

definition save_base_key ::
  "sql_env \<Rightarrow> i64 \<Rightarrow> sql_backend \<Rightarrow> string \<Rightarrow> string \<Rightarrow> bytes \<Rightarrow> sql_db \<Rightarrow> sql_db \<times> (store_error + unit)" where
  "save_base_key E now be address mid key db =
     sealed_write E be ''base_keys'' ''base_key'' (joined_row [str_bytes address, str_bytes mid]) key
       (\<lambda>sealed. SAVE_BASE_KEY address mid sealed (be_device be) now) db"

definition has_same_base_key ::
  "sql_env \<Rightarrow> sql_backend \<Rightarrow> string \<Rightarrow> string \<Rightarrow> bytes \<Rightarrow> sql_db \<Rightarrow> store_error + bool" where
  "has_same_base_key E be address mid current db =
     map_ok (\<lambda>stored. stored = Some current)
       (sealed_read E be ''base_keys'' ''base_key'' (joined_row [str_bytes address, str_bytes mid])
          (GET_BASE_KEY address mid (be_device be) db))"

definition delete_base_key ::
  "sql_env \<Rightarrow> sql_backend \<Rightarrow> string \<Rightarrow> string \<Rightarrow> sql_db \<Rightarrow> sql_db \<times> (store_error + unit)" where
  "delete_base_key E be address mid db = execute_sql (e_answer E 0) (DELETE_BASE_KEY address mid (be_device be)) db"

definition delete_expired_base_keys ::
  "sql_env \<Rightarrow> sql_backend \<Rightarrow> i64 \<Rightarrow> sql_db \<Rightarrow> sql_db \<times> (store_error + u32)" where
  "delete_expired_base_keys E be cutoff db =
     execute_count_sql (e_answer E 0) (DELETE_EXPIRED_BASE_KEYS cutoff (be_device be))
       (\<lambda>db. count_where (expired_base_key cutoff (be_device be)) (base_keys db)) db"

definition put_device_list_in ::
  "'d json \<Rightarrow> bits32 \<Rightarrow> i64 \<Rightarrow> 'd device_list_record \<Rightarrow> store_error + (sql_db \<Rightarrow> sql_db)" where
  "put_device_list_in J d now r =
     map_ok (\<lambda>js. UPDATE_DEVICE_LIST (dr_user r) js (dr_timestamp r) (dr_phash r) d now (dr_raw_id r))
       (devices_json J r)"

definition update_device_list ::
  "'d json \<Rightarrow> sql_env \<Rightarrow> i64 \<Rightarrow> sql_backend \<Rightarrow> 'd device_list_record \<Rightarrow> sql_db \<Rightarrow> sql_db \<times> (store_error + unit)" where
  "update_device_list J E now be r db =
     (case devices_json J r of
        Inl e \<Rightarrow> (db, Inl e)
      | Inr js \<Rightarrow>
          execute_sql (e_answer E 0)
            (UPDATE_DEVICE_LIST (dr_user r) js (dr_timestamp r) (dr_phash r) (be_device be) now (dr_raw_id r)) db)"

definition update_device_lists ::
  "'d json \<Rightarrow> sql_env \<Rightarrow> i64 \<Rightarrow> sql_backend \<Rightarrow> 'd device_list_record list \<Rightarrow> sql_db \<Rightarrow> sql_db \<times> (store_error + unit)" where
  "update_device_lists J E now be rs db = batch_tx E (\<lambda>i. put_device_list_in J (be_device be) now) rs db"

definition get_devices ::
  "'d json \<Rightarrow> sql_env \<Rightarrow> sql_backend \<Rightarrow> string \<Rightarrow> sql_db \<Rightarrow> store_error + 'd device_list_record option" where
  "get_devices J E be user db =
     and_then (query_sql (e_answer E 0) (GET_DEVICES user (be_device be) db)) (\<lambda>row.
       transpose_opt (map_option (device_list_record_of J) row))"

definition get_devices_batch ::
  "'d json \<Rightarrow> sql_env \<Rightarrow> sql_backend \<Rightarrow> string list \<Rightarrow> sql_db \<Rightarrow> store_error + 'd device_list_record list" where
  "get_devices_batch J E be users db =
     select_chunks (e_answer E) 0 fst (device_list_record_of J) (padded_chunks users)
       (of_device (be_device be) (device_registry db))"

definition delete_devices :: "sql_env \<Rightarrow> sql_backend \<Rightarrow> string \<Rightarrow> sql_db \<Rightarrow> sql_db \<times> (store_error + unit)" where
  "delete_devices E be user db = execute_sql (e_answer E 0) (DELETE_DEVICES user (be_device be)) db"

section \<open>Tc tokens\<close>

definition tc_entry :: "sql_env \<Rightarrow> sql_backend \<Rightarrow> string \<Rightarrow> tc_row \<Rightarrow> store_error + tc_token_entry" where
  "tc_entry E be jid r =
     map_ok (\<lambda>tok. \<lparr>te_token = tok, te_token_timestamp = tc_token_timestamp r,
                    te_sender_timestamp = tc_sender_timestamp r\<rparr>)
       (backend_open_at E be ''tc_tokens'' ''token'' (str_bytes jid) (tc_token r))"

definition get_tc_token :: "sql_env \<Rightarrow> sql_backend \<Rightarrow> string \<Rightarrow> sql_db \<Rightarrow> store_error + tc_token_entry option" where
  "get_tc_token E be jid db =
     and_then (query_sql (e_answer E 0) (GET_TC_TOKEN jid (be_device be) db)) (\<lambda>row.
       transpose_opt (map_option (tc_entry E be jid) row))"

definition put_tc_token ::
  "sql_env \<Rightarrow> i64 \<Rightarrow> sql_backend \<Rightarrow> string \<Rightarrow> tc_token_entry \<Rightarrow> sql_db \<Rightarrow> sql_db \<times> (store_error + unit)" where
  "put_tc_token E now be jid e db =
     sealed_write E be ''tc_tokens'' ''token'' (str_bytes jid) (te_token e)
       (\<lambda>sealed. PUT_TC_TOKEN jid sealed (te_token_timestamp e) (te_sender_timestamp e) (be_device be) now) db"

definition delete_tc_token :: "sql_env \<Rightarrow> sql_backend \<Rightarrow> string \<Rightarrow> sql_db \<Rightarrow> sql_db \<times> (store_error + unit)" where
  "delete_tc_token E be jid db = execute_sql (e_answer E 0) (DELETE_TC_TOKEN jid (be_device be)) db"

definition get_all_tc_token_jids :: "sql_env \<Rightarrow> sql_backend \<Rightarrow> sql_db \<Rightarrow> store_error + string list" where
  "get_all_tc_token_jids E be db = query_sql (e_answer E 0) (GET_ALL_TC_TOKEN_JIDS (be_device be) db)"

definition delete_expired_tc_tokens ::
  "sql_env \<Rightarrow> sql_backend \<Rightarrow> i64 \<Rightarrow> i64 \<Rightarrow> sql_db \<Rightarrow> sql_db \<times> (store_error + u32)" where
  "delete_expired_tc_tokens E be tc sc db =
     execute_count_sql (e_answer E 0) (DELETE_EXPIRED_TC_TOKENS tc sc (be_device be))
       (\<lambda>db. count_where (expired_tc_token tc sc (be_device be)) (tc_tokens db)) db"

definition touch_sender_timestamp ::
  "sql_env \<Rightarrow> i64 \<Rightarrow> sql_backend \<Rightarrow> string \<Rightarrow> i64 \<Rightarrow> sql_db \<Rightarrow> sql_db \<times> (store_error + unit)" where
  "touch_sender_timestamp E now be jid sts db =
     execute_sql (e_answer E 0) (TOUCH_SENDER_TIMESTAMP jid sts (be_device be) now) db"

definition store_received ::
  "sql_env \<Rightarrow> i64 \<Rightarrow> sql_backend \<Rightarrow> string \<Rightarrow> bytes \<Rightarrow> i64 \<Rightarrow> sql_db \<Rightarrow> sql_db \<times> (store_error + unit)" where
  "store_received E now be jid tok ts db =
     sealed_write E be ''tc_tokens'' ''token'' (str_bytes jid) tok
       (\<lambda>sealed. STORE_RECEIVED jid sealed ts (be_device be) now) db"

text \<open>Queried per chunk of distinct jids, then mapped back to the positions asked.\<close>

definition get_tc_tokens ::
  "sql_env \<Rightarrow> sql_backend \<Rightarrow> string list \<Rightarrow> sql_db \<Rightarrow> store_error + tc_token_entry option list" where
  "get_tc_tokens E be jids db =
     and_then (select_chunks (e_answer E) 0 fst (\<lambda>(jid, r). map_ok (Pair jid) (tc_entry E be jid r))
                 (padded_chunks jids) (of_device (be_device be) (tc_tokens db))) (\<lambda>found.
       Inr (map (map_of (rev found)) jids))"

section \<open>Sent messages\<close>

definition open_sent ::
  "sql_env \<Rightarrow> sql_backend \<Rightarrow> string \<Rightarrow> string \<Rightarrow> bytes option \<Rightarrow> store_error + bytes option" where
  "open_sent E be chat mid stored =
     (let row = joined_row [str_bytes chat, str_bytes mid]
      in transpose_opt (map_option (backend_open_at E be ''sent_messages'' ''payload'' row) stored))"

definition store_sent_message ::
  "sql_env \<Rightarrow> i64 \<Rightarrow> sql_backend \<Rightarrow> string \<Rightarrow> string \<Rightarrow> bytes \<Rightarrow> sql_db \<Rightarrow> sql_db \<times> (store_error + unit)" where
  "store_sent_message E now be chat mid payload db =
     sealed_write E be ''sent_messages'' ''payload'' (joined_row [str_bytes chat, str_bytes mid]) payload
       (\<lambda>sealed. STORE_SENT_MESSAGE chat mid sealed (be_device be) now) db"

definition take_sent_message ::
  "sql_env \<Rightarrow> sql_backend \<Rightarrow> string \<Rightarrow> string \<Rightarrow> sql_db \<Rightarrow> sql_db \<times> (store_error + bytes option)" where
  "take_sent_message E be chat mid db =
     (case and_then (query_sql (e_answer E 0) ()) (\<lambda>_.
           and_then (query_sql (e_answer E 1) (GET_SENT_MESSAGE chat mid (be_device be) db)) (\<lambda>payload.
           and_then (if payload = None then Inr db
                     else query_sql (e_answer E 2) (DELETE_SENT_MESSAGE chat mid (be_device be) db)) (\<lambda>db'.
           and_then (open_sent E be chat mid payload) (\<lambda>opened. Inr (db', opened))))) of
        Inl e \<Rightarrow> (db, Inl e)
      | Inr (db', opened) \<Rightarrow>
          (case execute_sql (e_answer E 3) (\<lambda>_. db') db of (db'', res) \<Rightarrow> (db'', map_ok (\<lambda>_. opened) res)))"

definition get_sent_message ::
  "sql_env \<Rightarrow> sql_backend \<Rightarrow> string \<Rightarrow> string \<Rightarrow> sql_db \<Rightarrow> store_error + bytes option" where
  "get_sent_message E be chat mid db =
     and_then (query_sql (e_answer E 0) (GET_SENT_MESSAGE chat mid (be_device be) db)) (open_sent E be chat mid)"

definition delete_expired_sent_messages ::
  "sql_env \<Rightarrow> sql_backend \<Rightarrow> i64 \<Rightarrow> sql_db \<Rightarrow> sql_db \<times> (store_error + u32)" where
  "delete_expired_sent_messages E be cutoff db =
     execute_count_sql (e_answer E 0) (DELETE_EXPIRED_SENT_MESSAGES cutoff (be_device be))
       (\<lambda>db. count_where (expired_sent_message cutoff (be_device be)) (sent_messages db)) db"

end
