(* ===== verification/App_Sync_Store.thy ===== *)
theory App_Sync_Store
  imports Protocol_Store
begin

text \<open>
  \<open>AppSyncStore\<close>, \<open>MsgSecretStore\<close> and \<open>DeviceStore\<close> for the SQL family
  (\<open>storage/sql/app_sync_store.rs\<close>, \<open>app_sync_sql.rs\<close>, \<open>msg_secret_store.rs\<close>, \<open>device_store.rs\<close> and
  their statements). The protobuf codec of the structured blobs (\<open>storage/blob_codec\<close>) is a parameter here; \<open>Stored_Blobs\<close> gives it.
\<close>

record ('k, 'h, 'v) codec =
  enc_sync_key :: "'k \<Rightarrow> bytes"
  dec_sync_key :: "bytes \<Rightarrow> store_error + 'k"
  enc_hash_state :: "'h \<Rightarrow> bytes"
  dec_hash_state :: "bytes \<Rightarrow> store_error + 'h"
  hash_version :: "'h \<Rightarrow> u64"
  enc_device :: "'v \<Rightarrow> bytes"
  dec_device :: "bytes \<Rightarrow> store_error + 'v"

section \<open>The statements\<close>

definition GET_SYNC_KEY :: "bytes \<Rightarrow> bits32 \<Rightarrow> sql_db \<Rightarrow> bytes option" where
  "GET_SYNC_KEY kid d db = map_of (app_state_keys db) (kid, d)"

definition SET_SYNC_KEY :: "bytes \<Rightarrow> bytes \<Rightarrow> bits32 \<Rightarrow> sql_db \<Rightarrow> sql_db" where
  "SET_SYNC_KEY kid data d db = db\<lparr>app_state_keys := AList.update (kid, d) data (app_state_keys db)\<rparr>"

fun bytes_less :: "bytes \<Rightarrow> bytes \<Rightarrow> bool" where
  "bytes_less xs [] = False"
| "bytes_less [] (y # ys) = True"
| "bytes_less (x # xs) (y # ys) = (x < y \<or> x = y \<and> bytes_less xs ys)"

definition LATEST_SYNC_KEY_ID :: "bits32 \<Rightarrow> sql_db \<Rightarrow> bytes option" where
  "LATEST_SYNC_KEY_ID d db =
     (case map fst (of_device d (app_state_keys db)) of
        [] \<Rightarrow> None
      | k # ks \<Rightarrow> Some (fold (\<lambda>j m. if bytes_less m j then j else m) ks k))"

definition GET_VERSION :: "string \<Rightarrow> bits32 \<Rightarrow> sql_db \<Rightarrow> bytes option" where
  "GET_VERSION name d db = map_of (app_state_versions db) (name, d)"

definition DELETE_VERSION :: "string \<Rightarrow> bits32 \<Rightarrow> sql_db \<Rightarrow> sql_db" where
  "DELETE_VERSION name d db = db\<lparr>app_state_versions := AList.delete (name, d) (app_state_versions db)\<rparr>"

definition SET_VERSION :: "string \<Rightarrow> bytes \<Rightarrow> bits32 \<Rightarrow> sql_db \<Rightarrow> sql_db" where
  "SET_VERSION name data d db = db\<lparr>app_state_versions := AList.update (name, d) data (app_state_versions db)\<rparr>"

definition PUT_MUTATION_MAC :: "string \<Rightarrow> i64 \<Rightarrow> bytes \<Rightarrow> bytes \<Rightarrow> bits32 \<Rightarrow> sql_db \<Rightarrow> sql_db" where
  "PUT_MUTATION_MAC name version index value d db =
     db\<lparr>app_state_mutation_macs :=
          AList.update ((name, index), d) (version, value) (app_state_mutation_macs db)\<rparr>"

definition GET_MUTATION_MAC :: "string \<Rightarrow> bytes \<Rightarrow> bits32 \<Rightarrow> sql_db \<Rightarrow> bytes option" where
  "GET_MUTATION_MAC name index d db =
     map_option snd (map_of (app_state_mutation_macs db) ((name, index), d))"

definition DELETE_MUTATION_MAC :: "string \<Rightarrow> bytes \<Rightarrow> bits32 \<Rightarrow> sql_db \<Rightarrow> sql_db" where
  "DELETE_MUTATION_MAC name index d db =
     db\<lparr>app_state_mutation_macs := AList.delete ((name, index), d) (app_state_mutation_macs db)\<rparr>"

definition CLEAR_MUTATION_MACS :: "string \<Rightarrow> bits32 \<Rightarrow> sql_db \<Rightarrow> sql_db" where
  "CLEAR_MUTATION_MACS name d db =
     db\<lparr>app_state_mutation_macs :=
          delete_where (\<lambda>((n, _), e) _. n = name \<and> e = d) (app_state_mutation_macs db)\<rparr>"

definition SELECT_MUTATION_MACS :: "string \<Rightarrow> bits32 \<Rightarrow> sql_db \<Rightarrow> (bytes \<times> bytes) list" where
  "SELECT_MUTATION_MACS name d db =
     map (\<lambda>((_, index), (_, value)). (index, value))
       (filter (\<lambda>((n, _), _). n = name) (of_device d (app_state_mutation_macs db)))"

text \<open>
  The upsert of a message secret: \<open>expires_at = 0\<close> is never and wins over any deadline, else the
  later deadline wins, and a known message time is never lost.
\<close>

definition PUT_MSG_SECRET ::
  "string \<Rightarrow> string \<Rightarrow> string \<Rightarrow> bytes \<Rightarrow> i64 \<Rightarrow> i64 \<Rightarrow> bits32 \<Rightarrow> sql_db \<Rightarrow> sql_db" where
  "PUT_MSG_SECRET chat sender mid secret exp ts d db =
     db\<lparr>msg_secrets := upsert_with ((chat, sender, mid), d)
          \<lparr>sr_secret = secret, sr_expires_at = exp, sr_message_ts = ts\<rparr>
          (\<lambda>old. \<lparr>sr_secret = secret,
                  sr_expires_at =
                    (if sr_expires_at old = 0 \<or> exp = 0 then 0
                     else if sr_expires_at old > exp then sr_expires_at old else exp),
                  sr_message_ts = (if sr_message_ts old > ts then sr_message_ts old else ts)\<rparr>)
          (msg_secrets db)\<rparr>"

definition GET_MSG_SECRET :: "string \<Rightarrow> string \<Rightarrow> string \<Rightarrow> bits32 \<Rightarrow> sql_db \<Rightarrow> bytes option" where
  "GET_MSG_SECRET chat sender mid d db =
     map_option sr_secret (map_of (msg_secrets db) ((chat, sender, mid), d))"

definition GET_MSG_SECRET_WITH_TS ::
  "string \<Rightarrow> string \<Rightarrow> string \<Rightarrow> bits32 \<Rightarrow> sql_db \<Rightarrow> (bytes \<times> i64) option" where
  "GET_MSG_SECRET_WITH_TS chat sender mid d db =
     map_option (\<lambda>r. (sr_secret r, sr_message_ts r)) (map_of (msg_secrets db) ((chat, sender, mid), d))"

definition expired_secret :: "i64 \<Rightarrow> bits32 \<Rightarrow> (string \<times> string \<times> string) \<times> bits32 \<Rightarrow> secret_row \<Rightarrow> bool" where
  "expired_secret cutoff d k r \<longleftrightarrow> sr_expires_at r \<noteq> 0 \<and> sr_expires_at r \<le> cutoff \<and> snd k = d"

definition DELETE_EXPIRED_MSG_SECRETS :: "i64 \<Rightarrow> bits32 \<Rightarrow> sql_db \<Rightarrow> sql_db" where
  "DELETE_EXPIRED_MSG_SECRETS cutoff d db =
     db\<lparr>msg_secrets := delete_where (expired_secret cutoff d) (msg_secrets db)\<rparr>"

definition SAVE_DEVICE :: "bits32 \<Rightarrow> bytes \<Rightarrow> sql_db \<Rightarrow> sql_db" where
  "SAVE_DEVICE d data db = db\<lparr>device := AList.update d data (device db)\<rparr>"

definition LOAD_DEVICE :: "bits32 \<Rightarrow> sql_db \<Rightarrow> bytes option" where
  "LOAD_DEVICE d db = map_of (device db) d"

definition CREATE_DEVICE :: "bits32 \<Rightarrow> bytes \<Rightarrow> sql_db \<Rightarrow> sql_db" where
  "CREATE_DEVICE d data db = db\<lparr>device := upsert_with d data (\<lambda>old. old) (device db)\<rparr>"

lemmas app_sync_statements =
  SET_SYNC_KEY_def DELETE_VERSION_def SET_VERSION_def PUT_MUTATION_MAC_def DELETE_MUTATION_MAC_def
  CLEAR_MUTATION_MACS_def PUT_MSG_SECRET_def DELETE_EXPIRED_MSG_SECRETS_def SAVE_DEVICE_def CREATE_DEVICE_def

section \<open>App state\<close>

definition get_sync_key ::
  "('k, 'h, 'v) codec \<Rightarrow> sql_env \<Rightarrow> sql_backend \<Rightarrow> bytes \<Rightarrow> sql_db \<Rightarrow> store_error + 'k option" where
  "get_sync_key K E be kid db =
     and_then (sealed_read E be ''app_state_keys'' ''key_data'' kid (GET_SYNC_KEY kid (be_device be) db)) (\<lambda>row.
       transpose_opt (map_option (dec_sync_key K) row))"

definition set_sync_key ::
  "('k, 'h, 'v) codec \<Rightarrow> sql_env \<Rightarrow> sql_backend \<Rightarrow> bytes \<Rightarrow> 'k \<Rightarrow> sql_db \<Rightarrow> sql_db \<times> (store_error + unit)" where
  "set_sync_key K E be kid key db =
     sealed_write E be ''app_state_keys'' ''key_data'' kid (enc_sync_key K key)
       (\<lambda>data. SET_SYNC_KEY kid data (be_device be)) db"

definition get_version ::
  "('k, 'h, 'v) codec \<Rightarrow> sql_env \<Rightarrow> sql_backend \<Rightarrow> string \<Rightarrow> sql_db \<Rightarrow> store_error + 'h option" where
  "get_version K E be name db =
     and_then (sealed_read E be ''app_state_versions'' ''state_data'' (str_bytes name)
                 (GET_VERSION name (be_device be) db)) (\<lambda>row.
       transpose_opt (map_option (dec_hash_state K) row))"

definition delete_version :: "sql_env \<Rightarrow> sql_backend \<Rightarrow> string \<Rightarrow> sql_db \<Rightarrow> sql_db \<times> (store_error + unit)" where
  "delete_version E be name db = execute_sql (e_answer E 0) (DELETE_VERSION name (be_device be)) db"

definition set_version ::
  "('k, 'h, 'v) codec \<Rightarrow> sql_env \<Rightarrow> sql_backend \<Rightarrow> string \<Rightarrow> 'h \<Rightarrow> sql_db \<Rightarrow> sql_db \<times> (store_error + unit)" where
  "set_version K E be name state db =
     sealed_write E be ''app_state_versions'' ''state_data'' (str_bytes name) (enc_hash_state K state)
       (\<lambda>data. SET_VERSION name data (be_device be)) db"

definition seal_mac :: "sql_env \<Rightarrow> nat \<Rightarrow> sql_backend \<Rightarrow> string \<Rightarrow> bytes \<Rightarrow> bytes \<Rightarrow> store_error + bytes" where
  "seal_mac E n be name index mac =
     backend_seal_at E n be ''app_state_mutation_macs'' ''value_mac'' (joined_row [str_bytes name, index]) mac"

definition open_mac :: "sql_env \<Rightarrow> sql_backend \<Rightarrow> string \<Rightarrow> bytes \<Rightarrow> bytes \<Rightarrow> store_error + bytes" where
  "open_mac E be name index stored =
     backend_open_at E be ''app_state_mutation_macs'' ''value_mac'' (joined_row [str_bytes name, index]) stored"

text \<open>The statements of a patch, in the order they run in its transaction.\<close>

datatype patch_step = SetVersion bytes | RemoveMac bytes | AddMac bytes bytes

definition put_mac_in ::
  "sql_env \<Rightarrow> nat \<Rightarrow> sql_backend \<Rightarrow> string \<Rightarrow> u64 \<Rightarrow> bytes \<Rightarrow> bytes \<Rightarrow> store_error + (sql_db \<Rightarrow> sql_db)" where
  "put_mac_in E n be name version index mac =
     map_ok (\<lambda>value. PUT_MUTATION_MAC name (sint version) index value (be_device be)) (seal_mac E n be name index mac)"

definition delete_mac_in :: "sql_backend \<Rightarrow> string \<Rightarrow> bytes \<Rightarrow> sql_db \<Rightarrow> sql_db" where
  "delete_mac_in be name index = DELETE_MUTATION_MAC name index (be_device be)"

definition patch_statement ::
  "sql_env \<Rightarrow> sql_backend \<Rightarrow> string \<Rightarrow> u64 \<Rightarrow> nat \<Rightarrow> patch_step \<Rightarrow> store_error + (sql_db \<Rightarrow> sql_db)" where
  "patch_statement E be name version n st =
     (case st of
        SetVersion data \<Rightarrow> Inr (SET_VERSION name data (be_device be))
      | RemoveMac index \<Rightarrow> Inr (delete_mac_in be name index)
      | AddMac index mac \<Rightarrow> put_mac_in E n be name version index mac)"

definition put_mutation_macs ::
  "sql_env \<Rightarrow> sql_backend \<Rightarrow> string \<Rightarrow> u64 \<Rightarrow> (bytes \<times> bytes) list \<Rightarrow> sql_db \<Rightarrow> sql_db \<times> (store_error + unit)" where
  "put_mutation_macs E be name version macs db =
     in_tx (e_answer E) (\<lambda>n (index, mac). put_mac_in E n be name version index mac) macs db"

definition get_mutation_mac ::
  "sql_env \<Rightarrow> sql_backend \<Rightarrow> string \<Rightarrow> bytes \<Rightarrow> sql_db \<Rightarrow> store_error + bytes option" where
  "get_mutation_mac E be name index db =
     sealed_read E be ''app_state_mutation_macs'' ''value_mac'' (joined_row [str_bytes name, index])
       (GET_MUTATION_MAC name index (be_device be) db)"

definition delete_mutation_macs ::
  "sql_env \<Rightarrow> sql_backend \<Rightarrow> string \<Rightarrow> bytes list \<Rightarrow> sql_db \<Rightarrow> sql_db \<times> (store_error + unit)" where
  "delete_mutation_macs E be name indexes db =
     in_tx (e_answer E) (\<lambda>n index. Inr (delete_mac_in be name index)) indexes db"

definition clear_mutation_macs ::
  "sql_env \<Rightarrow> sql_backend \<Rightarrow> string \<Rightarrow> sql_db \<Rightarrow> sql_db \<times> (store_error + unit)" where
  "clear_mutation_macs E be name db = execute_sql (e_answer E 0) (CLEAR_MUTATION_MACS name (be_device be)) db"

definition get_latest_sync_key_id :: "sql_env \<Rightarrow> sql_backend \<Rightarrow> sql_db \<Rightarrow> store_error + bytes option" where
  "get_latest_sync_key_id E be db = query_sql (e_answer E 0) (LATEST_SYNC_KEY_ID (be_device be) db)"

text \<open>
  The version's blob is sealed before the transaction opens, with the nonce after those of its
  statements.
\<close>

definition commit_patch ::
  "('k, 'h, 'v) codec \<Rightarrow> sql_env \<Rightarrow> sql_backend \<Rightarrow> string \<Rightarrow> 'h \<Rightarrow> bytes list \<Rightarrow> (bytes \<times> bytes) list \<Rightarrow>
   sql_db \<Rightarrow> sql_db \<times> (store_error + unit)" where
  "commit_patch K E be name state removed added db =
     (case backend_seal_at E (Suc (length removed + length added)) be ''app_state_versions'' ''state_data''
             (str_bytes name) (enc_hash_state K state) of
        Inl e \<Rightarrow> (db, Inl e)
      | Inr data \<Rightarrow>
          in_tx (e_answer E) (patch_statement E be name (hash_version K state))
            (SetVersion data # map RemoveMac removed @ map (\<lambda>(i, m). AddMac i m) added) db)"

text \<open>A stored index that is not 32 bytes is passed over.\<close>

definition get_mutation_macs ::
  "sql_env \<Rightarrow> sql_backend \<Rightarrow> string \<Rightarrow> bytes list \<Rightarrow> sql_db \<Rightarrow> store_error + (bytes \<rightharpoonup> bytes)" where
  "get_mutation_macs E be name indexes db =
     map_ok (\<lambda>found. map_of (rev found))
       (select_chunks (e_answer E) 0 fst
          (\<lambda>(index, stored). map_ok (Pair index) (open_mac E be name index stored))
          (padded_chunks indexes)
          (filter (\<lambda>(index, _). length index = 32) (SELECT_MUTATION_MACS name (be_device be) db)))"

section \<open>Message secrets\<close>

record msg_secret_entry =
  ms_chat :: string
  ms_sender :: string
  ms_id :: string
  ms_secret :: bytes
  ms_expires_at :: i64
  ms_message_ts :: i64

definition secret_row_key :: "string \<Rightarrow> string \<Rightarrow> string \<Rightarrow> bytes" where
  "secret_row_key chat sender mid = joined_row [str_bytes chat, str_bytes sender, str_bytes mid]"

definition put_msg_secrets ::
  "sql_env \<Rightarrow> sql_backend \<Rightarrow> msg_secret_entry list \<Rightarrow> sql_db \<Rightarrow> sql_db \<times> (store_error + nat)" where
  "put_msg_secrets E be entries db =
     (if entries = [] then (db, Inr 0)
      else case in_tx (e_answer E) (\<lambda>n e.
                  map_ok (\<lambda>sealed. PUT_MSG_SECRET (ms_chat e) (ms_sender e) (ms_id e) sealed
                            (ms_expires_at e) (ms_message_ts e) (be_device be))
                    (backend_seal_at E n be ''msg_secrets'' ''secret''
                       (secret_row_key (ms_chat e) (ms_sender e) (ms_id e)) (ms_secret e))) entries db of
             (db', res) \<Rightarrow> (db', map_ok (\<lambda>_. length entries) res))"

definition get_msg_secret ::
  "sql_env \<Rightarrow> sql_backend \<Rightarrow> string \<Rightarrow> string \<Rightarrow> string \<Rightarrow> sql_db \<Rightarrow> store_error + bytes option" where
  "get_msg_secret E be chat sender mid db =
     sealed_read E be ''msg_secrets'' ''secret'' (secret_row_key chat sender mid)
       (GET_MSG_SECRET chat sender mid (be_device be) db)"

text \<open>\<open>from_stored\<close> is the library's \<open>StoredMessageSecret::from_stored_bytes\<close>.\<close>

definition get_stored_msg_secret ::
  "(bytes \<Rightarrow> i64 \<Rightarrow> store_error + 's) \<Rightarrow> sql_env \<Rightarrow> sql_backend \<Rightarrow> string \<Rightarrow> string \<Rightarrow> string \<Rightarrow> sql_db \<Rightarrow>
   store_error + 's option" where
  "get_stored_msg_secret from_stored E be chat sender mid db =
     and_then (query_sql (e_answer E 0) (GET_MSG_SECRET_WITH_TS chat sender mid (be_device be) db)) (\<lambda>found.
       transpose_opt (map_option (\<lambda>(stored, ts).
         and_then (backend_open_at E be ''msg_secrets'' ''secret'' (secret_row_key chat sender mid) stored)
           (\<lambda>secret. from_stored secret ts)) found))"

definition delete_expired_msg_secrets ::
  "sql_env \<Rightarrow> sql_backend \<Rightarrow> i64 \<Rightarrow> sql_db \<Rightarrow> sql_db \<times> (store_error + u32)" where
  "delete_expired_msg_secrets E be cutoff db =
     execute_count_sql (e_answer E 0) (DELETE_EXPIRED_MSG_SECRETS cutoff (be_device be))
       (\<lambda>db. count_where (expired_secret cutoff (be_device be)) (msg_secrets db)) db"

section \<open>The device\<close>

definition device_save ::
  "('k, 'h, 'v) codec \<Rightarrow> sql_env \<Rightarrow> sql_backend \<Rightarrow> 'v \<Rightarrow> sql_db \<Rightarrow> sql_db \<times> (store_error + unit)" where
  "device_save K E be dev db =
     sealed_write E be ''device'' ''data'' [] (enc_device K dev) (SAVE_DEVICE (be_device be)) db"

definition device_load ::
  "('k, 'h, 'v) codec \<Rightarrow> sql_env \<Rightarrow> sql_backend \<Rightarrow> sql_db \<Rightarrow> store_error + 'v option" where
  "device_load K E be db =
     and_then (sealed_read E be ''device'' ''data'' [] (LOAD_DEVICE (be_device be) db)) (\<lambda>row.
       transpose_opt (map_option (dec_device K) row))"

definition device_exists :: "sql_env \<Rightarrow> sql_backend \<Rightarrow> sql_db \<Rightarrow> store_error + bool" where
  "device_exists E be db = query_sql (e_answer E 0) (LOAD_DEVICE (be_device be) db \<noteq> None)"

text \<open>\<open>Device::new\<close>, which mints fresh keys, is the argument \<open>fresh\<close>.\<close>

definition device_create ::
  "('k, 'h, 'v) codec \<Rightarrow> sql_env \<Rightarrow> sql_backend \<Rightarrow> 'v \<Rightarrow> sql_db \<Rightarrow> sql_db \<times> (store_error + bits32)" where
  "device_create K E be fresh db =
     (case sealed_write E be ''device'' ''data'' [] (enc_device K fresh) (CREATE_DEVICE (be_device be)) db of
        (db', res) \<Rightarrow> (db', map_ok (\<lambda>_. be_device be) res))"

end
