(* ===== verification/Turso_Exec.thy ===== *)
theory Turso_Exec
  imports App_Sync_Store
begin

text \<open>
  The Turso engine's way of running a statement (\<open>storage/turso/exec.rs\<close>, \<open>transaction.rs\<close>,
  \<open>row_values.rs\<close>, \<open>placeholders.rs\<close>, \<open>turso_error.rs\<close>, \<open>dsn.rs\<close>): dynamically typed values, the
  rewrite of the placeholders, writes as jobs of the group commit. The statements are those of the SQL
  family, the arguments of each its placeholders by number. How the engine answers is an argument: the
  start of a job, each statement, and the COMMIT that carries the job, which may fail after it took
  effect (\<open>Unknown\<close>); a job that fails or is dropped before is rolled back to its savepoint.
\<close>

section \<open>Errors\<close>

datatype turso_error = Busy string | BusySnapshot string | IoError string | OtherTursoError string

fun turso_db :: "turso_error \<Rightarrow> store_error" where
  "turso_db (Busy e) = Connection e"
| "turso_db (BusySnapshot e) = Connection e"
| "turso_db (IoError e) = Connection e"
| "turso_db (OtherTursoError e) = Database e"

fun is_busy :: "turso_error \<Rightarrow> bool" where
  "is_busy (Busy _) = True"
| "is_busy (BusySnapshot _) = True"
| "is_busy _ = False"

section \<open>Values and rows\<close>

datatype turso_value = VNull | VInteger int | VReal u64 | VText string | VBlob bytes

type_synonym turso_row = "turso_value list"

record turso_env =
  t_crypto :: crypto
  t_nonce :: "nat \<Rightarrow> string + bytes"
  t_begin :: "store_error + unit"
  t_stmt :: "nat \<Rightarrow> turso_error + unit"
  t_finish :: answer
  t_debug :: "turso_value \<Rightarrow> string"
  t_no_column :: "nat \<Rightarrow> turso_error"

definition wrong_type :: "turso_env \<Rightarrow> nat \<Rightarrow> string \<Rightarrow> turso_value \<Rightarrow> store_error" where
  "wrong_type T column expected got =
     Database (''column '' @ dec column @ '' is '' @ t_debug T got @ '', expected '' @ expected)"

definition get_value :: "turso_env \<Rightarrow> turso_row \<Rightarrow> nat \<Rightarrow> turso_error + turso_value" where
  "get_value T row column = (if column < length row then Inr (row ! column) else Inl (t_no_column T column))"

definition blob :: "turso_env \<Rightarrow> turso_row \<Rightarrow> nat \<Rightarrow> store_error + bytes" where
  "blob T row column =
     and_then (map_err turso_db (get_value T row column)) (\<lambda>v.
       case v of VBlob b \<Rightarrow> Inr b | _ \<Rightarrow> Inl (wrong_type T column ''a blob'' v))"

definition opt_blob :: "turso_env \<Rightarrow> turso_row \<Rightarrow> nat \<Rightarrow> store_error + bytes option" where
  "opt_blob T row column =
     and_then (map_err turso_db (get_value T row column)) (\<lambda>v.
       case v of VNull \<Rightarrow> Inr None | VBlob b \<Rightarrow> Inr (Some b) | _ \<Rightarrow> Inl (wrong_type T column ''a blob or NULL'' v))"

definition text_at :: "turso_env \<Rightarrow> turso_row \<Rightarrow> nat \<Rightarrow> store_error + string" where
  "text_at T row column =
     and_then (map_err turso_db (get_value T row column)) (\<lambda>v.
       case v of VText s \<Rightarrow> Inr s | _ \<Rightarrow> Inl (wrong_type T column ''text'' v))"

definition opt_text :: "turso_env \<Rightarrow> turso_row \<Rightarrow> nat \<Rightarrow> store_error + string option" where
  "opt_text T row column =
     and_then (map_err turso_db (get_value T row column)) (\<lambda>v.
       case v of VNull \<Rightarrow> Inr None | VText s \<Rightarrow> Inr (Some s) | _ \<Rightarrow> Inl (wrong_type T column ''text or NULL'' v))"

definition int_at :: "turso_env \<Rightarrow> turso_row \<Rightarrow> nat \<Rightarrow> store_error + i64" where
  "int_at T row column =
     and_then (map_err turso_db (get_value T row column)) (\<lambda>v.
       case v of VInteger n \<Rightarrow> Inr n | _ \<Rightarrow> Inl (wrong_type T column ''an integer'' v))"

definition opt_int :: "turso_env \<Rightarrow> turso_row \<Rightarrow> nat \<Rightarrow> store_error + i64 option" where
  "opt_int T row column =
     and_then (map_err turso_db (get_value T row column)) (\<lambda>v.
       case v of VNull \<Rightarrow> Inr None | VInteger n \<Rightarrow> Inr (Some n)
       | _ \<Rightarrow> Inl (wrong_type T column ''an integer or NULL'' v))"

text \<open>\<open>i32::try_from\<close> of a 64-bit integer.\<close>

definition to_i32 :: "turso_env \<Rightarrow> nat \<Rightarrow> i64 \<Rightarrow> store_error + bits32" where
  "to_i32 T column wide =
     (if - (2 ^ 31) \<le> wide \<and> wide < 2 ^ 31 then Inr (word_of_int wide)
      else Inl (wrong_type T column ''a 32-bit integer'' (VInteger wide)))"

definition int32 :: "turso_env \<Rightarrow> turso_row \<Rightarrow> nat \<Rightarrow> store_error + bits32" where
  "int32 T row column = and_then (int_at T row column) (to_i32 T column)"

definition opt_int32 :: "turso_env \<Rightarrow> turso_row \<Rightarrow> nat \<Rightarrow> store_error + bits32 option" where
  "opt_int32 T row column =
     and_then (opt_int T row column) (\<lambda>v. transpose_opt (map_option (to_i32 T column) v))"

definition first_blob :: "turso_env \<Rightarrow> turso_row option \<Rightarrow> store_error + bytes option" where
  "first_blob T row = transpose_opt (map_option (\<lambda>r. blob T r 0) row)"

text \<open>What the engine gives for a column that may be NULL, and for a 32-bit integer.\<close>

definition or_null :: "('a \<Rightarrow> turso_value) \<Rightarrow> 'a option \<Rightarrow> turso_value" where
  "or_null f v = (case v of None \<Rightarrow> VNull | Some x \<Rightarrow> f x)"

definition of_i32 :: "bits32 \<Rightarrow> turso_value" where
  "of_i32 w = VInteger (sint w)"

lemma to_i32_sint [simp]: "to_i32 T c (sint (w :: bits32)) = Inr w"
  using sint_range_size [of w] by (simp add: to_i32_def word_size)

lemma get_value_at [simp]: "c < length row \<Longrightarrow> get_value T row c = Inr (row ! c)"
  by (simp add: get_value_def)

section \<open>Running statements\<close>

definition fetch_all_raw :: "turso_env \<Rightarrow> nat \<Rightarrow> turso_row list \<Rightarrow> turso_error + turso_row list" where
  "fetch_all_raw T n rows = map_ok (\<lambda>_. rows) (t_stmt T n)"

definition fetch_all :: "turso_env \<Rightarrow> nat \<Rightarrow> turso_row list \<Rightarrow> store_error + turso_row list" where
  "fetch_all T n rows = map_err turso_db (fetch_all_raw T n rows)"

definition fetch_optional :: "turso_env \<Rightarrow> nat \<Rightarrow> turso_row list \<Rightarrow> store_error + turso_row option" where
  "fetch_optional T n rows = map_ok (\<lambda>rs. if rs = [] then None else Some (hd rs)) (fetch_all T n rows)"

definition exec_execute :: "turso_env \<Rightarrow> nat \<Rightarrow> ('db \<Rightarrow> 'db) \<Rightarrow> ('db \<Rightarrow> 'n) \<Rightarrow> 'db \<Rightarrow> store_error + 'db \<times> 'n" where
  "exec_execute T n stmt changed db = map_ok (\<lambda>_. (stmt db, changed db)) (map_err turso_db (t_stmt T n))"

text \<open>
  A job: what it did becomes the store's when the COMMIT that carries it ran. A body that fails ends
  the job with \<open>fail\<close>, or drops it, which rolls it back.
\<close>

definition turso_tx :: "turso_env \<Rightarrow> ('db \<Rightarrow> store_error + 'db \<times> 'a) \<Rightarrow> 'db \<Rightarrow> 'db \<times> (store_error + 'a)" where
  "turso_tx T body db =
     (case and_then (t_begin T) (\<lambda>_. body db) of
        Inl e \<Rightarrow> (db, Inl e)
      | Inr (db', x) \<Rightarrow>
          (case execute_sql (t_finish T) (\<lambda>_. db') db of (db'', r) \<Rightarrow> (db'', map_ok (\<lambda>_. x) r)))"

definition conn_execute :: "turso_env \<Rightarrow> ('db \<Rightarrow> 'db) \<Rightarrow> ('db \<Rightarrow> 'n) \<Rightarrow> 'db \<Rightarrow> 'db \<times> (store_error + 'n)" where
  "conn_execute T stmt changed db = turso_tx T (exec_execute T 0 stmt changed) db"

definition write_returning_optional ::
  "turso_env \<Rightarrow> ('db \<Rightarrow> 'db) \<Rightarrow> ('db \<Rightarrow> turso_row list) \<Rightarrow> 'db \<Rightarrow> 'db \<times> (store_error + turso_row option)" where
  "write_returning_optional T stmt returning db =
     turso_tx T (\<lambda>db. map_ok (Pair (stmt db)) (fetch_optional T 0 (returning db))) db"

text \<open>\<open>execute(..).await?; Ok(())\<close>: the number of changed rows is dropped.\<close>

definition conn_run :: "turso_env \<Rightarrow> ('db \<Rightarrow> 'db) \<Rightarrow> 'db \<Rightarrow> 'db \<times> (store_error + unit)" where
  "conn_run T stmt db = conn_execute T stmt (\<lambda>_. ()) db"

text \<open>A loop of one statement per item in a transaction; \<open>stmt i x\<close> seals what the i-th item writes.\<close>

fun tx_each ::
  "turso_env \<Rightarrow> nat \<Rightarrow> (nat \<Rightarrow> 'x \<Rightarrow> store_error + ('db \<Rightarrow> 'db)) \<Rightarrow> 'x list \<Rightarrow> 'db \<Rightarrow> store_error + 'db" where
  "tx_each T i stmt [] db = Inr db"
| "tx_each T i stmt (x # xs) db =
     and_then (stmt i x) (\<lambda>run.
     and_then (exec_execute T i run (\<lambda>_. ()) db) (\<lambda>(db', _). tx_each T (Suc i) stmt xs db'))"

definition turso_loop ::
  "turso_env \<Rightarrow> (nat \<Rightarrow> 'x \<Rightarrow> store_error + ('db \<Rightarrow> 'db)) \<Rightarrow> 'x list \<Rightarrow> 'db \<Rightarrow> 'db \<times> (store_error + unit)" where
  "turso_loop T stmt xs db = turso_tx T (\<lambda>db. map_ok (\<lambda>db'. (db', ())) (tx_each T 0 stmt xs db)) db"

definition turso_batch ::
  "turso_env \<Rightarrow> (nat \<Rightarrow> 'x \<Rightarrow> store_error + ('db \<Rightarrow> 'db)) \<Rightarrow> 'x list \<Rightarrow> 'db \<Rightarrow> 'db \<times> (store_error + unit)" where
  "turso_batch T stmt xs db = (if xs = [] then (db, Inr ()) else turso_loop T stmt xs db)"

text \<open>A batched read: one query per chunk, its rows decoded before the next.\<close>

fun fetch_chunks ::
  "turso_env \<Rightarrow> nat \<Rightarrow> ('k list \<Rightarrow> turso_row list) \<Rightarrow> (turso_row \<Rightarrow> store_error + 'x) \<Rightarrow> 'k list list \<Rightarrow> store_error + 'x list" where
  "fetch_chunks T n select conv [] = Inr []"
| "fetch_chunks T n select conv (c # cs) =
     and_then (fetch_all T n (select c)) (\<lambda>rows.
     and_then (try_map conv rows) (\<lambda>xs.
     and_then (fetch_chunks T (Suc n) select conv cs) (\<lambda>ys. Inr (xs @ ys))))"

section \<open>The engine's answers as the SQL family sees them\<close>

fun stmt_answer :: "turso_error + unit \<Rightarrow> answer" where
  "stmt_answer (Inr _) = Ran"
| "stmt_answer (Inl e) = Failed (turso_db e)"

fun begin_answer :: "store_error + unit \<Rightarrow> answer" where
  "begin_answer (Inr _) = Ran"
| "begin_answer (Inl e) = Failed e"

text \<open>A read, a job of one statement, and a job of \<open>k\<close> statements.\<close>

definition read_env :: "turso_env \<Rightarrow> sql_env" where
  "read_env T = \<lparr>e_crypto = t_crypto T, e_nonce = t_nonce T, e_answer = (\<lambda>n. stmt_answer (t_stmt T n))\<rparr>"

definition job_answer :: "turso_env \<Rightarrow> answer" where
  "job_answer T =
     (case t_begin T of
        Inl e \<Rightarrow> Failed e
      | Inr _ \<Rightarrow> (case t_stmt T 0 of Inl e \<Rightarrow> Failed (turso_db e) | Inr _ \<Rightarrow> t_finish T))"

definition write_env :: "turso_env \<Rightarrow> sql_env" where
  "write_env T = \<lparr>e_crypto = t_crypto T, e_nonce = t_nonce T, e_answer = (\<lambda>_. job_answer T)\<rparr>"

definition tx_env :: "turso_env \<Rightarrow> nat \<Rightarrow> sql_env" where
  "tx_env T k = \<lparr>e_crypto = t_crypto T, e_nonce = t_nonce T,
     e_answer = (\<lambda>n. if n = 0 then begin_answer (t_begin T)
                     else if n \<le> k then stmt_answer (t_stmt T (n - 1)) else t_finish T)\<rparr>"

lemma env_crypto [simp]:
  "e_crypto (read_env T) = t_crypto T" "e_crypto (write_env T) = t_crypto T" "e_crypto (tx_env T k) = t_crypto T"
  "e_nonce (read_env T) = t_nonce T" "e_nonce (write_env T) = t_nonce T" "e_nonce (tx_env T k) = t_nonce T"
  by (simp_all add: read_env_def write_env_def tx_env_def)

lemma query_stmt: "query_sql (stmt_answer a) rows = map_err turso_db (map_ok (\<lambda>_. rows) a)"
  by (cases a) (simp_all add: query_sql_def)

lemma fetch_all_query: "fetch_all T n rows = query_sql (e_answer (read_env T) n) rows"
  by (simp add: fetch_all_def fetch_all_raw_def read_env_def query_stmt)

lemma fetch_optional_query:
  "fetch_optional T n rows = query_sql (e_answer (read_env T) n) (if rows = [] then None else Some (hd rows))"
  by (cases "t_stmt T n") (simp_all add: fetch_optional_def fetch_all_def fetch_all_raw_def read_env_def query_sql_def)

lemma conn_execute_sql:
  "conn_execute T stmt changed db =
     (case execute_sql (job_answer T) stmt db of (db', r) \<Rightarrow> (db', map_ok (\<lambda>_. changed db) r))"
  by (cases "t_begin T"; cases "t_stmt T 0"; cases "t_finish T")
     (simp_all add: conn_execute_def turso_tx_def exec_execute_def job_answer_def execute_sql_def)

lemma conn_run_sql: "conn_run T stmt db = execute_sql (e_answer (write_env T) 0) stmt db"
  by (cases "job_answer T") (simp_all add: conn_run_def conn_execute_sql write_env_def execute_sql_def)

lemma tx_each_loop:
  assumes "i + length xs \<le> k"
  shows "tx_each T i stmt xs db = tx_loop (e_answer (tx_env T k)) i stmt xs db"
  using assms
proof (induction xs arbitrary: i db)
  case (Cons x xs)
  have ans: "e_answer (tx_env T k) (Suc i) = stmt_answer (t_stmt T i)"
    using Cons.prems by (simp add: tx_env_def)
  show ?case
    using Cons.IH [of "Suc i"] Cons.prems
    by (cases "stmt i x"; cases "t_stmt T i") (simp_all add: ans exec_execute_def query_sql_def)
qed simp

lemma turso_loop_tx: "turso_loop T stmt xs db = in_tx (e_answer (tx_env T (length xs))) stmt xs db"
proof -
  let ?ans = "e_answer (tx_env T (length xs))"
  have each: "tx_each T 0 stmt xs db = tx_loop ?ans 0 stmt xs db" by (rule tx_each_loop) simp
  have finish: "?ans (Suc (length xs)) = t_finish T" and start: "?ans 0 = begin_answer (t_begin T)"
    by (simp_all add: tx_env_def)
  show ?thesis
    unfolding turso_loop_def in_tx_def turso_tx_def commit_tx_def each finish start
    by (cases "t_begin T"; cases "tx_loop ?ans 0 stmt xs db"; cases "t_finish T")
       (simp_all add: query_sql_def execute_sql_def)
qed

lemma turso_batch_tx: "turso_batch T stmt xs db = batch_tx (tx_env T (length xs)) stmt xs db"
  by (simp add: turso_batch_def batch_tx_def turso_loop_tx)

lemma fetch_chunks_select:
  assumes "\<And>c r. r \<in> set (select_in key c rows) \<Longrightarrow> conv (enc r) = conv' r"
  shows "fetch_chunks T n (\<lambda>c. map enc (select_in key c rows)) conv cs =
         select_chunks (e_answer (read_env T)) n key conv' cs rows"
proof (induction cs arbitrary: n)
  case (Cons c cs)
  have "try_map conv (map enc (select_in key c rows)) = try_map conv' (select_in key c rows)"
    using assms [of _ c] by (simp add: try_map_map cong: try_map_cong)
  then show ?case using Cons by (cases "t_stmt T n") (simp_all add: fetch_all_query query_sql_def read_env_def)
qed simp

text \<open>An engine on which nothing fails.\<close>

definition demo_turso :: turso_env where
  "demo_turso =
     \<lparr>t_crypto = demo_crypto, t_nonce = (\<lambda>_. Inr (replicate 24 0)), t_begin = Inr (), t_stmt = (\<lambda>_. Inr ()), t_finish = Ran,
      t_debug = (\<lambda>_. ''value''), t_no_column = (\<lambda>_. OtherTursoError ''column'')\<rparr>"

end
