(* ===== verification/Store_Encryption.thy ===== *)
theory Store_Encryption
  imports Sql_Store
begin

text \<open>
  Encryption at rest of a whole store: the decision taken when a store opens
  (\<open>storage/store_encryption.rs\<close>), the conversion of a plaintext store and its decryption account by
  account, and the rotation of its key (\<open>storage/convert.rs\<close>, \<open>storage/sql/convert.rs\<close>,
  \<open>storage/sql/rotate.rs\<close>, \<open>storage/sql/store_encryption_sql.rs\<close>, with their statements).

  A store is its accounts, the rows of the secret columns, the \<open>store_encryption\<close> row, the progress
  table, and whether the file still holds bytes an UPDATE left behind. A transaction that fails
  leaves the store as it was; \<open>fails\<close> says at which account a run is cut short, if it is.
\<close>

section \<open>The decision\<close>

record stored_encryption =
  encrypted :: bool
  se_key_id :: "bytes option"
  se_verifier :: "bytes option"

record new_mark =
  nm_key_id :: bytes
  nm_verifier :: bytes

record resolution =
  r_cipher :: blob_cipher
  r_mark :: "new_mark option"
  r_convert :: bool

definition VERIFIER_PLAINTEXT :: bytes where
  "VERIFIER_PLAINTEXT = str_bytes ''wamux store encryption verifier v1''"

definition VERIFIER_CONTEXT :: blob_context where
  "VERIFIER_CONTEXT =
     \<lparr>bc_device_id = 0, bc_table = ''store_encryption'', bc_column = ''verifier'', bc_row = []\<rparr>"

definition from_row ::
  "string \<Rightarrow> bytes option \<Rightarrow> bytes option \<Rightarrow> store_error + stored_encryption" where
  "from_row st kid v =
     (if st = ''plaintext'' then Inr \<lparr>encrypted = False, se_key_id = kid, se_verifier = v\<rparr>
      else if st = ''encrypted'' then Inr \<lparr>encrypted = True, se_key_id = kid, se_verifier = v\<rparr>
      else Inl (InvalidConfig (''store_encryption.state is '' @ [CHR 0x27] @ st @ [CHR 0x27] @
                  '', expected '' @ [CHR 0x27] @ ''plaintext'' @ [CHR 0x27] @ '' or '' @
                  [CHR 0x27] @ ''encrypted'' @ [CHR 0x27])))"

definition decrypt_interrupted :: store_error where
  "decrypt_interrupted =
     InvalidConfig ''this store was being decrypted and the run was interrupted, so it is half plaintext: finish it with `wamux store decrypt --yes` (with the same store_key_file) before starting the daemon''"

definition resolution_passthrough :: resolution where
  "resolution_passthrough = \<lparr>r_cipher = passthrough, r_mark = None, r_convert = False\<rparr>"

definition new_encrypted_store :: "crypto \<Rightarrow> string + bytes \<Rightarrow> store_key \<Rightarrow> store_error + resolution" where
  "new_encrypted_store A nonce k =
     and_then (seal A nonce (sealing k) VERIFIER_CONTEXT VERIFIER_PLAINTEXT) (\<lambda>v.
       Inr \<lparr>r_cipher = sealing k,
            r_mark = Some \<lparr>nm_key_id = key_id (sha256 A) k, nm_verifier = v\<rparr>, r_convert = False\<rparr>)"

definition key_matches :: "crypto \<Rightarrow> stored_encryption \<Rightarrow> store_key \<Rightarrow> bool" where
  "key_matches A st k \<longleftrightarrow>
     (case se_verifier st of
        None \<Rightarrow> False
      | Some v \<Rightarrow> open_blob A (sealing k) VERIFIER_CONTEXT v = Inr VERIFIER_PLAINTEXT)"

definition verify_key :: "crypto \<Rightarrow> stored_encryption \<Rightarrow> store_key \<Rightarrow> store_error + resolution" where
  "verify_key A st k =
     (if key_matches A st k
      then Inr \<lparr>r_cipher = sealing k, r_mark = None, r_convert = False\<rparr>
      else Inl (InvalidConfig (''the store key (id '' @ key_id_hex (key_id (sha256 A) k) @
             '') does not match the key this store was encrypted with (id '' @
             (case se_key_id st of None \<Rightarrow> ''unknown'' | Some i \<Rightarrow> key_id_hex i) @ '')'')))"

definition resume_conversion ::
  "crypto \<Rightarrow> stored_encryption \<Rightarrow> store_key option \<Rightarrow> store_error + resolution" where
  "resume_conversion A st key =
     (case key of
        None \<Rightarrow> Inl (InvalidConfig ''this store was being converted to encrypted and the run was interrupted, so it is half sealed: set store_key_file (WAMUX_STORE_KEY_FILE) to the key the conversion started with to finish it'')
      | Some k \<Rightarrow> map_ok (\<lambda>r. r\<lparr>r_convert := True\<rparr>) (verify_key A st k))"

definition begin_conversion :: "crypto \<Rightarrow> string + bytes \<Rightarrow> store_key \<Rightarrow> store_error + resolution" where
  "begin_conversion A nonce k = map_ok (\<lambda>r. r\<lparr>r_convert := True\<rparr>) (new_encrypted_store A nonce k)"

definition resolve_cipher ::
  "crypto \<Rightarrow> string + bytes \<Rightarrow> stored_encryption \<Rightarrow> bool \<Rightarrow> bool \<Rightarrow> store_key option \<Rightarrow>
   store_error + resolution" where
  "resolve_cipher A nonce st has_accounts has_progress key =
     (if encrypted st \<and> has_progress then Inl decrypt_interrupted
      else if encrypted st
      then (case key of
              None \<Rightarrow> Inl (InvalidConfig ''this store is encrypted: set store_key_file (WAMUX_STORE_KEY_FILE) to the key file it was created with'')
            | Some k \<Rightarrow> verify_key A st k)
      else if se_verifier st \<noteq> None then resume_conversion A st key
      else (case key of
              None \<Rightarrow> Inr resolution_passthrough
            | Some k \<Rightarrow> if has_accounts then begin_conversion A nonce k
                         else new_encrypted_store A nonce k))"

definition cipher_for_decrypt :: "crypto \<Rightarrow> stored_encryption \<Rightarrow> store_key \<Rightarrow> store_error + blob_cipher" where
  "cipher_for_decrypt A st k =
     (if \<not> encrypted st
      then Inl (InvalidConfig ''this store is not encrypted, there is nothing to decrypt (if a conversion to encrypted was interrupted, finish it by starting the daemon with its store_key_file)'')
      else map_ok r_cipher (verify_key A st k))"

record rotation =
  rot_from :: blob_cipher
  rot_to :: blob_cipher
  rot_mark :: new_mark

definition plan_rotation ::
  "crypto \<Rightarrow> string + bytes \<Rightarrow> stored_encryption \<Rightarrow> bool \<Rightarrow> store_key \<Rightarrow> store_key \<Rightarrow> store_error + rotation" where
  "plan_rotation A nonce st has_progress old new =
     (if \<not> encrypted st
      then Inl (InvalidConfig ''this store is not encrypted, there is nothing to rotate (if a conversion to encrypted was interrupted, finish it by starting the daemon with its store_key_file)'')
      else if has_progress then Inl decrypt_interrupted
      else and_then (verify_key A st old) (\<lambda>from.
        if key_id (sha256 A) old = key_id (sha256 A) new
        then Inl (InvalidConfig (''the new store key (id '' @ key_id_hex (key_id (sha256 A) new) @
               '') is already the key this store is encrypted with''))
        else and_then (new_encrypted_store A nonce new) (\<lambda>r.
             and_then (ok_or (InvalidConfig ''the new key produced no mark'') (r_mark r)) (\<lambda>mark.
               Inr \<lparr>rot_from = r_cipher from, rot_to = sealing new, rot_mark = mark\<rparr>))))"

section \<open>Turning one blob\<close>

datatype direction = Sealing | Opening

datatype turn = TSeal blob_cipher | TOpen blob_cipher | TRotate blob_cipher blob_cipher

primrec turn_of :: "direction \<Rightarrow> blob_cipher \<Rightarrow> turn" where
  "turn_of Sealing c = TSeal c"
| "turn_of Opening c = TOpen c"

definition turn_blob ::
  "crypto \<Rightarrow> string + bytes \<Rightarrow> turn \<Rightarrow> bits32 \<Rightarrow> sealed_column \<Rightarrow> row_part list \<Rightarrow> bytes \<Rightarrow>
   store_error + bytes" where
  "turn_blob A nonce t d col parts blob =
     (let row = row_key parts in
      case t of
        TSeal c \<Rightarrow> seal_at A nonce c d (sc_table col) (sc_column col) row blob
      | TOpen c \<Rightarrow> open_at A c d (sc_table col) (sc_column col) row blob
      | TRotate from to \<Rightarrow>
          and_then (open_at A from d (sc_table col) (sc_column col) row blob) (\<lambda>plain.
          seal_at A nonce to d (sc_table col) (sc_column col) row plain))"

definition accounts_left :: "bits32 list \<Rightarrow> bits32 list \<Rightarrow> bits32 list" where
  "accounts_left all done = filter (\<lambda>d. d \<notin> set done) (sort_key sint all)"

section \<open>The store\<close>

record cell =
  cell_device :: bits32
  cell_column :: sealed_column
  cell_parts :: "row_part list"
  cell_blob :: bytes

record store_db =
  account_ids :: "bits32 list"
  cells :: "cell list"
  enc_state :: string
  enc_key_id :: "bytes option"
  enc_verifier :: "bytes option"
  progress :: "bits32 list"
  stale_bytes :: bool
  nonces_drawn :: nat

type_synonym rng = "nat \<Rightarrow> string + bytes"

text \<open>
  What may go wrong in a run: a SELECT, the statement that writes the mark, the transaction of an
  account (an error in its body, or a COMMIT that fails with or without effect), the transaction that
  only finishes, the rotation's, and the scrub (an error, or a checkpoint that could not truncate).
\<close>

record run_faults =
  f_read :: "nat \<Rightarrow> answer"
  f_mark :: answer
  f_account :: "bits32 \<Rightarrow> answer"
  f_finish :: answer
  f_rotate :: answer
  f_scrub :: "store_error + bool"

definition no_faults :: run_faults where
  "no_faults = \<lparr>f_read = (\<lambda>_. Ran), f_mark = Ran, f_account = (\<lambda>_. Ran), f_finish = Ran, f_rotate = Ran, f_scrub = Inr False\<rparr>"

definition read_stored :: "run_faults \<Rightarrow> store_db \<Rightarrow> store_error + stored_encryption" where
  "read_stored F db =
     and_then (query_sql (f_read F 0) (enc_state db, enc_key_id db, enc_verifier db)) (\<lambda>(st, kid, v). from_row st kid v)"

text \<open>\<open>MARK_CONVERTING\<close> and \<open>MARK_ENCRYPTED\<close>, each with the rows it hit.\<close>

definition MARK_CONVERTING :: "new_mark \<Rightarrow> store_db \<Rightarrow> store_db \<times> nat" where
  "MARK_CONVERTING m db =
     (if enc_state db = ''plaintext'' \<and> enc_verifier db = None
      then (db\<lparr>enc_key_id := Some (nm_key_id m), enc_verifier := Some (nm_verifier m)\<rparr>, 1) else (db, 0))"

definition MARK_ENCRYPTED :: "new_mark \<Rightarrow> store_db \<Rightarrow> store_db \<times> nat" where
  "MARK_ENCRYPTED m db =
     (if enc_state db = ''plaintext'' \<and> account_ids db = []
      then (db\<lparr>enc_state := ''encrypted'', enc_key_id := Some (nm_key_id m), enc_verifier := Some (nm_verifier m)\<rparr>, 1)
      else (db, 0))"

definition write_mark :: "run_faults \<Rightarrow> resolution \<Rightarrow> store_db \<Rightarrow> store_db \<times> (store_error + unit)" where
  "write_mark F r db =
     (case r_mark r of
        None \<Rightarrow> (db, Inr ())
      | Some m \<Rightarrow>
          (let statement = (if r_convert r then MARK_CONVERTING m else MARK_ENCRYPTED m) in
           case execute_sql (f_mark F) (\<lambda>db. fst (statement db)) db of
             (db', Inl e) \<Rightarrow> (db', Inl e)
           | (db', Inr _) \<Rightarrow>
               (db', if snd (statement db) \<noteq> 1
                     then Inl (InvalidConfig ''the store changed while it was being marked for encryption'')
                     else Inr ())))"

text \<open>\<open>convert_column\<close>: every row of one column of one account, each with a nonce of its own.\<close>

fun turn_cells ::
  "crypto \<Rightarrow> rng \<Rightarrow> turn \<Rightarrow> bits32 \<Rightarrow> sealed_column \<Rightarrow> nat \<Rightarrow> cell list \<Rightarrow> store_error + (cell list \<times> nat)" where
  "turn_cells A src t d col n [] = Inr ([], n)"
| "turn_cells A src t d col n (c # cs) =
     (if cell_device c = d \<and> cell_column c = col
      then and_then (turn_blob A (src n) t d col (cell_parts c) (cell_blob c)) (\<lambda>b.
           and_then (turn_cells A src t d col (n + 1) cs) (\<lambda>(cs', n').
             Inr (c\<lparr>cell_blob := b\<rparr> # cs', n')))
      else and_then (turn_cells A src t d col n cs) (\<lambda>(cs', n'). Inr (c # cs', n')))"

definition convert_column ::
  "crypto \<Rightarrow> rng \<Rightarrow> turn \<Rightarrow> bits32 \<Rightarrow> sealed_column \<Rightarrow> store_db \<Rightarrow> store_error + store_db" where
  "convert_column A src t d col db =
     and_then (turn_cells A src t d col (nonces_drawn db) (cells db)) (\<lambda>(cs, n).
       Inr (db\<lparr>cells := cs, nonces_drawn := n, stale_bytes := True\<rparr>))"

text \<open>\<open>FINISH_SEALING\<close> or \<open>FINISH_OPENING\<close>, then \<open>CLEAR_PROGRESS\<close>.\<close>

definition finish_run :: "direction \<Rightarrow> store_db \<Rightarrow> store_db" where
  "finish_run dir db =
     (case dir of
        Sealing \<Rightarrow> if enc_state db = ''plaintext'' then db\<lparr>enc_state := ''encrypted''\<rparr> else db
      | Opening \<Rightarrow>
          if enc_state db = ''encrypted''
          then db\<lparr>enc_state := ''plaintext'', enc_key_id := None, enc_verifier := None\<rparr>
          else db)\<lparr>progress := []\<rparr>"

definition convert_account ::
  "crypto \<Rightarrow> rng \<Rightarrow> blob_cipher \<Rightarrow> direction \<Rightarrow> bits32 \<Rightarrow> bool \<Rightarrow> store_db \<Rightarrow> store_error + store_db" where
  "convert_account A src c dir d is_last db =
     and_then (try_fold (convert_column A src (turn_of dir c) d) sealed_columns db) (\<lambda>db1.
       let db2 = db1\<lparr>progress := progress db1 @ [d]\<rparr>
       in Inr (if is_last then finish_run dir db2 else db2))"

fun convert_accounts ::
  "crypto \<Rightarrow> rng \<Rightarrow> run_faults \<Rightarrow> blob_cipher \<Rightarrow> direction \<Rightarrow> bits32 list \<Rightarrow> store_db \<Rightarrow> store_db \<times> (store_error + unit)" where
  "convert_accounts A src F c dir [] db = (db, Inr ())"
| "convert_accounts A src F c dir (d # ds) db =
     (case convert_account A src c dir d (ds = []) db of
        Inl e \<Rightarrow> (db, Inl e)
      | Inr db1 \<Rightarrow>
          (case execute_sql (f_account F d) (\<lambda>_. db1) db of
             (db2, Inl e) \<Rightarrow> (db2, Inl e)
           | (db2, Inr _) \<Rightarrow> convert_accounts A src F c dir ds db2))"

definition convert_run ::
  "crypto \<Rightarrow> rng \<Rightarrow> run_faults \<Rightarrow> blob_cipher \<Rightarrow> direction \<Rightarrow> store_db \<Rightarrow> store_db \<times> (store_error + nat)" where
  "convert_run A src F c dir db =
     (case and_then (query_sql (f_read F 3) (account_ids db)) (\<lambda>all.
           map_ok (accounts_left all) (query_sql (f_read F 4) (progress db))) of
        Inl e \<Rightarrow> (db, Inl e)
      | Inr left \<Rightarrow>
          (case convert_accounts A src F c dir left db of
             (db', Inl e) \<Rightarrow> (db', Inl e)
           | (db', Inr _) \<Rightarrow>
               (if left = []
                then (case execute_sql (f_finish F) (finish_run dir) db' of
                        (db'', r) \<Rightarrow> (db'', map_ok (\<lambda>_. length left) r))
                else (db', Inr (length left)))))"

text \<open>\<open>scrub_old_plaintext\<close>: VACUUM and a truncating checkpoint, whose row says whether it was busy.\<close>

definition scrub_old_plaintext :: "run_faults \<Rightarrow> store_db \<Rightarrow> store_db \<times> (store_error + unit)" where
  "scrub_old_plaintext F db =
     (case f_scrub F of
        Inl e \<Rightarrow> (db, Inl e)
      | Inr busy \<Rightarrow>
          (if busy then (db, Inl (Connection ''the WAL could not be truncated after the secret columns were rewritten, so their old bytes may still be in the -wal file: stop whatever else has the store open and run again''))
           else (db\<lparr>stale_bytes := False\<rparr>, Inr ())))"

definition open_cipher ::
  "crypto \<Rightarrow> rng \<Rightarrow> run_faults \<Rightarrow> store_key option \<Rightarrow> store_db \<Rightarrow> store_db \<times> (store_error + blob_cipher)" where
  "open_cipher A src F key db =
     (case and_then (read_stored F db) (\<lambda>st.
           and_then (query_sql (f_read F 1) (account_ids db \<noteq> [])) (\<lambda>has_accounts.
           and_then (query_sql (f_read F 2) (progress db \<noteq> [])) (\<lambda>has_progress.
             resolve_cipher A (src (nonces_drawn db)) st has_accounts has_progress key))) of
        Inl e \<Rightarrow> (db, Inl e)
      | Inr r \<Rightarrow>
          (case write_mark F r (db\<lparr>nonces_drawn := nonces_drawn db + 1\<rparr>) of
             (db1, Inl e) \<Rightarrow> (db1, Inl e)
           | (db1, Inr _) \<Rightarrow>
               (if \<not> r_convert r then (db1, Inr (r_cipher r))
                else case convert_run A src F (r_cipher r) Sealing db1 of
                       (db2, Inl e) \<Rightarrow> (db2, Inl e)
                     | (db2, Inr _) \<Rightarrow>
                         (case scrub_old_plaintext F db2 of
                            (db3, Inl e) \<Rightarrow> (db3, Inl e)
                          | (db3, Inr _) \<Rightarrow> (db3, Inr (r_cipher r))))))"

definition decrypt_store ::
  "crypto \<Rightarrow> rng \<Rightarrow> run_faults \<Rightarrow> store_key \<Rightarrow> store_db \<Rightarrow> store_db \<times> (store_error + nat)" where
  "decrypt_store A src F k db =
     (case and_then (read_stored F db) (\<lambda>st. cipher_for_decrypt A st k) of
        Inl e \<Rightarrow> (db, Inl e)
      | Inr c \<Rightarrow> convert_run A src F c Opening db)"

text \<open>The rotation: every account and the mark in one transaction, then the scrub.\<close>

definition swap_mark :: "rotation \<Rightarrow> store_db \<Rightarrow> store_error + store_db" where
  "swap_mark r db =
     (if enc_state db = ''encrypted''
      then Inr (db\<lparr>enc_key_id := Some (nm_key_id (rot_mark r)), enc_verifier := Some (nm_verifier (rot_mark r))\<rparr>)
      else Inl (InvalidConfig ''the store stopped being encrypted while its key was being rotated''))"

definition rotate_run ::
  "crypto \<Rightarrow> rng \<Rightarrow> run_faults \<Rightarrow> rotation \<Rightarrow> store_db \<Rightarrow> store_db \<times> (store_error + nat)" where
  "rotate_run A src F r db =
     (let t = TRotate (rot_from r) (rot_to r) in
      case and_then (query_sql (f_read F 3) (sort_key sint (account_ids db))) (\<lambda>ids.
           and_then (try_fold (\<lambda>d. try_fold (convert_column A src t d) sealed_columns) ids db) (\<lambda>db1.
           map_ok (Pair (length ids)) (swap_mark r db1))) of
        Inl e \<Rightarrow> (db, Inl e)
      | Inr (n, db1) \<Rightarrow>
          (case execute_sql (f_rotate F) (\<lambda>_. db1) db of
             (db2, Inl e) \<Rightarrow> (db2, Inl e)
           | (db2, Inr _) \<Rightarrow>
               (case scrub_old_plaintext F db2 of
                  (db3, Inl e) \<Rightarrow> (db3, Inl e)
                | (db3, Inr _) \<Rightarrow> (db3, Inr n))))"

definition rotate_store ::
  "crypto \<Rightarrow> rng \<Rightarrow> run_faults \<Rightarrow> store_key \<Rightarrow> store_key \<Rightarrow> store_db \<Rightarrow> store_db \<times> (store_error + nat)" where
  "rotate_store A src F old new db =
     (case and_then (read_stored F db) (\<lambda>st.
           and_then (query_sql (f_read F 2) (progress db \<noteq> [])) (\<lambda>has_progress.
             plan_rotation A (src (nonces_drawn db)) st has_progress old new)) of
        Inl e \<Rightarrow> (db, Inl e)
      | Inr r \<Rightarrow> rotate_run A src F r (db\<lparr>nonces_drawn := nonces_drawn db + 1\<rparr>))"

end
