(* ===== verification/Store_Conversion.thy ===== *)
theory Store_Conversion
  imports Store_Encryption
begin

text \<open>
  What opening, converting, decrypting and re-keying a store do to what it says: the plaintexts \<open>ps\<close>
  of its secret rows stay readable with the right cipher through every interruption. The refinement
  relation is \<open>reads\<close>: a row, with the cipher its account is under, gives its plaintext.
\<close>

lemma no_faults_simps [simp]:
  "f_read no_faults n = Ran" "f_mark no_faults = Ran" "f_account no_faults d = Ran" "f_finish no_faults = Ran"
  "f_rotate no_faults = Ran" "f_scrub no_faults = Inr False"
  by (simp_all add: no_faults_def)

lemma ran_simps [simp]: "query_sql Ran x = Inr x" "execute_sql Ran stmt db = (stmt db, Inr ())"
  by (simp_all add: query_sql_def execute_sql_def)

section \<open>Reading a row\<close>

definition cell_context :: "cell \<Rightarrow> blob_context" where
  "cell_context c =
     \<lparr>bc_device_id = cell_device c, bc_table = sc_table (cell_column c),
      bc_column = sc_column (cell_column c), bc_row = row_key (cell_parts c)\<rparr>"

definition reads :: "crypto \<Rightarrow> blob_cipher \<Rightarrow> cell \<Rightarrow> bytes \<Rightarrow> bool" where
  "reads A ci c p \<longleftrightarrow> open_blob A ci (cell_context c) (cell_blob c) = Inr p"

definition rng_ok :: "rng \<Rightarrow> bool" where
  "rng_ok src \<longleftrightarrow> (\<forall>n b. src n = Inr b \<longrightarrow> length b = 24)"

text \<open>A turn takes a row from one cipher to another.\<close>

definition turns :: "turn \<Rightarrow> blob_cipher \<Rightarrow> blob_cipher \<Rightarrow> bool" where
  "turns t c1 c2 \<longleftrightarrow> t = TSeal c2 \<and> c1 = None \<or> t = TOpen c1 \<and> c2 = None \<or> t = TRotate c1 c2"

lemma turn_reads:
  assumes A: "aead_ok A" "rng_ok src" and t: "turns t c1 c2" and p: "reads A c1 c p"
    and turn: "turn_blob A (src n) t (cell_device c) (cell_column c) (cell_parts c) (cell_blob c) = Inr b"
  shows "reads A c2 (c\<lparr>cell_blob := b\<rparr>) p"
proof -
  let ?x = "cell_context c"
  have nonce: "\<forall>m. src n = Inr m \<longrightarrow> length m = 24" using A(2) by (simp add: rng_ok_def)
  have ctx: "cell_context (c\<lparr>cell_blob := b\<rparr>) = ?x" by (simp add: cell_context_def)
  consider "t = TOpen c1" "c2 = None" | "seal A (src n) c2 ?x p = Inr b"
    using t turn p unfolding turns_def
    by (auto simp: turn_blob_def Let_def seal_at_def open_at_def reads_def cell_context_def)
  then show ?thesis
  proof cases
    case 1
    with turn p show ?thesis
      by (simp add: reads_def ctx turn_blob_def Let_def open_at_def) (simp add: cell_context_def)
  next
    case 2
    from open_seal [OF A(1) nonce 2] show ?thesis by (simp add: reads_def ctx)
  qed
qed

text \<open>The rows of the accounts and columns in \<open>T\<close> are under \<open>c2\<close>, the others under \<open>c1\<close>.\<close>

definition holds ::
  "crypto \<Rightarrow> blob_cipher \<Rightarrow> blob_cipher \<Rightarrow> (bits32 \<Rightarrow> sealed_column \<Rightarrow> bool) \<Rightarrow> bytes list \<Rightarrow> cell list \<Rightarrow> bool" where
  "holds A c1 c2 T ps cs \<longleftrightarrow>
     list_all2 (\<lambda>p c. reads A (if T (cell_device c) (cell_column c) then c2 else c1) c p) ps cs"

definition place :: "cell \<Rightarrow> bits32 \<times> sealed_column \<times> row_part list" where
  "place c = (cell_device c, cell_column c, cell_parts c)"

lemma turn_cells_holds:
  assumes A: "aead_ok A" "rng_ok src" and t: "turns t c1 c2" and new: "\<not> T d col"
    and "holds A c1 c2 T ps cs" and "turn_cells A src t d col n cs = Inr (cs', n')"
  shows "holds A c1 c2 (\<lambda>e k. T e k \<or> e = d \<and> k = col) ps cs' \<and> map place cs' = map place cs"
  using assms(5,6)
proof (induction cs arbitrary: n ps cs' n')
  case Nil
  then show ?case by (simp add: holds_def)
next
  case (Cons c cs)
  obtain p ps1 where ps: "ps = p # ps1" "holds A c1 c2 T ps1 cs"
      and p: "reads A (if T (cell_device c) (cell_column c) then c2 else c1) c p"
    using Cons.prems(1) by (auto simp: holds_def list_all2_Cons2)
  show ?case
  proof (cases "cell_device c = d \<and> cell_column c = col")
    case True
    then obtain b cs1 where b: "turn_blob A (src n) t d col (cell_parts c) (cell_blob c) = Inr b"
        and run: "turn_cells A src t d col (n + 1) cs = Inr (cs1, n')" and cs': "cs' = c\<lparr>cell_blob := b\<rparr> # cs1"
      using Cons.prems(2) by (auto simp: and_then_Inr_iff)
    have "reads A c1 c p" using p True new by simp
    then have "reads A c2 (c\<lparr>cell_blob := b\<rparr>) p"
      using turn_reads [OF A t] b True by blast
    with Cons.IH [OF ps(2) run] True cs' ps(1) show ?thesis by (simp add: holds_def place_def)
  next
    case False
    then obtain cs1 where run: "turn_cells A src t d col n cs = Inr (cs1, n')" and cs': "cs' = c # cs1"
      using Cons.prems(2) by (auto simp: and_then_Inr_iff)
    with Cons.IH [OF ps(2) run] False cs' ps(1) p show ?thesis by (auto simp: holds_def)
  qed
qed

text \<open>What a transaction of the run keeps of the rest of the store.\<close>

definition same_store :: "store_db \<Rightarrow> store_db \<Rightarrow> bool" where
  "same_store db db' \<longleftrightarrow>
     account_ids db' = account_ids db \<and> map place (cells db') = map place (cells db) \<and>
     enc_state db' = enc_state db \<and> enc_key_id db' = enc_key_id db \<and>
     enc_verifier db' = enc_verifier db \<and> progress db' = progress db"

lemma convert_column_holds:
  assumes "aead_ok A" "rng_ok src" "turns t c1 c2" "\<not> T d col"
    and "holds A c1 c2 T ps (cells db)" "convert_column A src t d col db = Inr db'"
  shows "holds A c1 c2 (\<lambda>e k. T e k \<or> e = d \<and> k = col) ps (cells db') \<and> same_store db db'"
  using assms(6) turn_cells_holds [OF assms(1-5)]
  by (auto simp: convert_column_def and_then_Inr_iff same_store_def)

lemma convert_columns_holds:
  assumes "aead_ok A" "rng_ok src" "turns t c1 c2" "distinct cols" "\<forall>k\<in>set cols. \<not> T d k"
    and "holds A c1 c2 T ps (cells db)" "try_fold (convert_column A src t d) cols db = Inr db'"
  shows "holds A c1 c2 (\<lambda>e k. T e k \<or> e = d \<and> k \<in> set cols) ps (cells db') \<and> same_store db db'"
  using assms(4-7)
proof (induction cols arbitrary: T db)
  case Nil
  then show ?case by (simp add: same_store_def)
next
  case (Cons col cols)
  obtain db1 where db1: "convert_column A src t d col db = Inr db1"
      and rest: "try_fold (convert_column A src t d) cols db1 = Inr db'"
    using Cons.prems(4) by (auto simp: and_then_Inr_iff)
  let ?T = "\<lambda>e k. T e k \<or> e = d \<and> k = col"
  have step: "holds A c1 c2 ?T ps (cells db1)" "same_store db db1"
    using convert_column_holds [OF assms(1-3) _ Cons.prems(3) db1] Cons.prems(2) by auto
  have "\<forall>k\<in>set cols. \<not> ?T d k" using Cons.prems(1,2) by auto
  from Cons.IH [OF _ this step(1) rest] Cons.prems(1)
  have "holds A c1 c2 (\<lambda>e k. ?T e k \<or> e = d \<and> k \<in> set cols) ps (cells db') \<and> same_store db1 db'"
    by simp
  moreover have "(\<lambda>e k. ?T e k \<or> e = d \<and> k \<in> set cols) = (\<lambda>e k. T e k \<or> e = d \<and> k \<in> set (col # cols))"
    by (auto simp: fun_eq_iff)
  ultimately show ?case using step(2) by (simp add: same_store_def)
qed

section \<open>The states of a store\<close>

definition shape :: "store_db \<Rightarrow> bool" where
  "shape db \<longleftrightarrow>
     distinct (account_ids db) \<and>
     (\<forall>x\<in>set (map place (cells db)). fst x \<in> set (account_ids db) \<and> fst (snd x) \<in> set sealed_columns)"

lemma shape_same: "shape db \<Longrightarrow> same_store db db' \<Longrightarrow> shape db'"
  unfolding shape_def same_store_def by metis

lemma shape_cell:
  "shape db \<Longrightarrow> c \<in> set (cells db) \<Longrightarrow> cell_device c \<in> set (account_ids db) \<and> cell_column c \<in> set sealed_columns"
  by (auto simp: shape_def place_def)

definition whole :: "crypto \<Rightarrow> blob_cipher \<Rightarrow> bytes list \<Rightarrow> store_db \<Rightarrow> bool" where
  "whole A ci ps db \<longleftrightarrow> shape db \<and> progress db = [] \<and> list_all2 (\<lambda>p c. reads A ci c p) ps (cells db)"

definition partway :: "crypto \<Rightarrow> blob_cipher \<Rightarrow> blob_cipher \<Rightarrow> bytes list \<Rightarrow> store_db \<Rightarrow> bool" where
  "partway A c1 c2 ps db \<longleftrightarrow>
     shape db \<and> holds A c1 c2 (\<lambda>d _. d \<in> set (progress db)) ps (cells db)"

lemma partway_start: "whole A c1 ps db \<Longrightarrow> partway A c1 c2 ps db"
  by (simp add: whole_def partway_def holds_def)

lemma holds_cong:
  assumes "\<And>c. c \<in> set cs \<Longrightarrow> T (cell_device c) (cell_column c) = T' (cell_device c) (cell_column c)"
  shows "holds A c1 c2 T ps cs = holds A c1 c2 T' ps cs"
  using assms unfolding holds_def by (induction ps cs rule: list_induct2') auto

lemma distinct_sealed_columns: "distinct sealed_columns"
  using sealed_columns_table(2) by (simp add: distinct_map)

text \<open>One account of a run: its rows are under \<open>c2\<close> afterwards and the progress names it.\<close>

lemma convert_account_partway:
  assumes A: "aead_ok A" "rng_ok src" and t: "turns (turn_of dir c) c1 c2"
    and half: "partway A c1 c2 ps db" and new: "d \<notin> set (progress db)"
    and run: "try_fold (convert_column A src (turn_of dir c) d) sealed_columns db = Inr db1"
  shows "partway A c1 c2 ps (db1\<lparr>progress := progress db1 @ [d]\<rparr>) \<and> same_store db db1"
proof -
  have res: "holds A c1 c2 (\<lambda>e k. e \<in> set (progress db) \<or> e = d \<and> k \<in> set sealed_columns) ps (cells db1)"
      "same_store db db1"
    using convert_columns_holds [OF A t distinct_sealed_columns _ _ run, of "\<lambda>e _. e \<in> set (progress db)" ps]
      half new by (auto simp: partway_def)
  have sh: "shape db1" using half shape_same [OF _ res(2)] by (simp add: partway_def)
  have "holds A c1 c2 (\<lambda>e _. e \<in> set (progress db1 @ [d])) ps (cells db1)"
    using res shape_cell [OF sh] by (subst holds_cong) (auto simp: same_store_def)
  then show ?thesis using sh res(2) by (simp add: partway_def shape_def)
qed

text \<open>A run over the accounts left: cut short it is part way, finished it is whole under \<open>c2\<close>.\<close>

definition finished_state :: "direction \<Rightarrow> store_db \<Rightarrow> store_db \<Rightarrow> bool" where
  "finished_state dir db db' \<longleftrightarrow>
     (case dir of
        Sealing \<Rightarrow> enc_state db' = ''encrypted'' \<and> enc_verifier db' = enc_verifier db
      | Opening \<Rightarrow> enc_state db' = ''plaintext'' \<and> enc_verifier db' = None)"

definition start_state :: "direction \<Rightarrow> string" where
  "start_state dir = (case dir of Sealing \<Rightarrow> ''plaintext'' | Opening \<Rightarrow> ''encrypted'')"

lemma finish_run_whole:
  assumes "partway A c1 c2 ps db" "set (account_ids db) \<subseteq> set (progress db)" "enc_state db = start_state dir"
  shows "whole A c2 ps (finish_run dir db) \<and> finished_state dir db (finish_run dir db) \<and>
         map place (cells (finish_run dir db)) = map place (cells db) \<and>
         account_ids (finish_run dir db) = account_ids db"
proof -
  have sh: "shape db" using assms(1) by (simp add: partway_def)
  have "holds A c1 c2 (\<lambda>_ _. True) ps (cells db)"
    using assms(1,2) shape_cell [OF sh] holds_cong
      [of "cells db" "\<lambda>_ _. True" "\<lambda>d _. d \<in> set (progress db)" A c1 c2 ps]
    unfolding partway_def by blast
  then have "list_all2 (\<lambda>p c. reads A c2 c p) ps (cells db)" by (simp add: holds_def)
  with sh assms(3) show ?thesis
    by (cases dir) (simp_all add: finish_run_def whole_def finished_state_def start_state_def shape_def)
qed

text \<open>A run's outcome: part way as it began, or whole under \<open>c2\<close> with the state flipped; Ok is the latter.\<close>

definition ran_to ::
  "crypto \<Rightarrow> blob_cipher \<Rightarrow> blob_cipher \<Rightarrow> bytes list \<Rightarrow> direction \<Rightarrow> store_db \<Rightarrow> store_db \<Rightarrow> bool \<Rightarrow> bool" where
  "ran_to A c1 c2 ps dir db db' ok \<longleftrightarrow>
     map place (cells db') = map place (cells db) \<and>
     (\<not> ok \<and> partway A c1 c2 ps db' \<and> enc_state db' = enc_state db \<and> enc_verifier db' = enc_verifier db \<or>
      whole A c2 ps db' \<and> finished_state dir db db')"

lemma ran_to_unchanged: "partway A c1 c2 ps db \<Longrightarrow> ran_to A c1 c2 ps dir db db False"
  by (simp add: ran_to_def)

lemma ran_to_weaken: "ran_to A c1 c2 ps dir db db' True \<Longrightarrow> ran_to A c1 c2 ps dir db db' ok"
  by (auto simp: ran_to_def)

lemma convert_accounts_run:
  assumes A: "aead_ok A" "rng_ok src" and t: "turns (turn_of dir c) c1 c2"
    and "partway A c1 c2 ps db" "distinct ds" "set ds \<inter> set (progress db) = {}"
    and "set (account_ids db) \<subseteq> set (progress db) \<union> set ds" "enc_state db = start_state dir"
    and "convert_accounts A src F c dir ds db = (db', r)" "ds \<noteq> []"
  shows "ran_to A c1 c2 ps dir db db' (is_ok r)"
  using assms(4-10)
proof (induction ds arbitrary: db)
  case (Cons d ds)
  show ?case
  proof (cases "convert_account A src c dir d (ds = []) db")
    case (Inl e)
    with Cons.prems show ?thesis by (auto simp: intro: ran_to_unchanged)
  next
    case (Inr db1)
    then obtain db0 where db0: "try_fold (convert_column A src (turn_of dir c) d) sealed_columns db = Inr db0"
        and db1: "db1 = (let db2 = db0\<lparr>progress := progress db0 @ [d]\<rparr> in if ds = [] then finish_run dir db2 else db2)"
      by (auto simp: convert_account_def and_then_Inr_iff Let_def)
    let ?db2 = "db0\<lparr>progress := progress db0 @ [d]\<rparr>"
    have "d \<notin> set (progress db)" using Cons.prems(3) by auto
    then have half: "partway A c1 c2 ps ?db2" and same: "same_store db db0"
      using convert_account_partway [OF A t Cons.prems(1) _ db0] by auto
    have last: "ran_to A c1 c2 ps dir db db1 True" if "ds = []"
    proof -
      have ready: "set (account_ids ?db2) \<subseteq> set (progress ?db2)" "enc_state ?db2 = start_state dir"
        using Cons.prems(4,5) same that by (auto simp: same_store_def)
      from finish_run_whole [OF half ready] db1 that same show ?thesis
        by (auto simp: ran_to_def same_store_def finished_state_def split: direction.splits)
    qed
    have step: "ran_to A c1 c2 ps dir db db1 False"
      using last ran_to_weaken half same db1 by (cases "ds = []") (auto simp: ran_to_def same_store_def)
    show ?thesis
    proof (cases "f_account F d")
      case Ran
      then have rest: "convert_accounts A src F c dir ds db1 = (db', r)"
        using Cons.prems(6) Inr by (simp add: execute_sql_def)
      show ?thesis
      proof (cases "ds = []")
        case True
        with rest last show ?thesis by (auto simp: is_ok_iff)
      next
        case False
        then have db1: "db1 = ?db2" using db1 by simp
        have "set ds \<inter> set (progress ?db2) = {}" "set (account_ids ?db2) \<subseteq> set (progress ?db2) \<union> set ds"
            "enc_state ?db2 = start_state dir" "distinct ds"
          using Cons.prems(2-5) same by (auto simp: same_store_def)
        from Cons.IH [OF half this(4,1-3)] rest False db1 same show ?thesis
          by (auto simp: ran_to_def same_store_def finished_state_def split: direction.splits)
      qed
    next
      case (Failed e)
      with Inr Cons.prems show ?thesis by (auto simp: execute_sql_def intro: ran_to_unchanged)
    next
      case (Unknown e)
      with Inr Cons.prems step show ?thesis by (auto simp: execute_sql_def is_ok_iff)
    qed
  qed
qed simp

lemma convert_run_ok:
  assumes A: "aead_ok A" "rng_ok src" and t: "turns (turn_of dir c) c1 c2"
    and half: "partway A c1 c2 ps db" and st: "enc_state db = start_state dir"
    and run: "convert_run A src F c dir db = (db', r)"
  shows "ran_to A c1 c2 ps dir db db' (is_ok r)"
proof (cases "f_read F 3 = Ran \<and> f_read F 4 = Ran")
  case False
  with run have "db' = db" "\<not> is_ok r"
    by (auto simp: convert_run_def query_sql_def split: answer.splits)
  with half show ?thesis by (simp add: ran_to_unchanged)
next
  case reads: True
  let ?left = "accounts_left (account_ids db) (progress db)"
  have left: "set ?left = set (account_ids db) - set (progress db)" by (auto simp: accounts_left_def)
  show ?thesis
  proof (cases "?left = []")
    case True
    then have "set (account_ids db) \<subseteq> set (progress db)" using left by auto
    from finish_run_whole [OF half this st] half run True reads show ?thesis
      by (auto simp: convert_run_def query_sql_def execute_sql_def ran_to_def split: answer.splits)
  next
    case False
    obtain db1 r1 where c: "convert_accounts A src F c dir ?left db = (db1, r1)" by fastforce
    have "distinct ?left" using half by (simp add: accounts_left_def partway_def shape_def)
    moreover have "set ?left \<inter> set (progress db) = {}" "set (account_ids db) \<subseteq> set (progress db) \<union> set ?left"
      using left by auto
    ultimately have "ran_to A c1 c2 ps dir db db1 (is_ok r1)"
      using convert_accounts_run [OF A t half _ _ _ st c False] by blast
    with run c False reads show ?thesis
      by (auto simp: convert_run_def query_sql_def split: sum.splits)
  qed
qed

section \<open>Opening a store\<close>

lemma read_stored_Inr:
  "read_stored F db = Inr st \<longleftrightarrow> f_read F 0 = Ran \<and> from_row (enc_state db) (enc_key_id db) (enc_verifier db) = Inr st"
  by (auto simp: read_stored_def and_then_Inr_iff)

definition verified :: "crypto \<Rightarrow> store_key \<Rightarrow> store_db \<Rightarrow> bool" where
  "verified A k db \<longleftrightarrow>
     (\<exists>v. enc_verifier db = Some v \<and> open_blob A (sealing k) VERIFIER_CONTEXT v = Inr VERIFIER_PLAINTEXT)"

definition plain_store :: "crypto \<Rightarrow> bytes list \<Rightarrow> store_db \<Rightarrow> bool" where
  "plain_store A ps db \<longleftrightarrow> whole A None ps db \<and> enc_state db = ''plaintext'' \<and> enc_verifier db = None"

definition converting :: "crypto \<Rightarrow> store_key \<Rightarrow> bytes list \<Rightarrow> store_db \<Rightarrow> bool" where
  "converting A k ps db \<longleftrightarrow>
     partway A None (Some k) ps db \<and> enc_state db = ''plaintext'' \<and> verified A k db"

definition sealed_store :: "crypto \<Rightarrow> store_key \<Rightarrow> bytes list \<Rightarrow> store_db \<Rightarrow> bool" where
  "sealed_store A k ps db \<longleftrightarrow> whole A (Some k) ps db \<and> enc_state db = ''encrypted'' \<and> verified A k db"

definition decrypting :: "crypto \<Rightarrow> store_key \<Rightarrow> bytes list \<Rightarrow> store_db \<Rightarrow> bool" where
  "decrypting A k ps db \<longleftrightarrow>
     partway A (Some k) None ps db \<and> enc_state db = ''encrypted'' \<and> verified A k db"

lemma frame_db [simp]:
  "shape (db\<lparr>nonces_drawn := n\<rparr>) = shape db" "shape (db\<lparr>stale_bytes := b\<rparr>) = shape db"
  "shape (db\<lparr>enc_key_id := i, enc_verifier := v\<rparr>) = shape db"
  "shape (db\<lparr>enc_state := st, enc_key_id := i, enc_verifier := v\<rparr>) = shape db"
  "whole A c ps (db\<lparr>nonces_drawn := n\<rparr>) = whole A c ps db" "whole A c ps (db\<lparr>stale_bytes := b\<rparr>) = whole A c ps db"
  "partway A c1 c2 ps (db\<lparr>nonces_drawn := n\<rparr>) = partway A c1 c2 ps db"
  "partway A c1 c2 ps (db\<lparr>enc_key_id := i, enc_verifier := v\<rparr>) = partway A c1 c2 ps db"
  by (simp_all add: shape_def whole_def partway_def)

lemma verified_frame [simp]:
  "verified A k (db\<lparr>nonces_drawn := n\<rparr>) = verified A k db" "verified A k (db\<lparr>stale_bytes := b\<rparr>) = verified A k db"
  by (simp_all add: verified_def)

lemma verified_matches:
  "key_matches A \<lparr>encrypted = e, se_key_id = i, se_verifier = enc_verifier db\<rparr> k = verified A k db"
  by (auto simp: key_matches_def verified_def split: option.splits)

lemma new_store_mark:
  assumes "aead_ok A" "\<forall>b. nonce = Inr b \<longrightarrow> length b = 24" "new_encrypted_store A nonce k = Inr r"
  shows "r_cipher r = sealing k \<and> \<not> r_convert r \<and>
         (\<exists>m. r_mark r = Some m \<and> open_blob A (sealing k) VERIFIER_CONTEXT (nm_verifier m) = Inr VERIFIER_PLAINTEXT)"
  using assms(3) open_seal [OF assms(1,2)]
  by (auto simp: new_encrypted_store_def and_then_Inr_iff)

text \<open>The three decisions a keyed open can take without refusing.\<close>

lemma resolve_keyed:
  assumes "aead_ok A" "\<forall>b. nonce = Inr b \<longrightarrow> length b = 24"
    and "read_stored F db = Inr st" "resolve_cipher A nonce st (account_ids db \<noteq> []) (progress db \<noteq> []) (Some k) = Inr r"
  shows "r_cipher r = sealing k \<and>
    (enc_state db = ''encrypted'' \<and> progress db = [] \<and> verified A k db \<and> r_mark r = None \<and> \<not> r_convert r \<or>
     enc_state db = ''plaintext'' \<and> verified A k db \<and> r_mark r = None \<and> r_convert r \<or>
     enc_state db = ''plaintext'' \<and> enc_verifier db = None \<and> r_convert r = (account_ids db \<noteq> []) \<and>
       (\<exists>m. r_mark r = Some m \<and> open_blob A (sealing k) VERIFIER_CONTEXT (nm_verifier m) = Inr VERIFIER_PLAINTEXT))"
proof (cases "enc_state db = ''encrypted''")
  case True
  then have st: "st = \<lparr>encrypted = True, se_key_id = enc_key_id db, se_verifier = enc_verifier db\<rparr>"
    using assms(3) by (auto simp: read_stored_Inr from_row_def)
  with assms(4) True show ?thesis
    by (auto simp: resolve_cipher_def verify_key_def verified_matches split: if_splits)
next
  case False
  then have st: "st = \<lparr>encrypted = False, se_key_id = enc_key_id db, se_verifier = enc_verifier db\<rparr>"
      and pl: "enc_state db = ''plaintext''"
    using assms(3) by (auto simp: read_stored_Inr from_row_def split: if_splits)
  show ?thesis
  proof (cases "enc_verifier db = None")
    case True
    then obtain r0 where "new_encrypted_store A nonce k = Inr r0"
        "r = r0\<lparr>r_convert := account_ids db \<noteq> []\<rparr> \<or> r = r0 \<and> account_ids db = []"
      using assms(4) st by (auto simp: resolve_cipher_def begin_conversion_def map_ok_Inr_iff split: if_splits)
    with new_store_mark [OF assms(1,2)] pl True show ?thesis by auto
  next
    case False
    with assms(4) st pl show ?thesis
      by (auto simp: resolve_cipher_def resume_conversion_def verify_key_def verified_matches map_ok_Inr_iff
          split: if_splits)
  qed
qed

lemma convert_and_scrub:
  assumes A: "aead_ok A" "rng_ok src" and conv: "converting A k ps db"
    and run: "(case convert_run A src F (sealing k) Sealing db of
                 (db2, Inl e) \<Rightarrow> (db2, Inl e)
               | (db2, Inr _) \<Rightarrow>
                   (case scrub_old_plaintext F db2 of
                      (db3, Inl e) \<Rightarrow> (db3, Inl e)
                    | (db3, Inr _) \<Rightarrow> (db3, Inr (sealing k)))) = (db', res)"
  shows "(converting A k ps db' \<or> sealed_store A k ps db') \<and>
         (\<forall>c. res = Inr c \<longrightarrow> c = sealing k \<and> sealed_store A k ps db')"
proof -
  obtain db2 r where c: "convert_run A src F (sealing k) Sealing db = (db2, r)" by fastforce
  have t: "turns (turn_of Sealing (sealing k)) None (Some k)" by (simp add: turns_def sealing_def)
  have st: "enc_state db = start_state Sealing" using conv by (simp add: converting_def start_state_def)
  have ran: "ran_to A None (Some k) ps Sealing db db2 (is_ok r)"
    using convert_run_ok [OF A t _ st c, of ps] conv by (simp add: converting_def)
  then have cases: "converting A k ps db2 \<and> \<not> is_ok r \<or> sealed_store A k ps db2"
    using conv by (auto simp: ran_to_def converting_def sealed_store_def finished_state_def verified_def)
  show ?thesis
  proof (cases r)
    case (Inl e)
    with cases run c show ?thesis by auto
  next
    case (Inr n)
    with cases have "sealed_store A k ps db2" by (simp add: is_ok_iff)
    with run c Inr show ?thesis
      by (auto simp: scrub_old_plaintext_def sealed_store_def split: if_splits sum.splits)
  qed
qed

lemma open_cipher_states:
  assumes A: "aead_ok A" "rng_ok src"
    and db: "plain_store A ps db \<or> converting A k ps db \<or> sealed_store A k ps db"
    and run: "open_cipher A src F (Some k) db = (db', res)"
  shows "(plain_store A ps db' \<or> converting A k ps db' \<or> sealed_store A k ps db') \<and>
         (\<forall>c. res = Inr c \<longrightarrow> c = sealing k \<and> sealed_store A k ps db')"
proof (cases "and_then (read_stored F db) (\<lambda>st.
           and_then (query_sql (f_read F 1) (account_ids db \<noteq> [])) (\<lambda>has_accounts.
           and_then (query_sql (f_read F 2) (progress db \<noteq> [])) (\<lambda>has_progress.
             resolve_cipher A (src (nonces_drawn db)) st has_accounts has_progress (Some k))))")
  case (Inl e)
  with run db show ?thesis by (auto simp: open_cipher_def)
next
  case (Inr r)
  then obtain st where st: "read_stored F db = Inr st"
      "resolve_cipher A (src (nonces_drawn db)) st (account_ids db \<noteq> []) (progress db \<noteq> []) (Some k) = Inr r"
    by (auto simp: and_then_Inr_iff)
  have nonce: "\<forall>b. src (nonces_drawn db) = Inr b \<longrightarrow> length b = 24" using A(2) by (simp add: rng_ok_def)
  let ?db = "db\<lparr>nonces_drawn := nonces_drawn db + 1\<rparr>"
  note kinds = resolve_keyed [OF A(1) nonce st]
  then have ci: "r_cipher r = sealing k" by blast
  from kinds consider
      (keyed) "enc_state db = ''encrypted''" "r_mark r = None" "\<not> r_convert r"
    | (resumed) "enc_state db = ''plaintext''" "verified A k db" "r_mark r = None" "r_convert r"
    | (fresh) m where "enc_state db = ''plaintext''" "enc_verifier db = None" "r_convert r = (account_ids db \<noteq> [])"
        "r_mark r = Some m" "open_blob A (sealing k) VERIFIER_CONTEXT (nm_verifier m) = Inr VERIFIER_PLAINTEXT"
    by metis
  then show ?thesis
  proof cases
    case keyed
    then have sealed: "sealed_store A k ps db"
      using db by (auto simp: plain_store_def converting_def sealed_store_def)
    from run Inr keyed ci have "db' = ?db \<and> res = Inr (sealing k)"
      by (simp add: open_cipher_def write_mark_def)
    with sealed show ?thesis by (auto simp: sealed_store_def)
  next
    case resumed
    then have "converting A k ps ?db"
      using db by (auto simp: plain_store_def converting_def sealed_store_def verified_def)
    from convert_and_scrub [OF A this] run Inr resumed ci show ?thesis
      by (auto simp: open_cipher_def write_mark_def)
  next
    case fresh
    then have plain: "plain_store A ps db"
      using db by (auto simp: plain_store_def converting_def sealed_store_def verified_def)
    have opened: "open_cipher A src F (Some k) db =
       (case write_mark F r ?db of
          (db1, Inl e) \<Rightarrow> (db1, Inl e)
        | (db1, Inr _) \<Rightarrow>
            (if \<not> r_convert r then (db1, Inr (r_cipher r))
             else case convert_run A src F (r_cipher r) Sealing db1 of
                    (db2, Inl e) \<Rightarrow> (db2, Inl e)
                  | (db2, Inr _) \<Rightarrow>
                      (case scrub_old_plaintext F db2 of
                         (db3, Inl e) \<Rightarrow> (db3, Inl e)
                       | (db3, Inr _) \<Rightarrow> (db3, Inr (r_cipher r)))))"
      using Inr by (simp add: open_cipher_def)
    show ?thesis
    proof (cases "account_ids db = []")
      case True
      let ?db1 = "?db\<lparr>enc_state := ''encrypted'', enc_key_id := Some (nm_key_id m), enc_verifier := Some (nm_verifier m)\<rparr>"
      have "cells db = [] \<and> ps = []"
        using True plain shape_cell [of db] by (cases "cells db") (auto simp: plain_store_def whole_def)
      with plain fresh True have "sealed_store A k ps ?db1"
        by (auto simp: plain_store_def sealed_store_def whole_def verified_def shape_def)
      moreover have "plain_store A ps ?db" using plain by (simp add: plain_store_def)
      ultimately show ?thesis
        using run opened fresh ci True plain
        by (cases "f_mark F") (auto simp: write_mark_def MARK_ENCRYPTED_def execute_sql_def plain_store_def)
    next
      case False
      let ?db1 = "?db\<lparr>enc_key_id := Some (nm_key_id m), enc_verifier := Some (nm_verifier m)\<rparr>"
      have conv: "converting A k ps ?db1"
        using plain fresh partway_start [of A None ps db "Some k"]
        by (auto simp: plain_store_def converting_def verified_def)
      have same: "plain_store A ps ?db" using plain by (simp add: plain_store_def)
      have marked: "write_mark F r ?db =
          (case f_mark F of Ran \<Rightarrow> (?db1, Inr ()) | Failed e \<Rightarrow> (?db, Inl e) | Unknown e \<Rightarrow> (?db1, Inl e))"
        using fresh False plain
        by (auto simp: write_mark_def MARK_CONVERTING_def execute_sql_def plain_store_def split: answer.splits)
      show ?thesis
      proof (cases "f_mark F")
        case Ran
        with run opened marked fresh False ci convert_and_scrub [OF A conv] show ?thesis by auto
      qed (use run opened marked conv same in auto)
    qed
  qed
qed

section \<open>Decrypting a store\<close>

lemma sealed_is_decrypting: "sealed_store A k ps db \<Longrightarrow> decrypting A k ps db"
  using partway_start by (auto simp: sealed_store_def decrypting_def)

lemma cipher_for_decrypt_verified:
  assumes "read_stored F db = Inr st" "cipher_for_decrypt A st k = Inr c"
  shows "c = sealing k \<and> enc_state db = ''encrypted'' \<and> verified A k db"
  using assms
  by (auto simp: read_stored_Inr from_row_def cipher_for_decrypt_def verify_key_def verified_matches
      map_ok_Inr_iff split: if_splits)

lemma decrypt_store_states:
  assumes A: "aead_ok A" "rng_ok src" and db: "decrypting A k ps db"
    and run: "decrypt_store A src F k db = (db', res)"
  shows "(decrypting A k ps db' \<or> plain_store A ps db') \<and> (\<forall>n. res = Inr n \<longrightarrow> plain_store A ps db')"
proof (cases "and_then (read_stored F db) (\<lambda>st. cipher_for_decrypt A st k)")
  case (Inl e)
  with run db show ?thesis by (auto simp: decrypt_store_def)
next
  case (Inr c)
  then have c: "c = sealing k"
    using cipher_for_decrypt_verified by (auto simp: and_then_Inr_iff)
  have t: "turns (turn_of Opening (sealing k)) (Some k) None" by (simp add: turns_def sealing_def)
  have st: "enc_state db = start_state Opening" using db by (simp add: decrypting_def start_state_def)
  have "convert_run A src F (sealing k) Opening db = (db', res)"
    using run Inr c by (simp add: decrypt_store_def)
  from convert_run_ok [OF A t _ st this, of ps] db show ?thesis
    by (cases res) (auto simp: ran_to_def decrypting_def plain_store_def finished_state_def verified_def)
qed

section \<open>Rotating the key\<close>

lemma rotate_accounts_holds:
  assumes "aead_ok A" "rng_ok src" "turns t c1 c2"
    and "distinct ds" "\<forall>d\<in>set ds. \<forall>k. \<not> T d k" "holds A c1 c2 T ps (cells db)"
    and "try_fold (\<lambda>d. try_fold (convert_column A src t d) sealed_columns) ds db = Inr db'"
  shows "holds A c1 c2 (\<lambda>e k. T e k \<or> e \<in> set ds \<and> k \<in> set sealed_columns) ps (cells db') \<and> same_store db db'"
  using assms(4-7)
proof (induction ds arbitrary: T db)
  case Nil
  then show ?case by (simp add: same_store_def)
next
  case (Cons d ds)
  obtain db1 where db1: "try_fold (convert_column A src t d) sealed_columns db = Inr db1"
      and rest: "try_fold (\<lambda>d. try_fold (convert_column A src t d) sealed_columns) ds db1 = Inr db'"
    using Cons.prems(4) by (auto simp: and_then_Inr_iff)
  let ?T = "\<lambda>e k. T e k \<or> e = d \<and> k \<in> set sealed_columns"
  have step: "holds A c1 c2 ?T ps (cells db1)" "same_store db db1"
    using convert_columns_holds [OF assms(1-3) distinct_sealed_columns _ Cons.prems(3) db1] Cons.prems(2)
    by auto
  have "\<forall>e\<in>set ds. \<forall>k. \<not> ?T e k" using Cons.prems(1,2) by auto
  from Cons.IH [OF _ this step(1) rest] Cons.prems(1)
  have "holds A c1 c2 (\<lambda>e k. ?T e k \<or> e \<in> set ds \<and> k \<in> set sealed_columns) ps (cells db')" "same_store db1 db'"
    by simp_all
  moreover have "(\<lambda>e k. ?T e k \<or> e \<in> set ds \<and> k \<in> set sealed_columns) =
      (\<lambda>e k. T e k \<or> e \<in> set (d # ds) \<and> k \<in> set sealed_columns)"
    by (auto simp: fun_eq_iff)
  ultimately show ?case using step(2) by (simp add: same_store_def)
qed

lemma plan_rotation_ok:
  assumes "aead_ok A" "\<forall>b. nonce = Inr b \<longrightarrow> length b = 24" "plan_rotation A nonce st pr old new = Inr r"
  shows "rot_from r = sealing old \<and> rot_to r = sealing new \<and>
         open_blob A (sealing new) VERIFIER_CONTEXT (nm_verifier (rot_mark r)) = Inr VERIFIER_PLAINTEXT"
proof -
  obtain r0 m where "new_encrypted_store A nonce new = Inr r0" "r_mark r0 = Some m"
      "r = \<lparr>rot_from = sealing old, rot_to = sealing new, rot_mark = m\<rparr>"
    using assms(3)
    by (auto simp: plan_rotation_def and_then_Inr_iff verify_key_def ok_or_def split: if_splits option.splits)
  with new_store_mark [OF assms(1,2), of new r0] show ?thesis by auto
qed

lemma rotate_run_states:
  assumes A: "aead_ok A" "rng_ok src" and db: "sealed_store A old ps db"
    and r: "rot_from r = sealing old" "rot_to r = sealing new"
      "open_blob A (sealing new) VERIFIER_CONTEXT (nm_verifier (rot_mark r)) = Inr VERIFIER_PLAINTEXT"
    and run: "rotate_run A src F r db = (db', res)"
  shows "(db' = db \<or> sealed_store A new ps db') \<and> (\<forall>n. res = Inr n \<longrightarrow> sealed_store A new ps db')"
proof -
  let ?ids = "sort_key sint (account_ids db)"
  let ?t = "TRotate (rot_from r) (rot_to r)"
  let ?each = "\<lambda>d. try_fold (convert_column A src ?t d) sealed_columns"
  show ?thesis
  proof (cases "and_then (query_sql (f_read F 3) ?ids) (\<lambda>ids.
           and_then (try_fold ?each ids db) (\<lambda>db1. map_ok (Pair (length ids)) (swap_mark r db1)))")
    case (Inl e)
    with run show ?thesis by (auto simp: rotate_run_def Let_def)
  next
    case (Inr p)
    then obtain n db0 db1 where db0: "try_fold ?each ?ids db = Inr db0" and mark: "swap_mark r db0 = Inr db1"
        and p: "p = (n, db1)"
      by (auto simp: and_then_Inr_iff map_ok_Inr_iff)
    have sh: "shape db" and wh: "list_all2 (\<lambda>p c. reads A (Some old) c p) ps (cells db)"
      using db by (auto simp: sealed_store_def whole_def)
    have t: "turns ?t (Some old) (Some new)" using r by (simp add: turns_def sealing_def)
    have "distinct ?ids" using sh by (simp add: shape_def)
    from rotate_accounts_holds [OF A t this _ _ db0, of "\<lambda>_ _. False" ps] wh
    have h: "holds A (Some old) (Some new) (\<lambda>e k. e \<in> set ?ids \<and> k \<in> set sealed_columns) ps (cells db0)"
        and same: "same_store db db0" by (auto simp: holds_def)
    have sh0: "shape db0" using shape_same [OF sh same] .
    have "holds A (Some old) (Some new) (\<lambda>_ _. True) ps (cells db0)"
      using h shape_cell [OF sh0] same by (subst holds_cong) (auto simp: same_store_def)
    then have "whole A (Some new) ps db0"
      using sh0 db same by (simp add: holds_def whole_def same_store_def sealed_store_def)
    then have "sealed_store A new ps db1"
      using mark r(3) by (auto simp: swap_mark_def sealed_store_def whole_def shape_def verified_def split: if_splits)
    with run Inr p show ?thesis
      by (cases "f_rotate F") (auto simp: rotate_run_def Let_def execute_sql_def scrub_old_plaintext_def sealed_store_def
          split: if_splits sum.splits)
  qed
qed

lemma rotate_store_states:
  assumes A: "aead_ok A" "rng_ok src" and db: "sealed_store A old ps db"
    and run: "rotate_store A src F old new db = (db', res)"
  shows "(sealed_store A old ps db' \<or> sealed_store A new ps db') \<and> (\<forall>n. res = Inr n \<longrightarrow> sealed_store A new ps db')"
proof (cases "and_then (read_stored F db) (\<lambda>st.
           and_then (query_sql (f_read F 2) (progress db \<noteq> [])) (\<lambda>has_progress.
             plan_rotation A (src (nonces_drawn db)) st has_progress old new))")
  case (Inl e)
  with run db show ?thesis by (auto simp: rotate_store_def)
next
  case (Inr r)
  have nonce: "\<forall>b. src (nonces_drawn db) = Inr b \<longrightarrow> length b = 24" using A(2) by (simp add: rng_ok_def)
  from Inr plan_rotation_ok [OF A(1) nonce]
  have "rot_from r = sealing old" "rot_to r = sealing new"
      "open_blob A (sealing new) VERIFIER_CONTEXT (nm_verifier (rot_mark r)) = Inr VERIFIER_PLAINTEXT"
    by (auto simp: and_then_Inr_iff)
  moreover have "sealed_store A old ps (db\<lparr>nonces_drawn := nonces_drawn db + 1\<rparr>)"
    using db by (simp add: sealed_store_def)
  ultimately show ?thesis using rotate_run_states [OF A] run Inr by (fastforce simp: rotate_store_def)
qed

section \<open>A run that meets no fault finishes\<close>

definition never_fails :: "crypto \<Rightarrow> rng \<Rightarrow> bool" where
  "never_fails A src \<longleftrightarrow> (\<forall>k n a m. encrypt A k n a m \<noteq> None) \<and> (\<forall>n. \<exists>b. src n = Inr b \<and> length b = 24)"

lemma never_fails_rng: "never_fails A src \<Longrightarrow> rng_ok src"
  unfolding never_fails_def rng_ok_def by (metis sum.inject(2))

lemma seal_total: "never_fails A src \<Longrightarrow> \<exists>b. seal A (src n) c x p = Inr b"
  unfolding never_fails_def seal_def
  by (auto split: option.splits sum.splits) (metis Inl_Inr_False option.distinct(1))+

lemma turn_total:
  assumes "never_fails A src" "turns t c1 c2" "reads A c1 c p"
  shows "\<exists>b. turn_blob A (src n) t (cell_device c) (cell_column c) (cell_parts c) (cell_blob c) = Inr b"
  using assms(2,3) seal_total [OF assms(1)] unfolding turns_def
  by (auto simp: turn_blob_def Let_def seal_at_def open_at_def reads_def cell_context_def)

lemma turn_cells_total:
  assumes nf: "never_fails A src" and t: "turns t c1 c2" and new: "\<not> T d col" and "holds A c1 c2 T ps cs"
  shows "\<exists>r. turn_cells A src t d col n cs = Inr r"
  using assms(4)
proof (induction cs arbitrary: n ps)
  case (Cons c cs)
  obtain p ps1 where rest: "holds A c1 c2 T ps1 cs"
      and p: "reads A (if T (cell_device c) (cell_column c) then c2 else c1) c p"
    using Cons.prems by (auto simp: holds_def list_all2_Cons2)
  have "cell_device c = d \<and> cell_column c = col \<Longrightarrow>
      \<exists>b. turn_blob A (src n) t d col (cell_parts c) (cell_blob c) = Inr b"
    using turn_total [OF nf t, of c p n] p new by auto
  then show ?case using Cons.IH [OF rest, of n] Cons.IH [OF rest, of "n + 1"] by (auto simp: and_then_Inr_iff)
qed simp

lemma convert_columns_total:
  assumes nf: "never_fails A src" and ok: "aead_ok A" and t: "turns t c1 c2" and "distinct cols" "\<forall>k\<in>set cols. \<not> T d k"
    and "holds A c1 c2 T ps (cells db)"
  shows "\<exists>db'. try_fold (convert_column A src t d) cols db = Inr db'"
  using assms(4-6)
proof (induction cols arbitrary: T db)
  case (Cons col cols)
  then have new: "\<not> T d col" by simp
  obtain db1 where db1: "convert_column A src t d col db = Inr db1"
    using turn_cells_total [OF nf t new Cons.prems(3)]
    by (auto simp: convert_column_def and_then_Inr_iff split: prod.splits) blast
  let ?T = "\<lambda>e k. T e k \<or> e = d \<and> k = col"
  have "holds A c1 c2 ?T ps (cells db1)"
    using convert_column_holds [OF ok never_fails_rng [OF nf] t new Cons.prems(3) db1] by blast
  moreover have "\<forall>k\<in>set cols. \<not> ?T d k" "distinct cols" using Cons.prems(1,2) by auto
  ultimately show ?case using Cons.IH [of ?T db1] db1 by simp
qed simp

lemma convert_accounts_total:
  assumes nf: "never_fails A src" and ok: "aead_ok A" and t: "turns (turn_of dir c) c1 c2"
    and "partway A c1 c2 ps db" "distinct ds" "set ds \<inter> set (progress db) = {}"
  shows "\<exists>db'. convert_accounts A src no_faults c dir ds db = (db', Inr ())"
  using assms(4-6)
proof (induction ds arbitrary: db)
  case (Cons d ds)
  have new: "d \<notin> set (progress db)" using Cons.prems(3) by simp
  obtain db0 where db0: "try_fold (convert_column A src (turn_of dir c) d) sealed_columns db = Inr db0"
    using convert_columns_total [OF nf ok t distinct_sealed_columns, of "\<lambda>e _. e \<in> set (progress db)" d ps db]
      Cons.prems(1) new by (auto simp: partway_def)
  note half = convert_account_partway [OF ok never_fails_rng [OF nf] t Cons.prems(1) new db0]
  then have "set ds \<inter> set (progress (db0\<lparr>progress := progress db0 @ [d]\<rparr>)) = {}"
    using Cons.prems(2,3) by (auto simp: same_store_def)
  from Cons.IH [OF conjunct1 [OF half] _ this] Cons.prems(2) db0 show ?case
    by (cases "ds = []") (simp_all add: convert_account_def Let_def execute_sql_def no_faults_def)
qed simp

lemma convert_run_total:
  assumes "never_fails A src" "aead_ok A" "turns (turn_of dir c) c1 c2" "partway A c1 c2 ps db"
  shows "\<exists>db' n. convert_run A src no_faults c dir db = (db', Inr n)"
proof -
  let ?left = "accounts_left (account_ids db) (progress db)"
  have "distinct ?left" "set ?left \<inter> set (progress db) = {}"
    using assms(4) by (auto simp: accounts_left_def partway_def shape_def)
  from convert_accounts_total [OF assms this] show ?thesis by (auto simp: convert_run_def Let_def)
qed

lemma converting_run_ends:
  assumes "never_fails A src" "aead_ok A" "converting A k ps db"
  shows "\<exists>db' n. convert_run A src no_faults (sealing k) Sealing db = (db', Inr n)"
  using convert_run_total [OF assms(1,2), of Sealing "sealing k" None "Some k" ps db] assms(3)
  by (auto simp: turns_def sealing_def converting_def)

lemma new_encrypted_store_total:
  "never_fails A src \<Longrightarrow> \<exists>r. new_encrypted_store A (src n) k = Inr r"
  using seal_total [of A src n "sealing k" VERIFIER_CONTEXT VERIFIER_PLAINTEXT]
  by (auto simp: new_encrypted_store_def)

lemma resolve_total:
  assumes "never_fails A src" "plain_store A ps db \<or> converting A k ps db \<or> sealed_store A k ps db"
  shows "\<exists>st r. read_stored no_faults db = Inr st \<and>
     resolve_cipher A (src n) st (account_ids db \<noteq> []) (progress db \<noteq> []) (Some k) = Inr r"
proof -
  obtain r0 where "new_encrypted_store A (src n) k = Inr r0"
    using new_encrypted_store_total [OF assms(1)] by blast
  with assms(2) show ?thesis
    by (auto simp: plain_store_def converting_def sealed_store_def read_stored_Inr no_faults_def from_row_def
        resolve_cipher_def begin_conversion_def resume_conversion_def verify_key_def verified_matches
        map_ok_Inr_iff whole_def) (auto simp: verified_def)
qed

lemma open_cipher_total:
  assumes nf: "never_fails A src" and ok: "aead_ok A"
    and db: "plain_store A ps db \<or> converting A k ps db \<or> sealed_store A k ps db"
  shows "\<exists>db' c. open_cipher A src no_faults (Some k) db = (db', Inr c)"
proof -
  let ?n = "nonces_drawn db" and ?db = "db\<lparr>nonces_drawn := nonces_drawn db + 1\<rparr>"
  obtain st r where st: "read_stored no_faults db = Inr st"
      "resolve_cipher A (src ?n) st (account_ids db \<noteq> []) (progress db \<noteq> []) (Some k) = Inr r"
    using resolve_total [OF nf db] by blast
  have nonce: "\<forall>b. src ?n = Inr b \<longrightarrow> length b = 24" using nf by (auto simp: never_fails_def) (metis sum.inject(2))
  note kinds = resolve_keyed [OF ok nonce st]
  obtain db1 where mark: "write_mark no_faults r ?db = (db1, Inr ())" and conv: "r_convert r \<longrightarrow> converting A k ps db1"
  proof (cases "r_mark r")
    case None
    with kinds db that show ?thesis
      by (auto simp: write_mark_def plain_store_def converting_def sealed_store_def verified_def)
  next
    case (Some m)
    let ?db1 = "?db\<lparr>enc_key_id := Some (nm_key_id m), enc_verifier := Some (nm_verifier m)\<rparr>"
    have plain: "plain_store A ps db"
        and m: "open_blob A (sealing k) VERIFIER_CONTEXT (nm_verifier m) = Inr VERIFIER_PLAINTEXT"
      using kinds db Some by (auto simp: plain_store_def converting_def sealed_store_def verified_def)
    have "converting A k ps ?db1"
      using plain m partway_start [of A None ps db "Some k"]
      by (auto simp: plain_store_def converting_def verified_def)
    with plain kinds Some that show ?thesis
      by (cases "account_ids db = []") (auto simp: write_mark_def MARK_CONVERTING_def MARK_ENCRYPTED_def plain_store_def)
  qed
  show ?thesis
  proof (cases "r_convert r")
    case True
    with conv obtain db2 n where "convert_run A src no_faults (sealing k) Sealing db1 = (db2, Inr n)"
      using converting_run_ends [OF nf ok] by blast
    with st mark True kinds show ?thesis by (simp add: open_cipher_def scrub_old_plaintext_def)
  next
    case False
    with st mark show ?thesis by (simp add: open_cipher_def)
  qed
qed

end
