(* ===== verification/Turso_Conversion.thy ===== *)
theory Turso_Conversion
  imports Turso_Exec Store_Conversion
begin

text \<open>
  Encryption at rest on the Turso engine (\<open>storage/turso/store_encryption_sql.rs\<close>, \<open>convert.rs\<close>,
  \<open>rotate.rs\<close>): the same walk as the SQL family's over the same columns, whose rows come as untyped
  values. On a store whose key columns hold what their types say it is the SQL family's run, fault for
  fault, so what is proved of that holds of this.
\<close>

section \<open>Rows\<close>

fun part_value :: "row_part \<Rightarrow> turso_value" where
  "part_value (PText t) = VText t"
| "part_value (PInt i) = VInteger i"
| "part_value (PBytes b) = VBlob b"

fun turso_key_part :: "turso_env \<Rightarrow> turso_row \<Rightarrow> nat \<Rightarrow> key_column \<Rightarrow> store_error + row_part" where
  "turso_key_part T row i (KText _) = map_ok PText (text_at T row i)"
| "turso_key_part T row i (KId _) = map_ok PInt (int_at T row i)"
| "turso_key_part T row i (KBytes _) = map_ok PBytes (blob T row i)"

definition turso_read_row :: "turso_env \<Rightarrow> turso_row \<Rightarrow> sealed_column \<Rightarrow> store_error + row_part list \<times> bytes" where
  "turso_read_row T row col =
     and_then (try_map (\<lambda>(i, key). turso_key_part T row i key) (enumerate 0 (sc_key col))) (\<lambda>parts.
       map_ok (Pair parts) (blob T row (length (sc_key col))))"

text \<open>The row the engine gives of a cell: its key columns, then its blob.\<close>

definition cell_columns :: "cell \<Rightarrow> turso_row" where
  "cell_columns c = map part_value (cell_parts c) @ [VBlob (cell_blob c)]"

section \<open>The conversion\<close>

fun turso_turn_cells ::
  "turso_env \<Rightarrow> crypto \<Rightarrow> rng \<Rightarrow> turn \<Rightarrow> bits32 \<Rightarrow> sealed_column \<Rightarrow> nat \<Rightarrow> cell list \<Rightarrow> store_error + (cell list \<times> nat)" where
  "turso_turn_cells T A src t d col n [] = Inr ([], n)"
| "turso_turn_cells T A src t d col n (c # cs) =
     (if cell_device c = d \<and> cell_column c = col
      then and_then (turso_read_row T (cell_columns c) col) (\<lambda>(parts, stored).
           and_then (turn_blob A (src n) t d col parts stored) (\<lambda>turned.
           and_then (turso_turn_cells T A src t d col (n + 1) cs) (\<lambda>(cs', n').
             Inr (c\<lparr>cell_blob := turned\<rparr> # cs', n'))))
      else and_then (turso_turn_cells T A src t d col n cs) (\<lambda>(cs', n'). Inr (c # cs', n')))"

definition turso_convert_column ::
  "turso_env \<Rightarrow> crypto \<Rightarrow> rng \<Rightarrow> turn \<Rightarrow> bits32 \<Rightarrow> sealed_column \<Rightarrow> store_db \<Rightarrow> store_error + store_db" where
  "turso_convert_column T A src t d col db =
     and_then (turso_turn_cells T A src t d col (nonces_drawn db) (cells db)) (\<lambda>(cs, n).
       Inr (db\<lparr>cells := cs, nonces_drawn := n, stale_bytes := True\<rparr>))"

definition turso_convert_account ::
  "turso_env \<Rightarrow> crypto \<Rightarrow> rng \<Rightarrow> blob_cipher \<Rightarrow> direction \<Rightarrow> bits32 \<Rightarrow> bool \<Rightarrow> store_db \<Rightarrow> store_error + store_db" where
  "turso_convert_account T A src c dir d is_last db =
     and_then (try_fold (turso_convert_column T A src (turn_of dir c) d) sealed_columns db) (\<lambda>db1.
       let db2 = db1\<lparr>progress := progress db1 @ [d]\<rparr>
       in Inr (if is_last then finish_run dir db2 else db2))"

fun turso_convert_accounts ::
  "turso_env \<Rightarrow> crypto \<Rightarrow> rng \<Rightarrow> run_faults \<Rightarrow> blob_cipher \<Rightarrow> direction \<Rightarrow> bits32 list \<Rightarrow> store_db \<Rightarrow>
   store_db \<times> (store_error + unit)" where
  "turso_convert_accounts T A src F c dir [] db = (db, Inr ())"
| "turso_convert_accounts T A src F c dir (d # ds) db =
     (case turso_convert_account T A src c dir d (ds = []) db of
        Inl e \<Rightarrow> (db, Inl e)
      | Inr db1 \<Rightarrow>
          (case execute_sql (f_account F d) (\<lambda>_. db1) db of
             (db2, Inl e) \<Rightarrow> (db2, Inl e)
           | (db2, Inr _) \<Rightarrow> turso_convert_accounts T A src F c dir ds db2))"

definition turso_device_ids :: "turso_env \<Rightarrow> answer \<Rightarrow> bits32 list \<Rightarrow> store_error + bits32 list" where
  "turso_device_ids T ans ids =
     and_then (query_sql ans (map (\<lambda>d. [of_i32 d]) ids)) (try_map (\<lambda>row. int32 T row 0))"

definition turso_convert_run ::
  "turso_env \<Rightarrow> crypto \<Rightarrow> rng \<Rightarrow> run_faults \<Rightarrow> blob_cipher \<Rightarrow> direction \<Rightarrow> store_db \<Rightarrow> store_db \<times> (store_error + nat)" where
  "turso_convert_run T A src F c dir db =
     (case and_then (turso_device_ids T (f_read F 3) (sort_key sint (account_ids db))) (\<lambda>all.
           map_ok (accounts_left all) (turso_device_ids T (f_read F 4) (progress db))) of
        Inl e \<Rightarrow> (db, Inl e)
      | Inr left \<Rightarrow>
          (case turso_convert_accounts T A src F c dir left db of
             (db', Inl e) \<Rightarrow> (db', Inl e)
           | (db', Inr _) \<Rightarrow>
               (if left = []
                then (case execute_sql (f_finish F) (finish_run dir) db' of
                        (db'', r) \<Rightarrow> (db'', map_ok (\<lambda>_. length left) r))
                else (db', Inr (length left)))))"

text \<open>The checkpoint's first row says in its first column whether it was busy; no row means it was not.\<close>

definition checkpoint_row :: "bool \<Rightarrow> turso_row" where
  "checkpoint_row busy = [VInteger (if busy then 1 else 0), VInteger 0, VInteger 0]"

definition turso_scrub_old_plaintext :: "turso_env \<Rightarrow> run_faults \<Rightarrow> store_db \<Rightarrow> store_db \<times> (store_error + unit)" where
  "turso_scrub_old_plaintext T F db =
     (case and_then (map_ok (\<lambda>busy. [checkpoint_row busy]) (f_scrub F)) (\<lambda>checkpoint.
           map_ok (\<lambda>found. case found of None \<Rightarrow> 0 | Some v \<Rightarrow> v)
             (transpose_opt (map_option (\<lambda>row. int_at T row 0) (if checkpoint = [] then None else Some (hd checkpoint))))) of
        Inl e \<Rightarrow> (db, Inl e)
      | Inr busy \<Rightarrow>
          (if busy \<noteq> 0 then (db, Inl (Connection ''the WAL could not be truncated after the secret columns were rewritten, so their old bytes may still be in the -wal file: stop whatever else has the store open and run again''))
           else (db\<lparr>stale_bytes := False\<rparr>, Inr ())))"

section \<open>Opening, decrypting, rotating\<close>

definition state_row :: "store_db \<Rightarrow> turso_row" where
  "state_row db = [VText (enc_state db), or_null VBlob (enc_key_id db), or_null VBlob (enc_verifier db)]"

definition turso_read_stored :: "turso_env \<Rightarrow> run_faults \<Rightarrow> store_db \<Rightarrow> store_error + stored_encryption" where
  "turso_read_stored T F db =
     and_then (query_sql (f_read F 0) (state_row db)) (\<lambda>row.
     and_then (text_at T row 0) (\<lambda>st.
     and_then (opt_blob T row 1) (\<lambda>kid.
     and_then (opt_blob T row 2) (\<lambda>v. from_row st kid v))))"

definition turso_exists :: "turso_env \<Rightarrow> answer \<Rightarrow> bool \<Rightarrow> store_error + bool" where
  "turso_exists T ans holds_rows =
     and_then (query_sql ans (Some [VInteger (if holds_rows then 1 else 0)])) (\<lambda>row.
       map_ok (\<lambda>v. v = Some 1) (transpose_opt (map_option (\<lambda>row. int_at T row 0) row)))"

definition turso_write_mark :: "run_faults \<Rightarrow> resolution \<Rightarrow> store_db \<Rightarrow> store_db \<times> (store_error + unit)" where
  "turso_write_mark F r db =
     (case r_mark r of
        None \<Rightarrow> (db, Inr ())
      | Some m \<Rightarrow>
          (let statement = (if r_convert r then MARK_CONVERTING m else MARK_ENCRYPTED m) in
           case execute_sql (f_mark F) (\<lambda>db. fst (statement db)) db of
             (db', Inl e) \<Rightarrow> (db', Inl e)
           | (db', Inr _) \<Rightarrow>
               (db', if snd (statement db) \<noteq> 1
                     then Inl (InvalidConfig ''the store changed while it was being marked for encryption'')
                     else Inr ())))"

definition turso_open_cipher ::
  "turso_env \<Rightarrow> crypto \<Rightarrow> rng \<Rightarrow> run_faults \<Rightarrow> store_key option \<Rightarrow> store_db \<Rightarrow> store_db \<times> (store_error + blob_cipher)" where
  "turso_open_cipher T A src F key db =
     (case and_then (turso_read_stored T F db) (\<lambda>st.
           and_then (turso_exists T (f_read F 1) (account_ids db \<noteq> [])) (\<lambda>has_accounts.
           and_then (turso_exists T (f_read F 2) (progress db \<noteq> [])) (\<lambda>has_progress.
             resolve_cipher A (src (nonces_drawn db)) st has_accounts has_progress key))) of
        Inl e \<Rightarrow> (db, Inl e)
      | Inr r \<Rightarrow>
          (case turso_write_mark F r (db\<lparr>nonces_drawn := nonces_drawn db + 1\<rparr>) of
             (db1, Inl e) \<Rightarrow> (db1, Inl e)
           | (db1, Inr _) \<Rightarrow>
               (if \<not> r_convert r then (db1, Inr (r_cipher r))
                else case turso_convert_run T A src F (r_cipher r) Sealing db1 of
                       (db2, Inl e) \<Rightarrow> (db2, Inl e)
                     | (db2, Inr _) \<Rightarrow>
                         (case turso_scrub_old_plaintext T F db2 of
                            (db3, Inl e) \<Rightarrow> (db3, Inl e)
                          | (db3, Inr _) \<Rightarrow> (db3, Inr (r_cipher r))))))"

definition turso_decrypt_store ::
  "turso_env \<Rightarrow> crypto \<Rightarrow> rng \<Rightarrow> run_faults \<Rightarrow> store_key \<Rightarrow> store_db \<Rightarrow> store_db \<times> (store_error + nat)" where
  "turso_decrypt_store T A src F k db =
     (case and_then (turso_read_stored T F db) (\<lambda>st. cipher_for_decrypt A st k) of
        Inl e \<Rightarrow> (db, Inl e)
      | Inr c \<Rightarrow> turso_convert_run T A src F c Opening db)"

definition turso_swap_mark :: "rotation \<Rightarrow> store_db \<Rightarrow> store_error + store_db" where
  "turso_swap_mark r db =
     (if enc_state db = ''encrypted''
      then Inr (db\<lparr>enc_key_id := Some (nm_key_id (rot_mark r)), enc_verifier := Some (nm_verifier (rot_mark r))\<rparr>)
      else Inl (InvalidConfig ''the store stopped being encrypted while its key was being rotated''))"

definition turso_rotate_run ::
  "turso_env \<Rightarrow> crypto \<Rightarrow> rng \<Rightarrow> run_faults \<Rightarrow> rotation \<Rightarrow> store_db \<Rightarrow> store_db \<times> (store_error + nat)" where
  "turso_rotate_run T A src F r db =
     (let t = TRotate (rot_from r) (rot_to r) in
      case and_then (turso_device_ids T (f_read F 3) (sort_key sint (account_ids db))) (\<lambda>ids.
           and_then (try_fold (\<lambda>d. try_fold (turso_convert_column T A src t d) sealed_columns) ids db) (\<lambda>db1.
           map_ok (Pair (length ids)) (turso_swap_mark r db1))) of
        Inl e \<Rightarrow> (db, Inl e)
      | Inr (n, db1) \<Rightarrow>
          (case execute_sql (f_rotate F) (\<lambda>_. db1) db of
             (db2, Inl e) \<Rightarrow> (db2, Inl e)
           | (db2, Inr _) \<Rightarrow>
               (case turso_scrub_old_plaintext T F db2 of
                  (db3, Inl e) \<Rightarrow> (db3, Inl e)
                | (db3, Inr _) \<Rightarrow> (db3, Inr n))))"

definition turso_rotate_store ::
  "turso_env \<Rightarrow> crypto \<Rightarrow> rng \<Rightarrow> run_faults \<Rightarrow> store_key \<Rightarrow> store_key \<Rightarrow> store_db \<Rightarrow> store_db \<times> (store_error + nat)" where
  "turso_rotate_store T A src F old new db =
     (case and_then (turso_read_stored T F db) (\<lambda>st.
           and_then (turso_exists T (f_read F 2) (progress db \<noteq> [])) (\<lambda>has_progress.
             plan_rotation A (src (nonces_drawn db)) st has_progress old new)) of
        Inl e \<Rightarrow> (db, Inl e)
      | Inr r \<Rightarrow> turso_rotate_run T A src F r (db\<lparr>nonces_drawn := nonces_drawn db + 1\<rparr>))"

section \<open>The SQL family's run\<close>

fun part_typed :: "key_column \<Rightarrow> row_part \<Rightarrow> bool" where
  "part_typed (KText _) (PText _) = True"
| "part_typed (KId _) (PInt _) = True"
| "part_typed (KBytes _) (PBytes _) = True"
| "part_typed _ _ = False"

definition typed_store :: "store_db \<Rightarrow> bool" where
  "typed_store db \<longleftrightarrow> (\<forall>(d, col, parts) \<in> set (map place (cells db)). list_all2 part_typed (sc_key col) parts)"

lemma key_part_read:
  "part_typed k p \<Longrightarrow> i < length row \<Longrightarrow> row ! i = part_value p \<Longrightarrow> turso_key_part T row i k = Inr p"
  by (cases k; cases p) (simp_all add: text_at_def int_at_def blob_def)

lemma key_parts_read:
  assumes "list_all2 part_typed ks ps" "row = before @ map part_value ps @ rest"
  shows "try_map (\<lambda>(i, key). turso_key_part T row i key) (enumerate (length before) ks) = Inr ps"
  using assms
proof (induction ks ps arbitrary: before rule: list_all2_induct)
  case (Cons k ks p ps)
  from Cons.IH [of "before @ [part_value p]"] Cons.prems Cons.hyps show ?case
    by (simp add: key_part_read nth_append)
qed simp

lemma turso_read_row_columns:
  assumes "list_all2 part_typed (sc_key col) (cell_parts c)"
  shows "turso_read_row T (cell_columns c) col = Inr (cell_parts c, cell_blob c)"
  using key_parts_read [OF assms, of "cell_columns c" "[]" "[VBlob (cell_blob c)]" T] list_all2_lengthD [OF assms]
  by (simp add: turso_read_row_def cell_columns_def blob_def nth_append)

lemma turso_turn_cells_sql:
  "\<forall>c\<in>set cs. list_all2 part_typed (sc_key (cell_column c)) (cell_parts c) \<Longrightarrow>
   turso_turn_cells T A src t d col n cs = turn_cells A src t d col n cs"
  by (induction cs arbitrary: n) (auto simp: turso_read_row_columns)

lemma turso_convert_column_sql:
  "typed_store db \<Longrightarrow> turso_convert_column T A src t d col db = convert_column A src t d col db"
  by (auto simp: turso_convert_column_def convert_column_def typed_store_def place_def turso_turn_cells_sql)

lemma turn_cells_places: "turn_cells A src t d col n cs = Inr (cs', n') \<Longrightarrow> map place cs' = map place cs"
  by (induction cs arbitrary: n cs' n') (auto simp: and_then_Inr_iff place_def split: if_splits)

lemma convert_column_typed: "typed_store db \<Longrightarrow> convert_column A src t d col db = Inr db' \<Longrightarrow> typed_store db'"
  by (auto simp: convert_column_def and_then_Inr_iff typed_store_def simp del: set_map dest!: turn_cells_places)

lemma try_fold_typed:
  assumes "\<And>x db db'. typed_store db \<Longrightarrow> g x db = Inr db' \<Longrightarrow> typed_store db'"
    and "\<And>x db. typed_store db \<Longrightarrow> f x db = g x db" and "typed_store db"
  shows "try_fold f xs db = try_fold g xs db \<and> (\<forall>db'. try_fold g xs db = Inr db' \<longrightarrow> typed_store db')"
  using assms(3)
proof (induction xs arbitrary: db)
  case (Cons x xs)
  show ?case
  proof (cases "g x db")
    case (Inl e)
    with assms(2) Cons.prems show ?thesis by simp
  next
    case (Inr d)
    with assms(2) [OF Cons.prems] Cons.IH [OF assms(1) [OF Cons.prems Inr]] show ?thesis by simp
  qed
qed simp

lemma turso_convert_columns_sql:
  assumes "typed_store db"
  shows "try_fold (turso_convert_column T A src t d) cols db = try_fold (convert_column A src t d) cols db"
    and "try_fold (convert_column A src t d) cols db = Inr db' \<Longrightarrow> typed_store db'"
  using try_fold_typed [of "convert_column A src t d" "turso_convert_column T A src t d" db cols, OF convert_column_typed turso_convert_column_sql assms]
  by auto

lemma turso_convert_account_sql:
  "typed_store db \<Longrightarrow> turso_convert_account T A src c dir d is_last db = convert_account A src c dir d is_last db"
  by (simp add: turso_convert_account_def convert_account_def turso_convert_columns_sql)

lemma convert_account_typed:
  assumes "typed_store db" "convert_account A src c dir d is_last db = Inr db'"
  shows "typed_store db'"
proof -
  obtain db1 where db1: "try_fold (convert_column A src (turn_of dir c) d) sealed_columns db = Inr db1"
      "db' = (let db2 = db1\<lparr>progress := progress db1 @ [d]\<rparr> in if is_last then finish_run dir db2 else db2)"
    using assms(2) by (auto simp: convert_account_def and_then_Inr_iff Let_def)
  have "typed_store db1" using turso_convert_columns_sql(2) [OF assms(1) db1(1)] .
  with db1(2) show ?thesis by (auto simp: Let_def typed_store_def finish_run_def split: direction.splits)
qed

lemma turso_convert_accounts_sql:
  "typed_store db \<Longrightarrow> turso_convert_accounts T A src F c dir ds db = convert_accounts A src F c dir ds db"
proof (induction ds arbitrary: db)
  case (Cons d ds)
  then show ?case
    by (cases "f_account F d")
       (auto simp: turso_convert_account_sql execute_sql_def convert_account_typed split: sum.splits)
qed simp

lemma turso_device_ids_query: "turso_device_ids T ans ids = query_sql ans ids"
  by (cases ans) (simp_all add: turso_device_ids_def query_sql_def try_map_map int32_def int_at_def of_i32_def comp_def)

lemma accounts_left_sorted: "accounts_left (sort_key sint all) finished = accounts_left all finished"
  by (simp add: accounts_left_def sort_key_id_if_sorted)

lemma turso_convert_run_sql:
  "typed_store db \<Longrightarrow> turso_convert_run T A src F c dir db = convert_run A src F c dir db"
  by (cases "f_read F 3"; cases "f_read F 4")
     (simp_all add: turso_convert_run_def convert_run_def turso_device_ids_query query_sql_def accounts_left_sorted
        turso_convert_accounts_sql)

lemma turso_scrub_sql: "turso_scrub_old_plaintext T F db = scrub_old_plaintext F db"
  by (cases "f_scrub F") (simp_all add: turso_scrub_old_plaintext_def scrub_old_plaintext_def checkpoint_row_def int_at_def)

lemma turso_read_stored_sql: "turso_read_stored T F db = read_stored F db"
  by (cases "enc_key_id db"; cases "enc_verifier db"; cases "f_read F 0")
     (simp_all add: turso_read_stored_def read_stored_def state_row_def text_at_def opt_blob_def or_null_def query_sql_def)

lemma turso_exists_sql: "turso_exists T ans b = query_sql ans b"
  by (cases ans) (simp_all add: turso_exists_def query_sql_def int_at_def)

lemma turso_write_mark_sql: "turso_write_mark F r db = write_mark F r db"
  by (simp add: turso_write_mark_def write_mark_def)

lemma write_mark_typed: "typed_store db \<Longrightarrow> typed_store (fst (write_mark F r db))"
  by (cases "f_mark F") (simp_all add: write_mark_def MARK_CONVERTING_def MARK_ENCRYPTED_def execute_sql_def typed_store_def Let_def split: option.split)

lemma turso_open_cipher_sql:
  assumes "typed_store db"
  shows "turso_open_cipher T A src F key db = open_cipher A src F key db"
proof -
  have "typed_store (db\<lparr>nonces_drawn := n\<rparr>)" for n using assms by (simp add: typed_store_def)
  then have "turso_convert_run T A src F c dir db1 = convert_run A src F c dir db1"
    if "write_mark F r (db\<lparr>nonces_drawn := n\<rparr>) = (db1, x)" for n r db1 x c dir
    using write_mark_typed [of "db\<lparr>nonces_drawn := n\<rparr>" F r] that by (simp add: turso_convert_run_sql)
  then show ?thesis
    by (simp add: turso_open_cipher_def open_cipher_def turso_read_stored_sql turso_exists_sql turso_write_mark_sql
        turso_scrub_sql split: sum.split prod.split)
qed

lemma turso_decrypt_store_sql:
  "typed_store db \<Longrightarrow> turso_decrypt_store T A src F k db = decrypt_store A src F k db"
  by (simp add: turso_decrypt_store_def decrypt_store_def turso_read_stored_sql turso_convert_run_sql split: sum.split)

lemma turso_rotate_store_sql:
  assumes "typed_store db"
  shows "turso_rotate_store T A src F old new db = rotate_store A src F old new db"
proof -
  have "try_fold (\<lambda>d. try_fold (turso_convert_column T A src t d) sealed_columns) ids d0 =
      try_fold (\<lambda>d. try_fold (convert_column A src t d) sealed_columns) ids d0" if "typed_store d0" for t ids d0
    using try_fold_typed [of "\<lambda>d. try_fold (convert_column A src t d) sealed_columns"
        "\<lambda>d. try_fold (turso_convert_column T A src t d) sealed_columns" d0 ids] that turso_convert_columns_sql by blast
  moreover have "typed_store (db\<lparr>nonces_drawn := n\<rparr>)" for n using assms by (simp add: typed_store_def)
  ultimately have "turso_rotate_run T A src F r (db\<lparr>nonces_drawn := n\<rparr>) = rotate_run A src F r (db\<lparr>nonces_drawn := n\<rparr>)" for r n
    unfolding turso_rotate_run_def rotate_run_def turso_device_ids_query turso_scrub_sql turso_swap_mark_def swap_mark_def
    by (cases "f_read F 3") (simp_all add: query_sql_def)
  then show ?thesis
    by (simp add: turso_rotate_store_def rotate_store_def turso_read_stored_sql turso_exists_sql split: sum.split)
qed

end
