(* ===== verification/Store_Conversion_Properties.thy ===== *)
theory Store_Conversion_Properties
  imports Turso_Conversion
begin

text \<open>
  The properties of encryption at rest: what opening, decrypting and re-keying a store promise on both
  engine families, with a demonstration store of two accounts. A run of either family is the SQL
  family's run where the key columns hold what their types say.
\<close>

section \<open>Both families\<close>

definition open_runs ::
  "turso_env \<Rightarrow> crypto \<Rightarrow> rng \<Rightarrow> run_faults \<Rightarrow> store_key option \<Rightarrow> store_db \<Rightarrow> (store_db \<times> (store_error + blob_cipher)) set" where
  "open_runs T A src F key db = {open_cipher A src F key db, turso_open_cipher T A src F key db}"

definition decrypt_runs ::
  "turso_env \<Rightarrow> crypto \<Rightarrow> rng \<Rightarrow> run_faults \<Rightarrow> store_key \<Rightarrow> store_db \<Rightarrow> (store_db \<times> (store_error + nat)) set" where
  "decrypt_runs T A src F k db = {decrypt_store A src F k db, turso_decrypt_store T A src F k db}"

definition rotate_runs ::
  "turso_env \<Rightarrow> crypto \<Rightarrow> rng \<Rightarrow> run_faults \<Rightarrow> store_key \<Rightarrow> store_key \<Rightarrow> store_db \<Rightarrow> (store_db \<times> (store_error + nat)) set" where
  "rotate_runs T A src F old new db = {rotate_store A src F old new db, turso_rotate_store T A src F old new db}"

lemmas family_runs = open_runs_def decrypt_runs_def rotate_runs_def turso_open_cipher_sql turso_decrypt_store_sql
  turso_rotate_store_sql

section \<open>The demonstration store\<close>

definition demo_key :: store_key where
  "demo_key = replicate 32 1"

definition demo_rng :: rng where
  "demo_rng n = Inr (replicate 24 (of_nat n))"

definition demo_store :: store_db where
  "demo_store =
     \<lparr>account_ids = [3, 1],
      cells = [\<lparr>cell_device = 3, cell_column = sealed ''device'' ''data'' [], cell_parts = [], cell_blob = [5, 6]\<rparr>,
               \<lparr>cell_device = 1, cell_column = sealed ''prekeys'' ''key'' [KId ''id''], cell_parts = [PInt 7],
                cell_blob = [8]\<rparr>],
      enc_state = ''plaintext'', enc_key_id = None, enc_verifier = None, progress = [],
      stale_bytes = False, nonces_drawn = 0\<rparr>"

lemma demo_never_fails: "never_fails demo_crypto demo_rng"
  by (simp add: never_fails_def demo_crypto_def demo_rng_def)

lemma demo_store_plain: "plain_store demo_crypto [[5, 6], [8]] demo_store"
  by (simp add: plain_store_def whole_def shape_def demo_store_def reads_def place_def sealed_columns_def)

lemma demo_store_typed: "typed_store demo_store"
  by (simp add: typed_store_def demo_store_def place_def sealed_def)

lemmas demo_facts = demo_crypto_ok never_fails_rng [OF demo_never_fails] demo_store_plain

text \<open>
  C21. Opening a store with its key, on either engine family, loses nothing: from a plaintext store, one whose conversion was
  cut short, or a sealed one, every outcome (an error in any statement, a COMMIT that fails with or
  without effect, a failed scrub) is again one
  of these three with the same plaintexts in the same rows, and Ok means the whole store is sealed
  under that key and the daemon is given that cipher.
\<close>

theorem open_keeps_every_secret:
  assumes "aead_ok A" "rng_ok src" "plain_store A ps db \<or> converting A k ps db \<or> sealed_store A k ps db"
    and "typed_store db" "(db', res) \<in> open_runs T A src F (Some k) db"
  shows "(plain_store A ps db' \<or> converting A k ps db' \<or> sealed_store A k ps db') \<and>
         (\<forall>c. res = Inr c \<longrightarrow> c = sealing k \<and> sealed_store A k ps db')"
  by (rule open_cipher_states [OF assms(1-3), of F]) (use assms(4,5) in \<open>simp add: family_runs\<close>)

theorem open_keeps_every_secret_witness:
  "\<exists>db'. turso_open_cipher demo_turso demo_crypto demo_rng no_faults (Some demo_key) demo_store =
           (db', Inr (sealing demo_key)) \<and>
         sealed_store demo_crypto demo_key [[5, 6], [8]] db'"
proof -
  obtain db' c where "open_cipher demo_crypto demo_rng no_faults (Some demo_key) demo_store = (db', Inr c)"
    using open_cipher_total [OF demo_never_fails demo_crypto_ok] demo_store_plain by blast
  then have run: "turso_open_cipher demo_turso demo_crypto demo_rng no_faults (Some demo_key) demo_store = (db', Inr c)"
    by (simp add: turso_open_cipher_sql demo_store_typed)
  then have "(db', Inr c) \<in> open_runs demo_turso demo_crypto demo_rng no_faults (Some demo_key) demo_store"
    by (simp add: open_runs_def)
  from open_keeps_every_secret [OF demo_facts(1,2) _ demo_store_typed this] demo_store_plain run show ?thesis by auto
qed

text \<open>
  C22. Opening a store with its key, on either family, ends Ok when no statement fails, the checkpoint truncates and the
  cipher has randomness, from each of the three states, an interrupted conversion included.
\<close>

theorem open_finishes_conversion:
  assumes "never_fails A src" "aead_ok A" "plain_store A ps db \<or> converting A k ps db \<or> sealed_store A k ps db"
    and "typed_store db"
  shows "\<exists>db' c. open_runs T A src no_faults (Some k) db = {(db', Inr c)}"
  using open_cipher_total [OF assms(1-3)] assms(4) by (simp add: family_runs)

theorem open_finishes_conversion_witness:
  "\<exists>db' c. open_runs demo_turso demo_crypto demo_rng no_faults (Some demo_key) demo_store = {(db', Inr c)}"
  using open_finishes_conversion [OF demo_never_fails demo_crypto_ok _ demo_store_typed] demo_store_plain by blast

text \<open>
  C23. On either family, decrypting a sealed store, or one whose decryption was cut short, leaves it readable whatever
  fails: it is part way (and the same command resumes it), or plaintext with no mark left; Ok means
  the latter.
\<close>

theorem decrypt_keeps_every_secret:
  assumes "aead_ok A" "rng_ok src" "decrypting A k ps db" "typed_store db" "(db', res) \<in> decrypt_runs T A src F k db"
  shows "(decrypting A k ps db' \<or> plain_store A ps db') \<and> (\<forall>n. res = Inr n \<longrightarrow> plain_store A ps db')"
  by (rule decrypt_store_states [OF assms(1-3), of F]) (use assms(4,5) in \<open>simp add: family_runs\<close>)

text \<open>
  C24. Rotating the key is all or nothing on either family: the store is sealed whole under the old key or whole under
  the new one, and Ok means the new one.
\<close>

theorem rotate_is_atomic:
  assumes "aead_ok A" "rng_ok src" "sealed_store A old ps db" "typed_store db"
    and "(db', res) \<in> rotate_runs T A src F old new db"
  shows "(sealed_store A old ps db' \<or> sealed_store A new ps db') \<and> (\<forall>n. res = Inr n \<longrightarrow> sealed_store A new ps db')"
  by (rule rotate_store_states [OF assms(1-3), of F]) (use assms(4,5) in \<open>simp add: family_runs\<close>)

definition demo_sealed :: store_db where
  "demo_sealed = fst (open_cipher demo_crypto demo_rng no_faults (Some demo_key) demo_store)"

lemma demo_sealed_ok: "sealed_store demo_crypto demo_key [[5, 6], [8]] demo_sealed"
proof -
  obtain db' c where "open_cipher demo_crypto demo_rng no_faults (Some demo_key) demo_store = (db', Inr c)"
    using open_cipher_total [OF demo_never_fails demo_crypto_ok] demo_store_plain by blast
  with open_cipher_states [OF demo_facts(1,2) _ this] demo_store_plain show ?thesis
    by (auto simp: demo_sealed_def)
qed

lemma demo_sealed_typed: "typed_store demo_sealed"
  by code_simp

theorem decrypt_keeps_every_secret_witness:
  "\<exists>db'. decrypt_store demo_crypto demo_rng no_faults demo_key demo_sealed = (db', Inr 2) \<and>
         plain_store demo_crypto [[5, 6], [8]] db'"
proof -
  have two: "snd (decrypt_store demo_crypto demo_rng no_faults demo_key demo_sealed) = Inr 2" by code_simp
  then obtain db' where run: "decrypt_store demo_crypto demo_rng no_faults demo_key demo_sealed = (db', Inr 2)"
    by (metis prod.collapse)
  then have "(db', Inr 2) \<in> decrypt_runs demo_turso demo_crypto demo_rng no_faults demo_key demo_sealed"
    by (simp add: decrypt_runs_def)
  from decrypt_keeps_every_secret [OF demo_facts(1,2) sealed_is_decrypting [OF demo_sealed_ok] demo_sealed_typed this] run
  show ?thesis by blast
qed

theorem rotate_is_atomic_witness:
  "\<exists>db'. rotate_store demo_crypto demo_rng no_faults demo_key (replicate 32 2) demo_sealed = (db', Inr 2) \<and>
         sealed_store demo_crypto (replicate 32 2) [[5, 6], [8]] db'"
proof -
  have two: "snd (rotate_store demo_crypto demo_rng no_faults demo_key (replicate 32 2) demo_sealed) = Inr 2"
    by code_simp
  then obtain db' where
      run: "rotate_store demo_crypto demo_rng no_faults demo_key (replicate 32 2) demo_sealed = (db', Inr 2)"
    by (metis prod.collapse)
  then have "(db', Inr 2) \<in> rotate_runs demo_turso demo_crypto demo_rng no_faults demo_key (replicate 32 2) demo_sealed"
    by (simp add: rotate_runs_def)
  from rotate_is_atomic [OF demo_facts(1,2) demo_sealed_ok demo_sealed_typed this] run show ?thesis by blast
qed


end
