(* ===== verification/Store_Isolation.thy ===== *)
theory Store_Isolation
  imports App_Sync_Store
begin

text \<open>
  Every write of an account's backend as a step relation, and what all of them keep: the rows of the
  other accounts, and one row per primary key.
\<close>

section \<open>What a write keeps\<close>

definition same_for :: "bits32 \<Rightarrow> sql_db \<Rightarrow> sql_db \<Rightarrow> bool" where
  "same_for d db db' \<longleftrightarrow>
     map_of (device db') d = map_of (device db) d \<and>
     of_device d (identities db') = of_device d (identities db) \<and>
     of_device d (sessions db') = of_device d (sessions db) \<and>
     of_device d (prekeys db') = of_device d (prekeys db) \<and>
     of_device d (signed_prekeys db') = of_device d (signed_prekeys db) \<and>
     of_device d (sender_keys db') = of_device d (sender_keys db) \<and>
     of_device d (app_state_keys db') = of_device d (app_state_keys db) \<and>
     of_device d (app_state_versions db') = of_device d (app_state_versions db) \<and>
     of_device d (app_state_mutation_macs db') = of_device d (app_state_mutation_macs db) \<and>
     of_device d (base_keys db') = of_device d (base_keys db) \<and>
     of_device d (device_registry db') = of_device d (device_registry db) \<and>
     of_device d (lid_pn_mapping db') = of_device d (lid_pn_mapping db) \<and>
     of_device d (sender_key_devices db') = of_device d (sender_key_devices db) \<and>
     of_device d (tc_tokens db') = of_device d (tc_tokens db) \<and>
     of_device d (sent_messages db') = of_device d (sent_messages db) \<and>
     of_device d (msg_secrets db') = of_device d (msg_secrets db)"

definition keyed_rows :: "('k, 'v) tbl \<Rightarrow> bool" where
  "keyed_rows t \<longleftrightarrow> distinct (map fst t)"

definition sql_wf :: "sql_db \<Rightarrow> bool" where
  "sql_wf db \<longleftrightarrow>
     keyed_rows (device db) \<and> keyed_rows (identities db) \<and> keyed_rows (sessions db) \<and>
     keyed_rows (prekeys db) \<and> keyed_rows (signed_prekeys db) \<and> keyed_rows (sender_keys db) \<and>
     keyed_rows (app_state_keys db) \<and> keyed_rows (app_state_versions db) \<and>
     keyed_rows (app_state_mutation_macs db) \<and> keyed_rows (base_keys db) \<and>
     keyed_rows (device_registry db) \<and> keyed_rows (lid_pn_mapping db) \<and>
     keyed_rows (sender_key_devices db) \<and> keyed_rows (tc_tokens db) \<and>
     keyed_rows (sent_messages db) \<and> keyed_rows (msg_secrets db)"

lemma keyed_rows_ops [simp]:
  "keyed_rows t \<Longrightarrow> keyed_rows (AList.update k v t)"
  "keyed_rows t \<Longrightarrow> keyed_rows (upsert_with k new merge t)"
  "keyed_rows t \<Longrightarrow> keyed_rows (AList.delete k t)"
  "keyed_rows t \<Longrightarrow> keyed_rows (delete_where P t)"
  by (simp_all add: keyed_rows_def AList.distinct_update AList.distinct_delete)

lemma keyed_rows_map [simp]: "(\<And>r. fst (f r) = fst r) \<Longrightarrow> keyed_rows (map f t) = keyed_rows t"
  by (simp add: keyed_rows_def comp_def)

lemma of_device_map_other:
  "(\<And>k v. f ((k, d), v) = ((k, d), v)) \<Longrightarrow> (\<And>r. fst (f r) = fst r) \<Longrightarrow> of_device d (map f t) = of_device d t"
proof (induction t)
  case (Cons r t)
  obtain k e v where r: "r = ((k, e), v)" by (cases r) auto
  obtain v' where "f r = ((k, e), v')" using Cons.prems(2) [of r] r by (cases "f r") auto
  with Cons r show ?case by (cases "e = d") (auto simp: of_device_def)
qed (simp add: of_device_def)

text \<open>The two kept properties as one: \<open>kept d db0\<close> is kept by every statement of another account.\<close>

definition kept :: "bits32 \<Rightarrow> sql_db \<Rightarrow> sql_db \<Rightarrow> bool" where
  "kept d db0 db \<longleftrightarrow> same_for d db0 db \<and> (sql_wf db0 \<longrightarrow> sql_wf db)"

lemma kept_refl [simp]: "kept d db db"
  by (simp add: kept_def same_for_def)

lemma kept_signal:
  assumes "kept d db0 db" "e \<noteq> d"
  shows "kept d db0 (PUT_IDENTITY a k e db)" "kept d db0 (DELETE_IDENTITY a e db)"
    "kept d db0 (PUT_SESSION a k e db)" "kept d db0 (DELETE_SESSION a e db)"
    "kept d db0 (STORE_PREKEY i k u e db)" "kept d db0 (DELETE_PREKEY i e db)"
    "kept d db0 (STORE_SIGNED_PREKEY i k e db)" "kept d db0 (REMOVE_SIGNED_PREKEY i e db)"
    "kept d db0 (PUT_SENDER_KEY a k e db)" "kept d db0 (DELETE_SENDER_KEY a e db)"
  using assms by (simp_all add: kept_def same_for_def sql_wf_def signal_statements)

lemma kept_marks:
  assumes "kept d db0 db" "e \<noteq> d"
  shows "kept d db0 (MARK_PREKEY_UPLOADED i e db)" "kept d db0 (MARK_UPLOADED_ARRAY ids e db)"
  using assms
  by (auto simp: kept_def same_for_def sql_wf_def signal_statements of_device_map_other split_def)

lemma kept_protocol:
  assumes "kept d db0 db" "e \<noteq> d"
  shows "kept d db0 (SET_SENDER_KEY_STATUS g dj h e now db)" "kept d db0 (CLEAR_SENDER_KEY_DEVICES g e db)"
    "kept d db0 (DELETE_SENDER_KEY_DEVICE_ROW dj e db)" "kept d db0 (CLEAR_ALL_SENDER_KEY_DEVICES e db)"
    "kept d db0 (PUT_LID_MAPPING le e db)" "kept d db0 (SAVE_BASE_KEY a m k e now db)"
    "kept d db0 (DELETE_BASE_KEY a m e db)" "kept d db0 (DELETE_EXPIRED_BASE_KEYS c e db)"
    "kept d db0 (UPDATE_DEVICE_LIST a js ts ph e now raw db)" "kept d db0 (DELETE_DEVICES a e db)"
  using assms
  by (simp_all add: kept_def same_for_def sql_wf_def protocol_statements of_device_delete_where
      expired_base_key_def split_def)

lemma kept_tokens:
  assumes "kept d db0 db" "e \<noteq> d"
  shows "kept d db0 (PUT_TC_TOKEN a tok ts sts e now db)" "kept d db0 (DELETE_TC_TOKEN a e db)"
    "kept d db0 (DELETE_EXPIRED_TC_TOKENS tc sc e db)" "kept d db0 (TOUCH_SENDER_TIMESTAMP a t e now db)"
    "kept d db0 (STORE_RECEIVED a tok ts e now db)" "kept d db0 (STORE_SENT_MESSAGE a m p e now db)"
    "kept d db0 (DELETE_SENT_MESSAGE a m e db)" "kept d db0 (DELETE_EXPIRED_SENT_MESSAGES c e db)"
  using assms
  by (simp_all add: kept_def same_for_def sql_wf_def protocol_statements of_device_delete_where
      expired_tc_token_def expired_sent_message_def)

lemma kept_app_sync:
  assumes "kept d db0 db" "e \<noteq> d"
  shows "kept d db0 (SET_SYNC_KEY kid data e db)" "kept d db0 (DELETE_VERSION a e db)"
    "kept d db0 (SET_VERSION a data e db)" "kept d db0 (PUT_MUTATION_MAC a v i k e db)"
    "kept d db0 (DELETE_MUTATION_MAC a i e db)" "kept d db0 (CLEAR_MUTATION_MACS a e db)"
    "kept d db0 (PUT_MSG_SECRET a s m k x ts e db)" "kept d db0 (DELETE_EXPIRED_MSG_SECRETS c e db)"
    "kept d db0 (SAVE_DEVICE e data db)" "kept d db0 (CREATE_DEVICE e data db)"
  using assms
  by (simp_all add: kept_def same_for_def sql_wf_def app_sync_statements of_device_delete_where
      expired_secret_def split_def)

lemmas kept_statements = kept_signal kept_marks kept_protocol kept_tokens kept_app_sync

section \<open>The writes as steps\<close>

text \<open>Each step is one call, with the engine answering as it may.\<close>

inductive backend_step :: "'d json \<Rightarrow> ('k, 'h, 'v) codec \<Rightarrow> sql_backend \<Rightarrow> sql_db \<Rightarrow> sql_db \<Rightarrow> bool"
  for J :: "'d json" and K :: "('k, 'h, 'v) codec" and be where
  put_identity: "put_identity E be a k db = (db', res) \<Longrightarrow> backend_step J K be db db'"
| delete_identity: "delete_identity E be a db = (db', res) \<Longrightarrow> backend_step J K be db db'"
| put_session: "put_session E be a s db = (db', res) \<Longrightarrow> backend_step J K be db db'"
| delete_session: "delete_session E be a db = (db', res) \<Longrightarrow> backend_step J K be db db'"
| store_prekey: "store_prekey E be i r u db = (db', res) \<Longrightarrow> backend_step J K be db db'"
| remove_prekey: "remove_prekey E be i db = (db', res) \<Longrightarrow> backend_step J K be db db'"
| store_signed_prekey: "store_signed_prekey E be i r db = (db', res) \<Longrightarrow> backend_step J K be db db'"
| remove_signed_prekey: "remove_signed_prekey E be i db = (db', res) \<Longrightarrow> backend_step J K be db db'"
| put_sender_key: "put_sender_key E be a r db = (db', res) \<Longrightarrow> backend_step J K be db db'"
| delete_sender_key: "delete_sender_key E be a db = (db', res) \<Longrightarrow> backend_step J K be db db'"
| put_identities: "put_identities E be kvs db = (db', res) \<Longrightarrow> backend_step J K be db db'"
| delete_identities: "delete_identities E be ks db = (db', res) \<Longrightarrow> backend_step J K be db db'"
| put_sessions: "put_sessions E be kvs db = (db', res) \<Longrightarrow> backend_step J K be db db'"
| delete_sessions: "delete_sessions E be ks db = (db', res) \<Longrightarrow> backend_step J K be db db'"
| put_sender_keys: "put_sender_keys E be kvs db = (db', res) \<Longrightarrow> backend_step J K be db db'"
| delete_sender_keys: "delete_sender_keys E be ks db = (db', res) \<Longrightarrow> backend_step J K be db db'"
| store_prekeys: "store_prekeys E be iks u db = (db', res) \<Longrightarrow> backend_step J K be db db'"
| remove_prekeys: "remove_prekeys E be ids db = (db', res) \<Longrightarrow> backend_step J K be db db'"
| mark_uploaded: "mark_uploaded E drv be ids db = (db', res) \<Longrightarrow> backend_step J K be db db'"
| set_sender_key_status: "set_sender_key_status E now be g es db = (db', res) \<Longrightarrow> backend_step J K be db db'"
| clear_sender_key_devices: "clear_sender_key_devices E be g db = (db', res) \<Longrightarrow> backend_step J K be db db'"
| delete_sender_key_device_rows: "delete_sender_key_device_rows E be ks db = (db', res) \<Longrightarrow> backend_step J K be db db'"
| clear_all_sender_key_devices: "clear_all_sender_key_devices E be db = (db', res) \<Longrightarrow> backend_step J K be db db'"
| put_lid_mapping: "put_lid_mapping E be le db = (db', res) \<Longrightarrow> backend_step J K be db db'"
| put_lid_mappings: "put_lid_mappings E be les db = (db', res) \<Longrightarrow> backend_step J K be db db'"
| save_base_key: "save_base_key E now be a m k db = (db', res) \<Longrightarrow> backend_step J K be db db'"
| delete_base_key: "delete_base_key E be a m db = (db', res) \<Longrightarrow> backend_step J K be db db'"
| delete_expired_base_keys: "delete_expired_base_keys E be c db = (db', n) \<Longrightarrow> backend_step J K be db db'"
| update_device_list: "update_device_list J E now be r db = (db', res) \<Longrightarrow> backend_step J K be db db'"
| update_device_lists: "update_device_lists J E now be rs db = (db', res) \<Longrightarrow> backend_step J K be db db'"
| delete_devices: "delete_devices E be a db = (db', res) \<Longrightarrow> backend_step J K be db db'"
| put_tc_token: "put_tc_token E now be a te db = (db', res) \<Longrightarrow> backend_step J K be db db'"
| delete_tc_token: "delete_tc_token E be a db = (db', res) \<Longrightarrow> backend_step J K be db db'"
| delete_expired_tc_tokens: "delete_expired_tc_tokens E be tc sc db = (db', n) \<Longrightarrow> backend_step J K be db db'"
| touch_sender_timestamp: "touch_sender_timestamp E now be a t db = (db', res) \<Longrightarrow> backend_step J K be db db'"
| store_received: "store_received E now be a tok ts db = (db', res) \<Longrightarrow> backend_step J K be db db'"
| store_sent_message: "store_sent_message E now be a m p db = (db', res) \<Longrightarrow> backend_step J K be db db'"
| take_sent_message: "take_sent_message E be a m db = (db', p) \<Longrightarrow> backend_step J K be db db'"
| delete_expired_sent_messages: "delete_expired_sent_messages E be c db = (db', n) \<Longrightarrow> backend_step J K be db db'"
| set_sync_key: "set_sync_key K E be kid key db = (db', res) \<Longrightarrow> backend_step J K be db db'"
| delete_version: "delete_version E be a db = (db', res) \<Longrightarrow> backend_step J K be db db'"
| set_version: "set_version K E be a st db = (db', res) \<Longrightarrow> backend_step J K be db db'"
| put_mutation_macs: "put_mutation_macs E be a v ms db = (db', res) \<Longrightarrow> backend_step J K be db db'"
| delete_mutation_macs: "delete_mutation_macs E be a is db = (db', res) \<Longrightarrow> backend_step J K be db db'"
| clear_mutation_macs: "clear_mutation_macs E be a db = (db', res) \<Longrightarrow> backend_step J K be db db'"
| commit_patch: "commit_patch K E be a st rem add db = (db', res) \<Longrightarrow> backend_step J K be db db'"
| put_msg_secrets: "put_msg_secrets E be es db = (db', cnt) \<Longrightarrow> backend_step J K be db db'"
| delete_expired_msg_secrets: "delete_expired_msg_secrets E be c db = (db', n) \<Longrightarrow> backend_step J K be db db'"
| device_save: "device_save K E be dev db = (db', res) \<Longrightarrow> backend_step J K be db db'"
| device_create: "device_create K E be dev db = (db', res2) \<Longrightarrow> backend_step J K be db db'"

inductive backend_steps :: "'d json \<Rightarrow> ('k, 'h, 'v) codec \<Rightarrow> sql_backend set \<Rightarrow> sql_db \<Rightarrow> sql_db \<Rightarrow> bool"
  for J K B where
  none: "backend_steps J K B db db"
| more: "backend_steps J K B db db1 \<Longrightarrow> be \<in> B \<Longrightarrow> backend_step J K be db1 db' \<Longrightarrow> backend_steps J K B db db'"

text \<open>The combinators keep what their statements keep.\<close>

lemma execute_sql_keeps:
  "execute_sql ans stmt db = (db', res) \<Longrightarrow> P db \<Longrightarrow> (\<And>db. P db \<Longrightarrow> P (stmt db)) \<Longrightarrow> P db'"
  using execute_sql_cases by metis

lemma execute_count_sql_keeps:
  "execute_count_sql ans stmt cnt db = (db', res) \<Longrightarrow> P db \<Longrightarrow> (\<And>db. P db \<Longrightarrow> P (stmt db)) \<Longrightarrow> P db'"
  by (auto simp: execute_count_sql_def split: prod.splits dest: execute_sql_keeps [where P = P])

lemma sealed_write_keeps:
  "sealed_write E be t c row plain stmt db = (db', res) \<Longrightarrow> P db \<Longrightarrow> (\<And>b db. P db \<Longrightarrow> P (stmt b db)) \<Longrightarrow> P db'"
  by (auto simp: sealed_write_def split: sum.splits dest: execute_sql_keeps [where P = P])

lemma batch_tx_keeps:
  assumes "batch_tx E stmt xs db = (db', res)" "P db"
    "\<And>i x run db. x \<in> set xs \<Longrightarrow> stmt i x = Inr run \<Longrightarrow> P db \<Longrightarrow> P (run db)"
  shows "P db'"
proof (cases "xs = []")
  case True
  with assms show ?thesis by (simp add: batch_tx_def)
next
  case False
  then have "in_tx (e_answer E) stmt xs db = (db', res)" using assms(1) by (simp add: batch_tx_def)
  from in_tx_invariant [where P = P, OF this assms(2)] assms(3) show ?thesis by blast
qed

lemma patch_statement_kept:
  "patch_statement E be a v n st = Inr run \<Longrightarrow> kept d db0 db \<Longrightarrow> be_device be \<noteq> d \<Longrightarrow> kept d db0 (run db)"
  by (auto simp: patch_statement_def delete_mac_in_def put_mac_in_def map_ok_Inr_iff kept_statements
      split: patch_step.splits)

lemma kept_take_sent:
  assumes "take_sent_message E be a m db = (db', p)" "be_device be \<noteq> d"
  shows "kept d db db'"
  using assms kept_tokens(7) [OF kept_refl assms(2)]
  by (auto simp: take_sent_message_def execute_sql_def and_then_def query_sql_def
      split: sum.splits answer.splits prod.splits if_splits)

lemma backend_step_kept:
  assumes "backend_step J K be db db'" "be_device be \<noteq> d"
  shows "kept d db db'"
  using assms
proof (induction rule: backend_step.induct)
  case take_sent_message
  then show ?case using kept_take_sent by blast
next
  case (mark_uploaded E drv ids db db' res)
  then show ?case
    by (cases drv)
      (auto simp: mark_uploaded_def kept_statements split: if_splits
        dest!: execute_sql_keeps [where P = "kept d db"] in_tx_invariant [where P = "kept d db"])
next
  case (commit_patch E a st rem add db db' res)
  then show ?case
    by (auto simp: commit_patch_def split: sum.splits
        elim!: in_tx_invariant [where P = "kept d db"] intro: patch_statement_kept)
next
  case (put_msg_secrets E es db db' cnt)
  then show ?case
    by (auto simp: put_msg_secrets_def map_ok_Inr_iff kept_statements split: if_splits prod.splits
        elim!: in_tx_invariant [where P = "kept d db"])
next
  case (update_device_list E now r db db' res)
  then show ?case
    by (auto simp: update_device_list_def kept_statements split: sum.splits
        elim!: execute_sql_keeps [where P = "kept d db"])
next
  case (device_create E dev db db' res2)
  then show ?case
    by (auto simp: device_create_def kept_statements split: prod.splits
        elim!: sealed_write_keeps [where P = "kept d db"])
qed (auto simp: put_identity_def delete_identity_def put_session_def delete_session_def store_prekey_def
       remove_prekey_def store_signed_prekey_def remove_signed_prekey_def put_sender_key_def
       delete_sender_key_def put_identities_def delete_identities_def put_sessions_def delete_sessions_def
       put_sender_keys_def delete_sender_keys_def store_prekeys_def remove_prekeys_def put_address_records_def
       delete_by_address_def set_sender_key_status_def clear_sender_key_devices_def
       delete_sender_key_device_rows_def clear_all_sender_key_devices_def put_lid_mapping_def
       put_lid_mappings_def save_base_key_def delete_base_key_def delete_expired_base_keys_def
       update_device_lists_def put_device_list_in_def delete_devices_def put_tc_token_def delete_tc_token_def
       delete_expired_tc_tokens_def touch_sender_timestamp_def store_received_def store_sent_message_def
       delete_expired_sent_messages_def set_sync_key_def delete_version_def set_version_def
       put_mutation_macs_def put_mac_in_def delete_mutation_macs_def delete_mac_in_def clear_mutation_macs_def
       delete_expired_msg_secrets_def device_save_def map_ok_Inr_iff kept_statements
     elim!: execute_sql_keeps [where P = "kept d _"] execute_count_sql_keeps [where P = "kept d _"]
       sealed_write_keeps [where P = "kept d _"] batch_tx_keeps [where P = "kept d _"]
       in_tx_invariant [where P = "kept d _"])

end
