(* ===== verification/Store_Interfaces.thy ===== *)
theory Store_Interfaces
  imports Store_Isolation
begin

text \<open>
  The contract the library's store traits rest on, one locale for a keyed store: a read after a write
  gives what was written, another key is not touched, a deleted key is absent. It is interpreted on
  every keyed store of the SQL backend, through the cipher and with an engine that may fail.
\<close>

section \<open>The contract\<close>

text \<open>A sequence of writes that all succeed, each call with an environment of its own.\<close>

fun puts_ok ::
  "('e \<Rightarrow> 'k \<Rightarrow> 'v \<Rightarrow> 'db \<Rightarrow> 'db \<times> (store_error + unit)) \<Rightarrow> ('e \<times> 'k \<times> 'v) list \<Rightarrow> 'db \<Rightarrow> 'db option" where
  "puts_ok put [] db = Some db"
| "puts_ok put ((E, k, v) # kvs) db =
     (case put E k v db of (db', Inr _) \<Rightarrow> puts_ok put kvs db' | (db', Inl _) \<Rightarrow> None)"

text \<open>The store after the writes: the last one of a key is what it reads.\<close>

definition written :: "('k \<Rightarrow> 'db \<Rightarrow> store_error + 'v option) \<Rightarrow> ('k \<times> 'v) list \<Rightarrow> 'db \<Rightarrow> 'db \<Rightarrow> bool" where
  "written get kvs db db' \<longleftrightarrow>
     (\<forall>k. get k db' = (case map_of (rev kvs) k of Some v \<Rightarrow> Inr (Some v) | None \<Rightarrow> get k db))"

definition reader_ok :: "sql_env \<Rightarrow> sql_env \<Rightarrow> bool" where
  "reader_ok E F \<longleftrightarrow> env_ok E \<and> env_ok F \<and> e_crypto F = e_crypto E \<and> e_answer F 0 = Ran"

locale keyed_store =
  fixes put :: "sql_env \<Rightarrow> sql_backend \<Rightarrow> 'k \<Rightarrow> 'v \<Rightarrow> sql_db \<Rightarrow> sql_db \<times> (store_error + unit)"
    and get :: "sql_env \<Rightarrow> sql_backend \<Rightarrow> 'k \<Rightarrow> sql_db \<Rightarrow> store_error + 'v option"
    and fits :: "'v \<Rightarrow> bool"
  assumes get_put:
      "reader_ok E F \<Longrightarrow> fits v \<Longrightarrow> put E be k v db = (db', Inr ()) \<Longrightarrow> get F be k db' = Inr (Some v)"
    and get_put_other: "j \<noteq> k \<Longrightarrow> put E be k v db = (db', res) \<Longrightarrow> get F be j db' = get F be j db"
begin

lemma last_write_wins:
  assumes "\<forall>(E, k, v)\<in>set kvs. reader_ok E F \<and> fits v" "puts_ok (\<lambda>E. put E be) kvs db = Some db'"
  shows "written (get F be) (map snd kvs) db db'"
  using assms
proof (induction kvs arbitrary: db)
  case (Cons kv kvs)
  obtain E j v where kv: "kv = (E, j, v)" by (cases kv)
  obtain db1 where put: "put E be j v db = (db1, Inr ())" and rest: "puts_ok (\<lambda>E. put E be) kvs db1 = Some db'"
    using Cons.prems(2) kv by (auto split: prod.splits sum.splits)
  have "written (get F be) (map snd kvs) db1 db'"
    using Cons.IH [OF _ rest] Cons.prems(1) by simp
  moreover have "get F be k db1 = (if k = j then Inr (Some v) else get F be k db)" for k
    using get_put [OF _ _ put] get_put_other [OF _ put] Cons.prems(1) kv by auto
  ultimately show ?case using kv by (auto simp: written_def map_add_def split: option.splits)
qed (simp add: written_def)

end

locale deletable_store = keyed_store +
  fixes del :: "sql_env \<Rightarrow> sql_backend \<Rightarrow> 'a \<Rightarrow> sql_db \<Rightarrow> sql_db \<times> (store_error + unit)"
  assumes get_del: "reader_ok E F \<Longrightarrow> del E be k db = (db', Inr ()) \<Longrightarrow> get F be k db' = Inr None"
    and get_del_other: "j \<noteq> k \<Longrightarrow> del E be k db = (db', res) \<Longrightarrow> get F be j db' = get F be j db"
begin

lemma put_then_delete:
  assumes "reader_ok E F" "put E be k v db = (db1, res)" "del E be k db1 = (db2, Inr ())"
  shows "get F be j db2 = (if j = k then Inr None else get F be j db)"
  using get_del [OF assms(1,3)] get_del_other [OF _ assms(3)] get_put_other [OF _ assms(2)] by auto

end

section \<open>Sealed writes and reads\<close>

lemma sealed_write_Inr:
  assumes "sealed_write E be t c row plain stmt db = (db', Inr ())"
  obtains b where "backend_seal_at E 0 be t c row plain = Inr b" "db' = stmt b db"
  using assms by (auto simp: sealed_write_def execute_sql_def split: sum.splits answer.splits)

lemma sealed_write_any:
  "sealed_write E be t c row plain stmt db = (db', res) \<Longrightarrow> db' = db \<or> (\<exists>b. db' = stmt b db)"
  by (auto simp: sealed_write_def execute_sql_def split: sum.splits answer.splits)

lemma sealed_write_read:
  assumes "reader_ok E F" "sealed_write E be t c row plain stmt db = (db', Inr ())"
    and "\<And>b. found (stmt b db) = Some b"
  shows "sealed_read F be t c row (found db') = Inr (Some plain)"
proof -
  obtain b where b: "backend_seal_at E 0 be t c row plain = Inr b" "db' = stmt b db"
    using sealed_write_Inr [OF assms(2)] .
  have "backend_open_at F be t c row b = Inr plain"
    using backend_open_seal [OF _ _ _ b(1)] assms(1) by (simp add: reader_ok_def)
  then show ?thesis using assms(1,3) b(2) by (simp add: sealed_read_def reader_ok_def query_sql_def)
qed

lemma sealed_read_absent: "e_answer F 0 = Ran \<Longrightarrow> sealed_read F be t c row None = Inr None"
  by (simp add: sealed_read_def query_sql_def)

lemmas store_laws = reader_ok_def query_sql_def map_of_delete_where AList.delete_conv'

section \<open>The interpretations\<close>

interpretation identities: deletable_store put_identity load_identity "\<lambda>key. length key = 32" delete_identity
proof
  fix E F be k v db db' assume ok: "reader_ok E F" "length v = 32" "put_identity E be k v db = (db', Inr ())"
  then obtain b where b: "backend_seal_at E 0 be ''identities'' ''key'' (str_bytes k) v = Inr b"
      "db' = PUT_IDENTITY k b (be_device be) db"
    by (auto simp: put_identity_def elim: sealed_write_Inr)
  have "backend_open_at F be ''identities'' ''key'' (str_bytes k) b = Inr v"
    using backend_open_seal [OF _ _ _ b(1)] ok(1) by (simp add: reader_ok_def)
  with b(2) ok(1,2) show "load_identity F be k db' = Inr (Some v)"
    by (simp add: load_identity_def signal_statements store_laws)
qed (auto simp: put_identity_def load_identity_def delete_identity_def signal_statements execute_sql_def store_laws
      dest!: sealed_write_any split: answer.splits)

interpretation sessions: deletable_store put_session get_session "\<lambda>_. True" delete_session
proof
  fix E F be k v db db' assume "reader_ok E F" "put_session E be k v db = (db', Inr ())"
  then show "get_session F be k db' = Inr (Some v)"
    unfolding put_session_def get_session_def
    by (rule sealed_write_read [where found = "GET_SESSION k (be_device be)"]) (simp add: signal_statements)
qed (auto simp: put_session_def get_session_def delete_session_def signal_statements execute_sql_def store_laws
      sealed_read_absent dest!: sealed_write_any split: answer.splits)

interpretation sender_keys: deletable_store put_sender_key get_sender_key "\<lambda>_. True" delete_sender_key
proof
  fix E F be k v db db' assume "reader_ok E F" "put_sender_key E be k v db = (db', Inr ())"
  then show "get_sender_key F be k db' = Inr (Some v)"
    unfolding put_sender_key_def get_sender_key_def
    by (rule sealed_write_read [where found = "GET_SENDER_KEY k (be_device be)"]) (simp add: signal_statements)
qed (auto simp: put_sender_key_def get_sender_key_def delete_sender_key_def signal_statements execute_sql_def
      store_laws sealed_read_absent dest!: sealed_write_any split: answer.splits)

interpretation prekeys: deletable_store "\<lambda>E be i r. store_prekey E be i r u" load_prekey "\<lambda>_. True" remove_prekey
  for u
proof
  fix E F be i r db db' assume "reader_ok E F" "store_prekey E be i r u db = (db', Inr ())"
  then show "load_prekey F be i db' = Inr (Some r)"
    unfolding store_prekey_def load_prekey_def
    by (rule sealed_write_read [where found = "LOAD_PREKEY i (be_device be)"]) (simp add: signal_statements)
qed (auto simp: store_prekey_def load_prekey_def remove_prekey_def signal_statements execute_sql_def
      store_laws sealed_read_absent dest!: sealed_write_any split: answer.splits)

interpretation signed_prekeys: deletable_store store_signed_prekey load_signed_prekey "\<lambda>_. True" remove_signed_prekey
proof
  fix E F be i r db db' assume "reader_ok E F" "store_signed_prekey E be i r db = (db', Inr ())"
  then show "load_signed_prekey F be i db' = Inr (Some r)"
    unfolding store_signed_prekey_def load_signed_prekey_def
    by (rule sealed_write_read [where found = "LOAD_SIGNED_PREKEY i (be_device be)"]) (simp add: signal_statements)
qed (auto simp: store_signed_prekey_def load_signed_prekey_def remove_signed_prekey_def signal_statements
      execute_sql_def store_laws sealed_read_absent dest!: sealed_write_any split: answer.splits)

interpretation sent_messages: keyed_store
  "\<lambda>E be (chat, mid) p. store_sent_message E now be chat mid p" "\<lambda>E be (chat, mid). get_sent_message E be chat mid"
  "\<lambda>_. True" for now
proof
  fix E F be and k :: "string \<times> string" and v db db'
  assume ok: "reader_ok E F" "(case k of (chat, mid) \<Rightarrow> \<lambda>p. store_sent_message E now be chat mid p) v db = (db', Inr ())"
  obtain chat mid where k: "k = (chat, mid)" by (cases k)
  have "sealed_read F be ''sent_messages'' ''payload'' (joined_row [str_bytes chat, str_bytes mid])
      (GET_SENT_MESSAGE chat mid (be_device be) db') = Inr (Some v)"
    using ok k unfolding store_sent_message_def
    by (intro sealed_write_read [where found = "GET_SENT_MESSAGE chat mid (be_device be)"])
      (auto simp: GET_SENT_MESSAGE_def STORE_SENT_MESSAGE_def)
  then show "(case k of (chat, mid) \<Rightarrow> get_sent_message F be chat mid) db' = Inr (Some v)"
    using k by (simp add: get_sent_message_def sealed_read_def open_sent_def [abs_def] Let_def)
qed (auto simp: store_sent_message_def get_sent_message_def GET_SENT_MESSAGE_def STORE_SENT_MESSAGE_def
      split: if_splits dest!: sealed_write_any)

interpretation tc_tokens: deletable_store "\<lambda>E. put_tc_token E now" get_tc_token "\<lambda>_. True" delete_tc_token for now
proof
  fix E F be jid e db db' assume ok: "reader_ok E F" "put_tc_token E now be jid e db = (db', Inr ())"
  then obtain b where b: "backend_seal_at E 0 be ''tc_tokens'' ''token'' (str_bytes jid) (te_token e) = Inr b"
      "db' = PUT_TC_TOKEN jid b (te_token_timestamp e) (te_sender_timestamp e) (be_device be) now db"
    by (auto simp: put_tc_token_def elim: sealed_write_Inr)
  have "backend_open_at F be ''tc_tokens'' ''token'' (str_bytes jid) b = Inr (te_token e)"
    using backend_open_seal [OF _ _ _ b(1)] ok(1) by (simp add: reader_ok_def)
  with b(2) ok(1) show "get_tc_token F be jid db' = Inr (Some e)"
    by (simp add: get_tc_token_def tc_entry_def GET_TC_TOKEN_def PUT_TC_TOKEN_def store_laws)
qed (auto simp: put_tc_token_def get_tc_token_def delete_tc_token_def GET_TC_TOKEN_def PUT_TC_TOKEN_def
      DELETE_TC_TOKEN_def execute_sql_def store_laws dest!: sealed_write_any split: answer.splits)

text \<open>A structured value reads back as its codec decodes what it encoded.\<close>

lemma sync_key_read_back:
  assumes "reader_ok E F" "set_sync_key K E be k v db = (db', Inr ())"
  shows "get_sync_key K F be k db' = map_ok Some (dec_sync_key K (enc_sync_key K v))"
proof -
  have "sealed_read F be ''app_state_keys'' ''key_data'' k (GET_SYNC_KEY k (be_device be) db') =
      Inr (Some (enc_sync_key K v))"
    using assms unfolding set_sync_key_def
    by (rule sealed_write_read [where found = "GET_SYNC_KEY k (be_device be)"])
      (simp add: GET_SYNC_KEY_def SET_SYNC_KEY_def)
  then show ?thesis by (simp add: get_sync_key_def)
qed

lemma version_read_back:
  assumes "reader_ok E F" "set_version K E be k v db = (db', Inr ())"
  shows "get_version K F be k db' = map_ok Some (dec_hash_state K (enc_hash_state K v))"
proof -
  have "sealed_read F be ''app_state_versions'' ''state_data'' (str_bytes k) (GET_VERSION k (be_device be) db') =
      Inr (Some (enc_hash_state K v))"
    using assms unfolding set_version_def
    by (rule sealed_write_read [where found = "GET_VERSION k (be_device be)"])
      (simp add: GET_VERSION_def SET_VERSION_def)
  then show ?thesis by (simp add: get_version_def)
qed

lemma device_read_back:
  assumes "reader_ok E F" "device_save K E be v db = (db', Inr ())"
  shows "device_load K F be db' = map_ok Some (dec_device K (enc_device K v))"
proof -
  have "sealed_read F be ''device'' ''data'' [] (LOAD_DEVICE (be_device be) db') = Inr (Some (enc_device K v))"
    using assms unfolding device_save_def
    by (rule sealed_write_read [where found = "LOAD_DEVICE (be_device be)"])
      (simp add: LOAD_DEVICE_def SAVE_DEVICE_def)
  then show ?thesis by (simp add: device_load_def)
qed

interpretation sync_keys: keyed_store "set_sync_key K" "get_sync_key K"
  "\<lambda>v. dec_sync_key K (enc_sync_key K v) = Inr v" for K
  by unfold_locales (simp add: sync_key_read_back,
      auto simp: set_sync_key_def get_sync_key_def GET_SYNC_KEY_def SET_SYNC_KEY_def dest!: sealed_write_any)

interpretation versions: deletable_store "set_version K" "get_version K"
  "\<lambda>v. dec_hash_state K (enc_hash_state K v) = Inr v" delete_version for K
  by unfold_locales (simp add: version_read_back,
      auto simp: set_version_def get_version_def delete_version_def GET_VERSION_def SET_VERSION_def
      DELETE_VERSION_def execute_sql_def store_laws sealed_read_absent dest!: sealed_write_any split: answer.splits)

interpretation devices: keyed_store "\<lambda>E be (_ :: unit). device_save K E be" "\<lambda>E be _. device_load K E be"
  "\<lambda>v. dec_device K (enc_device K v) = Inr v" for K
  by unfold_locales (simp_all add: device_read_back)

section \<open>Batches are single writes in one transaction\<close>

definition call_of :: "sql_env \<Rightarrow> nat \<Rightarrow> sql_env" where
  "call_of E n = E\<lparr>e_nonce := (\<lambda>_. e_nonce E n), e_answer := (\<lambda>_. Ran)\<rparr>"

fun calls_of :: "sql_env \<Rightarrow> nat \<Rightarrow> ('k \<times> 'v) list \<Rightarrow> (sql_env \<times> 'k \<times> 'v) list" where
  "calls_of E n [] = []"
| "calls_of E n (kv # kvs) = (call_of E n, kv) # calls_of E (Suc n) kvs"

lemma map_snd_calls_of [simp]: "map snd (calls_of E n kvs) = kvs"
  by (induction kvs arbitrary: n) auto

lemma calls_of_reader_ok:
  "reader_ok E F \<Longrightarrow> \<forall>(k, v)\<in>set kvs. fits v \<Longrightarrow> \<forall>(C, k, v)\<in>set (calls_of E n kvs). reader_ok C F \<and> fits v"
  by (induction kvs arbitrary: n) (auto simp: reader_ok_def env_ok_def call_of_def)

context keyed_store
begin

lemma batch_written:
  assumes "reader_ok E F" "\<forall>(k, v)\<in>set kvs. fits v" "puts_ok (\<lambda>C. put C be) (calls_of E n kvs) db = Some db'"
  shows "written (get F be) kvs db db'"
  using last_write_wins [OF calls_of_reader_ok [OF assms(1,2)] assms(3)] by simp

end

lemma tx_loop_singles:
  assumes "tx_loop ans n (\<lambda>i (k, v). map_ok (stmt k) (backend_seal_at E i be t c (row k) v)) kvs db = Inr db'"
  shows "puts_ok (\<lambda>C k v. sealed_write C be t c (row k) v (stmt k)) (calls_of E n kvs) db = Some db'"
  using assms
proof (induction kvs arbitrary: n db)
  case (Cons kv kvs)
  obtain k v where kv: "kv = (k, v)" by (cases kv)
  then obtain b where b: "backend_seal_at E n be t c (row k) v = Inr b"
      "tx_loop ans (Suc n) (\<lambda>i (k, v). map_ok (stmt k) (backend_seal_at E i be t c (row k) v)) kvs (stmt k b db) = Inr db'"
    using Cons.prems by (auto simp: and_then_Inr_iff map_ok_Inr_iff)
  have "backend_seal_at (call_of E n) 0 be t c (row k) v = Inr b"
    using b(1) by (simp add: backend_seal_at_def call_of_def)
  then show ?case using kv Cons.IH [OF b(2)] by (simp add: sealed_write_def call_of_def)
qed simp

lemma batch_tx_singles:
  assumes "batch_tx E (\<lambda>i (k, v). map_ok (stmt k) (backend_seal_at E i be t c (row k) v)) kvs db = (db', res)"
    and "\<And>db1. puts_ok (\<lambda>C k v. sealed_write C be t c (row k) v (stmt k)) (calls_of E 0 kvs) db = Some db1 \<Longrightarrow> W db1"
  shows "(db' = db \<or> W db') \<and> (res = Inr () \<longrightarrow> W db')"
proof (cases "kvs = []")
  case True
  with assms show ?thesis by (simp add: batch_tx_def)
next
  case False
  then have tx: "in_tx (e_answer E) (\<lambda>i (k, v). map_ok (stmt k) (backend_seal_at E i be t c (row k) v)) kvs db = (db', res)"
    using assms(1) by (simp add: batch_tx_def)
  have "W db1"
    if "tx_loop (e_answer E) 0 (\<lambda>i (k, v). map_ok (stmt k) (backend_seal_at E i be t c (row k) v)) kvs db = Inr db1" for db1
    by (rule assms(2) [OF tx_loop_singles [OF that]])
  with in_tx_cases [OF tx] show ?thesis by blast
qed

text \<open>The four sealed batches. An error may still leave the whole batch written, never a part.\<close>

lemma put_sessions_written:
  assumes "reader_ok E F" "put_sessions E be kvs db = (db', res)"
  shows "(db' = db \<or> written (get_session F be) kvs db db') \<and> (res = Inr () \<longrightarrow> written (get_session F be) kvs db db')"
proof (rule batch_tx_singles [where W = "written (get_session F be) kvs db"])
  show "batch_tx E (\<lambda>i (k, v). map_ok (\<lambda>b. PUT_SESSION k b (be_device be))
      (backend_seal_at E i be ''sessions'' ''record'' (str_bytes k) v)) kvs db = (db', res)"
    using assms(2) by (simp add: put_sessions_def put_address_records_def)
  show "written (get_session F be) kvs db db1"
    if "puts_ok (\<lambda>C k v. sealed_write C be ''sessions'' ''record'' (str_bytes k) v
        (\<lambda>b. PUT_SESSION k b (be_device be))) (calls_of E 0 kvs) db = Some db1" for db1
    by (rule sessions.batch_written [OF assms(1)]) (use that in \<open>auto simp: put_session_def [abs_def]\<close>)
qed

lemma put_sender_keys_written:
  assumes "reader_ok E F" "put_sender_keys E be kvs db = (db', res)"
  shows "(db' = db \<or> written (get_sender_key F be) kvs db db') \<and> (res = Inr () \<longrightarrow> written (get_sender_key F be) kvs db db')"
proof (rule batch_tx_singles [where W = "written (get_sender_key F be) kvs db"])
  show "batch_tx E (\<lambda>i (k, v). map_ok (\<lambda>b. PUT_SENDER_KEY k b (be_device be))
      (backend_seal_at E i be ''sender_keys'' ''record'' (str_bytes k) v)) kvs db = (db', res)"
    using assms(2) by (simp add: put_sender_keys_def put_address_records_def)
  show "written (get_sender_key F be) kvs db db1"
    if "puts_ok (\<lambda>C k v. sealed_write C be ''sender_keys'' ''record'' (str_bytes k) v
        (\<lambda>b. PUT_SENDER_KEY k b (be_device be))) (calls_of E 0 kvs) db = Some db1" for db1
    by (rule sender_keys.batch_written [OF assms(1)]) (use that in \<open>auto simp: put_sender_key_def [abs_def]\<close>)
qed

lemma put_identities_written:
  assumes "reader_ok E F" "\<forall>(a, key)\<in>set kvs. length key = 32" "put_identities E be kvs db = (db', res)"
  shows "(db' = db \<or> written (load_identity F be) kvs db db') \<and> (res = Inr () \<longrightarrow> written (load_identity F be) kvs db db')"
proof (rule batch_tx_singles [where W = "written (load_identity F be) kvs db"])
  show "batch_tx E (\<lambda>i (k, v). map_ok (\<lambda>b. PUT_IDENTITY k b (be_device be))
      (backend_seal_at E i be ''identities'' ''key'' (str_bytes k) v)) kvs db = (db', res)"
    using assms(3) by (simp add: put_identities_def)
  show "written (load_identity F be) kvs db db1"
    if "puts_ok (\<lambda>C k v. sealed_write C be ''identities'' ''key'' (str_bytes k) v
        (\<lambda>b. PUT_IDENTITY k b (be_device be))) (calls_of E 0 kvs) db = Some db1" for db1
    by (rule identities.batch_written [OF assms(1,2)]) (use that in \<open>simp add: put_identity_def [abs_def]\<close>)
qed

lemma store_prekeys_written:
  assumes "reader_ok E F" "store_prekeys E be kvs u db = (db', res)"
  shows "(db' = db \<or> written (load_prekey F be) kvs db db') \<and> (res = Inr () \<longrightarrow> written (load_prekey F be) kvs db db')"
proof (rule batch_tx_singles [where W = "written (load_prekey F be) kvs db"])
  show "batch_tx E (\<lambda>i (k, v). map_ok (\<lambda>b. STORE_PREKEY k b u (be_device be))
      (backend_seal_at E i be ''prekeys'' ''key'' (be_bytes32 k) v)) kvs db = (db', res)"
    using assms(2) by (simp add: store_prekeys_def)
  show "written (load_prekey F be) kvs db db1"
    if "puts_ok (\<lambda>C k v. sealed_write C be ''prekeys'' ''key'' (be_bytes32 k) v
        (\<lambda>b. STORE_PREKEY k b u (be_device be))) (calls_of E 0 kvs) db = Some db1" for db1
    by (rule prekeys.batch_written [OF assms(1)]) (use that in \<open>auto simp: store_prekey_def [abs_def]\<close>)
qed

section \<open>Batched reads are single reads\<close>

lemma set_of_device:
  "keyed_rows t \<Longrightarrow> (k, v) \<in> set (of_device d t) \<longleftrightarrow> map_of t (k, d) = Some v"
  by (auto simp: of_device_def keyed_rows_def image_iff split_def)

lemma distinct_of_device: "keyed_rows t \<Longrightarrow> distinct (map fst (of_device d t))"
proof (induction t)
  case (Cons r t)
  obtain k e v where r: "r = ((k, e), v)" by (cases r) auto
  then have "k \<notin> fst ` set (of_device d t)" if "e = d"
    using Cons.prems that by (auto simp: of_device_def keyed_rows_def image_iff)
  with Cons r show ?case by (auto simp: of_device_def keyed_rows_def image_iff)
qed (simp add: of_device_def)

lemma chunked_read_singles:
  assumes "select_chunks ans 0 fst (\<lambda>(k, x). map_ok (Pair k) (conv k x)) (padded_chunks ks) rows = Inr found"
    and "distinct (map fst rows)"
  shows "distinct (map fst found) \<and>
         (\<forall>k y. (k, y) \<in> set found \<longleftrightarrow> k \<in> set ks \<and> (\<exists>x. (k, x) \<in> set rows \<and> conv k x = Inr y))"
proof -
  let ?rows = "rows_in_chunks fst ks rows"
  have "try_map (\<lambda>(k, x). map_ok (Pair k) (conv k x)) ?rows = Inr found"
    using select_chunks_rows [OF assms(1)] by (simp add: rows_in_chunks_def)
  then have all: "list_all2 (\<lambda>r f. fst f = fst r \<and> conv (fst r) (snd r) = Inr (snd f)) ?rows found"
    unfolding try_map_Inr_iff by (rule list_all2_mono) (auto simp: map_ok_Inr_iff split_def)
  then have keys: "map fst found = map fst ?rows" by (induction rule: list_all2_induct) auto
  have "\<forall>f\<in>set found. \<exists>r\<in>set ?rows. fst f = fst r \<and> conv (fst r) (snd r) = Inr (snd f)"
      "\<forall>r\<in>set ?rows. \<exists>f\<in>set found. fst f = fst r \<and> conv (fst r) (snd r) = Inr (snd f)"
    using all by (induction rule: list_all2_induct) auto
  then have "(k, y) \<in> set found \<longleftrightarrow> (\<exists>x. (k, x) \<in> set ?rows \<and> conv k x = Inr y)" for k y
    by (metis Inr_inject fst_conv prod.collapse snd_conv)
  then show ?thesis
    using keys rows_in_chunks_distinct [OF assms(2), of ks] by (auto simp: rows_in_chunks_set)
qed

end
