(* ===== verification/Bincode_Upgrade.thy ===== *)
theory Bincode_Upgrade
  imports App_Sync_Store
begin

text \<open>
  The one-time upgrade of the structured blobs from bincode to protobuf (\<open>storage/bincode_upgrade.rs\<close>,
  \<open>storage/sql/bincode_upgrade.rs\<close>, \<open>storage/blob_format.rs\<close>), run when a store is opened. bincode,
  the frozen layout of a legacy device and the text of errors are parameters; the protobuf codec is
  the one of the app-sync and device stores, of which nothing is assumed: the upgrade checks each
  blob itself. Of rows with the same account the table's order decides, where SQL orders by name.
\<close>

record ('l, 'k, 'h, 'v) bincode =
  legacy_device :: "bytes \<Rightarrow> string + 'l \<times> nat"
  of_legacy :: "'l \<Rightarrow> 'v"
  legacy_hash_state :: "bytes \<Rightarrow> string + 'h \<times> nat"
  legacy_sync_key :: "bytes \<Rightarrow> string + 'k \<times> nat"
  device_bincode :: "'v \<Rightarrow> string + bytes"
  hash_fields :: "'h \<Rightarrow> u64 \<times> bytes \<times> (string \<times> bytes) set \<times> bool \<times> bool"
  key_fields :: "'k \<Rightarrow> bytes \<times> bytes \<times> i64"
  error_string :: "store_error \<Rightarrow> string"

definition BLOB_FORMAT_BINCODE :: string where
  "BLOB_FORMAT_BINCODE = ''bincode''"

definition BLOB_FORMAT_PROTOBUF :: string where
  "BLOB_FORMAT_PROTOBUF = ''protobuf''"

datatype upgrade_error =
    Unreadable string string
  | RoundTrip string string
  | UnknownFormat string
  | UpgradeDatabase string store_error

section \<open>One blob\<close>

definition decode_whole :: "(bytes \<Rightarrow> string + 'a \<times> nat) \<Rightarrow> bytes \<Rightarrow> string \<Rightarrow> upgrade_error + 'a" where
  "decode_whole rd blob row =
     and_then (map_err (Unreadable row) (rd blob)) (\<lambda>(x, used).
       if used \<noteq> length blob
       then Inl (Unreadable row (''trailing bytes: consumed '' @ dec used @ '' of '' @ dec (length blob)))
       else Inr x)"

definition encode_bincode :: "('v \<Rightarrow> string + bytes) \<Rightarrow> 'v \<Rightarrow> string \<Rightarrow> upgrade_error + bytes" where
  "encode_bincode wr x row = map_err (RoundTrip row) (wr x)"

definition decode_legacy_device :: "('l, 'k, 'h, 'v) bincode \<Rightarrow> bytes \<Rightarrow> string \<Rightarrow> upgrade_error + 'v" where
  "decode_legacy_device B blob row = map_ok (of_legacy B) (decode_whole (legacy_device B) blob row)"

definition upgrade_device_blob ::
  "('l, 'k, 'h, 'v) bincode \<Rightarrow> ('k, 'h, 'v) codec \<Rightarrow> bytes \<Rightarrow> string \<Rightarrow> upgrade_error + bytes" where
  "upgrade_device_blob B K blob row =
     and_then (decode_legacy_device B blob row) (\<lambda>old.
     and_then (map_err (\<lambda>e. RoundTrip row (error_string B e)) (dec_device K (enc_device K old))) (\<lambda>back.
     and_then (encode_bincode (device_bincode B) back row) (\<lambda>x.
     and_then (encode_bincode (device_bincode B) old row) (\<lambda>y.
       if x \<noteq> y then Inl (RoundTrip row ''a persisted field changed'') else Inr (enc_device K old)))))"

definition upgrade_hash_state_blob ::
  "('l, 'k, 'h, 'v) bincode \<Rightarrow> ('k, 'h, 'v) codec \<Rightarrow> bytes \<Rightarrow> string \<Rightarrow> upgrade_error + bytes" where
  "upgrade_hash_state_blob B K blob row =
     and_then (decode_whole (legacy_hash_state B) blob row) (\<lambda>old.
     and_then (map_err (\<lambda>e. RoundTrip row (error_string B e)) (dec_hash_state K (enc_hash_state K old))) (\<lambda>back.
       if hash_fields B back \<noteq> hash_fields B old then Inl (RoundTrip row ''a field changed'')
       else Inr (enc_hash_state K old)))"

definition upgrade_sync_key_blob ::
  "('l, 'k, 'h, 'v) bincode \<Rightarrow> ('k, 'h, 'v) codec \<Rightarrow> bytes \<Rightarrow> string \<Rightarrow> upgrade_error + bytes" where
  "upgrade_sync_key_blob B K blob row =
     and_then (decode_whole (legacy_sync_key B) blob row) (\<lambda>old.
     and_then (map_err (\<lambda>e. RoundTrip row (error_string B e)) (dec_sync_key K (enc_sync_key K old))) (\<lambda>back.
       if key_fields B back \<noteq> key_fields B old then Inl (RoundTrip row ''a field changed'')
       else Inr (enc_sync_key K old)))"

section \<open>The plan\<close>

record upgrade_plan =
  up_devices :: "(bits32 \<times> bytes) list"
  up_versions :: "(bits32 \<times> string \<times> bytes) list"
  up_sync_keys :: "(bits32 \<times> bytes \<times> bytes) list"

type_synonym legacy_rows = upgrade_plan

definition plan_bincode_upgrade ::
  "('l, 'k, 'h, 'v) bincode \<Rightarrow> ('k, 'h, 'v) codec \<Rightarrow> legacy_rows \<Rightarrow> upgrade_error + upgrade_plan" where
  "plan_bincode_upgrade B K rows =
     and_then (try_map (\<lambda>(d, blob).
         map_ok (Pair d) (upgrade_device_blob B K blob (''device.data of device '' @ dec_int (sint d))))
       (up_devices rows)) (\<lambda>ds.
     and_then (try_map (\<lambda>(d, name, blob).
         map_ok (\<lambda>b. (d, name, b)) (upgrade_hash_state_blob B K blob
           (''app_state_versions '' @ [CHR 0x27] @ name @ [CHR 0x27] @ '' of device '' @ dec_int (sint d))))
       (up_versions rows)) (\<lambda>vs.
     and_then (try_map (\<lambda>(d, i, blob).
         map_ok (\<lambda>b. (d, i, b)) (upgrade_sync_key_blob B K blob
           (''an app_state_keys row of device '' @ dec_int (sint d))))
       (up_sync_keys rows)) (\<lambda>ks.
       Inr \<lparr>up_devices = ds, up_versions = vs, up_sync_keys = ks\<rparr>)))"

datatype blob_format = Bincode | Protobuf

definition parse_blob_format :: "string \<Rightarrow> upgrade_error + blob_format" where
  "parse_blob_format marker =
     (if marker = BLOB_FORMAT_BINCODE then Inr Bincode
      else if marker = BLOB_FORMAT_PROTOBUF then Inr Protobuf
      else Inl (UnknownFormat marker))"

text \<open>\<open>shown\<close> is the text of the error the storage error is made of.\<close>

definition store_blob_format :: "(upgrade_error \<Rightarrow> string) \<Rightarrow> string option \<Rightarrow> store_error + blob_format" where
  "store_blob_format shown marker =
     and_then (ok_or (Database (shown (UnknownFormat ''<no blob_format row>''))) marker) (\<lambda>m.
       map_err (\<lambda>e. Database (shown e)) (parse_blob_format m))"

definition needs_bincode_upgrade :: "string \<Rightarrow> upgrade_error + bool" where
  "needs_bincode_upgrade marker = map_ok (\<lambda>f. f = Bincode) (parse_blob_format marker)"

section \<open>The store\<close>

record blob_store =
  bs_db :: sql_db
  bs_format :: "string option"

definition SELECT_LEGACY_DEVICES :: "blob_store \<Rightarrow> (bits32 \<times> bytes) list" where
  "SELECT_LEGACY_DEVICES s = sort_key (\<lambda>(d, _). sint d) (device (bs_db s))"

definition SELECT_LEGACY_VERSIONS :: "blob_store \<Rightarrow> (bits32 \<times> string \<times> bytes) list" where
  "SELECT_LEGACY_VERSIONS s = sort_key (\<lambda>(d, _). sint d) (map (\<lambda>((name, d), b). (d, name, b)) (app_state_versions (bs_db s)))"

definition SELECT_LEGACY_SYNC_KEYS :: "blob_store \<Rightarrow> (bits32 \<times> bytes \<times> bytes) list" where
  "SELECT_LEGACY_SYNC_KEYS s = sort_key (\<lambda>(d, _). sint d) (map (\<lambda>((i, d), b). (d, i, b)) (app_state_keys (bs_db s)))"

text \<open>\<open>UPDATE ... SET data WHERE key\<close>: never a new row.\<close>

definition set_where :: "'k \<Rightarrow> 'v \<Rightarrow> ('k \<times> 'v) list \<Rightarrow> ('k \<times> 'v) list" where
  "set_where k v t = map (\<lambda>(k', v'). (k', if k' = k then v else v')) t"

definition UPDATE_DEVICE_BLOB :: "bytes \<Rightarrow> bits32 \<Rightarrow> blob_store \<Rightarrow> blob_store" where
  "UPDATE_DEVICE_BLOB b d s = s\<lparr>bs_db := (bs_db s)\<lparr>device := set_where d b (device (bs_db s))\<rparr>\<rparr>"

definition UPDATE_VERSION_BLOB :: "bytes \<Rightarrow> bits32 \<Rightarrow> string \<Rightarrow> blob_store \<Rightarrow> blob_store" where
  "UPDATE_VERSION_BLOB b d name s =
     s\<lparr>bs_db := (bs_db s)\<lparr>app_state_versions := set_where (name, d) b (app_state_versions (bs_db s))\<rparr>\<rparr>"

definition UPDATE_SYNC_KEY_BLOB :: "bytes \<Rightarrow> bits32 \<Rightarrow> bytes \<Rightarrow> blob_store \<Rightarrow> blob_store" where
  "UPDATE_SYNC_KEY_BLOB b d i s =
     s\<lparr>bs_db := (bs_db s)\<lparr>app_state_keys := set_where (i, d) b (app_state_keys (bs_db s))\<rparr>\<rparr>"

definition MARK_BLOB_FORMAT :: "string \<Rightarrow> blob_store \<Rightarrow> blob_store" where
  "MARK_BLOB_FORMAT f s = s\<lparr>bs_format := map_option (\<lambda>_. f) (bs_format s)\<rparr>"

section \<open>The transaction\<close>

text \<open>A statement of the transaction: answer \<open>n\<close> is that of the n-th, \<open>context\<close> what was attempted.\<close>

definition statement :: "(nat \<Rightarrow> answer) \<Rightarrow> nat \<Rightarrow> string \<Rightarrow> 'a \<Rightarrow> upgrade_error + 'a" where
  "statement ans n ctx x = map_err (UpgradeDatabase ctx) (query_sql (ans n) x)"

definition read_blob_format :: "(nat \<Rightarrow> answer) \<Rightarrow> nat \<Rightarrow> blob_store \<Rightarrow> upgrade_error + string" where
  "read_blob_format ans n s =
     and_then (statement ans n ''reading blob_format'' (bs_format s))
       (ok_or (UpgradeDatabase ''reading blob_format'' (Database ''no rows returned'')))"

definition read_legacy_rows :: "(nat \<Rightarrow> answer) \<Rightarrow> nat \<Rightarrow> blob_store \<Rightarrow> upgrade_error + legacy_rows" where
  "read_legacy_rows ans n s =
     and_then (statement ans n ''reading device'' (SELECT_LEGACY_DEVICES s)) (\<lambda>ds.
     and_then (statement ans (n + 1) ''reading app_state_versions'' (SELECT_LEGACY_VERSIONS s)) (\<lambda>vs.
     and_then (statement ans (n + 2) ''reading app_state_keys'' (SELECT_LEGACY_SYNC_KEYS s)) (\<lambda>ks.
       Inr \<lparr>up_devices = ds, up_versions = vs, up_sync_keys = ks\<rparr>)))"

text \<open>The three loops of writes, each from its own statement number on.\<close>

fun write_each :: "(nat \<Rightarrow> answer) \<Rightarrow> string \<Rightarrow> ('x \<Rightarrow> blob_store \<Rightarrow> blob_store) \<Rightarrow> nat \<Rightarrow> 'x list \<Rightarrow> blob_store \<Rightarrow> upgrade_error + blob_store" where
  "write_each ans ctx wr n [] s = Inr s"
| "write_each ans ctx wr n (x # xs) s = and_then (statement ans n ctx (wr x s)) (write_each ans ctx wr (Suc n) xs)"

definition write_plan :: "(nat \<Rightarrow> answer) \<Rightarrow> nat \<Rightarrow> upgrade_plan \<Rightarrow> blob_store \<Rightarrow> upgrade_error + blob_store" where
  "write_plan ans n p s =
     and_then (write_each ans ''updating device'' (\<lambda>(d, b). UPDATE_DEVICE_BLOB b d) n (up_devices p) s) (\<lambda>s1.
     and_then (write_each ans ''updating app_state_versions'' (\<lambda>(d, name, b). UPDATE_VERSION_BLOB b d name)
         (n + length (up_devices p)) (up_versions p) s1) (\<lambda>s2.
       write_each ans ''updating app_state_keys'' (\<lambda>(d, i, b). UPDATE_SYNC_KEY_BLOB b d i)
         (n + length (up_devices p) + length (up_versions p)) (up_sync_keys p) s2))"

definition writes_of :: "upgrade_plan \<Rightarrow> nat" where
  "writes_of p = length (up_devices p) + length (up_versions p) + length (up_sync_keys p)"

definition mark_protobuf :: "(nat \<Rightarrow> answer) \<Rightarrow> nat \<Rightarrow> blob_store \<Rightarrow> upgrade_error + blob_store" where
  "mark_protobuf ans n s = statement ans n ''updating blob_format'' (MARK_BLOB_FORMAT BLOB_FORMAT_PROTOBUF s)"

text \<open>What the transaction leaves to commit, with the number of the COMMIT; nothing when it rolls back.\<close>

definition upgrade_body ::
  "('l, 'k, 'h, 'v) bincode \<Rightarrow> ('k, 'h, 'v) codec \<Rightarrow> (nat \<Rightarrow> answer) \<Rightarrow> blob_store \<Rightarrow> upgrade_error + (nat \<times> blob_store) option" where
  "upgrade_body B K ans s =
     and_then (statement ans 0 ''begin'' ()) (\<lambda>_.
     and_then (read_blob_format ans 1 s) (\<lambda>marker.
     and_then (needs_bincode_upgrade marker) (\<lambda>needed.
       if \<not> needed then map_ok (\<lambda>_. None) (statement ans 2 ''rolling back'' ())
       else
         and_then (read_legacy_rows ans 2 s) (\<lambda>rows.
         and_then (plan_bincode_upgrade B K rows) (\<lambda>plan.
         and_then (write_plan ans 5 plan s) (\<lambda>s1.
         and_then (mark_protobuf ans (5 + writes_of plan) s1) (\<lambda>s2.
           Inr (Some (6 + writes_of plan, s2)))))))))"

definition upgrade_bincode_blobs ::
  "('l, 'k, 'h, 'v) bincode \<Rightarrow> ('k, 'h, 'v) codec \<Rightarrow> (nat \<Rightarrow> answer) \<Rightarrow> blob_store \<Rightarrow> blob_store \<times> (upgrade_error + unit)" where
  "upgrade_bincode_blobs B K ans s =
     (case upgrade_body B K ans s of
        Inl e \<Rightarrow> (s, Inl e)
      | Inr None \<Rightarrow> (s, Inr ())
      | Inr (Some (n, s')) \<Rightarrow>
          (case execute_sql (ans n) (\<lambda>_. s') s of (t, r) \<Rightarrow> (t, map_err (UpgradeDatabase ''commit'') r)))"

section \<open>What a finished upgrade is\<close>

text \<open>The new blob reads, through the codec, as the value the old one held.\<close>

definition device_kept :: "('l, 'k, 'h, 'v) bincode \<Rightarrow> ('k, 'h, 'v) codec \<Rightarrow> bytes \<Rightarrow> bytes \<Rightarrow> bool" where
  "device_kept B K old new \<longleftrightarrow>
     (\<exists>l back b. legacy_device B old = Inr (l, length old) \<and> dec_device K new = Inr back \<and>
        device_bincode B back = Inr b \<and> device_bincode B (of_legacy B l) = Inr b)"

definition hash_state_kept :: "('l, 'k, 'h, 'v) bincode \<Rightarrow> ('k, 'h, 'v) codec \<Rightarrow> bytes \<Rightarrow> bytes \<Rightarrow> bool" where
  "hash_state_kept B K old new \<longleftrightarrow>
     (\<exists>h back. legacy_hash_state B old = Inr (h, length old) \<and> dec_hash_state K new = Inr back \<and>
        hash_fields B back = hash_fields B h)"

definition sync_key_kept :: "('l, 'k, 'h, 'v) bincode \<Rightarrow> ('k, 'h, 'v) codec \<Rightarrow> bytes \<Rightarrow> bytes \<Rightarrow> bool" where
  "sync_key_kept B K old new \<longleftrightarrow>
     (\<exists>k back. legacy_sync_key B old = Inr (k, length old) \<and> dec_sync_key K new = Inr back \<and>
        key_fields B back = key_fields B k)"

text \<open>The same rows in the same order, each blob kept.\<close>

definition rows_kept :: "(bytes \<Rightarrow> bytes \<Rightarrow> bool) \<Rightarrow> ('k \<times> bytes) list \<Rightarrow> ('k \<times> bytes) list \<Rightarrow> bool" where
  "rows_kept R t t' \<longleftrightarrow> list_all2 (\<lambda>(k, b) (k', b'). k = k' \<and> R b b') t t'"

definition upgraded :: "('l, 'k, 'h, 'v) bincode \<Rightarrow> ('k, 'h, 'v) codec \<Rightarrow> blob_store \<Rightarrow> blob_store \<Rightarrow> bool" where
  "upgraded B K s s' \<longleftrightarrow>
     bs_format s = Some ''bincode'' \<and> bs_format s' = Some ''protobuf'' \<and>
     (\<exists>ds vs ks. bs_db s' = (bs_db s)\<lparr>device := ds, app_state_versions := vs, app_state_keys := ks\<rparr> \<and>
        rows_kept (device_kept B K) (device (bs_db s)) ds \<and>
        rows_kept (hash_state_kept B K) (app_state_versions (bs_db s)) vs \<and>
        rows_kept (sync_key_kept B K) (app_state_keys (bs_db s)) ks)"

lemma decode_whole_Inr: "decode_whole rd blob row = Inr x \<longleftrightarrow> rd blob = Inr (x, length blob)"
  by (auto simp: decode_whole_def and_then_Inr_iff map_err_Inr_iff split: if_splits)

lemma upgrade_device_kept: "upgrade_device_blob B K blob row = Inr new \<Longrightarrow> device_kept B K blob new"
  by (auto simp: upgrade_device_blob_def decode_legacy_device_def encode_bincode_def device_kept_def and_then_Inr_iff
      map_ok_Inr_iff map_err_Inr_iff decode_whole_Inr split: if_splits)

lemma upgrade_hash_state_kept: "upgrade_hash_state_blob B K blob row = Inr new \<Longrightarrow> hash_state_kept B K blob new"
  by (auto simp: upgrade_hash_state_blob_def hash_state_kept_def and_then_Inr_iff map_err_Inr_iff decode_whole_Inr
      split: if_splits)

lemma upgrade_sync_key_kept: "upgrade_sync_key_blob B K blob row = Inr new \<Longrightarrow> sync_key_kept B K blob new"
  by (auto simp: upgrade_sync_key_blob_def sync_key_kept_def and_then_Inr_iff map_err_Inr_iff decode_whole_Inr
      split: if_splits)

text \<open>The updates of a plan that covers every row once rewrite each row with its own blob.\<close>

lemma set_where_keys: "map fst (fold (\<lambda>(k, v). set_where k v) ps t) = map fst t"
  by (induction ps arbitrary: t) (auto simp: set_where_def split: prod.splits)

lemma fold_set_where:
  assumes "distinct (map fst ps)"
  shows "fold (\<lambda>(k, v). set_where k v) ps t = map (\<lambda>(k, b). (k, case map_of ps k of None \<Rightarrow> b | Some v \<Rightarrow> v)) t"
  using assms
proof (induction ps arbitrary: t)
  case Nil
  then show ?case by (simp add: case_prod_beta)
next
  case (Cons p ps)
  obtain k v where p: "p = (k, v)" by fastforce
  have fresh: "map_of ps k = None" using Cons.prems p by (simp add: map_of_eq_None_iff)
  show ?case using Cons.IH [of "set_where k v t"] Cons.prems p fresh by (auto simp: set_where_def)
qed

lemma planned_rows_kept:
  assumes t: "distinct (map fst t)" and cover: "set rows = set t" "distinct (map fst rows)"
    and plan: "list_all2 (\<lambda>(k, b) (k', b'). k = k' \<and> R b b') rows ps"
  shows "rows_kept R t (fold (\<lambda>(k, v). set_where k v) ps t)"
proof -
  have keys: "map fst ps = map fst rows"
    using plan by (induction rows ps rule: list_all2_induct) auto
  then have d: "distinct (map fst ps)" using cover(2) by simp
  have found: "\<exists>v. map_of ps k = Some v \<and> R b v" if "(k, b) \<in> set t" for k b
  proof -
    from that cover(1) have "(k, b) \<in> set rows" by simp
    with plan obtain v where "(k, v) \<in> set ps" "R b v"
      by (force simp: list_all2_conv_all_nth in_set_conv_nth)
    with d show ?thesis by auto
  qed
  have "list_all2 (\<lambda>(k, b) (k', b'). k = k' \<and> R b b') t (map (\<lambda>(k, b). (k, case map_of ps k of None \<Rightarrow> b | Some v \<Rightarrow> v)) t)"
    unfolding list_all2_map2 using found by (intro list_all2_same [THEN iffD2]) fastforce
  then show ?thesis unfolding rows_kept_def fold_set_where [OF d] .
qed

lemma statement_Inr [simp]: "statement ans n ctx x = Inr y \<longleftrightarrow> ans n = Ran \<and> y = x"
  by (auto simp: statement_def map_err_Inr_iff)

lemma write_each_Inr: "write_each ans ctx wr n xs s = Inr s' \<Longrightarrow> s' = fold wr xs s"
  by (induction xs arbitrary: n s) (auto simp: and_then_Inr_iff)

lemma fold_devices:
  "fold (\<lambda>(d, b). UPDATE_DEVICE_BLOB b d) ps s =
     s\<lparr>bs_db := (bs_db s)\<lparr>device := fold (\<lambda>(k, v). set_where k v) ps (device (bs_db s))\<rparr>\<rparr>"
  by (induction ps arbitrary: s) (auto simp: UPDATE_DEVICE_BLOB_def)

lemma fold_versions:
  "fold (\<lambda>(d, name, b). UPDATE_VERSION_BLOB b d name) ps s =
     s\<lparr>bs_db := (bs_db s)\<lparr>app_state_versions :=
        fold (\<lambda>(k, v). set_where k v) (map (\<lambda>(d, name, b). ((name, d), b)) ps) (app_state_versions (bs_db s))\<rparr>\<rparr>"
  by (induction ps arbitrary: s) (auto simp: UPDATE_VERSION_BLOB_def)

lemma fold_sync_keys:
  "fold (\<lambda>(d, i, b). UPDATE_SYNC_KEY_BLOB b d i) ps s =
     s\<lparr>bs_db := (bs_db s)\<lparr>app_state_keys :=
        fold (\<lambda>(k, v). set_where k v) (map (\<lambda>(d, i, b). ((i, d), b)) ps) (app_state_keys (bs_db s))\<rparr>\<rparr>"
  by (induction ps arbitrary: s) (auto simp: UPDATE_SYNC_KEY_BLOB_def)

definition keyed_once :: "blob_store \<Rightarrow> bool" where
  "keyed_once s \<longleftrightarrow> distinct (map fst (device (bs_db s))) \<and> distinct (map fst (app_state_versions (bs_db s))) \<and>
     distinct (map fst (app_state_keys (bs_db s)))"

text \<open>The rows a SELECT gives, keyed as the table: every row once.\<close>

lemma selected_rows:
  fixes t :: "(('a \<times> bits32) \<times> bytes) list"
  assumes "distinct (map fst t)"
  defines "rows \<equiv> map (\<lambda>(d, i, b). ((i, d), b)) (sort_key (\<lambda>(d, _). sint d) (map (\<lambda>((i, d), b). (d, i, b)) t))"
  shows "set rows = set t" "distinct (map fst rows)"
proof -
  show "set rows = set t" by (auto simp: rows_def image_iff) force+
  have "map fst rows = map (\<lambda>(d, i, b). (i, d)) (sort_key (\<lambda>(d, _). sint d) (map (\<lambda>((i, d), b). (d, i, b)) t))"
    by (simp add: rows_def case_prod_beta comp_def)
  moreover have "distinct (map (\<lambda>((i, d), b). (d, i, b)) t)"
    using assms(1) by (auto simp: distinct_map inj_on_def)
  moreover have "inj_on (\<lambda>(d, i, b). (i, d)) (set (map (\<lambda>((i, d), b). (d, i, b)) t))"
    using eq_key_imp_eq_value [OF assms(1)] by (auto simp: inj_on_def)
  ultimately show "distinct (map fst rows)" by (simp add: distinct_map)
qed

lemma upgrade_body_upgraded:
  assumes ok: "keyed_once s" and run: "upgrade_body B K ans s = Inr (Some (n, s'))"
  shows "upgraded B K s s'"
proof -
  let ?db = "bs_db s"
  obtain plan s1 where marker: "bs_format s = Some ''bincode''"
    and plan: "plan_bincode_upgrade B K \<lparr>up_devices = SELECT_LEGACY_DEVICES s, up_versions = SELECT_LEGACY_VERSIONS s,
        up_sync_keys = SELECT_LEGACY_SYNC_KEYS s\<rparr> = Inr plan"
    and wrote: "write_plan ans 5 plan s = Inr s1" and s': "s' = MARK_BLOB_FORMAT BLOB_FORMAT_PROTOBUF s1"
    using run by (auto simp: upgrade_body_def and_then_Inr_iff map_ok_Inr_iff read_blob_format_def ok_or_def
        needs_bincode_upgrade_def parse_blob_format_def read_legacy_rows_def mark_protobuf_def
        BLOB_FORMAT_BINCODE_def split: if_splits option.splits)
  let ?ds = "fold (\<lambda>(k, v). set_where k v) (up_devices plan) (device ?db)"
  let ?vs = "fold (\<lambda>(k, v). set_where k v) (map (\<lambda>(d, name, b). ((name, d), b)) (up_versions plan)) (app_state_versions ?db)"
  let ?ks = "fold (\<lambda>(k, v). set_where k v) (map (\<lambda>(d, i, b). ((i, d), b)) (up_sync_keys plan)) (app_state_keys ?db)"
  have s1: "s1 = s\<lparr>bs_db := ?db\<lparr>device := ?ds, app_state_versions := ?vs, app_state_keys := ?ks\<rparr>\<rparr>"
    using wrote by (auto simp: write_plan_def and_then_Inr_iff fold_devices fold_versions fold_sync_keys dest!: write_each_Inr)
  have dplan: "list_all2 (\<lambda>(k, b) (k', b'). k = k' \<and> device_kept B K b b') (SELECT_LEGACY_DEVICES s) (up_devices plan)"
    using plan by (auto simp: plan_bincode_upgrade_def and_then_Inr_iff try_map_Inr_iff map_ok_Inr_iff
        dest!: upgrade_device_kept elim!: list_all2_mono)
  have vplan: "list_all2 (\<lambda>(k, b) (k', b'). k = k' \<and> hash_state_kept B K b b')
      (map (\<lambda>(d, name, b). ((name, d), b)) (SELECT_LEGACY_VERSIONS s)) (map (\<lambda>(d, name, b). ((name, d), b)) (up_versions plan))"
    using plan by (auto simp: plan_bincode_upgrade_def and_then_Inr_iff try_map_Inr_iff map_ok_Inr_iff list_all2_map1 list_all2_map2
        dest!: upgrade_hash_state_kept elim!: list_all2_mono)
  have kplan: "list_all2 (\<lambda>(k, b) (k', b'). k = k' \<and> sync_key_kept B K b b')
      (map (\<lambda>(d, i, b). ((i, d), b)) (SELECT_LEGACY_SYNC_KEYS s)) (map (\<lambda>(d, i, b). ((i, d), b)) (up_sync_keys plan))"
    using plan by (auto simp: plan_bincode_upgrade_def and_then_Inr_iff try_map_Inr_iff map_ok_Inr_iff list_all2_map1 list_all2_map2
        dest!: upgrade_sync_key_kept elim!: list_all2_mono)
  have u: "distinct (map fst (device ?db))" "distinct (map fst (app_state_versions ?db))" "distinct (map fst (app_state_keys ?db))"
    using ok by (simp_all add: keyed_once_def)
  have "rows_kept (device_kept B K) (device ?db) ?ds"
    by (rule planned_rows_kept [OF u(1) _ _ dplan]) (use u(1) in \<open>simp_all add: SELECT_LEGACY_DEVICES_def distinct_map\<close>)
  moreover have "rows_kept (hash_state_kept B K) (app_state_versions ?db) ?vs"
    by (rule planned_rows_kept [OF u(2) _ _ vplan]) (use selected_rows [OF u(2)] in \<open>simp_all only: SELECT_LEGACY_VERSIONS_def\<close>)
  moreover have "rows_kept (sync_key_kept B K) (app_state_keys ?db) ?ks"
    by (rule planned_rows_kept [OF u(3) _ _ kplan]) (use selected_rows [OF u(3)] in \<open>simp_all only: SELECT_LEGACY_SYNC_KEYS_def\<close>)
  ultimately show ?thesis
    using marker unfolding upgraded_def s' s1 MARK_BLOB_FORMAT_def BLOB_FORMAT_PROTOBUF_def by auto
qed

section \<open>Every outcome\<close>

text \<open>
  Whatever the database answers, the store is afterwards as it was, or upgraded. Ok means that the
  marker says protobuf.
\<close>

lemma upgrade_states:
  assumes "keyed_once s" and "upgrade_bincode_blobs B K ans s = (s', r)"
  shows "(s' = s \<or> upgraded B K s s') \<and>
    (r = Inr () \<longrightarrow> bs_format s' = Some ''protobuf'') \<and>
    (bs_format s \<noteq> Some ''bincode'' \<longrightarrow> s' = s) \<and>
    (bs_format s \<notin> {Some ''bincode'', Some ''protobuf''} \<longrightarrow> \<not> is_ok r)"
proof (cases "upgrade_body B K ans s")
  case (Inl e)
  with assms(2) show ?thesis by (auto simp: upgrade_bincode_blobs_def)
next
  case body: (Inr o')
  show ?thesis
  proof (cases o')
    case None
    with body have "bs_format s = Some ''protobuf''"
      by (auto simp: upgrade_body_def and_then_Inr_iff map_ok_Inr_iff read_blob_format_def ok_or_def
          needs_bincode_upgrade_def parse_blob_format_def BLOB_FORMAT_PROTOBUF_def split: if_splits option.splits)
    with assms(2) body None show ?thesis by (auto simp: upgrade_bincode_blobs_def)
  next
    case (Some p)
    obtain n t where p: "p = (n, t)" by fastforce
    have up: "upgraded B K s t" using upgrade_body_upgraded [OF assms(1)] body Some p by blast
    obtain x y where c: "execute_sql (ans n) (\<lambda>_. t) s = (x, y)" by fastforce
    with assms(2) body Some p have "s' = x" "r = map_err (UpgradeDatabase ''commit'') y"
      by (auto simp: upgrade_bincode_blobs_def)
    with execute_sql_cases [OF c] up show ?thesis
      by (auto simp: upgraded_def map_err_Inr_iff)
  qed
qed

definition demo_bincode :: "(bytes, bytes, bytes, bytes) bincode" where
  "demo_bincode = \<lparr>legacy_device = (\<lambda>b. Inr (b, length b)), of_legacy = rev, legacy_hash_state = (\<lambda>b. Inr (b, length b)),
     legacy_sync_key = (\<lambda>b. Inr (b, length b)), device_bincode = Inr, hash_fields = (\<lambda>b. (0, b, {}, False, False)),
     key_fields = (\<lambda>b. (b, [], 0)), error_string = (\<lambda>_. [])\<rparr>"

definition demo_blob_codec :: "(bytes, bytes, bytes) codec" where
  "demo_blob_codec = \<lparr>enc_sync_key = (\<lambda>b. 1 # b), dec_sync_key = (\<lambda>b. Inr (tl b)), enc_hash_state = (\<lambda>b. 2 # b),
     dec_hash_state = (\<lambda>b. Inr (tl b)), hash_version = (\<lambda>_. 0), enc_device = (\<lambda>b. 3 # b), dec_device = (\<lambda>b. Inr (tl b))\<rparr>"

definition demo_blob_store :: blob_store where
  "demo_blob_store = \<lparr>bs_db = \<lparr>device = [(1, [7, 8])], identities = [], sessions = [], prekeys = [], signed_prekeys = [],
     sender_keys = [], app_state_keys = [(([9], 1), [5])], app_state_versions = [((''regular'', 1), [4])],
     app_state_mutation_macs = [], base_keys = [], device_registry = [], lid_pn_mapping = [], sender_key_devices = [],
     tc_tokens = [], sent_messages = [], msg_secrets = []\<rparr>, bs_format = Some ''bincode''\<rparr>"

end
