(* ===== verification/Blob_Codec.thy ===== *)
theory Blob_Codec
  imports Store_Error "HOL-Library.List_Lexorder" "HOL-Library.Char_ord"
begin

text \<open>
  The byte formats of the structured columns (\<open>storage/blob_codec.rs\<close>, \<open>device_wire.rs\<close>,
  \<open>app_state_wire.rs\<close>, \<open>proto/store/blobs.proto\<close>) and the frozen layout of a legacy device
  (\<open>bincode_upgrade/legacy_device.rs\<close>). The library's values (servers, key halves, the signed account,
  the status audience, the runtime-only fields) are type parameters; what the codec calls of them,
  and protobuf's own encoding of a message, are the fields of \<open>blob_lib\<close>. A fixed-size array is a
  list of bytes whose length the types' invariants state.
\<close>

section \<open>The values\<close>

record 'srv stored_jid =
  j_user :: string
  j_server :: 'srv
  j_agent :: u8
  j_device :: "16 word"
  j_integrator :: "16 word"

record ('sk, 'pk) key_pair =
  kp_public :: 'pk
  kp_private :: 'sk

record noise_cert =
  nc_key :: bytes
  nc_not_before :: bits64
  nc_not_after :: bits64

record server_cert_chain =
  cc_intermediate :: noise_cert
  cc_leaf :: noise_cert
  cc_signature_verified :: bool

record server_client_expiration =
  ex_expires_at :: bits64
  ex_version :: "u32 \<times> u32 \<times> u32"

record ('srv, 'sk, 'pk, 'acc, 'st, 'pr, 'cp) device_value =
  dv_pn :: "'srv stored_jid option"
  dv_lid :: "'srv stored_jid option"
  dv_registration_id :: u32
  dv_noise_key :: "('sk, 'pk) key_pair"
  dv_identity_key :: "('sk, 'pk) key_pair"
  dv_signed_pre_key :: "('sk, 'pk) key_pair"
  dv_signed_pre_key_id :: u32
  dv_signed_pre_key_signature :: bytes
  dv_adv_secret_key :: bytes
  dv_account :: "'acc option"
  dv_push_name :: string
  dv_app_version_primary :: u32
  dv_app_version_secondary :: u32
  dv_app_version_tertiary :: u32
  dv_app_version_last_fetched_ms :: bits64
  dv_device_props :: 'pr
  dv_client_profile :: 'cp
  dv_edge_routing_info :: "bytes option"
  dv_props_hash :: "string option"
  dv_next_pre_key_id :: u32
  dv_first_unupload_pre_key_id :: u32
  dv_server_has_prekeys :: bool
  dv_nct_salt :: "bytes option"
  dv_nct_salt_sync_seen :: bool
  dv_server_cert_chain :: "server_cert_chain option"
  dv_login_counter :: bits32
  dv_lid_migrated :: bool
  dv_last_signed_pre_key_rotation_ms :: bits64
  dv_server_client_expiration :: "server_client_expiration option"
  dv_read_receipts_disabled :: bool
  dv_status_privacy :: "'st option"

text \<open>\<open>index_value_map\<close> is a hash map: its entries in the order it iterates, which is arbitrary.\<close>

record hash_state =
  hs_version :: u64
  hs_hash :: bytes
  hs_index_value_map :: "(string \<times> bytes) list"
  hs_mac_mismatch_fatal :: bool
  hs_bootstrapped :: bool

record app_state_sync_key =
  sk_key_data :: bytes
  sk_fingerprint :: bytes
  sk_timestamp :: bits64

section \<open>The wire messages\<close>

record jid_wire =
  jw_user :: string
  jw_server :: string
  jw_agent :: u32
  jw_device :: u32
  jw_integrator :: u32

record cert_wire =
  cw_key :: bytes
  cw_not_before :: bits64
  cw_not_after :: bits64

record cert_chain_wire =
  ccw_intermediate :: "cert_wire option"
  ccw_leaf :: "cert_wire option"
  ccw_signature_verified :: bool

record expiration_wire =
  ew_expires_at :: bits64
  ew_version_primary :: u32
  ew_version_secondary :: u32
  ew_version_tertiary :: u32

record device_blob =
  db_pn :: "jid_wire option"
  db_lid :: "jid_wire option"
  db_registration_id :: u32
  db_noise_key :: bytes
  db_identity_key :: bytes
  db_signed_pre_key :: bytes
  db_signed_pre_key_id :: u32
  db_signed_pre_key_signature :: bytes
  db_adv_secret_key :: bytes
  db_account :: "bytes option"
  db_push_name :: string
  db_app_version_primary :: u32
  db_app_version_secondary :: u32
  db_app_version_tertiary :: u32
  db_app_version_last_fetched_ms :: bits64
  db_edge_routing_info :: "bytes option"
  db_props_hash :: "string option"
  db_next_pre_key_id :: u32
  db_first_unupload_pre_key_id :: u32
  db_server_has_prekeys :: bool
  db_nct_salt :: "bytes option"
  db_server_cert_chain :: "cert_chain_wire option"
  db_login_counter :: bits32
  db_lid_migrated :: bool
  db_last_signed_pre_key_rotation_ms :: bits64
  db_server_client_expiration :: "expiration_wire option"
  db_read_receipts_disabled :: bool
  db_status_privacy :: "bytes option"

record hash_state_wire =
  hw_version :: u64
  hw_hash :: bytes
  hw_index_value_map :: "(string \<times> bytes) list"
  hw_mac_mismatch_fatal :: bool
  hw_bootstrapped :: bool

record sync_key_wire =
  kw_key_data :: bytes
  kw_fingerprint :: bytes
  kw_timestamp :: bits64

section \<open>What is called of the libraries\<close>

record ('srv, 'sk, 'pk, 'acc, 'st, 'pr, 'cp) blob_lib =
  server_as_str :: "'srv \<Rightarrow> string"
  server_try_from :: "string \<Rightarrow> string + 'srv"
  private_serialize :: "'sk \<Rightarrow> bytes"
  private_deserialize :: "bytes \<Rightarrow> string + 'sk"
  public_key_bytes :: "'pk \<Rightarrow> bytes"
  from_djb_public_key_bytes :: "bytes \<Rightarrow> string + 'pk"
  account_to_bytes :: "'acc \<Rightarrow> bytes"
  account_of_bytes :: "bytes \<Rightarrow> string + 'acc"
  status_privacy_to_bytes :: "'st \<Rightarrow> bytes"
  status_privacy_of_bytes :: "bytes \<Rightarrow> string + 'st"
  DEVICE_PROPS :: 'pr
  default_client_profile :: 'cp
  device_blob_encode :: "device_blob \<Rightarrow> bytes"
  device_blob_decode :: "bytes \<Rightarrow> string + device_blob"
  hash_state_wire_encode :: "hash_state_wire \<Rightarrow> bytes"
  hash_state_wire_decode :: "bytes \<Rightarrow> string + hash_state_wire"
  sync_key_wire_encode :: "sync_key_wire \<Rightarrow> bytes"
  sync_key_wire_decode :: "bytes \<Rightarrow> string + sync_key_wire"

section \<open>Shared pieces\<close>

definition wrong_length :: "string \<Rightarrow> nat \<Rightarrow> nat \<Rightarrow> store_error" where
  "wrong_length field expected got =
     Serialization (field @ '': expected '' @ Prelude.dec expected @ '' bytes, got '' @ Prelude.dec got)"

definition fixed_bytes :: "nat \<Rightarrow> string \<Rightarrow> bytes \<Rightarrow> store_error + bytes" where
  "fixed_bytes N field bs = (if length bs = N then Inr bs else Inl (wrong_length field N (length bs)))"

definition decode_error :: "string \<Rightarrow> store_error" where
  "decode_error e = Serialization e"

definition narrow :: "string \<Rightarrow> u32 \<Rightarrow> store_error + 'w::len word" where
  "narrow field v =
     (if unat v < 2 ^ LENGTH('w) then Inr (ucast v)
      else Inl (Validation (field @ '': '' @ Prelude.dec (unat v) @ '' out of range'')))"

definition KEY_PAIR_LEN :: nat where
  "KEY_PAIR_LEN = 64"

definition KEY_HALF_LEN :: nat where
  "KEY_HALF_LEN = 32"

definition APP_STATE_KEY_LEN :: nat where
  "APP_STATE_KEY_LEN = 32"

section \<open>The device\<close>

definition stored_jid_to_wire :: "('srv, 'sk, 'pk, 'acc, 'st, 'pr, 'cp) blob_lib \<Rightarrow> 'srv stored_jid \<Rightarrow> jid_wire" where
  "stored_jid_to_wire L j =
     \<lparr>jw_user = j_user j, jw_server = server_as_str L (j_server j), jw_agent = ucast (j_agent j),
      jw_device = ucast (j_device j), jw_integrator = ucast (j_integrator j)\<rparr>"

definition stored_jid_from_wire ::
  "('srv, 'sk, 'pk, 'acc, 'st, 'pr, 'cp) blob_lib \<Rightarrow> jid_wire \<Rightarrow> store_error + 'srv stored_jid" where
  "stored_jid_from_wire L w =
     and_then (map_err (\<lambda>e. Validation (''jid.server '' @ [CHR 0x27] @ jw_server w @ [CHR 0x27] @ '': '' @ e))
                 (server_try_from L (jw_server w))) (\<lambda>server.
     and_then (narrow ''jid.agent'' (jw_agent w)) (\<lambda>agent.
     and_then (narrow ''jid.device'' (jw_device w)) (\<lambda>dev.
     and_then (narrow ''jid.integrator'' (jw_integrator w)) (\<lambda>integrator.
       Inr \<lparr>j_user = jw_user w, j_server = server, j_agent = agent, j_device = dev, j_integrator = integrator\<rparr>))))"

definition key_pair_to_bytes ::
  "('srv, 'sk, 'pk, 'acc, 'st, 'pr, 'cp) blob_lib \<Rightarrow> ('sk, 'pk) key_pair \<Rightarrow> bytes" where
  "key_pair_to_bytes L k = private_serialize L (kp_private k) @ public_key_bytes L (kp_public k)"

definition key_pair_from_bytes ::
  "('srv, 'sk, 'pk, 'acc, 'st, 'pr, 'cp) blob_lib \<Rightarrow> string \<Rightarrow> bytes \<Rightarrow> store_error + ('sk, 'pk) key_pair" where
  "key_pair_from_bytes L field bs =
     (if length bs \<noteq> KEY_PAIR_LEN then Inl (wrong_length field KEY_PAIR_LEN (length bs))
      else
        and_then (map_err (\<lambda>e. Validation (field @ '' private half: '' @ e))
                    (private_deserialize L (take KEY_HALF_LEN bs))) (\<lambda>private.
        and_then (map_err (\<lambda>e. Validation (field @ '' public half: '' @ e))
                    (from_djb_public_key_bytes L (drop KEY_HALF_LEN bs))) (\<lambda>public.
          Inr \<lparr>kp_public = public, kp_private = private\<rparr>)))"

definition account_from_bytes ::
  "('srv, 'sk, 'pk, 'acc, 'st, 'pr, 'cp) blob_lib \<Rightarrow> bytes \<Rightarrow> store_error + 'acc" where
  "account_from_bytes L bs = map_err Serialization (account_of_bytes L bs)"

text \<open>An audience that does not decode is unknown, not an error.\<close>

definition status_privacy_from_bytes ::
  "('srv, 'sk, 'pk, 'acc, 'st, 'pr, 'cp) blob_lib \<Rightarrow> bytes option \<Rightarrow> 'st option" where
  "status_privacy_from_bytes L b =
     (case b of
        None \<Rightarrow> None
      | Some bs \<Rightarrow> (case status_privacy_of_bytes L bs of Inr action \<Rightarrow> Some action | Inl _ \<Rightarrow> None))"

definition cert_to_wire :: "noise_cert \<Rightarrow> cert_wire" where
  "cert_to_wire c = \<lparr>cw_key = nc_key c, cw_not_before = nc_not_before c, cw_not_after = nc_not_after c\<rparr>"

definition cert_from_wire :: "string \<Rightarrow> cert_wire option \<Rightarrow> store_error + noise_cert" where
  "cert_from_wire field w =
     and_then (ok_or (Validation (field @ '': missing'')) w) (\<lambda>w.
     and_then (fixed_bytes 32 field (cw_key w)) (\<lambda>key.
       Inr \<lparr>nc_key = key, nc_not_before = cw_not_before w, nc_not_after = cw_not_after w\<rparr>))"

definition cert_chain_to_wire :: "server_cert_chain \<Rightarrow> cert_chain_wire" where
  "cert_chain_to_wire c =
     \<lparr>ccw_intermediate = Some (cert_to_wire (cc_intermediate c)), ccw_leaf = Some (cert_to_wire (cc_leaf c)),
      ccw_signature_verified = cc_signature_verified c\<rparr>"

definition cert_chain_from_wire :: "cert_chain_wire \<Rightarrow> store_error + server_cert_chain" where
  "cert_chain_from_wire w =
     and_then (cert_from_wire ''server_cert_chain.intermediate'' (ccw_intermediate w)) (\<lambda>intermediate.
     and_then (cert_from_wire ''server_cert_chain.leaf'' (ccw_leaf w)) (\<lambda>leaf.
       Inr \<lparr>cc_intermediate = intermediate, cc_leaf = leaf, cc_signature_verified = ccw_signature_verified w\<rparr>))"

definition expiration_to_wire :: "server_client_expiration \<Rightarrow> expiration_wire" where
  "expiration_to_wire e =
     (case ex_version e of (primary, secondary, tertiary) \<Rightarrow>
        \<lparr>ew_expires_at = ex_expires_at e, ew_version_primary = primary, ew_version_secondary = secondary,
         ew_version_tertiary = tertiary\<rparr>)"

definition expiration_from_wire :: "expiration_wire \<Rightarrow> server_client_expiration" where
  "expiration_from_wire w =
     \<lparr>ex_expires_at = ew_expires_at w,
      ex_version = (ew_version_primary w, ew_version_secondary w, ew_version_tertiary w)\<rparr>"

text \<open>The message \<open>encode_device\<close> builds.\<close>

definition device_message ::
  "('srv, 'sk, 'pk, 'acc, 'st, 'pr, 'cp) blob_lib \<Rightarrow> ('srv, 'sk, 'pk, 'acc, 'st, 'pr, 'cp) device_value \<Rightarrow> device_blob" where
  "device_message L d =
     \<lparr>db_pn = map_option (stored_jid_to_wire L) (dv_pn d),
      db_lid = map_option (stored_jid_to_wire L) (dv_lid d),
      db_registration_id = dv_registration_id d,
      db_noise_key = key_pair_to_bytes L (dv_noise_key d),
      db_identity_key = key_pair_to_bytes L (dv_identity_key d),
      db_signed_pre_key = key_pair_to_bytes L (dv_signed_pre_key d),
      db_signed_pre_key_id = dv_signed_pre_key_id d,
      db_signed_pre_key_signature = dv_signed_pre_key_signature d,
      db_adv_secret_key = dv_adv_secret_key d,
      db_account = map_option (account_to_bytes L) (dv_account d),
      db_push_name = dv_push_name d,
      db_app_version_primary = dv_app_version_primary d,
      db_app_version_secondary = dv_app_version_secondary d,
      db_app_version_tertiary = dv_app_version_tertiary d,
      db_app_version_last_fetched_ms = dv_app_version_last_fetched_ms d,
      db_edge_routing_info = dv_edge_routing_info d,
      db_props_hash = dv_props_hash d,
      db_next_pre_key_id = dv_next_pre_key_id d,
      db_first_unupload_pre_key_id = dv_first_unupload_pre_key_id d,
      db_server_has_prekeys = dv_server_has_prekeys d,
      db_nct_salt = dv_nct_salt d,
      db_server_cert_chain = map_option cert_chain_to_wire (dv_server_cert_chain d),
      db_login_counter = dv_login_counter d,
      db_lid_migrated = dv_lid_migrated d,
      db_last_signed_pre_key_rotation_ms = dv_last_signed_pre_key_rotation_ms d,
      db_server_client_expiration = map_option expiration_to_wire (dv_server_client_expiration d),
      db_read_receipts_disabled = dv_read_receipts_disabled d,
      db_status_privacy = map_option (status_privacy_to_bytes L) (dv_status_privacy d)\<rparr>"

definition encode_device ::
  "('srv, 'sk, 'pk, 'acc, 'st, 'pr, 'cp) blob_lib \<Rightarrow> ('srv, 'sk, 'pk, 'acc, 'st, 'pr, 'cp) device_value \<Rightarrow> bytes" where
  "encode_device L d = device_blob_encode L (device_message L d)"

text \<open>The struct literal of \<open>decode_device\<close>: its fields are evaluated in the order they are written.\<close>

definition device_of_message ::
  "('srv, 'sk, 'pk, 'acc, 'st, 'pr, 'cp) blob_lib \<Rightarrow> device_blob \<Rightarrow>
   store_error + ('srv, 'sk, 'pk, 'acc, 'st, 'pr, 'cp) device_value" where
  "device_of_message L b =
     and_then (transpose_opt (map_option (stored_jid_from_wire L) (db_pn b))) (\<lambda>pn.
     and_then (transpose_opt (map_option (stored_jid_from_wire L) (db_lid b))) (\<lambda>lid.
     and_then (key_pair_from_bytes L ''device.noise_key'' (db_noise_key b)) (\<lambda>noise.
     and_then (key_pair_from_bytes L ''device.identity_key'' (db_identity_key b)) (\<lambda>identity.
     and_then (key_pair_from_bytes L ''device.signed_pre_key'' (db_signed_pre_key b)) (\<lambda>signed.
     and_then (fixed_bytes 64 ''device.signed_pre_key_signature'' (db_signed_pre_key_signature b)) (\<lambda>signature.
     and_then (fixed_bytes 32 ''device.adv_secret_key'' (db_adv_secret_key b)) (\<lambda>adv.
     and_then (transpose_opt (map_option (account_from_bytes L) (db_account b))) (\<lambda>account.
     and_then (transpose_opt (map_option cert_chain_from_wire (db_server_cert_chain b))) (\<lambda>chain.
       Inr \<lparr>dv_pn = pn, dv_lid = lid,
            dv_registration_id = db_registration_id b,
            dv_noise_key = noise, dv_identity_key = identity, dv_signed_pre_key = signed,
            dv_signed_pre_key_id = db_signed_pre_key_id b,
            dv_signed_pre_key_signature = signature, dv_adv_secret_key = adv, dv_account = account,
            dv_push_name = db_push_name b,
            dv_app_version_primary = db_app_version_primary b,
            dv_app_version_secondary = db_app_version_secondary b,
            dv_app_version_tertiary = db_app_version_tertiary b,
            dv_app_version_last_fetched_ms = db_app_version_last_fetched_ms b,
            dv_device_props = DEVICE_PROPS L,
            dv_client_profile = default_client_profile L,
            dv_edge_routing_info = db_edge_routing_info b,
            dv_props_hash = db_props_hash b,
            dv_next_pre_key_id = db_next_pre_key_id b,
            dv_first_unupload_pre_key_id = db_first_unupload_pre_key_id b,
            dv_server_has_prekeys = db_server_has_prekeys b,
            dv_nct_salt = db_nct_salt b,
            dv_nct_salt_sync_seen = False,
            dv_server_cert_chain = chain,
            dv_login_counter = db_login_counter b,
            dv_lid_migrated = db_lid_migrated b,
            dv_last_signed_pre_key_rotation_ms = db_last_signed_pre_key_rotation_ms b,
            dv_server_client_expiration = map_option expiration_from_wire (db_server_client_expiration b),
            dv_read_receipts_disabled = db_read_receipts_disabled b,
            dv_status_privacy = status_privacy_from_bytes L (db_status_privacy b)\<rparr>)))))))))"

definition decode_device ::
  "('srv, 'sk, 'pk, 'acc, 'st, 'pr, 'cp) blob_lib \<Rightarrow> bytes \<Rightarrow>
   store_error + ('srv, 'sk, 'pk, 'acc, 'st, 'pr, 'cp) device_value" where
  "decode_device L bs = and_then (map_err decode_error (device_blob_decode L bs)) (device_of_message L)"

section \<open>App state\<close>

text \<open>A \<open>BTreeMap\<close> is its entries in the order of the keys; collecting inserts one entry after another.\<close>

fun btree_insert :: "'k::linorder \<times> 'v \<Rightarrow> ('k \<times> 'v) list \<Rightarrow> ('k \<times> 'v) list" where
  "btree_insert kv [] = [kv]"
| "btree_insert kv (p # ps) =
     (if fst kv < fst p then kv # p # ps else if fst kv = fst p then kv # ps else p # btree_insert kv ps)"

definition collect_btree :: "('k::linorder \<times> 'v) list \<Rightarrow> ('k \<times> 'v) list" where
  "collect_btree kvs = fold btree_insert kvs []"

definition encode_hash_state ::
  "('srv, 'sk, 'pk, 'acc, 'st, 'pr, 'cp) blob_lib \<Rightarrow> hash_state \<Rightarrow> bytes" where
  "encode_hash_state L s =
     hash_state_wire_encode L
       \<lparr>hw_version = hs_version s, hw_hash = hs_hash s,
        hw_index_value_map = collect_btree (hs_index_value_map s),
        hw_mac_mismatch_fatal = hs_mac_mismatch_fatal s, hw_bootstrapped = hs_bootstrapped s\<rparr>"

text \<open>The hash map that is collected iterates, in the model, in the order it was filled.\<close>

definition decode_hash_state ::
  "('srv, 'sk, 'pk, 'acc, 'st, 'pr, 'cp) blob_lib \<Rightarrow> bytes \<Rightarrow> store_error + hash_state" where
  "decode_hash_state L bs =
     and_then (map_err decode_error (hash_state_wire_decode L bs)) (\<lambda>w.
     and_then (fixed_bytes 128 ''hash_state.hash'' (hw_hash w)) (\<lambda>h.
       Inr \<lparr>hs_version = hw_version w, hs_hash = h, hs_index_value_map = hw_index_value_map w,
            hs_mac_mismatch_fatal = hw_mac_mismatch_fatal w, hs_bootstrapped = hw_bootstrapped w\<rparr>))"

definition encode_app_state_sync_key ::
  "('srv, 'sk, 'pk, 'acc, 'st, 'pr, 'cp) blob_lib \<Rightarrow> app_state_sync_key \<Rightarrow> bytes" where
  "encode_app_state_sync_key L k =
     sync_key_wire_encode L
       \<lparr>kw_key_data = sk_key_data k, kw_fingerprint = sk_fingerprint k, kw_timestamp = sk_timestamp k\<rparr>"

definition decode_app_state_sync_key ::
  "('srv, 'sk, 'pk, 'acc, 'st, 'pr, 'cp) blob_lib \<Rightarrow> bytes \<Rightarrow> store_error + app_state_sync_key" where
  "decode_app_state_sync_key L bs =
     and_then (map_err decode_error (sync_key_wire_decode L bs)) (\<lambda>w.
       if length (kw_key_data w) \<noteq> APP_STATE_KEY_LEN
       then Inl (wrong_length ''app_state_sync_key.key_data'' APP_STATE_KEY_LEN (length (kw_key_data w)))
       else Inr \<lparr>sk_key_data = kw_key_data w, sk_fingerprint = kw_fingerprint w, sk_timestamp = kw_timestamp w\<rparr>)"

end
