(* ===== verification/Stored_Blobs.thy ===== *)
theory Stored_Blobs
  imports Bincode_Upgrade Blob_Codec_Laws
begin

text \<open>
  The codec of the stored blobs, plugged into the stores and into the upgrade from bincode: the frozen
  layout of a legacy device (\<open>bincode_upgrade/legacy_device.rs\<close>), its conversion, and an instance of
  the libraries' functions to try things on.
\<close>

section \<open>The legacy device\<close>

record ('srv, 'sk, 'pk, 'acc) legacy_device_value =
  ld_pn :: "'srv stored_jid option"
  ld_lid :: "'srv stored_jid option"
  ld_registration_id :: u32
  ld_noise_key :: "('sk, 'pk) key_pair"
  ld_identity_key :: "('sk, 'pk) key_pair"
  ld_signed_pre_key :: "('sk, 'pk) key_pair"
  ld_signed_pre_key_id :: u32
  ld_signed_pre_key_signature :: "bytes \<times> bytes"
  ld_adv_secret_key :: bytes
  ld_account :: "'acc option"
  ld_push_name :: string
  ld_app_version_primary :: u32
  ld_app_version_secondary :: u32
  ld_app_version_tertiary :: u32
  ld_app_version_last_fetched_ms :: bits64
  ld_edge_routing_info :: "bytes option"
  ld_props_hash :: "string option"
  ld_next_pre_key_id :: u32
  ld_first_unupload_pre_key_id :: u32
  ld_server_has_prekeys :: bool
  ld_nct_salt :: "bytes option"
  ld_server_cert_chain :: "server_cert_chain option"
  ld_login_counter :: bits32
  ld_lid_migrated :: bool
  ld_last_signed_pre_key_rotation_ms :: bits64
  ld_server_client_expiration :: "server_client_expiration option"
  ld_read_receipts_disabled :: bool

text \<open>\<open>copy_from_slice\<close> of the two halves into an array of 64 zeros.\<close>

definition join_signature :: "bytes \<times> bytes \<Rightarrow> bytes" where
  "join_signature halves = (case halves of (sig_head, sig_tail) \<Rightarrow> sig_head @ sig_tail)"

definition device_of_legacy ::
  "('srv, 'sk, 'pk, 'acc, 'st, 'pr, 'cp) blob_lib \<Rightarrow> ('srv, 'sk, 'pk, 'acc) legacy_device_value \<Rightarrow>
   ('srv, 'sk, 'pk, 'acc, 'st, 'pr, 'cp) device_value" where
  "device_of_legacy L old =
     \<lparr>dv_pn = ld_pn old, dv_lid = ld_lid old,
      dv_registration_id = ld_registration_id old,
      dv_noise_key = ld_noise_key old, dv_identity_key = ld_identity_key old, dv_signed_pre_key = ld_signed_pre_key old,
      dv_signed_pre_key_id = ld_signed_pre_key_id old,
      dv_signed_pre_key_signature = join_signature (ld_signed_pre_key_signature old),
      dv_adv_secret_key = ld_adv_secret_key old, dv_account = ld_account old,
      dv_push_name = ld_push_name old,
      dv_app_version_primary = ld_app_version_primary old,
      dv_app_version_secondary = ld_app_version_secondary old,
      dv_app_version_tertiary = ld_app_version_tertiary old,
      dv_app_version_last_fetched_ms = ld_app_version_last_fetched_ms old,
      dv_device_props = DEVICE_PROPS L, dv_client_profile = default_client_profile L,
      dv_edge_routing_info = ld_edge_routing_info old,
      dv_props_hash = ld_props_hash old,
      dv_next_pre_key_id = ld_next_pre_key_id old,
      dv_first_unupload_pre_key_id = ld_first_unupload_pre_key_id old,
      dv_server_has_prekeys = ld_server_has_prekeys old,
      dv_nct_salt = ld_nct_salt old,
      dv_nct_salt_sync_seen = False,
      dv_server_cert_chain = ld_server_cert_chain old,
      dv_login_counter = ld_login_counter old,
      dv_lid_migrated = ld_lid_migrated old,
      dv_last_signed_pre_key_rotation_ms = ld_last_signed_pre_key_rotation_ms old,
      dv_server_client_expiration = ld_server_client_expiration old,
      dv_read_receipts_disabled = ld_read_receipts_disabled old,
      dv_status_privacy = None\<rparr>"

definition legacy_ok :: "('srv, 'sk, 'pk, 'acc) legacy_device_value \<Rightarrow> bool" where
  "legacy_ok old \<longleftrightarrow>
     length (fst (ld_signed_pre_key_signature old)) = 32 \<and> length (snd (ld_signed_pre_key_signature old)) = 32 \<and>
     length (ld_adv_secret_key old) = 32 \<and> pred_option cert_chain_ok (ld_server_cert_chain old)"

lemma device_of_legacy_ok: "legacy_ok old \<Longrightarrow> device_ok (device_of_legacy L old)"
  by (cases "ld_signed_pre_key_signature old")
     (simp add: legacy_ok_def device_ok_def device_of_legacy_def join_signature_def)

lemma restored_of_legacy: "restored L (device_of_legacy L old) = device_of_legacy L old"
  by (simp add: restored_def device_of_legacy_def status_privacy_from_bytes_def)

lemma device_of_legacy_inject:
  assumes "legacy_ok x" "legacy_ok y" "device_of_legacy L x = device_of_legacy L y"
  shows "x = y"
  using assms
  by (auto simp: legacy_ok_def device_of_legacy_def join_signature_def prod_eq_iff
      intro!: legacy_device_value.equality split: prod.splits)

section \<open>The codec of the stores\<close>

definition blob_codec ::
  "('srv, 'sk, 'pk, 'acc, 'st, 'pr, 'cp) blob_lib \<Rightarrow>
   (app_state_sync_key, hash_state, ('srv, 'sk, 'pk, 'acc, 'st, 'pr, 'cp) device_value) codec" where
  "blob_codec L =
     \<lparr>enc_sync_key = encode_app_state_sync_key L, dec_sync_key = decode_app_state_sync_key L,
      enc_hash_state = encode_hash_state L, dec_hash_state = decode_hash_state L, hash_version = hs_version,
      enc_device = encode_device L, dec_device = decode_device L\<rparr>"

lemma blob_codec_simps [simp]:
  "enc_sync_key (blob_codec L) = encode_app_state_sync_key L" "dec_sync_key (blob_codec L) = decode_app_state_sync_key L"
  "enc_hash_state (blob_codec L) = encode_hash_state L" "dec_hash_state (blob_codec L) = decode_hash_state L"
  "hash_version (blob_codec L) = hs_version"
  "enc_device (blob_codec L) = encode_device L" "dec_device (blob_codec L) = decode_device L"
  by (simp_all add: blob_codec_def)

text \<open>
  The upgrade's view of the values: how it compares an app-state version and a sync key field by field,
  and the conversion of a legacy device. \<open>R\<close> is bincode itself.
\<close>

record ('l, 'd) bincode_lib =
  read_legacy_device :: "bytes \<Rightarrow> string + 'l \<times> nat"
  read_hash_state :: "bytes \<Rightarrow> string + hash_state \<times> nat"
  read_sync_key :: "bytes \<Rightarrow> string + app_state_sync_key \<times> nat"
  write_device :: "'d \<Rightarrow> string + bytes"
  show_store_error :: "store_error \<Rightarrow> string"

definition blob_bincode ::
  "('srv, 'sk, 'pk, 'acc, 'st, 'pr, 'cp) blob_lib \<Rightarrow>
   (('srv, 'sk, 'pk, 'acc) legacy_device_value, ('srv, 'sk, 'pk, 'acc, 'st, 'pr, 'cp) device_value) bincode_lib \<Rightarrow>
   (('srv, 'sk, 'pk, 'acc) legacy_device_value, app_state_sync_key, hash_state,
    ('srv, 'sk, 'pk, 'acc, 'st, 'pr, 'cp) device_value) bincode" where
  "blob_bincode L R =
     \<lparr>legacy_device = read_legacy_device R, of_legacy = device_of_legacy L,
      legacy_hash_state = read_hash_state R, legacy_sync_key = read_sync_key R, device_bincode = write_device R,
      hash_fields = (\<lambda>s. (hs_version s, hs_hash s, set (hs_index_value_map s), hs_mac_mismatch_fatal s, hs_bootstrapped s)),
      key_fields = (\<lambda>k. (sk_key_data k, sk_fingerprint k, sint (sk_timestamp k))),
      error_string = show_store_error R\<rparr>"

text \<open>
  A legacy blob that reads whole is upgraded, to the encoding of exactly the value it held: the check
  of the round trip refuses nothing that is well-formed.
\<close>

lemma upgrade_device_blob_exact:
  assumes "blob_lib_ok L" "read_legacy_device R blob = Inr (old, length blob)" "legacy_ok old"
    and "write_device R (device_of_legacy L old) = Inr b"
  shows "upgrade_device_blob (blob_bincode L R) (blob_codec L) blob row = Inr (encode_device L (device_of_legacy L old))"
    and "decode_device L (encode_device L (device_of_legacy L old)) = Inr (device_of_legacy L old)"
proof -
  show again: "decode_device L (encode_device L (device_of_legacy L old)) = Inr (device_of_legacy L old)"
    using device_round_trip [OF assms(1) device_of_legacy_ok [OF assms(3)]] by (simp add: restored_of_legacy)
  show "upgrade_device_blob (blob_bincode L R) (blob_codec L) blob row = Inr (encode_device L (device_of_legacy L old))"
    using assms(2,4) again
    by (simp add: upgrade_device_blob_def decode_legacy_device_def decode_whole_def blob_bincode_def encode_bincode_def)
qed

lemma set_collect_btree: "distinct (map fst kvs) \<Longrightarrow> set (collect_btree kvs) = set kvs"
  using map_of_collect_btree [of kvs] collect_btree_btree [of kvs]
  by (metis btree_map_def map_of_rev_distinct set_map_of_compr strict_sorted_iff)

lemma upgrade_hash_state_blob_exact:
  assumes "blob_lib_ok L" "read_hash_state R blob = Inr (s, length blob)" "hash_state_ok s"
  shows "upgrade_hash_state_blob (blob_bincode L R) (blob_codec L) blob row = Inr (encode_hash_state L s)"
    and "decode_hash_state L (encode_hash_state L s) = Inr (as_stored s)"
proof -
  have "set (hs_index_value_map (as_stored s)) = set (hs_index_value_map s)"
    using assms(3) by (simp add: as_stored_def hash_state_ok_def set_collect_btree)
  then show "upgrade_hash_state_blob (blob_bincode L R) (blob_codec L) blob row = Inr (encode_hash_state L s)"
    using assms hash_state_round_trip [OF assms(1,3)]
    by (simp add: upgrade_hash_state_blob_def decode_whole_def blob_bincode_def as_stored_def)
qed (rule hash_state_round_trip [OF assms(1,3)])

lemma upgrade_sync_key_blob_exact:
  assumes "blob_lib_ok L" "read_sync_key R blob = Inr (k, length blob)" "length (sk_key_data k) = 32"
  shows "upgrade_sync_key_blob (blob_bincode L R) (blob_codec L) blob row = Inr (encode_app_state_sync_key L k)"
    and "decode_app_state_sync_key L (encode_app_state_sync_key L k) = Inr k"
  using assms sync_key_round_trip [OF assms(1)]
  by (simp_all add: upgrade_sync_key_blob_def decode_whole_def blob_bincode_def)

end
