(* ===== verification/Blob_Demo.thy ===== *)
theory Blob_Demo
  imports Stored_Blobs
begin

text \<open>
  A concrete library for the stored blobs, to evaluate the codec on: self-delimiting readers and
  writers, composed field by field into an encoding of each message that decodes to it.
\<close>

section \<open>Readers and writers\<close>

record 'a ser =
  wr :: "'a \<Rightarrow> bytes"
  rd :: "bytes \<Rightarrow> ('a \<times> bytes) option"

definition ser_ok :: "'a ser \<Rightarrow> bool" where
  "ser_ok s \<longleftrightarrow> (\<forall>x rest. rd s (wr s x @ rest) = Some (x, rest))"

lemma ser_okD: "ser_ok s \<Longrightarrow> rd s (wr s x @ rest) = Some (x, rest)"
  by (simp add: ser_ok_def)

fun rd_byte :: "bytes \<Rightarrow> (u8 \<times> bytes) option" where
  "rd_byte [] = None"
| "rd_byte (b # bs) = Some (b, bs)"

fun rd_nat :: "bytes \<Rightarrow> (nat \<times> bytes) option" where
  "rd_nat [] = None"
| "rd_nat (b # bs) = (if b = 0 then Some (0, bs) else map_option (\<lambda>(n, r). (Suc n, r)) (rd_nat bs))"

fun rd_times :: "(bytes \<Rightarrow> ('a \<times> bytes) option) \<Rightarrow> nat \<Rightarrow> bytes \<Rightarrow> ('a list \<times> bytes) option" where
  "rd_times f 0 bs = Some ([], bs)"
| "rd_times f (Suc n) bs =
     (case f bs of
        None \<Rightarrow> None
      | Some (x, r) \<Rightarrow> map_option (\<lambda>(xs, r'). (x # xs, r')) (rd_times f n r))"

definition byte_ser :: "u8 ser" where
  "byte_ser = \<lparr>wr = (\<lambda>b. [b]), rd = rd_byte\<rparr>"

definition nat_ser :: "nat ser" where
  "nat_ser = \<lparr>wr = (\<lambda>n. replicate n 1 @ [0]), rd = rd_nat\<rparr>"

definition iso_ser :: "('b \<Rightarrow> 'a) \<Rightarrow> ('a \<Rightarrow> 'b) \<Rightarrow> 'a ser \<Rightarrow> 'b ser" where
  "iso_ser f g s = \<lparr>wr = (\<lambda>x. wr s (f x)), rd = (\<lambda>bs. map_option (\<lambda>(x, r). (g x, r)) (rd s bs))\<rparr>"

definition pair_ser :: "'a ser \<Rightarrow> 'b ser \<Rightarrow> ('a \<times> 'b) ser" where
  "pair_ser s t = \<lparr>wr = (\<lambda>(x, y). wr s x @ wr t y),
     rd = (\<lambda>bs. case rd s bs of
             None \<Rightarrow> None
           | Some (x, r) \<Rightarrow> map_option (\<lambda>(y, r'). ((x, y), r')) (rd t r))\<rparr>"

definition list_ser :: "'a ser \<Rightarrow> 'a list ser" where
  "list_ser s = \<lparr>wr = (\<lambda>xs. wr nat_ser (length xs) @ concat (map (wr s) xs)),
     rd = (\<lambda>bs. case rd_nat bs of None \<Rightarrow> None | Some (n, r) \<Rightarrow> rd_times (rd s) n r)\<rparr>"

definition bool_ser :: "bool ser" where
  "bool_ser = iso_ser (\<lambda>b. if b then 1 else 0) (\<lambda>n. n \<noteq> 0) nat_ser"

definition word_ser :: "'w::len word ser" where
  "word_ser = iso_ser unat of_nat nat_ser"

definition string_ser :: "string ser" where
  "string_ser = iso_ser str_bytes (map (\<lambda>b. char_of (unat b))) (list_ser byte_ser)"

definition opt_ser :: "'a ser \<Rightarrow> 'a option ser" where
  "opt_ser s = iso_ser (\<lambda>x. case x of None \<Rightarrow> [] | Some y \<Rightarrow> [y]) (\<lambda>xs. if xs = [] then None else Some (hd xs)) (list_ser s)"

abbreviation bytes_ser :: "bytes ser" where
  "bytes_ser \<equiv> list_ser byte_ser"

lemma byte_ser_ok: "ser_ok byte_ser"
  by (simp add: ser_ok_def byte_ser_def)

lemma rd_nat_wr: "rd_nat (replicate n 1 @ 0 # rest) = Some (n, rest)"
  by (induction n) auto

lemma nat_ser_ok: "ser_ok nat_ser"
  by (simp add: ser_ok_def nat_ser_def rd_nat_wr)

lemma iso_ser_ok: "ser_ok s \<Longrightarrow> (\<And>x. g (f x) = x) \<Longrightarrow> ser_ok (iso_ser f g s)"
  by (simp add: ser_ok_def iso_ser_def)

lemma pair_ser_ok: "ser_ok s \<Longrightarrow> ser_ok t \<Longrightarrow> ser_ok (pair_ser s t)"
  by (auto simp: ser_ok_def pair_ser_def)

lemma rd_times_wr: "ser_ok s \<Longrightarrow> rd_times (rd s) (length xs) (concat (map (wr s) xs) @ rest) = Some (xs, rest)"
  by (induction xs) (auto simp: ser_okD)

lemma list_ser_ok: "ser_ok s \<Longrightarrow> ser_ok (list_ser s)"
  by (auto simp: ser_ok_def list_ser_def nat_ser_def rd_nat_wr rd_times_wr)

lemma bool_ser_ok: "ser_ok bool_ser"
  unfolding bool_ser_def by (rule iso_ser_ok [OF nat_ser_ok]) simp

lemma word_ser_ok: "ser_ok word_ser"
  unfolding word_ser_def by (rule iso_ser_ok [OF nat_ser_ok]) simp

lemma char_of_byte: "char_of (unat (byte_of_char c)) = c"
proof -
  have "byte_of_char c = (of_nat (of_char c :: nat) :: u8)" by (simp add: byte_of_char_def of_nat_of_char)
  then have "unat (byte_of_char c) = of_char c" by (simp only: unat_of_nat) simp
  then show ?thesis by (simp only: char_of_char)
qed

lemma string_ser_ok: "ser_ok string_ser"
  unfolding string_ser_def
  by (rule iso_ser_ok [OF list_ser_ok [OF byte_ser_ok]]) (simp add: str_bytes_def char_of_byte comp_def)

lemma opt_ser_ok: "ser_ok s \<Longrightarrow> ser_ok (opt_ser s)"
  unfolding opt_ser_def by (rule iso_ser_ok [OF list_ser_ok]) (auto split: option.splits)

lemmas ser_intros =
  byte_ser_ok nat_ser_ok bool_ser_ok word_ser_ok string_ser_ok pair_ser_ok list_ser_ok opt_ser_ok

section \<open>The messages\<close>

definition jid_ser :: "jid_wire ser" where
  "jid_ser = iso_ser
     (\<lambda>w. (jw_user w, jw_server w, jw_agent w, jw_device w, jw_integrator w))
     (\<lambda>(u, s, a, d, i). \<lparr>jw_user = u, jw_server = s, jw_agent = a, jw_device = d, jw_integrator = i\<rparr>)
     (pair_ser string_ser (pair_ser string_ser (pair_ser word_ser (pair_ser word_ser word_ser))))"

definition cert_ser :: "cert_wire ser" where
  "cert_ser = iso_ser (\<lambda>w. (cw_key w, cw_not_before w, cw_not_after w))
     (\<lambda>(k, b, a). \<lparr>cw_key = k, cw_not_before = b, cw_not_after = a\<rparr>)
     (pair_ser bytes_ser (pair_ser word_ser word_ser))"

definition chain_ser :: "cert_chain_wire ser" where
  "chain_ser = iso_ser (\<lambda>w. (ccw_intermediate w, ccw_leaf w, ccw_signature_verified w))
     (\<lambda>(i, l, v). \<lparr>ccw_intermediate = i, ccw_leaf = l, ccw_signature_verified = v\<rparr>)
     (pair_ser (opt_ser cert_ser) (pair_ser (opt_ser cert_ser) bool_ser))"

definition expiration_ser :: "expiration_wire ser" where
  "expiration_ser = iso_ser
     (\<lambda>w. (ew_expires_at w, ew_version_primary w, ew_version_secondary w, ew_version_tertiary w))
     (\<lambda>(e, p, s, t). \<lparr>ew_expires_at = e, ew_version_primary = p, ew_version_secondary = s, ew_version_tertiary = t\<rparr>)
     (pair_ser word_ser (pair_ser word_ser (pair_ser word_ser word_ser)))"

definition device_ser :: "device_blob ser" where
  "device_ser = iso_ser
     (\<lambda>b. ((db_pn b, db_lid b, db_registration_id b, db_noise_key b, db_identity_key b, db_signed_pre_key b,
             db_signed_pre_key_id b),
           (db_signed_pre_key_signature b, db_adv_secret_key b, db_account b, db_push_name b,
             db_app_version_primary b, db_app_version_secondary b, db_app_version_tertiary b),
           (db_app_version_last_fetched_ms b, db_edge_routing_info b, db_props_hash b, db_next_pre_key_id b,
             db_first_unupload_pre_key_id b, db_server_has_prekeys b, db_nct_salt b),
           (db_server_cert_chain b, db_login_counter b, db_lid_migrated b, db_last_signed_pre_key_rotation_ms b,
             db_server_client_expiration b, db_read_receipts_disabled b, db_status_privacy b)))
     (\<lambda>((a1, a2, a3, a4, a5, a6, a7), (b1, b2, b3, b4, b5, b6, b7), (c1, c2, c3, c4, c5, c6, c7),
         (d1, d2, d3, d4, d5, d6, d7)).
        \<lparr>db_pn = a1, db_lid = a2, db_registration_id = a3, db_noise_key = a4, db_identity_key = a5,
         db_signed_pre_key = a6, db_signed_pre_key_id = a7, db_signed_pre_key_signature = b1, db_adv_secret_key = b2,
         db_account = b3, db_push_name = b4, db_app_version_primary = b5, db_app_version_secondary = b6,
         db_app_version_tertiary = b7, db_app_version_last_fetched_ms = c1, db_edge_routing_info = c2,
         db_props_hash = c3, db_next_pre_key_id = c4, db_first_unupload_pre_key_id = c5, db_server_has_prekeys = c6,
         db_nct_salt = c7, db_server_cert_chain = d1, db_login_counter = d2, db_lid_migrated = d3,
         db_last_signed_pre_key_rotation_ms = d4, db_server_client_expiration = d5, db_read_receipts_disabled = d6,
         db_status_privacy = d7\<rparr>)
     (pair_ser
        (pair_ser (opt_ser jid_ser) (pair_ser (opt_ser jid_ser) (pair_ser word_ser (pair_ser bytes_ser
           (pair_ser bytes_ser (pair_ser bytes_ser word_ser))))))
        (pair_ser
           (pair_ser bytes_ser (pair_ser bytes_ser (pair_ser (opt_ser bytes_ser) (pair_ser string_ser
              (pair_ser word_ser (pair_ser word_ser word_ser))))))
           (pair_ser
              (pair_ser word_ser (pair_ser (opt_ser bytes_ser) (pair_ser (opt_ser string_ser) (pair_ser word_ser
                 (pair_ser word_ser (pair_ser bool_ser (opt_ser bytes_ser)))))))
              (pair_ser (opt_ser chain_ser) (pair_ser word_ser (pair_ser bool_ser (pair_ser word_ser
                 (pair_ser (opt_ser expiration_ser) (pair_ser bool_ser (opt_ser bytes_ser)))))))))) "

definition hash_state_ser :: "hash_state_wire ser" where
  "hash_state_ser = iso_ser
     (\<lambda>w. (hw_version w, hw_hash w, hw_index_value_map w, hw_mac_mismatch_fatal w, hw_bootstrapped w))
     (\<lambda>(v, h, m, f, b). \<lparr>hw_version = v, hw_hash = h, hw_index_value_map = m, hw_mac_mismatch_fatal = f, hw_bootstrapped = b\<rparr>)
     (pair_ser word_ser (pair_ser bytes_ser (pair_ser (list_ser (pair_ser string_ser bytes_ser)) (pair_ser bool_ser bool_ser))))"

definition sync_key_ser :: "sync_key_wire ser" where
  "sync_key_ser = iso_ser (\<lambda>w. (kw_key_data w, kw_fingerprint w, kw_timestamp w))
     (\<lambda>(k, f, t). \<lparr>kw_key_data = k, kw_fingerprint = f, kw_timestamp = t\<rparr>)
     (pair_ser bytes_ser (pair_ser bytes_ser word_ser))"

lemma jid_ser_ok: "ser_ok jid_ser"
  unfolding jid_ser_def by (intro iso_ser_ok ser_intros) simp

lemma cert_ser_ok: "ser_ok cert_ser"
  unfolding cert_ser_def by (intro iso_ser_ok ser_intros) simp

lemma chain_ser_ok: "ser_ok chain_ser"
  unfolding chain_ser_def by (intro iso_ser_ok ser_intros cert_ser_ok) simp

lemma expiration_ser_ok: "ser_ok expiration_ser"
  unfolding expiration_ser_def by (intro iso_ser_ok ser_intros) simp

lemma device_ser_ok: "ser_ok device_ser"
  unfolding device_ser_def by (intro iso_ser_ok ser_intros jid_ser_ok chain_ser_ok expiration_ser_ok) simp

lemma hash_state_ser_ok: "ser_ok hash_state_ser"
  unfolding hash_state_ser_def by (intro iso_ser_ok ser_intros) simp

lemma sync_key_ser_ok: "ser_ok sync_key_ser"
  unfolding sync_key_ser_def by (intro iso_ser_ok ser_intros) simp

text \<open>A whole message: nothing may be left over.\<close>

definition rd_whole :: "'a ser \<Rightarrow> bytes \<Rightarrow> string + 'a" where
  "rd_whole s bs = (case rd s bs of Some (x, []) \<Rightarrow> Inr x | _ \<Rightarrow> Inl ''malformed message'')"

lemma rd_whole_wr: "ser_ok s \<Longrightarrow> rd_whole s (wr s x) = Inr x"
  using ser_okD [of s x "[]"] by (simp add: rd_whole_def)

section \<open>The library\<close>

text \<open>Two servers, keys of one repeated byte, an audience that must not be empty.\<close>

definition rd_key :: "bytes \<Rightarrow> string + u8" where
  "rd_key bs = (if bs \<noteq> [] \<and> bs = replicate 32 (hd bs) then Inr (hd bs) else Inl ''not a key'')"

definition demo_lib :: "(bool, u8, u8, bytes, bytes, unit, unit) blob_lib" where
  "demo_lib =
     \<lparr>server_as_str = (\<lambda>lid. if lid then ''lid'' else ''s.whatsapp.net''),
      server_try_from = (\<lambda>s. if s = ''lid'' then Inr True else if s = ''s.whatsapp.net'' then Inr False else Inl ''unknown''),
      private_serialize = replicate 32, private_deserialize = rd_key,
      public_key_bytes = replicate 32, from_djb_public_key_bytes = rd_key,
      account_to_bytes = (\<lambda>a. a), account_of_bytes = Inr,
      status_privacy_to_bytes = (\<lambda>a. a), status_privacy_of_bytes = (\<lambda>b. if b = [] then Inl ''no mode'' else Inr b),
      DEVICE_PROPS = (), default_client_profile = (),
      device_blob_encode = wr device_ser, device_blob_decode = rd_whole device_ser,
      hash_state_wire_encode = wr hash_state_ser, hash_state_wire_decode = rd_whole hash_state_ser,
      sync_key_wire_encode = wr sync_key_ser, sync_key_wire_decode = rd_whole sync_key_ser\<rparr>"

lemma demo_lib_ok: "blob_lib_ok demo_lib"
  by (simp add: blob_lib_ok_def demo_lib_def rd_key_def rd_whole_wr device_ser_ok hash_state_ser_ok sync_key_ser_ok)

text \<open>A paired device with an account, a chain of certificates and an audience.\<close>

definition demo_key :: "u8 \<Rightarrow> (u8, u8) key_pair" where
  "demo_key k = \<lparr>kp_public = k, kp_private = k + 1\<rparr>"

definition demo_cert :: "u8 \<Rightarrow> noise_cert" where
  "demo_cert k = \<lparr>nc_key = replicate 32 k, nc_not_before = 1, nc_not_after = 2\<rparr>"

definition demo_legacy :: "(bool, u8, u8, bytes) legacy_device_value" where
  "demo_legacy =
     \<lparr>ld_pn = Some \<lparr>j_user = ''1555'', j_server = False, j_agent = 0, j_device = 3, j_integrator = 0\<rparr>,
      ld_lid = None, ld_registration_id = 9, ld_noise_key = demo_key 1, ld_identity_key = demo_key 3,
      ld_signed_pre_key = demo_key 5, ld_signed_pre_key_id = 2,
      ld_signed_pre_key_signature = (replicate 32 7, replicate 32 8), ld_adv_secret_key = replicate 32 6,
      ld_account = Some [1, 2], ld_push_name = ''me'', ld_app_version_primary = 2, ld_app_version_secondary = 3,
      ld_app_version_tertiary = 4, ld_app_version_last_fetched_ms = 5, ld_edge_routing_info = Some [],
      ld_props_hash = None, ld_next_pre_key_id = 1, ld_first_unupload_pre_key_id = 1, ld_server_has_prekeys = True,
      ld_nct_salt = Some [9], ld_server_cert_chain = Some \<lparr>cc_intermediate = demo_cert 4, cc_leaf = demo_cert 5,
        cc_signature_verified = True\<rparr>,
      ld_login_counter = 1, ld_lid_migrated = False, ld_last_signed_pre_key_rotation_ms = 0,
      ld_server_client_expiration = Some \<lparr>ex_expires_at = 8, ex_version = (2, 3, 4)\<rparr>, ld_read_receipts_disabled = False\<rparr>"

definition demo_device :: "(bool, u8, u8, bytes, bytes, unit, unit) device_value" where
  "demo_device = (device_of_legacy demo_lib demo_legacy)\<lparr>dv_nct_salt_sync_seen := True, dv_status_privacy := Some [4]\<rparr>"

definition demo_hash_state :: hash_state where
  "demo_hash_state = \<lparr>hs_version = 3, hs_hash = replicate 128 1, hs_index_value_map = [(''b'', [2]), (''a'', [])],
     hs_mac_mismatch_fatal = False, hs_bootstrapped = True\<rparr>"

definition demo_sync_key :: app_state_sync_key where
  "demo_sync_key = \<lparr>sk_key_data = replicate 32 4, sk_fingerprint = [5], sk_timestamp = 6\<rparr>"

lemma demo_legacy_ok: "legacy_ok demo_legacy"
  by (simp add: legacy_ok_def demo_legacy_def cert_chain_ok_def cert_ok_def demo_cert_def)

lemma demo_device_ok: "device_ok demo_device"
  using device_of_legacy_ok [OF demo_legacy_ok, of demo_lib] by (simp add: demo_device_def device_ok_def)

lemma demo_hash_state_ok: "hash_state_ok demo_hash_state"
  by (simp add: hash_state_ok_def demo_hash_state_def)

end
