(* ===== verification/Store_Properties.thy ===== *)
theory Store_Properties
  imports Store_Interfaces Blob_Demo
begin

text \<open>
  What the SQL backend of an account promises the library: accounts kept apart, reads after writes,
  batches that are single calls in one transaction, and the rules its upserts were written for.
\<close>

section \<open>A store to try things on\<close>

definition demo_env :: sql_env where
  "demo_env = \<lparr>e_crypto = demo_crypto, e_nonce = (\<lambda>n. Inr (replicate 24 (of_nat n))), e_answer = (\<lambda>_. Ran)\<rparr>"

definition demo_backend :: "bits32 \<Rightarrow> sql_backend" where
  "demo_backend d = device_backend (sealing (replicate 32 1)) d"

definition empty_db :: sql_db where
  "empty_db =
     \<lparr>device = [], identities = [], sessions = [], prekeys = [], signed_prekeys = [], sender_keys = [],
      app_state_keys = [], app_state_versions = [], app_state_mutation_macs = [], base_keys = [],
      device_registry = [], lid_pn_mapping = [], sender_key_devices = [], tc_tokens = [],
      sent_messages = [], msg_secrets = []\<rparr>"

definition demo_codec ::
  "(app_state_sync_key, hash_state, (bool, u8, u8, bytes, bytes, unit, unit) device_value) codec" where
  "demo_codec = blob_codec demo_lib"

definition all_or_nothing :: "('db \<Rightarrow> bool) \<Rightarrow> 'db \<Rightarrow> 'db \<times> (store_error + unit) \<Rightarrow> bool" where
  "all_or_nothing W db run \<longleftrightarrow> (fst run = db \<or> W (fst run)) \<and> (snd run = Inr () \<longrightarrow> W (fst run))"

lemma demo_reader: "reader_ok demo_env demo_env"
  using demo_crypto_ok by (simp add: reader_ok_def env_ok_def demo_env_def)

lemma empty_db_wf: "sql_wf empty_db"
  by (simp add: sql_wf_def empty_db_def keyed_rows_def)

section \<open>Accounts apart\<close>

lemma kept_trans: "kept d a b \<Longrightarrow> kept d b c \<Longrightarrow> kept d a c"
  by (simp add: kept_def same_for_def)

lemma backend_steps_kept:
  "backend_steps J K B db db' \<Longrightarrow> \<forall>be\<in>B. be_device be \<noteq> d \<Longrightarrow> kept d db db'"
proof (induction rule: backend_steps.induct)
  case (more db db1 be db')
  then have "kept d db1 db'" using backend_step_kept [OF more.hyps(3)] by blast
  with more show ?case using kept_trans by blast
qed simp

text \<open>
  C26. No sequence of calls on the backends of other accounts changes a row of an account, whatever
  the engine answers, and every table keeps one row per primary key.
\<close>

theorem accounts_are_isolated:
  assumes "backend_steps J K B db db'" and "\<forall>be\<in>B. be_device be \<noteq> d"
  shows "same_for d db db' \<and> (sql_wf db \<longrightarrow> sql_wf db')"
  using backend_steps_kept [OF assms] by (simp add: kept_def)

theorem accounts_are_isolated_witness:
  "\<exists>db'. put_session demo_env (demo_backend 7) ''a'' [5] empty_db = (db', Inr ()) \<and> sessions db' \<noteq> [] \<and>
         same_for 8 empty_db db' \<and> sql_wf db'"
proof -
  let ?run = "put_session demo_env (demo_backend 7) ''a'' [5] empty_db"
  have ok: "snd ?run = Inr () \<and> sessions (fst ?run) \<noteq> []" by code_simp
  have "backend_step (undefined :: unit json) demo_codec (demo_backend 7) empty_db (fst ?run)"
    by (rule backend_step.put_session [where res = "snd ?run"]) simp
  then have "backend_steps (undefined :: unit json) demo_codec {demo_backend 7} empty_db (fst ?run)"
    using backend_steps.intros by blast
  from accounts_are_isolated [OF this, of 8] ok empty_db_wf show ?thesis
    by (intro exI [of _ "fst ?run"]) (auto simp: demo_backend_def device_backend_def prod_eq_iff)
qed

section \<open>Reads after writes\<close>



text \<open>
  C28. A batched write is its single writes in one transaction: either the store is as it was, or
  every item is written and of an item given twice the last one counts; Ok is the latter.
\<close>

theorem batch_writes_all_or_nothing:
  assumes "reader_ok E F"
  shows
    "all_or_nothing (written (get_session F be) kvs db) db (put_sessions E be kvs db) \<and>
     all_or_nothing (written (get_sender_key F be) kvs db) db (put_sender_keys E be kvs db) \<and>
     ((\<forall>(a, key)\<in>set kvs. length key = 32) \<longrightarrow>
       all_or_nothing (written (load_identity F be) kvs db) db (put_identities E be kvs db)) \<and>
     all_or_nothing (written (load_prekey F be) iks db) db (store_prekeys E be iks u db)"
  using put_sessions_written [OF assms, of be kvs db] put_sender_keys_written [OF assms, of be kvs db]
    put_identities_written [OF assms, of kvs be db] store_prekeys_written [OF assms, of be iks u db]
  unfolding all_or_nothing_def by (metis prod.collapse)

theorem batch_writes_all_or_nothing_witness:
  "\<exists>db'. put_sessions demo_env (demo_backend 7) [(''a'', [5]), (''b'', [6]), (''a'', [7])] empty_db = (db', Inr ()) \<and>
         get_session demo_env (demo_backend 7) ''a'' db' = Inr (Some [7])"
proof -
  let ?run = "put_sessions demo_env (demo_backend 7) [(''a'', [5]), (''b'', [6]), (''a'', [7])] empty_db"
  have "snd ?run = Inr ()" by code_simp
  then have run: "?run = (fst ?run, Inr ())" by (metis prod.collapse)
  from batch_writes_all_or_nothing [OF demo_reader] run
  have "written (get_session demo_env (demo_backend 7)) [(''a'', [5]), (''b'', [6]), (''a'', [7])] empty_db (fst ?run)"
    unfolding all_or_nothing_def by (metis snd_conv)
  with run show ?thesis by (intro exI [of _ "fst ?run"]) (simp add: written_def)
qed

end
