(* ===== verification/Store_Rules.thy ===== *)
theory Store_Rules
  imports Store_Properties
begin

text \<open>
  The rules the store's statements were written for: batched reads that agree with single ones, the
  retention of message secrets, the two writers of tc tokens, the sent-message cache, patches of the
  app state and the marking of prekeys.
\<close>

section \<open>Batched reads\<close>

lemma get_sessions_singles:
  assumes "sql_wf db" "e_crypto F = e_crypto E" "e_answer F 0 = Ran" "get_sessions E be addrs db = Inr found"
  shows "distinct (map fst found) \<and>
         (\<forall>a r. (a, r) \<in> set found \<longleftrightarrow> a \<in> set addrs \<and> get_session F be a db = Inr (Some r))"
proof -
  have rows: "keyed_rows (sessions db)" using assms(1) by (simp add: sql_wf_def)
  have "select_chunks (e_answer E) 0 fst
      (\<lambda>(k, x). map_ok (Pair k) (backend_open_at E be ''sessions'' ''record'' (str_bytes k) x))
      (padded_chunks addrs) (of_device (be_device be) (sessions db)) = Inr found"
    using assms(4) by (simp add: get_sessions_def)
  from chunked_read_singles [OF this distinct_of_device [OF rows]]
  show ?thesis
    using assms(2,3)
    by (auto simp: set_of_device [OF rows] get_session_def sealed_read_def query_sql_def GET_SESSION_def
        backend_open_at_def map_ok_Inr_iff transpose_opt_def split: option.splits)
qed

lemma get_tc_tokens_singles:
  assumes "sql_wf db" "e_crypto F = e_crypto E" "e_answer F 0 = Ran" "get_tc_tokens E be jids db = Inr ts"
  shows "length ts = length jids \<and> (\<forall>i<length jids. get_tc_token F be (jids ! i) db = Inr (ts ! i))"
proof -
  let ?rows = "of_device (be_device be) (tc_tokens db)"
  have rows: "keyed_rows (tc_tokens db)" using assms(1) by (simp add: sql_wf_def)
  obtain found where sel: "select_chunks (e_answer E) 0 fst (\<lambda>(jid, r). map_ok (Pair jid) (tc_entry E be jid r))
      (padded_chunks jids) ?rows = Inr found" and ts: "ts = map (map_of (rev found)) jids"
    using assms(4) by (auto simp: get_tc_tokens_def and_then_Inr_iff)
  note read = chunked_read_singles [OF sel distinct_of_device [OF rows]]
  have "get_tc_token F be j db = Inr (map_of (rev found) j)" if j: "j \<in> set jids" for j
  proof -
    have conv: "tc_entry F be j = tc_entry E be j" using assms(2) by (simp add: tc_entry_def backend_open_at_def fun_eq_iff)
    have keys: "distinct (map fst (rev found))" using read by (simp add: rev_map [symmetric])
    show ?thesis
    proof (cases "map_of (tc_tokens db) (j, be_device be)")
      case None
      then have "(j, y) \<notin> set found" for y using read set_of_device [OF rows] by (metis option.distinct(1))
      then have "map_of (rev found) j = None" by (auto simp: map_of_eq_None_iff)
      with None assms(3) show ?thesis by (simp add: get_tc_token_def GET_TC_TOKEN_def query_sql_def)
    next
      case (Some r)
      then have row: "(j, r) \<in> set ?rows" by (simp add: set_of_device [OF rows])
      have "try_map (\<lambda>(jid, r). map_ok (Pair jid) (tc_entry E be jid r)) (rows_in_chunks fst jids ?rows) = Inr found"
        using select_chunks_rows [OF sel] by (simp add: rows_in_chunks_def)
      moreover have "(j, r) \<in> set (rows_in_chunks fst jids ?rows)" using row j by (simp add: rows_in_chunks_set)
      ultimately obtain e where e: "tc_entry E be j r = Inr e"
        by (auto simp: try_map_Inr_iff list_all2_conv_all_nth in_set_conv_nth map_ok_Inr_iff split_def)
      then have "(j, e) \<in> set found" using read row j by blast
      then have "map_of (rev found) j = Some e" using keys by simp
      with Some e conv assms(3) show ?thesis
        by (simp add: get_tc_token_def GET_TC_TOKEN_def query_sql_def)
    qed
  qed
  then show ?thesis using ts by simp
qed

text \<open>
  C29. A batched read gives what single reads would: \<open>get_sessions\<close> returns exactly the asked sessions
  that exist, each once, and \<open>get_tc_tokens\<close> answers each position asked as \<open>get_tc_token\<close> does, however
  the request falls into chunks and whatever it repeats.
\<close>

theorem batched_reads_are_single_reads:
  assumes "sql_wf db" "e_crypto F = e_crypto E" "e_answer F 0 = Ran"
  shows
    "(\<forall>found. get_sessions E be addrs db = Inr found \<longrightarrow> distinct (map fst found) \<and>
       (\<forall>a r. (a, r) \<in> set found \<longleftrightarrow> a \<in> set addrs \<and> get_session F be a db = Inr (Some r))) \<and>
     (\<forall>ts. get_tc_tokens E be jids db = Inr ts \<longrightarrow> length ts = length jids \<and>
       (\<forall>i<length jids. get_tc_token F be (jids ! i) db = Inr (ts ! i)))"
  using get_sessions_singles [OF assms] get_tc_tokens_singles [OF assms] by blast

definition demo_sessions :: sql_db where
  "demo_sessions = fst (put_sessions demo_env (demo_backend 7) [(''a'', [5]), (''b'', [6])] empty_db)"

lemma demo_sessions_wf: "sql_wf demo_sessions"
  by (simp add: demo_sessions_def put_sessions_def put_address_records_def batch_tx_def in_tx_def commit_tx_def
      empty_db_def demo_env_def demo_backend_def device_backend_def sealing_def backend_seal_at_def seal_at_def
      seal_def demo_crypto_def PUT_SESSION_def sql_wf_def keyed_rows_def query_sql_def)

theorem batched_reads_are_single_reads_witness:
  "\<exists>found. get_sessions demo_env (demo_backend 7) [''b'', ''c'', ''b''] demo_sessions = Inr found \<and>
     (\<forall>a r. (a, r) \<in> set found \<longleftrightarrow>
        a \<in> {''b'', ''c''} \<and> get_session demo_env (demo_backend 7) a demo_sessions = Inr (Some r))"
proof -
  have "is_ok (get_sessions demo_env (demo_backend 7) [''b'', ''c'', ''b''] demo_sessions)" by code_simp
  then obtain found where found: "get_sessions demo_env (demo_backend 7) [''b'', ''c'', ''b''] demo_sessions = Inr found"
    by (auto simp: is_ok_iff)
  have "e_answer demo_env 0 = Ran" by (simp add: demo_env_def)
  from batched_reads_are_single_reads [OF demo_sessions_wf refl this] found show ?thesis by auto
qed

section \<open>Message secrets\<close>

definition lasts_longer :: "i64 \<Rightarrow> i64 \<Rightarrow> bool" where
  "lasts_longer old new \<longleftrightarrow> new = 0 \<or> old \<noteq> 0 \<and> old \<le> new"

definition secret_kept :: "secret_row option \<Rightarrow> secret_row option \<Rightarrow> bool" where
  "secret_kept old new \<longleftrightarrow>
     (\<forall>r. old = Some r \<longrightarrow> (\<exists>r'. new = Some r' \<and> lasts_longer (sr_expires_at r) (sr_expires_at r') \<and>
                              sr_message_ts r \<le> sr_message_ts r'))"

lemma secret_kept_refl [simp]: "secret_kept r r"
  by (simp add: secret_kept_def lasts_longer_def)

lemma lasts_longer_trans: "lasts_longer a b \<Longrightarrow> lasts_longer b c \<Longrightarrow> lasts_longer a c"
  by (auto simp: lasts_longer_def)

lemma secret_kept_trans: "secret_kept a b \<Longrightarrow> secret_kept b c \<Longrightarrow> secret_kept a c"
  unfolding secret_kept_def by (blast intro: lasts_longer_trans order_trans)

lemma put_secret_kept: "secret_kept (map_of (msg_secrets db) k) (map_of (msg_secrets (PUT_MSG_SECRET c s m b x ts d db)) k)"
  by (auto simp: PUT_MSG_SECRET_def secret_kept_def lasts_longer_def split: option.splits)

lemma put_secret_lasts:
  "\<exists>r. map_of (msg_secrets (PUT_MSG_SECRET c s m b x ts d db)) ((c, s, m), d) = Some r \<and>
       lasts_longer x (sr_expires_at r) \<and> ts \<le> sr_message_ts r"
  by (auto simp: PUT_MSG_SECRET_def lasts_longer_def split: option.splits)

lemma secrets_loop:
  assumes "tx_loop ans n (\<lambda>n e.
             map_ok (\<lambda>sealed. PUT_MSG_SECRET (ms_chat e) (ms_sender e) (ms_id e) sealed
                       (ms_expires_at e) (ms_message_ts e) (be_device be)) (sl n e)) es db = Inr db'"
  shows "(\<forall>k. secret_kept (map_of (msg_secrets db) k) (map_of (msg_secrets db') k)) \<and>
         (\<forall>e\<in>set es. \<exists>r. map_of (msg_secrets db') ((ms_chat e, ms_sender e, ms_id e), be_device be) = Some r \<and>
            lasts_longer (ms_expires_at e) (sr_expires_at r) \<and> ms_message_ts e \<le> sr_message_ts r)"
  using assms
proof (induction es arbitrary: n db)
  case (Cons e es)
  let ?put = "\<lambda>b. PUT_MSG_SECRET (ms_chat e) (ms_sender e) (ms_id e) b (ms_expires_at e) (ms_message_ts e) (be_device be)"
  obtain b where rest: "tx_loop ans (Suc n) (\<lambda>n e.
             map_ok (\<lambda>sealed. PUT_MSG_SECRET (ms_chat e) (ms_sender e) (ms_id e) sealed
                       (ms_expires_at e) (ms_message_ts e) (be_device be)) (sl n e)) es (?put b db) = Inr db'"
    using Cons.prems by (auto simp: and_then_Inr_iff map_ok_Inr_iff)
  note ih = Cons.IH [OF rest]
  have "\<forall>k. secret_kept (map_of (msg_secrets db) k) (map_of (msg_secrets db') k)"
    using secret_kept_trans [OF put_secret_kept] ih by blast
  moreover obtain r where r: "map_of (msg_secrets (?put b db)) ((ms_chat e, ms_sender e, ms_id e), be_device be) = Some r"
      "lasts_longer (ms_expires_at e) (sr_expires_at r)" "ms_message_ts e \<le> sr_message_ts r"
    using put_secret_lasts by metis
  have "secret_kept (Some r) (map_of (msg_secrets db') ((ms_chat e, ms_sender e, ms_id e), be_device be))"
    using ih r(1) by metis
  then have "\<exists>r'. map_of (msg_secrets db') ((ms_chat e, ms_sender e, ms_id e), be_device be) = Some r' \<and>
      lasts_longer (ms_expires_at e) (sr_expires_at r') \<and> ms_message_ts e \<le> sr_message_ts r'"
    using r(2,3) unfolding secret_kept_def by (blast intro: lasts_longer_trans order_trans)
  ultimately show ?case using ih by simp
qed simp

text \<open>
  C30. Storing message secrets never shortens a retention and never forgets a message's time: a secret
  the store held lasts at least as long after the call, Ok or not (0 is for ever), and after Ok every
  secret of the call lasts at least as long as asked. The sweep deletes none that is for ever or not
  yet due.
\<close>

theorem secret_retention_never_shrinks:
  assumes "put_msg_secrets E be es db = (db', res)" "sql_wf db'" "delete_expired_msg_secrets F be cutoff db' = (db2, res2)"
  shows "(\<forall>k. secret_kept (map_of (msg_secrets db) k) (map_of (msg_secrets db') k)) \<and>
         (is_ok res \<longrightarrow> (\<forall>e\<in>set es. \<exists>r.
            map_of (msg_secrets db') ((ms_chat e, ms_sender e, ms_id e), be_device be) = Some r \<and>
            lasts_longer (ms_expires_at e) (sr_expires_at r) \<and> ms_message_ts e \<le> sr_message_ts r)) \<and>
         (\<forall>k r. map_of (msg_secrets db') k = Some r \<longrightarrow> sr_expires_at r = 0 \<or> cutoff < sr_expires_at r \<longrightarrow>
            map_of (msg_secrets db2) k = Some r)"
proof -
  have sweep: "map_of (msg_secrets db2) k = Some r"
    if "map_of (msg_secrets db') k = Some r" "sr_expires_at r = 0 \<or> cutoff < sr_expires_at r" for k r
    using assms(2,3) that
    by (auto simp: delete_expired_msg_secrets_def execute_count_sql_def execute_sql_def DELETE_EXPIRED_MSG_SECRETS_def
        map_of_delete_where sql_wf_def keyed_rows_def expired_secret_def split: answer.splits)
  show ?thesis
  proof (cases "es = []")
    case True
    with assms(1) sweep show ?thesis by (auto simp: put_msg_secrets_def)
  next
    case False
    let ?stmt = "\<lambda>n e. map_ok (\<lambda>sealed. PUT_MSG_SECRET (ms_chat e) (ms_sender e) (ms_id e) sealed
         (ms_expires_at e) (ms_message_ts e) (be_device be))
       (backend_seal_at E n be ''msg_secrets'' ''secret'' (secret_row_key (ms_chat e) (ms_sender e) (ms_id e)) (ms_secret e))"
    obtain res1 where tx: "in_tx (e_answer E) ?stmt es db = (db', res1)" and res: "is_ok res = is_ok res1"
      using assms(1) False by (auto simp: put_msg_secrets_def is_ok_iff map_ok_Inr_iff split: prod.splits)
    have "tx_loop (e_answer E) 0 ?stmt es db = Inr db'" if "is_ok res \<or> db' \<noteq> db"
      using in_tx_cases [OF tx] that res by (auto simp: is_ok_iff)
    from secrets_loop [OF this] sweep show ?thesis by (cases "db' = db") auto
  qed
qed

definition demo_secret :: "i64 \<Rightarrow> msg_secret_entry" where
  "demo_secret x = \<lparr>ms_chat = ''c'', ms_sender = ''s'', ms_id = ''m'', ms_secret = [1], ms_expires_at = x, ms_message_ts = 4\<rparr>"

theorem secret_retention_never_shrinks_witness:
  "\<exists>db' r. put_msg_secrets demo_env (demo_backend 7) [demo_secret 9, demo_secret 5] empty_db = (db', Inr 2) \<and>
      map_of (msg_secrets db') ((''c'', ''s'', ''m''), 7) = Some r \<and> lasts_longer 9 (sr_expires_at r)"
proof -
  let ?run = "put_msg_secrets demo_env (demo_backend 7) [demo_secret 9, demo_secret 5] empty_db"
  have two: "snd ?run = Inr 2" by code_simp
  then have run: "?run = (fst ?run, Inr 2)" by (metis prod.collapse)
  have wf: "sql_wf (fst ?run)" by code_simp
  obtain db2 res2 where del: "delete_expired_msg_secrets demo_env (demo_backend 7) 0 (fst ?run) = (db2, res2)" by fastforce
  from secret_retention_never_shrinks [OF run wf del]
  have "\<exists>r. map_of (msg_secrets (fst ?run)) ((''c'', ''s'', ''m''), 7) = Some r \<and> lasts_longer 9 (sr_expires_at r)"
    by (auto simp: demo_secret_def demo_backend_def device_backend_def)
  with run show ?thesis by blast
qed

section \<open>Tc tokens\<close>

definition stored_token :: "sql_db \<Rightarrow> string \<Rightarrow> bits32 \<Rightarrow> (bytes \<times> i64 \<times> i64 option) option" where
  "stored_token db jid d =
     map_option (\<lambda>r. (tc_token r, tc_token_timestamp r, tc_sender_timestamp r)) (map_of (tc_tokens db) (jid, d))"

lemma touch_stored:
  "stored_token (TOUCH_SENDER_TIMESTAMP jid t d now db) j e =
   (if j = jid \<and> e = d
    then Some (case stored_token db jid d of
                 None \<Rightarrow> ([], t, Some t)
               | Some (tok, ts, sts) \<Rightarrow> (tok, ts, Some (case sts of None \<Rightarrow> t | Some s \<Rightarrow> max s t)))
    else stored_token db j e)"
  by (auto simp: stored_token_def TOUCH_SENDER_TIMESTAMP_def Let_def max_def split: option.splits)

lemma received_stored:
  "stored_token (STORE_RECEIVED jid tok ts d now db) j e =
   (if j = jid \<and> e = d
    then Some (case stored_token db jid d of
                 None \<Rightarrow> (tok, ts, None)
               | Some (old, ots, sts) \<Rightarrow> if old = [] \<or> ots \<le> ts then (tok, ts, sts) else (old, ots, sts))
    else stored_token db j e)"
  by (auto simp: stored_token_def STORE_RECEIVED_def split: option.splits)

lemma touch_run:
  "touch_sender_timestamp E now be jid t db = (db', Inr ()) \<Longrightarrow> db' = TOUCH_SENDER_TIMESTAMP jid t (be_device be) now db"
  by (auto simp: touch_sender_timestamp_def execute_sql_def split: answer.splits)

lemma received_run:
  assumes "store_received E now be jid tok ts db = (db', Inr ())"
  obtains b where "backend_seal_at E 0 be ''tc_tokens'' ''token'' (str_bytes jid) tok = Inr b"
    "db' = STORE_RECEIVED jid b ts (be_device be) now db"
  using assms unfolding store_received_def by (rule sealed_write_Inr)

text \<open>
  C31. The two writers of a tc token do not lose each other's work: a touch keeps the token and moves
  the sender time forward only, a received token never replaces a newer one and keeps the sender
  time, and the two give the same row in either order.
\<close>

theorem tc_token_writers_commute:
  assumes "touch_sender_timestamp E now be jid t db = (db1, Inr ())" "store_received F now be jid tok ts db1 = (db12, Inr ())"
    and "store_received F now be jid tok ts db = (db2, Inr ())" "touch_sender_timestamp E now be jid t db2 = (db21, Inr ())"
  shows "stored_token db12 j e = stored_token db21 j e \<and>
    (\<forall>old ots sts. stored_token db jid (be_device be) = Some (old, ots, sts) \<longrightarrow>
       (\<exists>new nts s. stored_token db12 jid (be_device be) = Some (new, nts, Some s) \<and> t \<le> s \<and>
          (\<forall>s0. sts = Some s0 \<longrightarrow> s0 \<le> s) \<and> (old \<noteq> [] \<longrightarrow> ots \<le> nts) \<and> (old \<noteq> [] \<and> ts < ots \<longrightarrow> new = old)))"
proof -
  obtain b where b: "backend_seal_at F 0 be ''tc_tokens'' ''token'' (str_bytes jid) tok = Inr b"
      "db12 = STORE_RECEIVED jid b ts (be_device be) now db1"
    using received_run [OF assms(2)] .
  then have db2: "db2 = STORE_RECEIVED jid b ts (be_device be) now db"
    using received_run [OF assms(3)] by (metis Inr_inject)
  have "db1 = TOUCH_SENDER_TIMESTAMP jid t (be_device be) now db"
      "db21 = TOUCH_SENDER_TIMESTAMP jid t (be_device be) now db2"
    using touch_run assms(1,4) by blast+
  then show ?thesis
    unfolding b(2) db2
    by (auto simp: touch_stored received_stored split: option.splits prod.splits)
qed

theorem tc_token_writers_commute_witness:
  "\<exists>db1 db12 db2 db21.
     touch_sender_timestamp demo_env 9 (demo_backend 7) ''j'' 5 empty_db = (db1, Inr ()) \<and>
     store_received demo_env 9 (demo_backend 7) ''j'' [1] 3 db1 = (db12, Inr ()) \<and>
     store_received demo_env 9 (demo_backend 7) ''j'' [1] 3 empty_db = (db2, Inr ()) \<and>
     touch_sender_timestamp demo_env 9 (demo_backend 7) ''j'' 5 db2 = (db21, Inr ()) \<and>
     stored_token db12 ''j'' 7 = stored_token db21 ''j'' 7"
proof -
  let ?be = "demo_backend 7"
  let ?t = "\<lambda>db. touch_sender_timestamp demo_env 9 ?be ''j'' 5 db" and ?r = "\<lambda>db. store_received demo_env 9 ?be ''j'' [1] 3 db"
  have "snd (?t empty_db) = Inr () \<and> snd (?r (fst (?t empty_db))) = Inr () \<and> snd (?r empty_db) = Inr () \<and>
      snd (?t (fst (?r empty_db))) = Inr ()" by code_simp
  then have runs: "?t empty_db = (fst (?t empty_db), Inr ())"
      "?r (fst (?t empty_db)) = (fst (?r (fst (?t empty_db))), Inr ())" "?r empty_db = (fst (?r empty_db), Inr ())"
      "?t (fst (?r empty_db)) = (fst (?t (fst (?r empty_db))), Inr ())"
    by (metis prod.collapse)+
  from tc_token_writers_commute [OF runs, of "''j''" 7] runs show ?thesis by blast
qed

section \<open>Sent messages\<close>

lemma take_sent_cases:
  assumes "take_sent_message E be chat mid db = (db', res)"
  shows "(db' = db \<or> (\<exists>p. open_sent E be chat mid (GET_SENT_MESSAGE chat mid (be_device be) db) = Inr p) \<and>
            db' = DELETE_SENT_MESSAGE chat mid (be_device be) db) \<and>
         (\<forall>p. res = Inr p \<longrightarrow> open_sent E be chat mid (GET_SENT_MESSAGE chat mid (be_device be) db) = Inr p \<and>
            (p = None \<and> db' = db \<or> db' = DELETE_SENT_MESSAGE chat mid (be_device be) db))"
  using assms
  by (auto simp: take_sent_message_def execute_sql_def and_then_def query_sql_def open_sent_def Let_def
      split: sum.splits answer.splits prod.splits if_splits option.splits)

text \<open>
  Taking a sent message consumes it: Ok gives what a read would have given and the message is
  gone, no other message is touched, and a message that does not open is left in the store.
\<close>

theorem take_sent_message_consumes:
  assumes "e_crypto F = e_crypto E" "e_answer F 0 = Ran" "take_sent_message E be chat mid db = (db', res)"
  shows "(\<forall>p. res = Inr p \<longrightarrow> get_sent_message F be chat mid db = Inr p \<and> get_sent_message F be chat mid db' = Inr None) \<and>
         (\<forall>c m. (c, m) \<noteq> (chat, mid) \<longrightarrow> get_sent_message F be c m db' = get_sent_message F be c m db) \<and>
         (\<forall>e. get_sent_message F be chat mid db = Inl e \<longrightarrow> db' = db \<and> \<not> is_ok res)"
proof -
  have same: "open_sent F be = open_sent E be"
    using assms(1) by (simp add: open_sent_def backend_open_at_def [abs_def] fun_eq_iff)
  have read: "get_sent_message F be c m x = open_sent E be c m (GET_SENT_MESSAGE c m (be_device be) x)" for c m x
    using assms(2) same by (simp add: get_sent_message_def query_sql_def)
  have del: "GET_SENT_MESSAGE c m (be_device be) (DELETE_SENT_MESSAGE chat mid (be_device be) db) =
      (if (c, m) = (chat, mid) then None else GET_SENT_MESSAGE c m (be_device be) db)" for c m
    by (auto simp: GET_SENT_MESSAGE_def DELETE_SENT_MESSAGE_def AList.delete_conv')
  have none: "open_sent E be chat mid None = Inr None" by (simp add: open_sent_def)
  show ?thesis
    using take_sent_cases [OF assms(3)] unfolding read
    by (auto simp: del none is_ok_iff) (metis del none Inr_inject)
qed

theorem take_sent_message_consumes_witness:
  "\<exists>db1 db2. store_sent_message demo_env 3 (demo_backend 7) ''c'' ''m'' [4] empty_db = (db1, Inr ()) \<and>
     take_sent_message demo_env (demo_backend 7) ''c'' ''m'' db1 = (db2, Inr (Some [4])) \<and>
     get_sent_message demo_env (demo_backend 7) ''c'' ''m'' db2 = Inr None"
proof -
  let ?one = "store_sent_message demo_env 3 (demo_backend 7) ''c'' ''m'' [4] empty_db"
  let ?two = "take_sent_message demo_env (demo_backend 7) ''c'' ''m'' (fst ?one)"
  have "snd ?one = Inr () \<and> snd ?two = Inr (Some [4])" by code_simp
  then have runs: "?one = (fst ?one, Inr ())" "?two = (fst ?two, Inr (Some [4]))" by (metis prod.collapse)+
  have "e_answer demo_env 0 = Ran" by (simp add: demo_env_def)
  from take_sent_message_consumes [OF refl this runs(2)] runs show ?thesis by blast
qed

section \<open>Marking prekeys\<close>

lemma mark_each:
  "tx_loop ans n (\<lambda>n i. Inr (MARK_PREKEY_UPLOADED i d)) ids db = Inr db' \<Longrightarrow> db' = MARK_UPLOADED_ARRAY ids d db"
proof (induction ids arbitrary: n db)
  case Nil
  then show ?case by (simp add: MARK_UPLOADED_ARRAY_def split_def)
next
  case (Cons i ids)
  then have "db' = MARK_UPLOADED_ARRAY ids d (MARK_PREKEY_UPLOADED i d db)"
    by (auto simp: and_then_Inr_iff)
  moreover have "map (\<lambda>(k, r). if snd k = d \<and> fst k \<in> set ids then (k, fst r, True) else (k, r))
      (map (\<lambda>(k, r). if k = (i, d) then (k, fst r, True) else (k, r)) t) =
    map (\<lambda>(k, r). if snd k = d \<and> fst k \<in> set (i # ids) then (k, fst r, True) else (k, r)) t"
    for t :: "(bits32 \<times> bits32, bytes \<times> bool) tbl"
    by (induction t) auto
  ultimately show ?case by (simp add: MARK_UPLOADED_ARRAY_def MARK_PREKEY_UPLOADED_def del: map_map)
qed

text \<open>
  Marking prekeys as uploaded is one statement with an array on Postgres and a loop in one
  transaction on SQLite, and both do the same to the store: the listed prekeys of the account that
  still exist are marked, none is created, and it is all of them or none.
\<close>

lemma mark_uploaded_same_on_both_drivers:
  assumes "mark_uploaded E drv be ids db = (db', res)"
  shows "(db' = db \<or> db' = MARK_UPLOADED_ARRAY ids (be_device be) db) \<and>
         (res = Inr () \<longrightarrow> db' = MARK_UPLOADED_ARRAY ids (be_device be) db) \<and>
         map fst (prekeys db') = map fst (prekeys db)"
proof -
  have empty: "MARK_UPLOADED_ARRAY [] d db = db" for d by (simp add: MARK_UPLOADED_ARRAY_def split_def)
  have keys: "map fst (prekeys (MARK_UPLOADED_ARRAY ids d db)) = map fst (prekeys db)" for d
    by (simp add: MARK_UPLOADED_ARRAY_def split_def comp_def)
  have "(db' = db \<or> db' = MARK_UPLOADED_ARRAY ids (be_device be) db) \<and>
      (res = Inr () \<longrightarrow> db' = MARK_UPLOADED_ARRAY ids (be_device be) db)"
  proof (cases "ids = [] \<or> drv = Postgres")
    case True
    with assms empty show ?thesis
      by (auto simp: mark_uploaded_def execute_sql_def split: answer.splits if_splits)
  next
    case False
    then have "in_tx (e_answer E) (\<lambda>n i. Inr (MARK_PREKEY_UPLOADED i (be_device be))) ids db = (db', res)"
      using assms by (cases drv) (auto simp: mark_uploaded_def)
    from in_tx_cases [OF this] mark_each show ?thesis by blast
  qed
  with keys show ?thesis by auto
qed

section \<open>Patches of the app state\<close>

lemma tx_loop_append:
  "tx_loop ans n stmt (xs @ ys) db = and_then (tx_loop ans n stmt xs db) (tx_loop ans (n + length xs) stmt ys)"
proof (induction xs arbitrary: n db)
  case (Cons x xs)
  then show ?case by (cases "stmt n x") (auto simp: and_then_def query_sql_def split: sum.splits answer.splits)
qed simp

lemma patch_statement_simps:
  "patch_statement E be name v n (SetVersion data) = Inr (SET_VERSION name data (be_device be))"
  "patch_statement E be name v n (RemoveMac i) = Inr (DELETE_MUTATION_MAC name i (be_device be))"
  "patch_statement E be name v n (AddMac i m) =
     map_ok (\<lambda>value. PUT_MUTATION_MAC name (sint v) i value (be_device be)) (seal_mac E n be name i m)"
  by (simp_all add: patch_statement_def delete_mac_in_def put_mac_in_def)

lemma remove_macs_loop:
  "tx_loop ans n (patch_statement E be name v) (map RemoveMac removed) db = Inr db' \<Longrightarrow>
   app_state_versions db' = app_state_versions db \<and>
   (\<forall>m i. GET_MUTATION_MAC m i (be_device be) db' =
      (if m = name \<and> i \<in> set removed then None else GET_MUTATION_MAC m i (be_device be) db))"
proof (induction removed arbitrary: n db)
  case (Cons r removed)
  let ?db = "DELETE_MUTATION_MAC name r (be_device be) db"
  have "tx_loop ans (Suc n) (patch_statement E be name v) (map RemoveMac removed) ?db = Inr db'"
    using Cons.prems by (auto simp: patch_statement_simps and_then_Inr_iff)
  from Cons.IH [OF this] show ?case
    by (auto simp: DELETE_MUTATION_MAC_def GET_MUTATION_MAC_def AList.delete_conv')
qed simp

lemma add_macs_loop:
  assumes "reader_ok E F"
    and "tx_loop ans n (patch_statement E be name v) (map (\<lambda>(i, m). AddMac i m) added) db = Inr db'"
  shows "app_state_versions db' = app_state_versions db \<and>
         written (\<lambda>i db. get_mutation_mac F be name i db) added db db'"
  using assms(2)
proof (induction added arbitrary: n db)
  case Nil
  then show ?case by (simp add: written_def)
next
  case (Cons im added)
  obtain i m where im: "im = (i, m)" by (cases im)
  then obtain b where b: "seal_mac E n be name i m = Inr b"
      "tx_loop ans (Suc n) (patch_statement E be name v) (map (\<lambda>(i, m). AddMac i m) added)
         (PUT_MUTATION_MAC name (sint v) i b (be_device be) db) = Inr db'"
    using Cons.prems by (auto simp: patch_statement_simps and_then_Inr_iff map_ok_Inr_iff)
  have "backend_open_at F be ''app_state_mutation_macs'' ''value_mac'' (joined_row [str_bytes name, i]) b = Inr m"
    using backend_open_seal b(1) assms(1) by (auto simp: seal_mac_def reader_ok_def)
  then have "get_mutation_mac F be name j (PUT_MUTATION_MAC name (sint v) i b (be_device be) db) =
      (if j = i then Inr (Some m) else get_mutation_mac F be name j db)" for j
    using assms(1)
    by (auto simp: get_mutation_mac_def sealed_read_def GET_MUTATION_MAC_def PUT_MUTATION_MAC_def reader_ok_def query_sql_def)
  with Cons.IH [OF b(2)] im show ?case
    by (auto simp: written_def map_add_def PUT_MUTATION_MAC_def split: option.splits)
qed

definition patched ::
  "('k, 'h, 'v) codec \<Rightarrow> sql_env \<Rightarrow> sql_backend \<Rightarrow> string \<Rightarrow> 'h \<Rightarrow> bytes list \<Rightarrow> (bytes \<times> bytes) list \<Rightarrow> sql_db \<Rightarrow> sql_db \<Rightarrow> bool" where
  "patched K F be name state removed added db db' \<longleftrightarrow>
     get_version K F be name db' = Inr (Some state) \<and>
     (\<forall>i. get_mutation_mac F be name i db' =
        (case map_of (rev added) i of
           Some m \<Rightarrow> Inr (Some m)
         | None \<Rightarrow> if i \<in> set removed then Inr None else get_mutation_mac F be name i db))"

lemma patch_loop:
  assumes ok: "reader_ok E F" and codec: "dec_hash_state K (enc_hash_state K state) = Inr stored"
    and seal: "backend_seal_at E k be ''app_state_versions'' ''state_data'' (str_bytes name) (enc_hash_state K state) = Inr data"
    and run: "tx_loop ans 0 (patch_statement E be name v)
      (SetVersion data # map RemoveMac removed @ map (\<lambda>(i, m). AddMac i m) added) db = Inr db'"
  shows "patched K F be name stored removed added db db'"
proof -
  let ?db = "SET_VERSION name data (be_device be) db"
  obtain db1 where one: "tx_loop ans 1 (patch_statement E be name v) (map RemoveMac removed) ?db = Inr db1"
      and two: "tx_loop ans (Suc (length removed)) (patch_statement E be name v) (map (\<lambda>(i, m). AddMac i m) added) db1 = Inr db'"
    using run by (auto simp: tx_loop_append patch_statement_simps and_then_Inr_iff)
  note rem = remove_macs_loop [OF one] and add = add_macs_loop [OF ok two]
  have "app_state_versions db' = app_state_versions ?db" using rem add by simp
  then have "GET_VERSION name (be_device be) db' = Some data" by (simp add: GET_VERSION_def SET_VERSION_def)
  moreover have "backend_open_at F be ''app_state_versions'' ''state_data'' (str_bytes name) data = Inr (enc_hash_state K state)"
    using backend_open_seal [OF _ _ _ seal] ok by (simp add: reader_ok_def)
  ultimately have "get_version K F be name db' = Inr (Some stored)"
    using ok codec by (simp add: get_version_def sealed_read_def reader_ok_def query_sql_def)
  moreover have "get_mutation_mac F be name i db1 = (if i \<in> set removed then Inr None else get_mutation_mac F be name i db)" for i
    using rem ok
    by (auto simp: get_mutation_mac_def sealed_read_def reader_ok_def query_sql_def)
       (simp add: GET_MUTATION_MAC_def SET_VERSION_def)
  ultimately show ?thesis using add by (auto simp: patched_def written_def split: option.splits)
qed

text \<open>
  C34. A patch of an app-state collection is all or nothing: the new version (read back as it was, its
  entries in order), the removals and the additions are there together, the additions after the
  removals, or the store is as it was; Ok is the former.
\<close>

theorem commit_patch_is_atomic:
  assumes "reader_ok E F" "blob_lib_ok L" "hash_state_ok state"
    and "commit_patch (blob_codec L) E be name state removed added db = (db', res)"
  shows "(db' = db \<or> patched (blob_codec L) F be name (as_stored state) removed added db db') \<and>
         (res = Inr () \<longrightarrow> patched (blob_codec L) F be name (as_stored state) removed added db db')"
proof (cases "backend_seal_at E (Suc (length removed + length added)) be ''app_state_versions'' ''state_data''
    (str_bytes name) (encode_hash_state L state)")
  case (Inl e)
  with assms(4) show ?thesis by (auto simp: commit_patch_def)
next
  case (Inr data)
  then have seal: "backend_seal_at E (Suc (length removed + length added)) be ''app_state_versions'' ''state_data''
      (str_bytes name) (enc_hash_state (blob_codec L) state) = Inr data" by simp
  have codec: "dec_hash_state (blob_codec L) (enc_hash_state (blob_codec L) state) = Inr (as_stored state)"
    using hash_state_round_trip [OF assms(2,3)] by simp
  from Inr have "in_tx (e_answer E) (patch_statement E be name (hs_version state))
      (SetVersion data # map RemoveMac removed @ map (\<lambda>(i, m). AddMac i m) added) db = (db', res)"
    using assms(4) by (simp add: commit_patch_def)
  from in_tx_cases [OF this] patch_loop [OF assms(1) codec seal] show ?thesis by blast
qed

theorem commit_patch_is_atomic_witness:
  "\<exists>db'. commit_patch demo_codec demo_env (demo_backend 7) ''regular'' demo_hash_state [[1]] [([2], [8])] empty_db =
           (db', Inr ()) \<and>
         patched demo_codec demo_env (demo_backend 7) ''regular'' (as_stored demo_hash_state) [[1]] [([2], [8])] empty_db db'"
proof -
  let ?run = "commit_patch demo_codec demo_env (demo_backend 7) ''regular'' demo_hash_state [[1]] [([2], [8])] empty_db"
  have "snd ?run = Inr ()" by code_simp
  then have run: "?run = (fst ?run, Inr ())" by (metis prod.collapse)
  from commit_patch_is_atomic [OF demo_reader demo_lib_ok demo_hash_state_ok run [unfolded demo_codec_def]] run
  show ?thesis unfolding demo_codec_def by blast
qed

end
