(* ===== verification/Blob_Properties.thy ===== *)
theory Blob_Properties
  imports Blob_Demo
begin

text \<open>The round trip of the stored blobs, old and new.\<close>

definition demo_bincode_lib ::
  "((bool, u8, u8, bytes) legacy_device_value, (bool, u8, u8, bytes, bytes, unit, unit) device_value) bincode_lib" where
  "demo_bincode_lib =
     \<lparr>read_legacy_device = (\<lambda>b. if b = [1] then Inr (demo_legacy, 1) else Inl ''eof''),
      read_hash_state = (\<lambda>b. Inl ''eof''), read_sync_key = (\<lambda>b. Inl ''eof''),
      write_device = (\<lambda>d. Inr (encode_device demo_lib d)), show_store_error = (\<lambda>_. [])\<rparr>"

text \<open>
  C32. What the codec of the stored blobs encodes it decodes: a device with every persisted field as
  it was (the runtime-only ones restored, an audience the library does not read back unknown), an
  app-state version with the same map, a sync key of 32 bytes. The bytes of a version do not depend on
  the order its map iterates in. A device that decodes has keys and certificates of their sizes, so it
  can be saved again. A legacy device that reads whole upgrades to a blob that decodes to exactly its
  fields: the upgrade's own check never refuses it.
\<close>

theorem stored_blobs_round_trip:
  assumes "blob_lib_ok L"
  shows
    "(device_ok d \<longrightarrow> decode_device L (encode_device L d) = Inr (restored L d)) \<and>
     (hash_state_ok s \<longrightarrow>
        decode_hash_state L (encode_hash_state L s) = Inr (as_stored s) \<and>
        map_of (hs_index_value_map (as_stored s)) = map_of (hs_index_value_map s)) \<and>
     decode_app_state_sync_key L (encode_app_state_sync_key L k) =
       (if length (sk_key_data k) = 32 then Inr k
        else Inl (wrong_length ''app_state_sync_key.key_data'' 32 (length (sk_key_data k)))) \<and>
     (hash_state_ok s \<longrightarrow> hash_state_ok (s\<lparr>hs_index_value_map := m\<rparr>) \<longrightarrow> map_of m = map_of (hs_index_value_map s) \<longrightarrow>
        encode_hash_state L (s\<lparr>hs_index_value_map := m\<rparr>) = encode_hash_state L s) \<and>
     (decode_device L bs = Inr d' \<longrightarrow> device_ok d') \<and>
     (read_legacy_device R blob = Inr (old, length blob) \<longrightarrow> legacy_ok old \<longrightarrow>
        is_ok (write_device R (device_of_legacy L old)) \<longrightarrow>
        (\<exists>new. upgrade_device_blob (blob_bincode L R) (blob_codec L) blob row = Inr new \<and>
               decode_device L new = Inr (device_of_legacy L old)))"
proof (intro conjI impI)
  assume ok: "hash_state_ok s" "hash_state_ok (s\<lparr>hs_index_value_map := m\<rparr>)" "map_of m = map_of (hs_index_value_map s)"
  then show "encode_hash_state L (s\<lparr>hs_index_value_map := m\<rparr>) = encode_hash_state L s"
    by (intro encode_hash_state_order) simp_all
next
  assume legacy: "read_legacy_device R blob = Inr (old, length blob)" "legacy_ok old"
    and "is_ok (write_device R (device_of_legacy L old))"
  then obtain b where "write_device R (device_of_legacy L old) = Inr b" by (auto simp: is_ok_iff)
  with upgrade_device_blob_exact [OF assms legacy] show "\<exists>new. upgrade_device_blob (blob_bincode L R) (blob_codec L) blob row =
      Inr new \<and> decode_device L new = Inr (device_of_legacy L old)" by blast
qed (simp_all add: assms device_round_trip hash_state_round_trip as_stored_same_map sync_key_round_trip decode_device_ok)

theorem stored_blobs_round_trip_witness:
  "decode_device demo_lib (encode_device demo_lib demo_device) = Inr (restored demo_lib demo_device) \<and>
   dv_status_privacy (restored demo_lib demo_device) = Some [4] \<and>
   decode_hash_state demo_lib (encode_hash_state demo_lib demo_hash_state) = Inr (as_stored demo_hash_state) \<and>
   decode_app_state_sync_key demo_lib (encode_app_state_sync_key demo_lib demo_sync_key) = Inr demo_sync_key \<and>
   (\<exists>new. upgrade_device_blob (blob_bincode demo_lib demo_bincode_lib) (blob_codec demo_lib) [1] ''row'' = Inr new \<and>
      decode_device demo_lib new = Inr (device_of_legacy demo_lib demo_legacy))"
  using stored_blobs_round_trip [OF demo_lib_ok, of demo_device demo_hash_state demo_sync_key _ _ _ demo_bincode_lib "[1]" demo_legacy "''row''"]
    demo_device_ok demo_hash_state_ok demo_legacy_ok
  by (simp add: demo_bincode_lib_def demo_sync_key_def restored_def demo_device_def status_privacy_from_bytes_def demo_lib_def)

end
