(* ===== verification/Turso_Store.thy ===== *)
theory Turso_Store
  imports Turso_Exec
begin

text \<open>
  The store traits on the Turso engine (\<open>storage/turso/signal_store.rs\<close>, \<open>signal_sql.rs\<close>,
  \<open>protocol_store.rs\<close>, \<open>protocol_batch_sql.rs\<close>, \<open>protocol_decode.rs\<close>, \<open>tc_token_sql.rs\<close>,
  \<open>app_sync_store.rs\<close>, \<open>app_sync_sql.rs\<close>, \<open>msg_secret_store.rs\<close>, \<open>device_store.rs\<close>,
  \<open>maintenance_sql.rs\<close>): the calls of the SQL family again, with this engine's jobs, rows and readers.
\<close>

section \<open>The backend\<close>

definition turso_seal_at ::
  "turso_env \<Rightarrow> nat \<Rightarrow> sql_backend \<Rightarrow> string \<Rightarrow> string \<Rightarrow> bytes \<Rightarrow> bytes \<Rightarrow> store_error + bytes" where
  "turso_seal_at T n be table column row plain =
     seal_at (t_crypto T) (t_nonce T n) (be_cipher be) (be_device be) table column row plain"

definition turso_open_at :: "turso_env \<Rightarrow> sql_backend \<Rightarrow> string \<Rightarrow> string \<Rightarrow> bytes \<Rightarrow> bytes \<Rightarrow> store_error + bytes" where
  "turso_open_at T be table column row stored =
     open_at (t_crypto T) (be_cipher be) (be_device be) table column row stored"

text \<open>Seal, then one job with the statement on the sealed bytes; and one row of one blob, opened.\<close>

definition turso_sealed_write ::
  "turso_env \<Rightarrow> sql_backend \<Rightarrow> string \<Rightarrow> string \<Rightarrow> bytes \<Rightarrow> bytes \<Rightarrow> (bytes \<Rightarrow> 'db \<Rightarrow> 'db) \<Rightarrow> 'db \<Rightarrow>
   'db \<times> (store_error + unit)" where
  "turso_sealed_write T be table column row plain stmt db =
     (case turso_seal_at T 0 be table column row plain of
        Inl e \<Rightarrow> (db, Inl e)
      | Inr b \<Rightarrow> conn_run T (stmt b) db)"

definition blob_rows :: "bytes option \<Rightarrow> turso_row list" where
  "blob_rows v = (case v of None \<Rightarrow> [] | Some b \<Rightarrow> [[VBlob b]])"

definition turso_fetch_blob :: "turso_env \<Rightarrow> bytes option \<Rightarrow> store_error + bytes option" where
  "turso_fetch_blob T found = and_then (fetch_optional T 0 (blob_rows found)) (first_blob T)"

definition turso_sealed_read ::
  "turso_env \<Rightarrow> sql_backend \<Rightarrow> string \<Rightarrow> string \<Rightarrow> bytes \<Rightarrow> bytes option \<Rightarrow> store_error + bytes option" where
  "turso_sealed_read T be table column row found =
     and_then (turso_fetch_blob T found) (\<lambda>stored.
       transpose_opt (map_option (turso_open_at T be table column row) stored))"

section \<open>Signal keys\<close>

definition turso_put_identity ::
  "turso_env \<Rightarrow> sql_backend \<Rightarrow> string \<Rightarrow> bytes \<Rightarrow> sql_db \<Rightarrow> sql_db \<times> (store_error + unit)" where
  "turso_put_identity T be address key db =
     turso_sealed_write T be ''identities'' ''key'' (str_bytes address) key
       (\<lambda>sealed. PUT_IDENTITY address sealed (be_device be)) db"

definition turso_load_identity :: "turso_env \<Rightarrow> sql_backend \<Rightarrow> string \<Rightarrow> sql_db \<Rightarrow> store_error + bytes option" where
  "turso_load_identity T be address db =
     and_then (turso_fetch_blob T (LOAD_IDENTITY address (be_device be) db)) (\<lambda>row.
       case row of
         None \<Rightarrow> Inr None
       | Some stored \<Rightarrow>
           and_then (turso_open_at T be ''identities'' ''key'' (str_bytes address) stored) (\<lambda>b.
             if length b = 32 then Inr (Some b)
             else Inl (Validation (''Invalid identity key length: '' @ dec (length b)))))"

definition turso_delete_identity :: "turso_env \<Rightarrow> sql_backend \<Rightarrow> string \<Rightarrow> sql_db \<Rightarrow> sql_db \<times> (store_error + unit)" where
  "turso_delete_identity T be address db = conn_run T (DELETE_IDENTITY address (be_device be)) db"

definition turso_get_session :: "turso_env \<Rightarrow> sql_backend \<Rightarrow> string \<Rightarrow> sql_db \<Rightarrow> store_error + bytes option" where
  "turso_get_session T be address db =
     turso_sealed_read T be ''sessions'' ''record'' (str_bytes address) (GET_SESSION address (be_device be) db)"

definition turso_put_session ::
  "turso_env \<Rightarrow> sql_backend \<Rightarrow> string \<Rightarrow> bytes \<Rightarrow> sql_db \<Rightarrow> sql_db \<times> (store_error + unit)" where
  "turso_put_session T be address session db =
     turso_sealed_write T be ''sessions'' ''record'' (str_bytes address) session
       (\<lambda>sealed. PUT_SESSION address sealed (be_device be)) db"

definition turso_delete_session :: "turso_env \<Rightarrow> sql_backend \<Rightarrow> string \<Rightarrow> sql_db \<Rightarrow> sql_db \<times> (store_error + unit)" where
  "turso_delete_session T be address db = conn_run T (DELETE_SESSION address (be_device be)) db"

definition turso_store_prekey ::
  "turso_env \<Rightarrow> sql_backend \<Rightarrow> u32 \<Rightarrow> bytes \<Rightarrow> bool \<Rightarrow> sql_db \<Rightarrow> sql_db \<times> (store_error + unit)" where
  "turso_store_prekey T be i r uploaded db =
     turso_sealed_write T be ''prekeys'' ''key'' (be_bytes32 i) r
       (\<lambda>sealed. STORE_PREKEY i sealed uploaded (be_device be)) db"

definition turso_load_prekey :: "turso_env \<Rightarrow> sql_backend \<Rightarrow> u32 \<Rightarrow> sql_db \<Rightarrow> store_error + bytes option" where
  "turso_load_prekey T be i db =
     turso_sealed_read T be ''prekeys'' ''key'' (be_bytes32 i) (LOAD_PREKEY i (be_device be) db)"

definition turso_remove_prekey :: "turso_env \<Rightarrow> sql_backend \<Rightarrow> u32 \<Rightarrow> sql_db \<Rightarrow> sql_db \<times> (store_error + unit)" where
  "turso_remove_prekey T be i db = conn_run T (DELETE_PREKEY i (be_device be)) db"

text \<open>One row always; \<open>max as u32\<close> keeps the low 32 bits.\<close>

definition turso_get_max_prekey_id :: "turso_env \<Rightarrow> sql_backend \<Rightarrow> sql_db \<Rightarrow> store_error + u32" where
  "turso_get_max_prekey_id T be db =
     and_then (fetch_optional T 0 [[of_i32 (MAX_PREKEY_ID (be_device be) db)]]) (\<lambda>row.
     and_then (transpose_opt (map_option (\<lambda>r. int_at T r 0) row)) (\<lambda>max.
       Inr (word_of_int (case max of None \<Rightarrow> 0 | Some n \<Rightarrow> n))))"

definition turso_store_signed_prekey ::
  "turso_env \<Rightarrow> sql_backend \<Rightarrow> u32 \<Rightarrow> bytes \<Rightarrow> sql_db \<Rightarrow> sql_db \<times> (store_error + unit)" where
  "turso_store_signed_prekey T be i r db =
     turso_sealed_write T be ''signed_prekeys'' ''record'' (be_bytes32 i) r
       (\<lambda>sealed. STORE_SIGNED_PREKEY i sealed (be_device be)) db"

definition turso_load_signed_prekey :: "turso_env \<Rightarrow> sql_backend \<Rightarrow> u32 \<Rightarrow> sql_db \<Rightarrow> store_error + bytes option" where
  "turso_load_signed_prekey T be i db =
     turso_sealed_read T be ''signed_prekeys'' ''record'' (be_bytes32 i) (LOAD_SIGNED_PREKEY i (be_device be) db)"

text \<open>A row of an id and a blob, as \<open>LOAD_ALL_SIGNED_PREKEYS\<close> and \<open>SELECT_PREKEYS\<close> give.\<close>

definition id_row :: "bits32 \<times> bytes \<Rightarrow> turso_row" where
  "id_row = (\<lambda>(i, b). [of_i32 i, VBlob b])"

definition open_id_row :: "turso_env \<Rightarrow> sql_backend \<Rightarrow> string \<Rightarrow> string \<Rightarrow> turso_row \<Rightarrow> store_error + u32 \<times> bytes" where
  "open_id_row T be table column r =
     and_then (int32 T r 0) (\<lambda>i.
     and_then (blob T r 1) (\<lambda>stored.
       map_ok (Pair i) (turso_open_at T be table column (be_bytes32 i) stored)))"

definition turso_load_all_signed_prekeys ::
  "turso_env \<Rightarrow> sql_backend \<Rightarrow> sql_db \<Rightarrow> store_error + (u32 \<times> bytes) list" where
  "turso_load_all_signed_prekeys T be db =
     and_then (fetch_all T 0 (map id_row (LOAD_ALL_SIGNED_PREKEYS (be_device be) db)))
       (try_map (open_id_row T be ''signed_prekeys'' ''record''))"

definition turso_remove_signed_prekey :: "turso_env \<Rightarrow> sql_backend \<Rightarrow> u32 \<Rightarrow> sql_db \<Rightarrow> sql_db \<times> (store_error + unit)" where
  "turso_remove_signed_prekey T be i db = conn_run T (REMOVE_SIGNED_PREKEY i (be_device be)) db"

definition turso_put_sender_key ::
  "turso_env \<Rightarrow> sql_backend \<Rightarrow> string \<Rightarrow> bytes \<Rightarrow> sql_db \<Rightarrow> sql_db \<times> (store_error + unit)" where
  "turso_put_sender_key T be address r db =
     turso_sealed_write T be ''sender_keys'' ''record'' (str_bytes address) r
       (\<lambda>sealed. PUT_SENDER_KEY address sealed (be_device be)) db"

definition turso_get_sender_key :: "turso_env \<Rightarrow> sql_backend \<Rightarrow> string \<Rightarrow> sql_db \<Rightarrow> store_error + bytes option" where
  "turso_get_sender_key T be address db =
     turso_sealed_read T be ''sender_keys'' ''record'' (str_bytes address) (GET_SENDER_KEY address (be_device be) db)"

definition turso_delete_sender_key :: "turso_env \<Rightarrow> sql_backend \<Rightarrow> string \<Rightarrow> sql_db \<Rightarrow> sql_db \<times> (store_error + unit)" where
  "turso_delete_sender_key T be address db = conn_run T (DELETE_SENDER_KEY address (be_device be)) db"

section \<open>Batches of signal keys\<close>

definition turso_mark_uploaded :: "turso_env \<Rightarrow> sql_backend \<Rightarrow> u32 list \<Rightarrow> sql_db \<Rightarrow> sql_db \<times> (store_error + unit)" where
  "turso_mark_uploaded T be ids db =
     (if ids = [] then (db, Inr ())
      else turso_loop T (\<lambda>n i. Inr (MARK_PREKEY_UPLOADED i (be_device be))) ids db)"

definition turso_put_identities ::
  "turso_env \<Rightarrow> sql_backend \<Rightarrow> (string \<times> bytes) list \<Rightarrow> sql_db \<Rightarrow> sql_db \<times> (store_error + unit)" where
  "turso_put_identities T be ids db =
     turso_batch T (\<lambda>i (address, key).
       map_ok (\<lambda>sealed. PUT_IDENTITY address sealed (be_device be))
         (turso_seal_at T i be ''identities'' ''key'' (str_bytes address) key)) ids db"

definition turso_put_address_records ::
  "turso_env \<Rightarrow> sql_backend \<Rightarrow> (string \<Rightarrow> bytes \<Rightarrow> bits32 \<Rightarrow> 'db \<Rightarrow> 'db) \<Rightarrow> string \<Rightarrow> string \<Rightarrow>
   (string \<times> bytes) list \<Rightarrow> 'db \<Rightarrow> 'db \<times> (store_error + unit)" where
  "turso_put_address_records T be stmt table column records db =
     turso_batch T (\<lambda>i (address, r).
       map_ok (\<lambda>sealed. stmt address sealed (be_device be))
         (turso_seal_at T i be table column (str_bytes address) r)) records db"

definition turso_delete_by_address ::
  "turso_env \<Rightarrow> sql_backend \<Rightarrow> (string \<Rightarrow> bits32 \<Rightarrow> 'db \<Rightarrow> 'db) \<Rightarrow> string list \<Rightarrow> 'db \<Rightarrow> 'db \<times> (store_error + unit)" where
  "turso_delete_by_address T be stmt addresses db =
     turso_batch T (\<lambda>i address. Inr (stmt address (be_device be))) addresses db"

definition turso_delete_identities ::
  "turso_env \<Rightarrow> sql_backend \<Rightarrow> string list \<Rightarrow> sql_db \<Rightarrow> sql_db \<times> (store_error + unit)" where
  "turso_delete_identities T be addresses db = turso_delete_by_address T be DELETE_IDENTITY addresses db"

definition turso_put_sessions ::
  "turso_env \<Rightarrow> sql_backend \<Rightarrow> (string \<times> bytes) list \<Rightarrow> sql_db \<Rightarrow> sql_db \<times> (store_error + unit)" where
  "turso_put_sessions T be ss db = turso_put_address_records T be PUT_SESSION ''sessions'' ''record'' ss db"

definition turso_delete_sessions ::
  "turso_env \<Rightarrow> sql_backend \<Rightarrow> string list \<Rightarrow> sql_db \<Rightarrow> sql_db \<times> (store_error + unit)" where
  "turso_delete_sessions T be addresses db = turso_delete_by_address T be DELETE_SESSION addresses db"

definition turso_put_sender_keys ::
  "turso_env \<Rightarrow> sql_backend \<Rightarrow> (string \<times> bytes) list \<Rightarrow> sql_db \<Rightarrow> sql_db \<times> (store_error + unit)" where
  "turso_put_sender_keys T be ks db = turso_put_address_records T be PUT_SENDER_KEY ''sender_keys'' ''record'' ks db"

definition turso_delete_sender_keys ::
  "turso_env \<Rightarrow> sql_backend \<Rightarrow> string list \<Rightarrow> sql_db \<Rightarrow> sql_db \<times> (store_error + unit)" where
  "turso_delete_sender_keys T be addresses db = turso_delete_by_address T be DELETE_SENDER_KEY addresses db"

definition turso_store_prekeys ::
  "turso_env \<Rightarrow> sql_backend \<Rightarrow> (u32 \<times> bytes) list \<Rightarrow> bool \<Rightarrow> sql_db \<Rightarrow> sql_db \<times> (store_error + unit)" where
  "turso_store_prekeys T be keys uploaded db =
     turso_batch T (\<lambda>n (i, r).
       map_ok (\<lambda>sealed. STORE_PREKEY i sealed uploaded (be_device be))
         (turso_seal_at T n be ''prekeys'' ''key'' (be_bytes32 i) r)) keys db"

definition turso_remove_prekeys :: "turso_env \<Rightarrow> sql_backend \<Rightarrow> u32 list \<Rightarrow> sql_db \<Rightarrow> sql_db \<times> (store_error + unit)" where
  "turso_remove_prekeys T be ids db = turso_batch T (\<lambda>n i. Inr (DELETE_PREKEY i (be_device be))) ids db"

definition address_row :: "string \<times> bytes \<Rightarrow> turso_row" where
  "address_row = (\<lambda>(address, b). [VText address, VBlob b])"

definition turso_get_sessions ::
  "turso_env \<Rightarrow> sql_backend \<Rightarrow> string list \<Rightarrow> sql_db \<Rightarrow> store_error + (string \<times> bytes) list" where
  "turso_get_sessions T be addresses db =
     fetch_chunks T 0 (\<lambda>c. map address_row (select_in fst c (of_device (be_device be) (sessions db))))
       (\<lambda>r. and_then (text_at T r 0) (\<lambda>address.
            and_then (blob T r 1) (\<lambda>stored.
              map_ok (Pair address) (turso_open_at T be ''sessions'' ''record'' (str_bytes address) stored))))
       (padded_chunks addresses)"

definition turso_load_prekeys ::
  "turso_env \<Rightarrow> sql_backend \<Rightarrow> u32 list \<Rightarrow> sql_db \<Rightarrow> store_error + (u32 \<times> bytes) list" where
  "turso_load_prekeys T be ids db =
     fetch_chunks T 0
       (\<lambda>c. map id_row (select_in fst c (map (\<lambda>(i, r). (i, fst r)) (of_device (be_device be) (prekeys db)))))
       (open_id_row T be ''prekeys'' ''key'') (padded_chunks ids)"

section \<open>Rows of the protocol store\<close>

definition lid_columns :: "string \<times> lid_row \<Rightarrow> turso_row" where
  "lid_columns = (\<lambda>(lid, r).
     [VText lid, VText (lid_phone_number r), VInteger (lid_created_at r), VText (lid_learning_source r),
      VInteger (lid_updated_at r)])"

definition turso_lid_mapping_row :: "turso_env \<Rightarrow> turso_row \<Rightarrow> store_error + string \<times> lid_row" where
  "turso_lid_mapping_row T r =
     and_then (text_at T r 0) (\<lambda>lid.
     and_then (text_at T r 1) (\<lambda>phone.
     and_then (int_at T r 2) (\<lambda>created.
     and_then (text_at T r 3) (\<lambda>source.
     and_then (int_at T r 4) (\<lambda>updated.
       Inr (lid, \<lparr>lid_phone_number = phone, lid_created_at = created, lid_learning_source = source,
                  lid_updated_at = updated\<rparr>))))))"

text \<open>The SELECT leaves \<open>updated_at\<close> out; the row read back has the time 0 there, which nothing uses.\<close>

definition device_list_columns :: "string \<times> device_list_row \<Rightarrow> turso_row" where
  "device_list_columns = (\<lambda>(user, r).
     [VText user, VText (dl_devices_json r), VInteger (dl_timestamp r), or_null VText (dl_phash r),
      or_null of_i32 (dl_raw_id r)])"

definition turso_device_list_row :: "turso_env \<Rightarrow> turso_row \<Rightarrow> store_error + string \<times> device_list_row" where
  "turso_device_list_row T r =
     and_then (text_at T r 0) (\<lambda>user.
     and_then (text_at T r 1) (\<lambda>js.
     and_then (int_at T r 2) (\<lambda>ts.
     and_then (opt_text T r 3) (\<lambda>phash.
     and_then (opt_int32 T r 4) (\<lambda>raw.
       Inr (user, \<lparr>dl_devices_json = js, dl_timestamp = ts, dl_phash = phash, dl_updated_at = 0, dl_raw_id = raw\<rparr>))))))"

definition tc_columns :: "tc_row \<Rightarrow> turso_row" where
  "tc_columns r = [VBlob (tc_token r), VInteger (tc_token_timestamp r), or_null VInteger (tc_sender_timestamp r)]"

definition turso_tc_token_entry ::
  "turso_env \<Rightarrow> turso_row \<Rightarrow> nat \<Rightarrow> sql_backend \<Rightarrow> string \<Rightarrow> store_error + tc_token_entry" where
  "turso_tc_token_entry T r first be jid =
     and_then (blob T r first) (\<lambda>stored.
     and_then (turso_open_at T be ''tc_tokens'' ''token'' (str_bytes jid) stored) (\<lambda>tok.
     and_then (int_at T r (first + 1)) (\<lambda>ts.
     and_then (opt_int T r (first + 2)) (\<lambda>sts.
       Inr \<lparr>te_token = tok, te_token_timestamp = ts, te_sender_timestamp = sts\<rparr>))))"

definition turso_sender_key_device :: "turso_env \<Rightarrow> turso_row \<Rightarrow> store_error + string \<times> bool" where
  "turso_sender_key_device T r =
     and_then (text_at T r 0) (\<lambda>jid. and_then (int32 T r 1) (\<lambda>has. Inr (jid, has \<noteq> 0)))"

section \<open>The protocol store\<close>

definition turso_get_sender_key_devices ::
  "turso_env \<Rightarrow> sql_backend \<Rightarrow> string \<Rightarrow> sql_db \<Rightarrow> store_error + (string \<times> bool) list" where
  "turso_get_sender_key_devices T be g db =
     and_then (fetch_all T 0 (map (\<lambda>(jid, has). [VText jid, of_i32 has]) (GET_SENDER_KEY_DEVICES g (be_device be) db)))
       (try_map (turso_sender_key_device T))"

definition turso_set_sender_key_status ::
  "turso_env \<Rightarrow> i64 \<Rightarrow> sql_backend \<Rightarrow> string \<Rightarrow> (string \<times> bool) list \<Rightarrow> sql_db \<Rightarrow> sql_db \<times> (store_error + unit)" where
  "turso_set_sender_key_status T now be g entries db =
     turso_loop T (\<lambda>i (dj, has). Inr (SET_SENDER_KEY_STATUS g dj (if has then 1 else 0) (be_device be) now))
       entries db"

definition turso_clear_sender_key_devices ::
  "turso_env \<Rightarrow> sql_backend \<Rightarrow> string \<Rightarrow> sql_db \<Rightarrow> sql_db \<times> (store_error + unit)" where
  "turso_clear_sender_key_devices T be g db = conn_run T (CLEAR_SENDER_KEY_DEVICES g (be_device be)) db"

definition turso_delete_sender_key_device_rows ::
  "turso_env \<Rightarrow> sql_backend \<Rightarrow> string list \<Rightarrow> sql_db \<Rightarrow> sql_db \<times> (store_error + unit)" where
  "turso_delete_sender_key_device_rows T be jids db =
     turso_loop T (\<lambda>i dj. Inr (DELETE_SENDER_KEY_DEVICE_ROW dj (be_device be))) jids db"

definition turso_clear_all_sender_key_devices ::
  "turso_env \<Rightarrow> sql_backend \<Rightarrow> sql_db \<Rightarrow> sql_db \<times> (store_error + unit)" where
  "turso_clear_all_sender_key_devices T be db = conn_run T (CLEAR_ALL_SENDER_KEY_DEVICES (be_device be)) db"

definition turso_fetch_lid :: "turso_env \<Rightarrow> (string \<times> lid_row) option \<Rightarrow> store_error + lid_pn_entry option" where
  "turso_fetch_lid T found =
     and_then (fetch_optional T 0 (case found of None \<Rightarrow> [] | Some r \<Rightarrow> [lid_columns r])) (\<lambda>row.
       map_ok (map_option lid_entry) (transpose_opt (map_option (turso_lid_mapping_row T) row)))"

definition turso_get_lid_mapping :: "turso_env \<Rightarrow> sql_backend \<Rightarrow> string \<Rightarrow> sql_db \<Rightarrow> store_error + lid_pn_entry option" where
  "turso_get_lid_mapping T be lid db = turso_fetch_lid T (GET_LID_MAPPING lid (be_device be) db)"

definition turso_get_pn_mapping :: "turso_env \<Rightarrow> sql_backend \<Rightarrow> string \<Rightarrow> sql_db \<Rightarrow> store_error + lid_pn_entry option" where
  "turso_get_pn_mapping T be phone db = turso_fetch_lid T (GET_PN_MAPPING phone (be_device be) db)"

definition turso_put_lid_mapping ::
  "turso_env \<Rightarrow> sql_backend \<Rightarrow> lid_pn_entry \<Rightarrow> sql_db \<Rightarrow> sql_db \<times> (store_error + unit)" where
  "turso_put_lid_mapping T be e db = conn_run T (PUT_LID_MAPPING e (be_device be)) db"

definition turso_get_all_lid_mappings :: "turso_env \<Rightarrow> sql_backend \<Rightarrow> sql_db \<Rightarrow> store_error + lid_pn_entry list" where
  "turso_get_all_lid_mappings T be db =
     and_then (fetch_all T 0 (map lid_columns (GET_ALL_LID_MAPPINGS (be_device be) db)))
       (try_map (\<lambda>r. map_ok lid_entry (turso_lid_mapping_row T r)))"

definition turso_put_lid_mappings ::
  "turso_env \<Rightarrow> sql_backend \<Rightarrow> lid_pn_entry list \<Rightarrow> sql_db \<Rightarrow> sql_db \<times> (store_error + unit)" where
  "turso_put_lid_mappings T be entries db = turso_batch T (\<lambda>i e. Inr (PUT_LID_MAPPING e (be_device be))) entries db"

definition turso_save_base_key ::
  "turso_env \<Rightarrow> i64 \<Rightarrow> sql_backend \<Rightarrow> string \<Rightarrow> string \<Rightarrow> bytes \<Rightarrow> sql_db \<Rightarrow> sql_db \<times> (store_error + unit)" where
  "turso_save_base_key T now be address mid key db =
     turso_sealed_write T be ''base_keys'' ''base_key'' (joined_row [str_bytes address, str_bytes mid]) key
       (\<lambda>sealed. SAVE_BASE_KEY address mid sealed (be_device be) now) db"

definition turso_has_same_base_key ::
  "turso_env \<Rightarrow> sql_backend \<Rightarrow> string \<Rightarrow> string \<Rightarrow> bytes \<Rightarrow> sql_db \<Rightarrow> store_error + bool" where
  "turso_has_same_base_key T be address mid current db =
     map_ok (\<lambda>stored. stored = Some current)
       (turso_sealed_read T be ''base_keys'' ''base_key'' (joined_row [str_bytes address, str_bytes mid])
          (GET_BASE_KEY address mid (be_device be) db))"

definition turso_delete_base_key ::
  "turso_env \<Rightarrow> sql_backend \<Rightarrow> string \<Rightarrow> string \<Rightarrow> sql_db \<Rightarrow> sql_db \<times> (store_error + unit)" where
  "turso_delete_base_key T be address mid db = conn_run T (DELETE_BASE_KEY address mid (be_device be)) db"

definition turso_delete_expired_base_keys ::
  "turso_env \<Rightarrow> sql_backend \<Rightarrow> i64 \<Rightarrow> sql_db \<Rightarrow> sql_db \<times> (store_error + u32)" where
  "turso_delete_expired_base_keys T be cutoff db =
     conn_execute T (DELETE_EXPIRED_BASE_KEYS cutoff (be_device be))
       (\<lambda>db. of_nat (count_where (expired_base_key cutoff (be_device be)) (base_keys db))) db"

definition turso_update_device_list ::
  "'d json \<Rightarrow> turso_env \<Rightarrow> i64 \<Rightarrow> sql_backend \<Rightarrow> 'd device_list_record \<Rightarrow> sql_db \<Rightarrow> sql_db \<times> (store_error + unit)" where
  "turso_update_device_list J T now be r db =
     (case devices_json J r of
        Inl e \<Rightarrow> (db, Inl e)
      | Inr js \<Rightarrow>
          conn_run T
            (UPDATE_DEVICE_LIST (dr_user r) js (dr_timestamp r) (dr_phash r) (be_device be) now (dr_raw_id r)) db)"

definition turso_put_device_list_in ::
  "'d json \<Rightarrow> bits32 \<Rightarrow> i64 \<Rightarrow> 'd device_list_record \<Rightarrow> store_error + (sql_db \<Rightarrow> sql_db)" where
  "turso_put_device_list_in J d now r =
     map_ok (\<lambda>js. UPDATE_DEVICE_LIST (dr_user r) js (dr_timestamp r) (dr_phash r) d now (dr_raw_id r)) (devices_json J r)"

definition turso_update_device_lists ::
  "'d json \<Rightarrow> turso_env \<Rightarrow> i64 \<Rightarrow> sql_backend \<Rightarrow> 'd device_list_record list \<Rightarrow> sql_db \<Rightarrow> sql_db \<times> (store_error + unit)" where
  "turso_update_device_lists J T now be rs db = turso_batch T (\<lambda>i. turso_put_device_list_in J (be_device be) now) rs db"

definition turso_get_devices ::
  "'d json \<Rightarrow> turso_env \<Rightarrow> sql_backend \<Rightarrow> string \<Rightarrow> sql_db \<Rightarrow> store_error + 'd device_list_record option" where
  "turso_get_devices J T be user db =
     and_then (fetch_optional T 0 (case GET_DEVICES user (be_device be) db of None \<Rightarrow> [] | Some r \<Rightarrow> [device_list_columns r])) (\<lambda>row.
     and_then (transpose_opt (map_option (turso_device_list_row T) row)) (\<lambda>decoded.
       transpose_opt (map_option (device_list_record_of J) decoded)))"

definition turso_get_devices_batch ::
  "'d json \<Rightarrow> turso_env \<Rightarrow> sql_backend \<Rightarrow> string list \<Rightarrow> sql_db \<Rightarrow> store_error + 'd device_list_record list" where
  "turso_get_devices_batch J T be users db =
     fetch_chunks T 0 (\<lambda>c. map device_list_columns (select_in fst c (of_device (be_device be) (device_registry db))))
       (\<lambda>r. and_then (turso_device_list_row T r) (device_list_record_of J)) (padded_chunks users)"

definition turso_delete_devices :: "turso_env \<Rightarrow> sql_backend \<Rightarrow> string \<Rightarrow> sql_db \<Rightarrow> sql_db \<times> (store_error + unit)" where
  "turso_delete_devices T be user db = conn_run T (DELETE_DEVICES user (be_device be)) db"

definition turso_get_tc_token :: "turso_env \<Rightarrow> sql_backend \<Rightarrow> string \<Rightarrow> sql_db \<Rightarrow> store_error + tc_token_entry option" where
  "turso_get_tc_token T be jid db =
     and_then (fetch_optional T 0 (case GET_TC_TOKEN jid (be_device be) db of None \<Rightarrow> [] | Some r \<Rightarrow> [tc_columns r])) (\<lambda>row.
       transpose_opt (map_option (\<lambda>r. turso_tc_token_entry T r 0 be jid) row))"

definition turso_put_tc_token ::
  "turso_env \<Rightarrow> i64 \<Rightarrow> sql_backend \<Rightarrow> string \<Rightarrow> tc_token_entry \<Rightarrow> sql_db \<Rightarrow> sql_db \<times> (store_error + unit)" where
  "turso_put_tc_token T now be jid e db =
     turso_sealed_write T be ''tc_tokens'' ''token'' (str_bytes jid) (te_token e)
       (\<lambda>sealed. PUT_TC_TOKEN jid sealed (te_token_timestamp e) (te_sender_timestamp e) (be_device be) now) db"

definition turso_delete_tc_token :: "turso_env \<Rightarrow> sql_backend \<Rightarrow> string \<Rightarrow> sql_db \<Rightarrow> sql_db \<times> (store_error + unit)" where
  "turso_delete_tc_token T be jid db = conn_run T (DELETE_TC_TOKEN jid (be_device be)) db"

definition turso_get_all_tc_token_jids :: "turso_env \<Rightarrow> sql_backend \<Rightarrow> sql_db \<Rightarrow> store_error + string list" where
  "turso_get_all_tc_token_jids T be db =
     and_then (fetch_all T 0 (map (\<lambda>jid. [VText jid]) (GET_ALL_TC_TOKEN_JIDS (be_device be) db)))
       (try_map (\<lambda>r. text_at T r 0))"

definition turso_delete_expired_tc_tokens ::
  "turso_env \<Rightarrow> sql_backend \<Rightarrow> i64 \<Rightarrow> i64 \<Rightarrow> sql_db \<Rightarrow> sql_db \<times> (store_error + u32)" where
  "turso_delete_expired_tc_tokens T be tc sc db =
     conn_execute T (DELETE_EXPIRED_TC_TOKENS tc sc (be_device be))
       (\<lambda>db. of_nat (count_where (expired_tc_token tc sc (be_device be)) (tc_tokens db))) db"

definition turso_touch_sender_timestamp ::
  "turso_env \<Rightarrow> i64 \<Rightarrow> sql_backend \<Rightarrow> string \<Rightarrow> i64 \<Rightarrow> sql_db \<Rightarrow> sql_db \<times> (store_error + unit)" where
  "turso_touch_sender_timestamp T now be jid sts db = conn_run T (TOUCH_SENDER_TIMESTAMP jid sts (be_device be) now) db"

definition turso_store_received ::
  "turso_env \<Rightarrow> i64 \<Rightarrow> sql_backend \<Rightarrow> string \<Rightarrow> bytes \<Rightarrow> i64 \<Rightarrow> sql_db \<Rightarrow> sql_db \<times> (store_error + unit)" where
  "turso_store_received T now be jid tok ts db =
     turso_sealed_write T be ''tc_tokens'' ''token'' (str_bytes jid) tok
       (\<lambda>sealed. STORE_RECEIVED jid sealed ts (be_device be) now) db"

definition turso_get_tc_tokens ::
  "turso_env \<Rightarrow> sql_backend \<Rightarrow> string list \<Rightarrow> sql_db \<Rightarrow> store_error + tc_token_entry option list" where
  "turso_get_tc_tokens T be jids db =
     and_then (fetch_chunks T 0
                 (\<lambda>c. map (\<lambda>(jid, r). VText jid # tc_columns r) (select_in fst c (of_device (be_device be) (tc_tokens db))))
                 (\<lambda>r. and_then (text_at T r 0) (\<lambda>jid. map_ok (Pair jid) (turso_tc_token_entry T r 1 be jid)))
                 (padded_chunks jids)) (\<lambda>found.
       Inr (map (map_of (rev found)) jids))"

definition turso_open_sent ::
  "turso_env \<Rightarrow> sql_backend \<Rightarrow> string \<Rightarrow> string \<Rightarrow> bytes option \<Rightarrow> store_error + bytes option" where
  "turso_open_sent T be chat mid stored =
     (let row = joined_row [str_bytes chat, str_bytes mid]
      in transpose_opt (map_option (turso_open_at T be ''sent_messages'' ''payload'' row) stored))"

definition turso_store_sent_message ::
  "turso_env \<Rightarrow> i64 \<Rightarrow> sql_backend \<Rightarrow> string \<Rightarrow> string \<Rightarrow> bytes \<Rightarrow> sql_db \<Rightarrow> sql_db \<times> (store_error + unit)" where
  "turso_store_sent_message T now be chat mid payload db =
     turso_sealed_write T be ''sent_messages'' ''payload'' (joined_row [str_bytes chat, str_bytes mid]) payload
       (\<lambda>sealed. STORE_SENT_MESSAGE chat mid sealed (be_device be) now) db"

text \<open>The payload is opened before its row is deleted.\<close>

definition turso_take_sent_message ::
  "turso_env \<Rightarrow> sql_backend \<Rightarrow> string \<Rightarrow> string \<Rightarrow> sql_db \<Rightarrow> sql_db \<times> (store_error + bytes option)" where
  "turso_take_sent_message T be chat mid db =
     turso_tx T (\<lambda>db.
       and_then (turso_fetch_blob T (GET_SENT_MESSAGE chat mid (be_device be) db)) (\<lambda>stored.
       and_then (turso_open_sent T be chat mid stored) (\<lambda>payload.
         if payload = None then Inr (db, payload)
         else map_ok (\<lambda>(db', _). (db', payload))
                (exec_execute T 1 (DELETE_SENT_MESSAGE chat mid (be_device be)) (\<lambda>_. ()) db)))) db"

definition turso_get_sent_message ::
  "turso_env \<Rightarrow> sql_backend \<Rightarrow> string \<Rightarrow> string \<Rightarrow> sql_db \<Rightarrow> store_error + bytes option" where
  "turso_get_sent_message T be chat mid db =
     and_then (turso_fetch_blob T (GET_SENT_MESSAGE chat mid (be_device be) db)) (turso_open_sent T be chat mid)"

definition turso_delete_expired_sent_messages ::
  "turso_env \<Rightarrow> sql_backend \<Rightarrow> i64 \<Rightarrow> sql_db \<Rightarrow> sql_db \<times> (store_error + u32)" where
  "turso_delete_expired_sent_messages T be cutoff db =
     conn_execute T (DELETE_EXPIRED_SENT_MESSAGES cutoff (be_device be))
       (\<lambda>db. of_nat (count_where (expired_sent_message cutoff (be_device be)) (sent_messages db))) db"

section \<open>App state\<close>

definition turso_get_sync_key ::
  "('k, 'h, 'v) codec \<Rightarrow> turso_env \<Rightarrow> sql_backend \<Rightarrow> bytes \<Rightarrow> sql_db \<Rightarrow> store_error + 'k option" where
  "turso_get_sync_key K T be kid db =
     and_then (turso_fetch_blob T (GET_SYNC_KEY kid (be_device be) db)) (\<lambda>row.
       transpose_opt (map_option (\<lambda>stored.
         and_then (turso_open_at T be ''app_state_keys'' ''key_data'' kid stored) (dec_sync_key K)) row))"

definition turso_set_sync_key ::
  "('k, 'h, 'v) codec \<Rightarrow> turso_env \<Rightarrow> sql_backend \<Rightarrow> bytes \<Rightarrow> 'k \<Rightarrow> sql_db \<Rightarrow> sql_db \<times> (store_error + unit)" where
  "turso_set_sync_key K T be kid key db =
     turso_sealed_write T be ''app_state_keys'' ''key_data'' kid (enc_sync_key K key)
       (\<lambda>data. SET_SYNC_KEY kid data (be_device be)) db"

definition turso_get_version ::
  "('k, 'h, 'v) codec \<Rightarrow> turso_env \<Rightarrow> sql_backend \<Rightarrow> string \<Rightarrow> sql_db \<Rightarrow> store_error + 'h option" where
  "turso_get_version K T be name db =
     and_then (turso_fetch_blob T (GET_VERSION name (be_device be) db)) (\<lambda>row.
       transpose_opt (map_option (\<lambda>stored.
         and_then (turso_open_at T be ''app_state_versions'' ''state_data'' (str_bytes name) stored) (dec_hash_state K)) row))"

definition turso_delete_version :: "turso_env \<Rightarrow> sql_backend \<Rightarrow> string \<Rightarrow> sql_db \<Rightarrow> sql_db \<times> (store_error + unit)" where
  "turso_delete_version T be name db = conn_run T (DELETE_VERSION name (be_device be)) db"

definition turso_set_version ::
  "('k, 'h, 'v) codec \<Rightarrow> turso_env \<Rightarrow> sql_backend \<Rightarrow> string \<Rightarrow> 'h \<Rightarrow> sql_db \<Rightarrow> sql_db \<times> (store_error + unit)" where
  "turso_set_version K T be name state db =
     turso_sealed_write T be ''app_state_versions'' ''state_data'' (str_bytes name) (enc_hash_state K state)
       (\<lambda>data. SET_VERSION name data (be_device be)) db"

definition turso_put_mac_in ::
  "turso_env \<Rightarrow> nat \<Rightarrow> sql_backend \<Rightarrow> string \<Rightarrow> u64 \<Rightarrow> bytes \<Rightarrow> bytes \<Rightarrow> store_error + (sql_db \<Rightarrow> sql_db)" where
  "turso_put_mac_in T n be name version index mac =
     map_ok (\<lambda>value. PUT_MUTATION_MAC name (sint version) index value (be_device be))
       (turso_seal_at T n be ''app_state_mutation_macs'' ''value_mac'' (joined_row [str_bytes name, index]) mac)"

definition turso_delete_mac_in :: "sql_backend \<Rightarrow> string \<Rightarrow> bytes \<Rightarrow> sql_db \<Rightarrow> sql_db" where
  "turso_delete_mac_in be name index = DELETE_MUTATION_MAC name index (be_device be)"

definition turso_put_mutation_macs ::
  "turso_env \<Rightarrow> sql_backend \<Rightarrow> string \<Rightarrow> u64 \<Rightarrow> (bytes \<times> bytes) list \<Rightarrow> sql_db \<Rightarrow> sql_db \<times> (store_error + unit)" where
  "turso_put_mutation_macs T be name version macs db =
     turso_loop T (\<lambda>n (index, mac). turso_put_mac_in T n be name version index mac) macs db"

definition turso_get_mutation_mac ::
  "turso_env \<Rightarrow> sql_backend \<Rightarrow> string \<Rightarrow> bytes \<Rightarrow> sql_db \<Rightarrow> store_error + bytes option" where
  "turso_get_mutation_mac T be name index db =
     turso_sealed_read T be ''app_state_mutation_macs'' ''value_mac'' (joined_row [str_bytes name, index])
       (GET_MUTATION_MAC name index (be_device be) db)"

definition turso_delete_mutation_macs ::
  "turso_env \<Rightarrow> sql_backend \<Rightarrow> string \<Rightarrow> bytes list \<Rightarrow> sql_db \<Rightarrow> sql_db \<times> (store_error + unit)" where
  "turso_delete_mutation_macs T be name indexes db =
     turso_loop T (\<lambda>n index. Inr (turso_delete_mac_in be name index)) indexes db"

definition turso_clear_mutation_macs ::
  "turso_env \<Rightarrow> sql_backend \<Rightarrow> string \<Rightarrow> sql_db \<Rightarrow> sql_db \<times> (store_error + unit)" where
  "turso_clear_mutation_macs T be name db = conn_run T (CLEAR_MUTATION_MACS name (be_device be)) db"

definition turso_get_latest_sync_key_id :: "turso_env \<Rightarrow> sql_backend \<Rightarrow> sql_db \<Rightarrow> store_error + bytes option" where
  "turso_get_latest_sync_key_id T be db = turso_fetch_blob T (LATEST_SYNC_KEY_ID (be_device be) db)"

text \<open>A stored index that is not 32 bytes is passed over.\<close>

definition mac_row_of :: "turso_env \<Rightarrow> sql_backend \<Rightarrow> string \<Rightarrow> turso_row \<Rightarrow> store_error + (bytes \<times> bytes) option" where
  "mac_row_of T be name r =
     and_then (blob T r 0) (\<lambda>index.
       if length index \<noteq> 32 then Inr None
       else and_then (blob T r 1) (\<lambda>stored.
              map_ok (\<lambda>mac. Some (index, mac))
                (turso_open_at T be ''app_state_mutation_macs'' ''value_mac'' (joined_row [str_bytes name, index]) stored)))"

definition turso_get_mutation_macs ::
  "turso_env \<Rightarrow> sql_backend \<Rightarrow> string \<Rightarrow> bytes list \<Rightarrow> sql_db \<Rightarrow> store_error + (bytes \<rightharpoonup> bytes)" where
  "turso_get_mutation_macs T be name indexes db =
     map_ok (\<lambda>found. map_of (rev (map the (filter (\<lambda>x. x \<noteq> None) found))))
       (fetch_chunks T 0
          (\<lambda>c. map (\<lambda>(index, stored). [VBlob index, VBlob stored])
                  (select_in fst c (SELECT_MUTATION_MACS name (be_device be) db)))
          (mac_row_of T be name) (padded_chunks indexes))"

text \<open>The version's blob is sealed before the job starts, with the nonce after those of its statements.\<close>

definition turso_patch_statement ::
  "turso_env \<Rightarrow> sql_backend \<Rightarrow> string \<Rightarrow> u64 \<Rightarrow> nat \<Rightarrow> patch_step \<Rightarrow> store_error + (sql_db \<Rightarrow> sql_db)" where
  "turso_patch_statement T be name version n st =
     (case st of
        SetVersion data \<Rightarrow> Inr (SET_VERSION name data (be_device be))
      | RemoveMac index \<Rightarrow> Inr (turso_delete_mac_in be name index)
      | AddMac index mac \<Rightarrow> turso_put_mac_in T n be name version index mac)"

definition turso_commit_patch ::
  "('k, 'h, 'v) codec \<Rightarrow> turso_env \<Rightarrow> sql_backend \<Rightarrow> string \<Rightarrow> 'h \<Rightarrow> bytes list \<Rightarrow> (bytes \<times> bytes) list \<Rightarrow>
   sql_db \<Rightarrow> sql_db \<times> (store_error + unit)" where
  "turso_commit_patch K T be name state removed added db =
     (case turso_seal_at T (Suc (length removed + length added)) be ''app_state_versions'' ''state_data''
             (str_bytes name) (enc_hash_state K state) of
        Inl e \<Rightarrow> (db, Inl e)
      | Inr data \<Rightarrow>
          turso_loop T (turso_patch_statement T be name (hash_version K state))
            (SetVersion data # map RemoveMac removed @ map (\<lambda>(i, m). AddMac i m) added) db)"

section \<open>Message secrets\<close>

definition turso_put_msg_secrets ::
  "turso_env \<Rightarrow> sql_backend \<Rightarrow> msg_secret_entry list \<Rightarrow> sql_db \<Rightarrow> sql_db \<times> (store_error + nat)" where
  "turso_put_msg_secrets T be entries db =
     (if entries = [] then (db, Inr 0)
      else case turso_loop T (\<lambda>n e.
                  map_ok (\<lambda>sealed. PUT_MSG_SECRET (ms_chat e) (ms_sender e) (ms_id e) sealed
                            (ms_expires_at e) (ms_message_ts e) (be_device be))
                    (turso_seal_at T n be ''msg_secrets'' ''secret''
                       (secret_row_key (ms_chat e) (ms_sender e) (ms_id e)) (ms_secret e))) entries db of
             (db', res) \<Rightarrow> (db', map_ok (\<lambda>_. length entries) res))"

definition turso_get_msg_secret ::
  "turso_env \<Rightarrow> sql_backend \<Rightarrow> string \<Rightarrow> string \<Rightarrow> string \<Rightarrow> sql_db \<Rightarrow> store_error + bytes option" where
  "turso_get_msg_secret T be chat sender mid db =
     turso_sealed_read T be ''msg_secrets'' ''secret'' (secret_row_key chat sender mid)
       (GET_MSG_SECRET chat sender mid (be_device be) db)"

definition turso_get_stored_msg_secret ::
  "(bytes \<Rightarrow> i64 \<Rightarrow> store_error + 's) \<Rightarrow> turso_env \<Rightarrow> sql_backend \<Rightarrow> string \<Rightarrow> string \<Rightarrow> string \<Rightarrow> sql_db \<Rightarrow>
   store_error + 's option" where
  "turso_get_stored_msg_secret from_stored T be chat sender mid db =
     and_then (fetch_optional T 0
        (case GET_MSG_SECRET_WITH_TS chat sender mid (be_device be) db of
           None \<Rightarrow> [] | Some (secret, ts) \<Rightarrow> [[VBlob secret, VInteger ts]])) (\<lambda>row.
       transpose_opt (map_option (\<lambda>r.
         and_then (blob T r 0) (\<lambda>stored.
         and_then (turso_open_at T be ''msg_secrets'' ''secret'' (secret_row_key chat sender mid) stored) (\<lambda>secret.
         and_then (int_at T r 1) (\<lambda>ts. from_stored secret ts)))) row))"

definition turso_delete_expired_msg_secrets ::
  "turso_env \<Rightarrow> sql_backend \<Rightarrow> i64 \<Rightarrow> sql_db \<Rightarrow> sql_db \<times> (store_error + u32)" where
  "turso_delete_expired_msg_secrets T be cutoff db =
     conn_execute T (DELETE_EXPIRED_MSG_SECRETS cutoff (be_device be))
       (\<lambda>db. of_nat (count_where (expired_secret cutoff (be_device be)) (msg_secrets db))) db"

section \<open>The device\<close>

definition turso_device_save ::
  "('k, 'h, 'v) codec \<Rightarrow> turso_env \<Rightarrow> sql_backend \<Rightarrow> 'v \<Rightarrow> sql_db \<Rightarrow> sql_db \<times> (store_error + unit)" where
  "turso_device_save K T be dev db =
     turso_sealed_write T be ''device'' ''data'' [] (enc_device K dev) (SAVE_DEVICE (be_device be)) db"

definition turso_device_load ::
  "('k, 'h, 'v) codec \<Rightarrow> turso_env \<Rightarrow> sql_backend \<Rightarrow> sql_db \<Rightarrow> store_error + 'v option" where
  "turso_device_load K T be db =
     and_then (turso_fetch_blob T (LOAD_DEVICE (be_device be) db)) (\<lambda>row.
       transpose_opt (map_option (\<lambda>stored. and_then (turso_open_at T be ''device'' ''data'' [] stored) (dec_device K)) row))"

definition turso_device_exists :: "turso_env \<Rightarrow> sql_backend \<Rightarrow> sql_db \<Rightarrow> store_error + bool" where
  "turso_device_exists T be db =
     and_then (fetch_optional T 0 [[VInteger (if LOAD_DEVICE (be_device be) db = None then 0 else 1)]]) (\<lambda>row.
       map_ok (\<lambda>n. n = Some 1) (transpose_opt (map_option (\<lambda>r. int_at T r 0) row)))"

definition turso_device_create ::
  "('k, 'h, 'v) codec \<Rightarrow> turso_env \<Rightarrow> sql_backend \<Rightarrow> 'v \<Rightarrow> sql_db \<Rightarrow> sql_db \<times> (store_error + bits32)" where
  "turso_device_create K T be fresh db =
     (case turso_sealed_write T be ''device'' ''data'' [] (enc_device K fresh) (CREATE_DEVICE (be_device be)) db of
        (db', res) \<Rightarrow> (db', map_ok (\<lambda>_. be_device be) res))"

text \<open>The checkpoint, outside any transaction; \<open>started\<close> is the answer of \<open>lock_autocommit\<close>.\<close>

definition turso_maintenance :: "turso_env \<Rightarrow> store_error + unit \<Rightarrow> store_error + unit" where
  "turso_maintenance T started =
     and_then started (\<lambda>_.
       case fetch_all_raw T 0 [] of
         Inr _ \<Rightarrow> Inr ()
       | Inl e \<Rightarrow> if is_busy e then Inr () else Inl (turso_db e))"

end
