(* ===== verification/Turso_Equivalence.thy ===== *)
theory Turso_Equivalence
  imports Turso_Store
begin

text \<open>
  Each call of the Turso backend is the call of the SQL family under the answers the SQL family would
  have seen: a read's, one statement's or a transaction's. What is proved of the SQL family for every
  environment therefore holds of Turso.
\<close>

named_theorems turso_eq

section \<open>Reading values\<close>

lemma read_answer: "e_answer (read_env T) n = stmt_answer (t_stmt T n)"
  by (simp add: read_env_def)

lemma readers [simp]:
  "blob T (VBlob b # r) 0 = Inr b" "blob T (v # VBlob b # r) (Suc 0) = Inr b"
  "text_at T (VText s # r) 0 = Inr s"
  "int_at T (VInteger n # r) 0 = Inr n" "int_at T (v # VInteger n # r) (Suc 0) = Inr n"
  "int32 T (of_i32 w # r) 0 = Inr w" "int32 T (v # of_i32 w # r) (Suc 0) = Inr w"
  by (simp_all add: blob_def text_at_def int_at_def int32_def of_i32_def)

lemma first_blob_rows: "first_blob T (if blob_rows v = [] then None else Some (hd (blob_rows v))) = Inr v"
  by (cases v) (simp_all add: blob_rows_def first_blob_def)

lemma turso_fetch_blob_query: "turso_fetch_blob T found = query_sql (e_answer (read_env T) 0) found"
  by (cases "t_stmt T 0") (simp_all add: turso_fetch_blob_def fetch_optional_query read_env_def query_sql_def first_blob_rows)

lemma lid_columns_read: "turso_lid_mapping_row T (lid_columns p) = Inr p"
  by (cases p) (simp add: turso_lid_mapping_row_def lid_columns_def text_at_def int_at_def)

lemma device_list_columns_read:
  "and_then (turso_device_list_row T (device_list_columns p)) (device_list_record_of J) = device_list_record_of J p"
proof (cases p)
  case (Pair user r)
  have "opt_int32 T (a # b # c # d # [or_null of_i32 x]) 4 = Inr x" for a b c d x
    by (cases x) (simp_all add: opt_int32_def opt_int_def or_null_def of_i32_def)
  moreover have "opt_text T (a # b # c # or_null VText x # e) 3 = Inr x" for a b c e x
    by (cases x) (simp_all add: opt_text_def or_null_def)
  ultimately show ?thesis
    using Pair by (simp add: turso_device_list_row_def device_list_columns_def text_at_def int_at_def device_list_record_of_def)
qed

lemma open_seal_envs:
  "backend_open_at (read_env T) = turso_open_at T" "backend_seal_at (write_env T) = turso_seal_at T"
  "backend_seal_at (tx_env T k) = turso_seal_at T" "backend_open_at (tx_env T k) = turso_open_at T"
  by (simp_all add: fun_eq_iff backend_open_at_def turso_open_at_def backend_seal_at_def turso_seal_at_def)

lemma tc_columns_read:
  "turso_tc_token_entry T (tc_columns r) 0 be jid = tc_entry (read_env T) be jid r"
  "turso_tc_token_entry T (v # tc_columns r) (Suc 0) be jid = tc_entry (read_env T) be jid r"
proof -
  have o: "opt_int T (a # b # [or_null VInteger x]) 2 = Inr x" "opt_int T (v # a # b # [or_null VInteger x]) (Suc (Suc (Suc 0))) = Inr x" for a b x
    by (cases x; simp add: opt_int_def or_null_def)+
  show "turso_tc_token_entry T (tc_columns r) 0 be jid = tc_entry (read_env T) be jid r"
    by (cases "turso_open_at T be ''tc_tokens'' ''token'' (str_bytes jid) (tc_token r)")
       (simp_all add: turso_tc_token_entry_def tc_columns_def tc_entry_def open_seal_envs o numeral_2_eq_2 [symmetric])
  show "turso_tc_token_entry T (v # tc_columns r) (Suc 0) be jid = tc_entry (read_env T) be jid r"
    by (cases "turso_open_at T be ''tc_tokens'' ''token'' (str_bytes jid) (tc_token r)")
       (simp_all add: turso_tc_token_entry_def tc_columns_def tc_entry_def open_seal_envs o int_at_def)
qed

section \<open>Single writes and reads\<close>

lemma turso_sealed_write_sql [turso_eq]:
  "turso_sealed_write T be t c row plain stmt db = sealed_write (write_env T) be t c row plain stmt db"
  by (simp add: turso_sealed_write_def sealed_write_def open_seal_envs conn_run_sql split: sum.splits)

lemma turso_sealed_read_sql [turso_eq]:
  "turso_sealed_read T be t c row found = sealed_read (read_env T) be t c row found"
  by (simp add: turso_sealed_read_def sealed_read_def open_seal_envs turso_fetch_blob_query)

lemma conn_count_sql [turso_eq]:
  "conn_execute T stmt (\<lambda>db. of_nat (n db)) db = execute_count_sql (e_answer (write_env T) 0) stmt n db"
  by (simp add: conn_execute_sql execute_count_sql_def write_env_def split: prod.splits)

lemma transpose_and_then:
  "transpose_opt (map_option (\<lambda>x. and_then (f x) g) v) =
   and_then (transpose_opt (map_option f v)) (\<lambda>w. transpose_opt (map_option g w))"
  by (cases v; cases "f (the v)") auto

lemma turso_signal_eq [turso_eq]:
  "turso_put_identity T = put_identity (write_env T)"
  "turso_load_identity T = load_identity (read_env T)"
  "turso_delete_identity T = delete_identity (write_env T)"
  "turso_get_session T = get_session (read_env T)"
  "turso_put_session T = put_session (write_env T)"
  "turso_delete_session T = delete_session (write_env T)"
  "turso_store_prekey T = store_prekey (write_env T)"
  "turso_load_prekey T = load_prekey (read_env T)"
  "turso_remove_prekey T = remove_prekey (write_env T)"
  "turso_store_signed_prekey T = store_signed_prekey (write_env T)"
  "turso_load_signed_prekey T = load_signed_prekey (read_env T)"
  "turso_remove_signed_prekey T = remove_signed_prekey (write_env T)"
  "turso_put_sender_key T = put_sender_key (write_env T)"
  "turso_get_sender_key T = get_sender_key (read_env T)"
  "turso_delete_sender_key T = delete_sender_key (write_env T)"
  by (simp_all add: fun_eq_iff turso_put_identity_def put_identity_def turso_load_identity_def load_identity_def
      turso_delete_identity_def delete_identity_def turso_get_session_def get_session_def turso_put_session_def put_session_def
      turso_delete_session_def delete_session_def turso_store_prekey_def store_prekey_def turso_load_prekey_def load_prekey_def
      turso_remove_prekey_def remove_prekey_def turso_store_signed_prekey_def store_signed_prekey_def
      turso_load_signed_prekey_def load_signed_prekey_def turso_remove_signed_prekey_def remove_signed_prekey_def
      turso_put_sender_key_def put_sender_key_def turso_get_sender_key_def get_sender_key_def
      turso_delete_sender_key_def delete_sender_key_def
      turso_sealed_write_sql turso_sealed_read_sql conn_run_sql turso_fetch_blob_query open_seal_envs cong: option.case_cong)

lemma turso_max_prekey_eq [turso_eq]: "turso_get_max_prekey_id T = get_max_prekey_id (read_env T)"
proof (intro ext)
  fix be db
  show "turso_get_max_prekey_id T be db = get_max_prekey_id (read_env T) be db"
    by (cases "t_stmt T 0") (simp_all add: turso_get_max_prekey_id_def get_max_prekey_id_def fetch_optional_query read_env_def
        query_sql_def of_i32_def)
qed

lemma open_id_row_read:
  "open_id_row T be t c (id_row p) =
   (case p of (i, stored) \<Rightarrow> map_ok (Pair i) (backend_open_at (read_env T) be t c (be_bytes32 i) stored))"
  by (cases p) (simp add: open_id_row_def id_row_def open_seal_envs)

lemma turso_all_signed_eq [turso_eq]: "turso_load_all_signed_prekeys T = load_all_signed_prekeys (read_env T)"
  by (simp add: fun_eq_iff turso_load_all_signed_prekeys_def load_all_signed_prekeys_def fetch_all_query try_map_map
      open_id_row_read query_sql_def split: answer.splits)

section \<open>Batches\<close>

lemma turso_batch_eq [turso_eq]:
  "turso_put_identities T be ids db = put_identities (tx_env T (length ids)) be ids db"
  "turso_put_sessions T be ids db = put_sessions (tx_env T (length ids)) be ids db"
  "turso_put_sender_keys T be ids db = put_sender_keys (tx_env T (length ids)) be ids db"
  "turso_delete_identities T be as db = delete_identities (tx_env T (length as)) be as db"
  "turso_delete_sessions T be as db = delete_sessions (tx_env T (length as)) be as db"
  "turso_delete_sender_keys T be as db = delete_sender_keys (tx_env T (length as)) be as db"
  "turso_store_prekeys T be keys u db = store_prekeys (tx_env T (length keys)) be keys u db"
  "turso_remove_prekeys T be is db = remove_prekeys (tx_env T (length is)) be is db"
  "turso_mark_uploaded T be is db = mark_uploaded (tx_env T (length is)) Sqlite be is db"
  "turso_put_lid_mappings T be es db = put_lid_mappings (tx_env T (length es)) be es db"
  "turso_update_device_lists J T now be rs db = update_device_lists J (tx_env T (length rs)) now be rs db"
  by (simp_all add: turso_put_identities_def put_identities_def turso_put_sessions_def put_sessions_def
      turso_put_sender_keys_def put_sender_keys_def turso_put_address_records_def put_address_records_def
      turso_delete_identities_def delete_identities_def turso_delete_sessions_def delete_sessions_def
      turso_delete_sender_keys_def delete_sender_keys_def turso_delete_by_address_def delete_by_address_def
      turso_store_prekeys_def store_prekeys_def turso_remove_prekeys_def remove_prekeys_def
      turso_mark_uploaded_def mark_uploaded_def turso_put_lid_mappings_def put_lid_mappings_def
      turso_update_device_lists_def update_device_lists_def turso_put_device_list_in_def [abs_def] put_device_list_in_def [abs_def]
      turso_batch_tx turso_loop_tx open_seal_envs)

lemma turso_get_sessions_eq [turso_eq]: "turso_get_sessions T = get_sessions (read_env T)"
  by (simp add: fun_eq_iff turso_get_sessions_def get_sessions_def address_row_def open_seal_envs split_def
      fetch_chunks_select [where enc = "\<lambda>p. [VText (fst p), VBlob (snd p)]"
        and conv' = "\<lambda>p. map_ok (Pair (fst p)) (turso_open_at T _ ''sessions'' ''record'' (str_bytes (fst p)) (snd p))"])

lemma turso_load_prekeys_eq [turso_eq]: "turso_load_prekeys T = load_prekeys (read_env T)"
  unfolding fun_eq_iff turso_load_prekeys_def load_prekeys_def
  by (intro allI fetch_chunks_select) (simp add: open_id_row_read)

section \<open>The protocol store\<close>

lemma turso_fetch_lid_eq:
  "turso_fetch_lid T found = map_ok (map_option lid_entry) (query_sql (e_answer (read_env T) 0) found)"
  by (cases "t_stmt T 0"; cases found)
     (simp_all add: turso_fetch_lid_def fetch_optional_query read_env_def query_sql_def lid_columns_read)

lemma turso_protocol_write_eq [turso_eq]:
  "turso_clear_sender_key_devices T = clear_sender_key_devices (write_env T)"
  "turso_clear_all_sender_key_devices T = clear_all_sender_key_devices (write_env T)"
  "turso_put_lid_mapping T = put_lid_mapping (write_env T)"
  "turso_save_base_key T = save_base_key (write_env T)"
  "turso_delete_base_key T = delete_base_key (write_env T)"
  "turso_delete_expired_base_keys T = delete_expired_base_keys (write_env T)"
  "turso_update_device_list J T = update_device_list J (write_env T)"
  "turso_delete_devices T = delete_devices (write_env T)"
  "turso_put_tc_token T = put_tc_token (write_env T)"
  "turso_delete_tc_token T = delete_tc_token (write_env T)"
  "turso_delete_expired_tc_tokens T = delete_expired_tc_tokens (write_env T)"
  "turso_touch_sender_timestamp T = touch_sender_timestamp (write_env T)"
  "turso_store_received T = store_received (write_env T)"
  "turso_store_sent_message T = store_sent_message (write_env T)"
  "turso_delete_expired_sent_messages T = delete_expired_sent_messages (write_env T)"
  by (simp_all add: fun_eq_iff turso_clear_sender_key_devices_def clear_sender_key_devices_def
      turso_clear_all_sender_key_devices_def clear_all_sender_key_devices_def turso_put_lid_mapping_def put_lid_mapping_def
      turso_save_base_key_def save_base_key_def turso_delete_base_key_def delete_base_key_def
      turso_delete_expired_base_keys_def delete_expired_base_keys_def turso_update_device_list_def update_device_list_def
      turso_delete_devices_def delete_devices_def turso_put_tc_token_def put_tc_token_def turso_delete_tc_token_def
      delete_tc_token_def turso_delete_expired_tc_tokens_def delete_expired_tc_tokens_def
      turso_touch_sender_timestamp_def touch_sender_timestamp_def turso_store_received_def store_received_def
      turso_store_sent_message_def store_sent_message_def turso_delete_expired_sent_messages_def
      delete_expired_sent_messages_def turso_sealed_write_sql conn_run_sql conn_count_sql split: sum.splits)

lemma turso_protocol_loop_eq [turso_eq]:
  "turso_set_sender_key_status T now be g es db = set_sender_key_status (tx_env T (length es)) now be g es db"
  "turso_delete_sender_key_device_rows T be js db = delete_sender_key_device_rows (tx_env T (length js)) be js db"
  by (simp_all add: turso_set_sender_key_status_def set_sender_key_status_def turso_delete_sender_key_device_rows_def
      delete_sender_key_device_rows_def turso_loop_tx)

lemma turso_protocol_read_eq [turso_eq]:
  "turso_get_lid_mapping T = get_lid_mapping (read_env T)"
  "turso_get_pn_mapping T = get_pn_mapping (read_env T)"
  "turso_has_same_base_key T = has_same_base_key (read_env T)"
  by (simp_all add: fun_eq_iff turso_get_lid_mapping_def get_lid_mapping_def turso_get_pn_mapping_def get_pn_mapping_def
      turso_has_same_base_key_def has_same_base_key_def turso_fetch_lid_eq turso_sealed_read_sql)

lemma turso_lists_eq [turso_eq]:
  "turso_get_sender_key_devices T = get_sender_key_devices (read_env T)"
  "turso_get_all_lid_mappings T = get_all_lid_mappings (read_env T)"
  "turso_get_all_tc_token_jids T = get_all_tc_token_jids (read_env T)"
  by (simp_all add: fun_eq_iff turso_get_sender_key_devices_def get_sender_key_devices_def turso_sender_key_device_def
      turso_get_all_lid_mappings_def get_all_lid_mappings_def turso_get_all_tc_token_jids_def get_all_tc_token_jids_def
      fetch_all_query try_map_map lid_columns_read split_def query_sql_def split: answer.splits)

lemma turso_get_devices_eq [turso_eq]: "turso_get_devices J T = get_devices J (read_env T)"
proof (intro ext)
  fix be user db
  show "turso_get_devices J T be user db = get_devices J (read_env T) be user db"
  proof (cases "GET_DEVICES user (be_device be) db")
    case None
    then show ?thesis
      by (cases "t_stmt T 0") (simp_all add: turso_get_devices_def get_devices_def fetch_optional_query read_env_def query_sql_def)
  next
    case (Some p)
    have "and_then (map_ok Some (turso_device_list_row T (device_list_columns p)))
        (\<lambda>decoded. transpose_opt (map_option (device_list_record_of J) decoded)) = map_ok Some (device_list_record_of J p)"
      unfolding device_list_columns_read [of T p J, symmetric]
      by (cases "turso_device_list_row T (device_list_columns p)") simp_all
    with Some show ?thesis
      by (cases "t_stmt T 0") (simp_all add: turso_get_devices_def get_devices_def fetch_optional_query read_env_def query_sql_def)
  qed
qed

lemma turso_get_tc_token_eq [turso_eq]: "turso_get_tc_token T = get_tc_token (read_env T)"
proof (intro ext)
  fix be jid db
  show "turso_get_tc_token T be jid db = get_tc_token (read_env T) be jid db"
    by (cases "t_stmt T 0"; cases "GET_TC_TOKEN jid (be_device be) db")
       (simp_all add: turso_get_tc_token_def get_tc_token_def fetch_optional_query tc_columns_read read_answer query_sql_def)
qed

lemma turso_protocol_batch_read_eq [turso_eq]:
  "turso_get_devices_batch J T = get_devices_batch J (read_env T)"
  "turso_get_tc_tokens T = get_tc_tokens (read_env T)"
proof -
  show "turso_get_devices_batch J T = get_devices_batch J (read_env T)"
    unfolding fun_eq_iff turso_get_devices_batch_def get_devices_batch_def
    by (intro allI fetch_chunks_select) (simp add: device_list_columns_read)
  have "fetch_chunks T n (\<lambda>c. map (\<lambda>(jid, r). VText jid # tc_columns r) (select_in fst c rows))
      (\<lambda>r. and_then (text_at T r 0) (\<lambda>jid. map_ok (Pair jid) (turso_tc_token_entry T r 1 be jid))) cs =
    select_chunks (e_answer (read_env T)) n fst (\<lambda>(jid, r). map_ok (Pair jid) (tc_entry (read_env T) be jid r)) cs rows" for n be cs rows
    by (rule fetch_chunks_select) (auto simp: tc_columns_read)
  then show "turso_get_tc_tokens T = get_tc_tokens (read_env T)"
    by (simp add: fun_eq_iff turso_get_tc_tokens_def get_tc_tokens_def)
qed

lemma turso_open_sent_eq: "turso_open_sent T = open_sent (read_env T)"
  by (simp add: fun_eq_iff turso_open_sent_def open_sent_def open_seal_envs)

lemma turso_get_sent_message_eq [turso_eq]: "turso_get_sent_message T = get_sent_message (read_env T)"
  by (simp add: fun_eq_iff turso_get_sent_message_def get_sent_message_def turso_fetch_blob_query turso_open_sent_eq)

text \<open>
  Taking a sent message: the SQL family deletes before it opens, Turso after. An opening that fails
  keeps the row either way; the environment is the one in which the DELETE that Turso never ran ran.
\<close>

definition take_env :: "turso_env \<Rightarrow> sql_backend \<Rightarrow> string \<Rightarrow> string \<Rightarrow> sql_db \<Rightarrow> sql_env" where
  "take_env T be chat mid db =
     (if is_ok (turso_open_sent T be chat mid (GET_SENT_MESSAGE chat mid (be_device be) db)) then tx_env T 2
      else (tx_env T 2)\<lparr>e_answer := (e_answer (tx_env T 2))(2 := Ran)\<rparr>)"

lemma turso_take_sent_message_eq [turso_eq]:
  "turso_take_sent_message T be chat mid db = take_sent_message (take_env T be chat mid db) be chat mid db"
proof -
  let ?stored = "GET_SENT_MESSAGE chat mid (be_device be) db"
  have same: "open_sent (take_env T be chat mid db) be chat mid = turso_open_sent T be chat mid"
    by (simp add: take_env_def fun_eq_iff open_sent_def turso_open_sent_def backend_open_at_def [abs_def] turso_open_at_def [abs_def])
  have opened: "turso_open_sent T be chat mid ?stored = Inr None \<longleftrightarrow> ?stored = None"
    by (cases ?stored) (auto simp: turso_open_sent_def Let_def map_ok_def split: sum.splits)
  note ans = take_env_def tx_env_def is_ok_iff
  show ?thesis
  proof (cases "turso_open_sent T be chat mid ?stored")
    case (Inl e)
    then have "?stored \<noteq> None" using opened by (auto simp: turso_open_sent_def)
    with Inl show ?thesis
      unfolding turso_take_sent_message_def take_sent_message_def same turso_tx_def turso_fetch_blob_query
      by (cases "t_begin T"; cases "t_stmt T 0") (simp_all add: ans read_env_def query_sql_def)
  next
    case (Inr payload)
    then have env: "take_env T be chat mid db = tx_env T 2" by (simp add: take_env_def)
    note run = turso_take_sent_message_def take_sent_message_def same turso_tx_def turso_fetch_blob_query
    show ?thesis
    proof (cases ?stored)
      case None
      with Inr opened have "payload = None" by simp
      with None Inr same show ?thesis
        unfolding run env
        by (cases "t_begin T"; cases "t_stmt T 0"; cases "t_finish T")
           (simp_all add: tx_env_def read_env_def query_sql_def execute_sql_def)
    next
      case (Some b)
      with Inr opened obtain p where "payload = Some p" by auto
      with Some Inr same show ?thesis
        unfolding run env
        by (cases "t_begin T"; cases "t_stmt T 0"; cases "t_stmt T 1"; cases "t_finish T")
           (simp_all add: tx_env_def read_env_def query_sql_def exec_execute_def execute_sql_def)
    qed
  qed
qed

section \<open>App state, message secrets and the device\<close>

lemma turso_app_write_eq [turso_eq]:
  "turso_set_sync_key K T = set_sync_key K (write_env T)"
  "turso_delete_version T = delete_version (write_env T)"
  "turso_set_version K T = set_version K (write_env T)"
  "turso_clear_mutation_macs T = clear_mutation_macs (write_env T)"
  "turso_delete_expired_msg_secrets T = delete_expired_msg_secrets (write_env T)"
  "turso_device_save K T = device_save K (write_env T)"
  "turso_device_create K T = device_create K (write_env T)"
  by (simp_all add: fun_eq_iff turso_set_sync_key_def set_sync_key_def turso_delete_version_def delete_version_def
      turso_set_version_def set_version_def turso_clear_mutation_macs_def clear_mutation_macs_def
      turso_delete_expired_msg_secrets_def delete_expired_msg_secrets_def turso_device_save_def device_save_def
      turso_device_create_def device_create_def turso_sealed_write_sql conn_run_sql conn_count_sql)

lemma turso_app_read_eq [turso_eq]:
  "turso_get_sync_key K T = get_sync_key K (read_env T)"
  "turso_get_version K T = get_version K (read_env T)"
  "turso_get_mutation_mac T = get_mutation_mac (read_env T)"
  "turso_get_latest_sync_key_id T = get_latest_sync_key_id (read_env T)"
  "turso_get_msg_secret T = get_msg_secret (read_env T)"
  "turso_device_load K T = device_load K (read_env T)"
  by (simp_all add: fun_eq_iff turso_get_sync_key_def get_sync_key_def turso_get_version_def get_version_def
      turso_get_mutation_mac_def get_mutation_mac_def turso_get_latest_sync_key_id_def get_latest_sync_key_id_def
      turso_get_msg_secret_def get_msg_secret_def turso_device_load_def device_load_def turso_sealed_read_sql
      turso_fetch_blob_query sealed_read_def open_seal_envs transpose_and_then query_sql_def split: answer.splits)

lemma turso_exists_eq [turso_eq]: "turso_device_exists T = device_exists (read_env T)"
proof (intro ext)
  fix be db
  show "turso_device_exists T be db = device_exists (read_env T) be db"
    by (cases "t_stmt T 0") (simp_all add: turso_device_exists_def device_exists_def fetch_optional_query read_env_def query_sql_def)
qed

lemma turso_stored_secret_eq [turso_eq]: "turso_get_stored_msg_secret fs T = get_stored_msg_secret fs (read_env T)"
proof (intro ext)
  fix be chat sender mid db
  show "turso_get_stored_msg_secret fs T be chat sender mid db = get_stored_msg_secret fs (read_env T) be chat sender mid db"
    by (cases "t_stmt T 0"; cases "GET_MSG_SECRET_WITH_TS chat sender mid (be_device be) db")
       (auto simp: turso_get_stored_msg_secret_def get_stored_msg_secret_def fetch_optional_query open_seal_envs
         read_answer query_sql_def)
qed

lemma turso_app_loop_eq [turso_eq]:
  "turso_put_mutation_macs T be name v macs db = put_mutation_macs (tx_env T (length macs)) be name v macs db"
  "turso_delete_mutation_macs T be name is db = delete_mutation_macs (tx_env T (length is)) be name is db"
  "turso_commit_patch K T be name state rem add db =
     commit_patch K (tx_env T (Suc (length rem + length add))) be name state rem add db"
  "turso_put_msg_secrets T be es db = put_msg_secrets (tx_env T (length es)) be es db"
proof -
  have mac: "put_mac_in (tx_env T k) = turso_put_mac_in T" for k
    by (simp add: fun_eq_iff put_mac_in_def turso_put_mac_in_def seal_mac_def open_seal_envs)
  have del: "turso_delete_mac_in = delete_mac_in"
    by (simp add: fun_eq_iff delete_mac_in_def turso_delete_mac_in_def)
  show "turso_put_mutation_macs T be name v macs db = put_mutation_macs (tx_env T (length macs)) be name v macs db"
    by (simp add: turso_put_mutation_macs_def put_mutation_macs_def turso_loop_tx mac)
  show "turso_delete_mutation_macs T be name is db = delete_mutation_macs (tx_env T (length is)) be name is db"
    by (simp add: turso_delete_mutation_macs_def delete_mutation_macs_def turso_loop_tx del)
  have patch: "patch_statement (tx_env T k) = turso_patch_statement T" for k
    by (simp add: fun_eq_iff patch_statement_def turso_patch_statement_def mac del split: patch_step.splits)
  show "turso_commit_patch K T be name state rem add db =
      commit_patch K (tx_env T (Suc (length rem + length add))) be name state rem add db"
    by (simp add: turso_commit_patch_def commit_patch_def turso_loop_tx patch open_seal_envs split: sum.splits)
  show "turso_put_msg_secrets T be es db = put_msg_secrets (tx_env T (length es)) be es db"
    by (simp add: turso_put_msg_secrets_def put_msg_secrets_def turso_loop_tx open_seal_envs)
qed

text \<open>Rows that are passed over after reading, or left out before.\<close>

lemma fetch_chunks_passing:
  assumes "\<And>r. conv (enc r) = (if P r then map_ok Some (conv' r) else Inr None)"
  shows "map_ok (\<lambda>xs. map the (filter (\<lambda>x. x \<noteq> None) xs)) (fetch_chunks T n (\<lambda>c. map enc (select_in key c rows)) conv cs) =
         select_chunks (e_answer (read_env T)) n key conv' cs (filter P rows)"
proof (induction cs arbitrary: n)
  case (Cons c cs)
  have "map_ok (\<lambda>xs. map the (filter (\<lambda>x. x \<noteq> None) xs)) (try_map conv (map enc rs)) = try_map conv' (filter P rs)" for rs
  proof (induction rs)
    case (Cons r rs)
    then show ?case
      by (cases "conv' r"; cases "try_map conv (map enc rs)"; cases "try_map conv' (filter P rs)") (auto simp: assms)
  qed simp
  from this [of "select_in key c rows"]
  have one: "map_ok (\<lambda>xs. map the (filter (\<lambda>x. x \<noteq> None) xs)) (try_map conv (map enc (select_in key c rows))) =
      try_map conv' (select_in key c (filter P rows))"
    by (simp add: select_in_def conj_commute)
  show ?case
    using Cons.IH [of "Suc n", symmetric] one [symmetric]
    by (cases "t_stmt T n"; cases "try_map conv (map enc (select_in key c rows))";
        cases "fetch_chunks T (Suc n) (\<lambda>c. map enc (select_in key c rows)) conv cs")
       (simp_all add: fetch_all_query read_answer query_sql_def)
qed simp

lemma turso_get_mutation_macs_eq [turso_eq]: "turso_get_mutation_macs T = get_mutation_macs (read_env T)"
proof (intro ext)
  fix be name indexes db
  let ?open = "\<lambda>(index, stored). map_ok (Pair index) (open_mac (read_env T) be name index stored)"
  have conv: "mac_row_of T be name ((\<lambda>(index, stored). [VBlob index, VBlob stored]) r) =
      (if (case r of (index, _) \<Rightarrow> length index = 32) then map_ok Some (?open r) else Inr None)" for r
    by (cases r; cases "turso_open_at T be ''app_state_mutation_macs'' ''value_mac'' (joined_row [str_bytes name, fst r]) (snd r)")
       (simp_all add: mac_row_of_def open_mac_def open_seal_envs)
  show "turso_get_mutation_macs T be name indexes db = get_mutation_macs (read_env T) be name indexes db"
    unfolding turso_get_mutation_macs_def get_mutation_macs_def
      fetch_chunks_passing [where T = T and conv = "mac_row_of T be name" and conv' = ?open
        and enc = "\<lambda>(index, stored). [VBlob index, VBlob stored]", OF conv, symmetric]
    by (simp only: map_ok_map_ok)
qed

end
