(* ===== verification/Turso_Engine.thy ===== *)
theory Turso_Engine
  imports Turso_Exec Account_Store
begin

text \<open>
  The parts of the Turso engine around its stores: the rewrite of the placeholders
  (\<open>storage/turso/placeholders.rs\<close>), the DSN (\<open>dsn.rs\<close>), the accounts table (\<open>accounts.rs\<close>) and the
  migrations (\<open>migrations.rs\<close>). The embedded migrations are an argument: what a script does to the
  schema is its function.
\<close>

section \<open>Placeholders\<close>

definition turso_placeholders :: "string \<Rightarrow> string" where
  "turso_placeholders sql = map (\<lambda>c. if c = CHR ''$'' then CHR ''?'' else c) sql"

text \<open>
  The numbers after a sigil, in the order they stand in a text; how a driver gives values to them: by
  number, as sqlx does and turso for \<open>?N\<close>, or by order of first appearance, as turso does for \<open>$N\<close>. A
  number without a value is NULL.
\<close>

definition is_digit :: "char \<Rightarrow> bool" where
  "is_digit c \<longleftrightarrow> c \<in> set ''0123456789''"

fun slots :: "char \<Rightarrow> string \<Rightarrow> string list" where
  "slots sigil [] = []"
| "slots sigil (c # cs) = (if c = sigil then [takeWhile is_digit cs] else []) @ slots sigil cs"

definition value_at :: "turso_value list \<Rightarrow> nat \<Rightarrow> turso_value" where
  "value_at vs i = (if i < length vs then vs ! i else VNull)"

definition digits_number :: "string \<Rightarrow> nat" where
  "digits_number ds = fold (\<lambda>c n. 10 * n + (of_char c - 48)) ds 0"

definition by_number :: "turso_value list \<Rightarrow> string list \<Rightarrow> turso_value list" where
  "by_number vs ns = map (\<lambda>n. value_at vs (digits_number n - 1)) ns"

fun first_seen :: "string list \<Rightarrow> string list \<Rightarrow> string list" where
  "first_seen seen [] = seen"
| "first_seen seen (n # ns) = first_seen (if n \<in> set seen then seen else seen @ [n]) ns"

definition by_appearance :: "turso_value list \<Rightarrow> string list \<Rightarrow> turso_value list" where
  "by_appearance vs ns = map (\<lambda>n. value_at vs (length (takeWhile (\<lambda>m. m \<noteq> n) (first_seen [] ns)))) ns"

definition sqlx_bound :: "string \<Rightarrow> turso_value list \<Rightarrow> turso_value list" where
  "sqlx_bound sql vs = by_number vs (slots (CHR ''$'') sql)"

definition turso_bound :: "string \<Rightarrow> turso_value list \<Rightarrow> turso_value list" where
  "turso_bound sql vs = by_appearance vs (slots (CHR ''$'') sql) @ by_number vs (slots (CHR ''?'') sql)"

lemma takeWhile_digit_placeholders: "takeWhile is_digit (turso_placeholders cs) = takeWhile is_digit cs"
  by (induction cs) (auto simp: turso_placeholders_def is_digit_def)

lemma slots_placeholders:
  "CHR ''?'' \<notin> set sql \<Longrightarrow>
   slots (CHR ''?'') (turso_placeholders sql) = slots (CHR ''$'') sql \<and> slots (CHR ''$'') (turso_placeholders sql) = []"
proof (induction sql)
  case (Cons c cs)
  have cons: "turso_placeholders (c # cs) = (if c = CHR ''$'' then CHR ''?'' else c) # turso_placeholders cs"
    by (simp add: turso_placeholders_def)
  from Cons have "c \<noteq> CHR ''?''" by auto
  moreover from Cons have "slots (CHR ''?'') (turso_placeholders cs) = slots (CHR ''$'') cs"
      "slots (CHR ''$'') (turso_placeholders cs) = []" by auto
  ultimately show ?case unfolding cons using takeWhile_digit_placeholders [of cs] by simp
qed (simp add: turso_placeholders_def)

text \<open>
  The rewritten text binds each value where sqlx binds it in the shared text; the shared text as it is
  would not, when its placeholders are out of order.
\<close>

lemma placeholders_bind_by_number:
  "CHR ''?'' \<notin> set sql \<Longrightarrow> turso_bound (turso_placeholders sql) vs = sqlx_bound sql vs"
  by (simp add: turso_bound_def sqlx_bound_def slots_placeholders by_appearance_def)

lemma dollars_bind_in_order_of_appearance:
  "turso_bound ''$2 $1'' [VInteger 1, VInteger 2] = [VInteger 1, VInteger 2]"
  "sqlx_bound ''$2 $1'' [VInteger 1, VInteger 2] = [VInteger 2, VInteger 1]"
  by code_simp+

section \<open>The DSN\<close>

definition TURSO_PREFIX :: string where
  "TURSO_PREFIX = ''turso://''"

definition refuse_dsn :: "string \<Rightarrow> string \<Rightarrow> store_error" where
  "refuse_dsn url why =
     InvalidConfig (''invalid turso DSN '' @ [CHR 0x27] @ url @ [CHR 0x27] @ '': '' @ why @
       ''; expected turso://<path>, e.g. turso:///var/lib/wamux/wamux.db'')"

definition turso_path :: "string \<Rightarrow> store_error + string" where
  "turso_path url =
     and_then (if take (length TURSO_PREFIX) url = TURSO_PREFIX then Inr (drop (length TURSO_PREFIX) url)
               else Inl (refuse_dsn url ''it does not start with turso://'')) (\<lambda>path.
       if CHR ''?'' \<in> set path then Inl (refuse_dsn url ''turso takes no options, so no query string'')
       else if path = [] \<or> path = ''/'' then Inl (refuse_dsn url ''the path is empty'')
       else Inr path)"

lemma turso_path_Inr:
  "turso_path url = Inr path \<longleftrightarrow> url = ''turso://'' @ path \<and> CHR ''?'' \<notin> set path \<and> path \<noteq> [] \<and> path \<noteq> ''/''"
proof
  assume "turso_path url = Inr path"
  then have "take (length TURSO_PREFIX) url = TURSO_PREFIX" "drop (length TURSO_PREFIX) url = path"
      and path: "CHR ''?'' \<notin> set path \<and> path \<noteq> [] \<and> path \<noteq> ''/''"
    by (auto simp: turso_path_def and_then_Inr_iff split: if_splits)
  then have "url = TURSO_PREFIX @ path" by (metis append_take_drop_id)
  with path show "url = ''turso://'' @ path \<and> CHR ''?'' \<notin> set path \<and> path \<noteq> [] \<and> path \<noteq> ''/''"
    unfolding TURSO_PREFIX_def by blast
next
  assume url: "url = ''turso://'' @ path \<and> CHR ''?'' \<notin> set path \<and> path \<noteq> [] \<and> path \<noteq> ''/''"
  then have "take (length TURSO_PREFIX) url = TURSO_PREFIX" "drop (length TURSO_PREFIX) url = path"
    by (simp_all add: TURSO_PREFIX_def)
  with url show "turso_path url = Inr path"
    by (simp only: turso_path_def and_then_simps if_True if_False simp_thms refl)
qed

section \<open>Accounts\<close>

text \<open>\<open>parse\<close> is \<open>Uuid::parse_str\<close>. The row the engine gives of an account, and how it is read.\<close>

definition account_columns :: "account_row \<Rightarrow> turso_row" where
  "account_columns r =
     [VText (ar_uuid r), or_null VText (ar_external_ref r), VInteger (int (ar_device_id r)),
      or_null VText (ar_push_name r), VInteger (ar_created_at r)]"

definition uuid_text :: "(string \<Rightarrow> string + string) \<Rightarrow> turso_env \<Rightarrow> turso_row \<Rightarrow> nat \<Rightarrow> store_error + string" where
  "uuid_text parse T row column = and_then (text_at T row column) (\<lambda>raw. map_err Serialization (parse raw))"

definition turso_account_row :: "(string \<Rightarrow> string + string) \<Rightarrow> turso_env \<Rightarrow> turso_row \<Rightarrow> store_error + account_row" where
  "turso_account_row parse T row =
     and_then (uuid_text parse T row 0) (\<lambda>uuid.
     and_then (opt_text T row 1) (\<lambda>external.
     and_then (int32 T row 2) (\<lambda>dev.
     and_then (opt_text T row 3) (\<lambda>name.
     and_then (int_at T row 4) (\<lambda>created.
       Inr \<lparr>ar_uuid = uuid, ar_external_ref = external, ar_device_id = nat (sint dev), ar_push_name = name,
            ar_created_at = created\<rparr>)))))"

text \<open>The INSERT: refused by a constraint, or the table with the row and that row.\<close>

definition turso_create_account ::
  "(string \<Rightarrow> string + string) \<Rightarrow> turso_env \<Rightarrow> string option \<Rightarrow> accounts_db \<Rightarrow> accounts_db \<times> (store_error + account_row)" where
  "turso_create_account parse T external db =
     (let uuid = uuids db (drawn db); db1 = db\<lparr>drawn := drawn db + 1\<rparr>;
          inserted = insert_account uuid external db1
      in case inserted of
           (_, Inl e) \<Rightarrow> (db1, and_then (t_begin T) (\<lambda>_. and_then (map_err turso_db (t_stmt T 0)) (\<lambda>_. Inl e)))
         | (db2, Inr row) \<Rightarrow>
             (case write_returning_optional T (\<lambda>_. db2) (\<lambda>_. [account_columns row]) db1 of
                (db3, res) \<Rightarrow>
                  (db3, and_then res (\<lambda>found.
                        and_then (ok_or (Validation ''the account insert returned no row'') found)
                          (turso_account_row parse T)))))"

definition turso_list_accounts ::
  "(string \<Rightarrow> string + string) \<Rightarrow> turso_env \<Rightarrow> accounts_db \<Rightarrow> store_error + account_row list" where
  "turso_list_accounts parse T db =
     and_then (fetch_all T 0 (map account_columns (sort_key ar_device_id (rows db)))) (try_map (turso_account_row parse T))"

definition turso_delete_account :: "turso_env \<Rightarrow> string \<Rightarrow> accounts_db \<Rightarrow> accounts_db \<times> (store_error + bool)" where
  "turso_delete_account T uuid db =
     (case conn_execute T (\<lambda>db. db\<lparr>rows := filter (\<lambda>r. ar_uuid r \<noteq> uuid) (rows db)\<rparr>)
             (\<lambda>db. length (filter (\<lambda>r. ar_uuid r = uuid) (rows db))) db of
        (db', res) \<Rightarrow> (db', map_ok (\<lambda>deleted. deleted > 0) res))"

lemma turso_account_row_columns:
  assumes "parse (ar_uuid r) = Inr (ar_uuid r)" "int (ar_device_id r) < 2 ^ 31"
  shows "turso_account_row parse T (account_columns r) = Inr r"
proof -
  have o: "opt_text T (u # or_null VText x # c # or_null VText y # z) (Suc 0) = Inr x"
      "opt_text T (u # or_null VText x # c # or_null VText y # z) 3 = Inr y" for u c z x y
    by (cases x; cases y; simp add: opt_text_def or_null_def)+
  have "signed_take_bit 31 (int (ar_device_id r)) = int (ar_device_id r)"
    using assms(2) by (intro signed_take_bit_int_eq_self) simp_all
  then have "nat (sint (word_of_int (int (ar_device_id r)) :: bits32)) = ar_device_id r"
    by (simp only: sint_sbintrunc' len_num1 len_bit0 len_bit1) simp
  then show ?thesis
    using assms by (simp add: turso_account_row_def account_columns_def uuid_text_def text_at_def int_at_def int32_def
        to_i32_def o)
qed

section \<open>Migrations\<close>

datatype migration_error =
    Dirty int
  | ChecksumMismatch int
  | VersionMissing int
  | Script int string turso_error
  | Bookkeeping store_error

record 's migration =
  mg_version :: int
  mg_description :: string
  mg_down :: bool
  mg_checksum :: bytes
  mg_script :: "'s \<Rightarrow> turso_error + 's"

record migration_row =
  mr_version :: int
  mr_description :: string
  mr_success :: bool
  mr_checksum :: bytes
  mr_execution_time :: int

record 's migration_db =
  md_schema :: 's
  md_rows :: "migration_row list"

text \<open>
  \<open>fl n\<close> is the answer to the n-th statement. A COMMIT that fails may have taken effect (\<open>Unknown\<close>);
  the open fails then and the connection, with whatever transaction it still has, is dropped.
\<close>

definition mig_step :: "(nat \<Rightarrow> answer) \<Rightarrow> nat \<Rightarrow> 'a \<Rightarrow> migration_error + 'a" where
  "mig_step fl n x = map_err Bookkeeping (query_sql (fl n) x)"

definition SELECT_FAILED :: "migration_row list \<Rightarrow> int option" where
  "SELECT_FAILED rs =
     (case sort_key mr_version (filter (\<lambda>r. \<not> mr_success r) rs) of [] \<Rightarrow> None | r # _ \<Rightarrow> Some (mr_version r))"

definition reject_failed_row :: "(nat \<Rightarrow> answer) \<Rightarrow> nat \<Rightarrow> 's migration_db \<Rightarrow> migration_error + unit" where
  "reject_failed_row fl n db =
     and_then (mig_step fl n (SELECT_FAILED (md_rows db))) (\<lambda>failed.
       case failed of Some v \<Rightarrow> Inl (Dirty v) | None \<Rightarrow> Inr ())"

definition applied_checksums :: "(nat \<Rightarrow> answer) \<Rightarrow> nat \<Rightarrow> 's migration_db \<Rightarrow> migration_error + (int \<times> bytes) list" where
  "applied_checksums fl n db =
     mig_step fl n (map (\<lambda>r. (mr_version r, mr_checksum r)) (sort_key mr_version (md_rows db)))"

text \<open>The code asks a hash map in any order; here the first unknown version in order is named.\<close>

definition check_known :: "'s migration list \<Rightarrow> (int \<times> bytes) list \<Rightarrow> migration_error + unit" where
  "check_known ms applied =
     (case find (\<lambda>v. v \<notin> mg_version ` set ms) (map fst applied) of
        Some v \<Rightarrow> Inl (VersionMissing v)
      | None \<Rightarrow> Inr ())"

definition check_checksum :: "'s migration \<Rightarrow> bytes \<Rightarrow> migration_error + unit" where
  "check_checksum m recorded =
     (if mg_checksum m = recorded then Inr () else Inl (ChecksumMismatch (mg_version m)))"

definition run_script_and_record ::
  "(nat \<Rightarrow> answer) \<Rightarrow> nat \<Rightarrow> 's migration \<Rightarrow> 's migration_db \<Rightarrow> migration_error + 's migration_db" where
  "run_script_and_record fl n m db =
     and_then (map_err (Script (mg_version m) (mg_description m)) (mg_script m (md_schema db))) (\<lambda>schema.
       if mg_version m \<in> mr_version ` set (md_rows db)
       then Inl (Bookkeeping (Database ''UNIQUE constraint failed: _sqlx_migrations.version''))
       else mig_step fl n
         \<lparr>md_schema = schema,
          md_rows = md_rows db @ [\<lparr>mr_version = mg_version m, mr_description = mg_description m, mr_success = True,
                                   mr_checksum = mg_checksum m, mr_execution_time = -1\<rparr>]\<rparr>)"

text \<open>BEGIN, the script and its row, COMMIT, then the elapsed time (\<open>nanos\<close>).\<close>

definition apply_one ::
  "(nat \<Rightarrow> answer) \<Rightarrow> int \<Rightarrow> nat \<Rightarrow> 's migration \<Rightarrow> 's migration_db \<Rightarrow> 's migration_db \<times> (migration_error + unit)" where
  "apply_one fl nanos n m db =
     (case and_then (mig_step fl n ()) (\<lambda>_. run_script_and_record fl (n + 1) m db) of
        Inl e \<Rightarrow> (db, Inl e)
      | Inr db1 \<Rightarrow>
          (case execute_sql (fl (n + 2)) (\<lambda>_. db1) db of
             (db2, Inl e) \<Rightarrow> (db2, Inl (Bookkeeping e))
           | (db2, Inr _) \<Rightarrow>
               (case execute_sql (fl (n + 3))
                       (\<lambda>d. d\<lparr>md_rows := map (\<lambda>r. if mr_version r = mg_version m then r\<lparr>mr_execution_time := nanos\<rparr> else r)
                                           (md_rows d)\<rparr>) db2 of
                  (db3, res) \<Rightarrow> (db3, map_err Bookkeeping res))))"

fun apply_each ::
  "(nat \<Rightarrow> answer) \<Rightarrow> int \<Rightarrow> nat \<Rightarrow> (int \<times> bytes) list \<Rightarrow> 's migration list \<Rightarrow> 's migration_db \<Rightarrow>
   's migration_db \<times> (migration_error + unit)" where
  "apply_each fl nanos n applied [] db = (db, Inr ())"
| "apply_each fl nanos n applied (m # ms) db =
     (if mg_down m then apply_each fl nanos n applied ms db
      else case map_of applied (mg_version m) of
             Some recorded \<Rightarrow>
               (case check_checksum m recorded of
                  Inl e \<Rightarrow> (db, Inl e)
                | Inr _ \<Rightarrow> apply_each fl nanos n applied ms db)
           | None \<Rightarrow>
               (case apply_one fl nanos n m db of
                  (db', Inl e) \<Rightarrow> (db', Inl e)
                | (db', Inr _) \<Rightarrow> apply_each fl nanos (n + 4) applied ms db'))"

text \<open>Statement 0 is the lock, 1 the CREATE TABLE IF NOT EXISTS, whose effect is an empty table.\<close>

definition apply_pending ::
  "(nat \<Rightarrow> answer) \<Rightarrow> int \<Rightarrow> 's migration list \<Rightarrow> 's migration_db \<Rightarrow> 's migration_db \<times> (migration_error + unit)" where
  "apply_pending fl nanos ms db =
     (case and_then (mig_step fl 0 ()) (\<lambda>_.
           and_then (mig_step fl 1 ()) (\<lambda>_.
           and_then (reject_failed_row fl 2 db) (\<lambda>_.
           and_then (applied_checksums fl 3 db) (\<lambda>applied.
           and_then (check_known ms applied) (\<lambda>_. Inr applied))))) of
        Inl e \<Rightarrow> (db, Inl e)
      | Inr applied \<Rightarrow> apply_each fl nanos 4 applied ms db)"

subsection \<open>What a run leaves\<close>

text \<open>
  The pending migrations of a run, in their order, and what a bookkeeping row says of one (its elapsed
  time, which a crash may lose, aside).
\<close>

definition pending_ups :: "(int \<times> bytes) list \<Rightarrow> 's migration list \<Rightarrow> 's migration list" where
  "pending_ups applied ms = filter (\<lambda>m. \<not> mg_down m \<and> map_of applied (mg_version m) = None) ms"

definition row_says :: "migration_row \<Rightarrow> int \<times> string \<times> bool \<times> bytes" where
  "row_says r = (mr_version r, mr_description r, mr_success r, mr_checksum r)"

definition recorded_as :: "'s migration \<Rightarrow> int \<times> string \<times> bool \<times> bytes" where
  "recorded_as m = (mg_version m, mg_description m, True, mg_checksum m)"

definition ran_scripts :: "'s migration list \<Rightarrow> 's migration_db \<Rightarrow> 's migration_db \<Rightarrow> bool" where
  "ran_scripts ms db db' \<longleftrightarrow>
     try_fold mg_script ms (md_schema db) = Inr (md_schema db') \<and>
     map row_says (md_rows db') = map row_says (md_rows db) @ map recorded_as ms"

lemma ran_scripts_none [simp]: "ran_scripts [] db db"
  by (simp add: ran_scripts_def)

lemma ran_scripts_more: "ran_scripts [m] db d \<Longrightarrow> ran_scripts ms d db' \<Longrightarrow> ran_scripts (m # ms) db db'"
  by (auto simp: ran_scripts_def and_then_Inr_iff)

lemma row_says_time [simp]: "row_says (r\<lparr>mr_execution_time := t\<rparr>) = row_says r"
  by (simp add: row_says_def)

lemma run_script_and_record_ran: "run_script_and_record fl n m db = Inr db' \<Longrightarrow> ran_scripts [m] db db'"
  by (auto simp: run_script_and_record_def ran_scripts_def mig_step_def query_sql_def map_err_def recorded_as_def
      row_says_def and_then_Inr_iff split: if_splits answer.splits sum.splits)

text \<open>One migration: the script and its row, or neither; Ok is the former.\<close>

lemma apply_one_ran:
  assumes "apply_one fl nanos n m db = (db', res)"
  shows "ran_scripts [m] db db' \<or> db' = db \<and> res \<noteq> Inr ()"
proof (cases "and_then (mig_step fl n ()) (\<lambda>_. run_script_and_record fl (n + 1) m db)")
  case (Inl e)
  with assms show ?thesis by (auto simp: apply_one_def)
next
  case (Inr db1)
  then have ran: "ran_scripts [m] db db1" by (auto simp: and_then_Inr_iff intro: run_script_and_record_ran)
  have time: "ran_scripts [m] db
      (db1\<lparr>md_rows := map (\<lambda>r. if mr_version r = mg_version m then r\<lparr>mr_execution_time := nanos\<rparr> else r) (md_rows db1)\<rparr>)"
    using ran by (simp add: ran_scripts_def comp_def if_distrib cong: if_cong)
  show ?thesis
    using assms Inr ran time
    by (auto simp: apply_one_def execute_sql_def map_err_def split: answer.splits prod.splits sum.splits)
qed

lemma apply_each_ran:
  "apply_each fl nanos n applied ms db = (db', res) \<Longrightarrow>
   \<exists>k. ran_scripts (take k (pending_ups applied ms)) db db' \<and>
       (res = Inr () \<longrightarrow> k = length (pending_ups applied ms) \<and>
          (\<forall>m \<in> set ms. mg_down m \<or> map_of applied (mg_version m) \<in> {None, Some (mg_checksum m)}))"
proof (induction ms arbitrary: n db)
  case Nil
  then show ?case by (auto simp: pending_ups_def)
next
  case (Cons m ms)
  show ?case
  proof (cases "\<not> mg_down m \<and> map_of applied (mg_version m) = None")
    case skipped: False
    then have ups: "pending_ups applied (m # ms) = pending_ups applied ms" by (simp add: pending_ups_def)
    show ?thesis
    proof (cases "mg_down m \<or> map_of applied (mg_version m) = Some (mg_checksum m)")
      case True
      with Cons.prems have "apply_each fl nanos n applied ms db = (db', res)"
        by (auto simp: check_checksum_def split: if_splits)
      from Cons.IH [OF this] True show ?thesis unfolding ups by auto
    next
      case False
      with skipped Cons.prems have "db' = db" "res \<noteq> Inr ()" by (auto simp: check_checksum_def)
      then show ?thesis by (intro exI [of _ 0]) simp
    qed
  next
    case run: True
    obtain d r where one: "apply_one fl nanos n m db = (d, r)" by (cases "apply_one fl nanos n m db")
    have up: "pending_ups applied (m # ms) = m # pending_ups applied ms" using run by (simp add: pending_ups_def)
    show ?thesis
    proof (cases r)
      case (Inl e)
      with Cons.prems run one have "db' = d" "res = Inl e" by simp_all
      with apply_one_ran [OF one] Inl show ?thesis
        unfolding up by (auto intro: exI [of _ "Suc 0"] exI [of _ 0])
    next
      case (Inr u)
      with apply_one_ran [OF one] have "ran_scripts [m] db d" by auto
      moreover from Inr Cons.prems run one have "apply_each fl nanos (n + 4) applied ms d = (db', res)" by simp
      from Cons.IH [OF this] obtain k where "ran_scripts (take k (pending_ups applied ms)) d db'"
          "res = Inr () \<longrightarrow> k = length (pending_ups applied ms) \<and>
          (\<forall>m \<in> set ms. mg_down m \<or> map_of applied (mg_version m) \<in> {None, Some (mg_checksum m)})" by blast
      ultimately show ?thesis
        unfolding up using run by (intro exI [of _ "Suc k"]) (auto intro: ran_scripts_more)
    qed
  qed
qed

text \<open>
  A run of the migrations, whatever fails: the store holds the scripts of an initial part of the
  pending ones, oldest first, each with its row, and nothing else changed. Ok means all of them, no
  row of a failed one, every recorded version known and unchanged.
\<close>

lemma apply_pending_ran:
  assumes "apply_pending fl nanos ms db = (db', res)"
  defines "applied \<equiv> map (\<lambda>r. (mr_version r, mr_checksum r)) (sort_key mr_version (md_rows db))"
  shows "\<exists>k. ran_scripts (take k (pending_ups applied ms)) db db' \<and>
       (res = Inr () \<longrightarrow> k = length (pending_ups applied ms) \<and>
          (\<forall>r \<in> set (md_rows db). mr_success r \<and> mr_version r \<in> mg_version ` set ms) \<and>
          (\<forall>m \<in> set ms. mg_down m \<or> map_of applied (mg_version m) \<in> {None, Some (mg_checksum m)}))"
proof (cases "and_then (mig_step fl 0 ()) (\<lambda>_.
           and_then (mig_step fl 1 ()) (\<lambda>_.
           and_then (reject_failed_row fl 2 db) (\<lambda>_.
           and_then (applied_checksums fl 3 db) (\<lambda>applied.
           and_then (check_known ms applied) (\<lambda>_. Inr applied)))))")
  case (Inl e)
  with assms(1) have "db' = db" "res = Inl e" by (simp_all add: apply_pending_def)
  then show ?thesis by (intro exI [of _ 0]) simp
next
  case (Inr found)
  then have ok: "reject_failed_row fl 2 db = Inr ()" "applied_checksums fl 3 db = Inr found" "check_known ms found = Inr ()"
    by (auto simp: and_then_Inr_iff)
  have found: "found = applied"
    using ok(2) by (auto simp: applied_checksums_def applied_def mig_step_def query_sql_def map_err_def split: answer.splits)
  have "SELECT_FAILED (md_rows db) = None"
    using ok(1) by (auto simp: reject_failed_row_def mig_step_def query_sql_def map_err_def and_then_Inr_iff
        split: answer.splits option.splits sum.splits)
  then have succeeded: "\<forall>r \<in> set (md_rows db). mr_success r"
    using set_sort [of mr_version "filter (\<lambda>r. \<not> mr_success r) (md_rows db)"]
    by (fastforce simp: SELECT_FAILED_def simp del: set_sort split: list.splits)
  have known: "\<forall>r \<in> set (md_rows db). mr_version r \<in> mg_version ` set ms"
    using ok(3) found by (auto simp: check_known_def applied_def find_None_iff split: option.splits)
  from assms(1) Inr found have "apply_each fl nanos 4 applied ms db = (db', res)" by (simp add: apply_pending_def)
  from apply_each_ran [OF this] succeeded known show ?thesis by blast
qed

end
