(* ===== verification/Turso_Properties.thy ===== *)
theory Turso_Properties
  imports Turso_Equivalence Turso_Engine
begin

text \<open>The property of the Turso backend: it is the SQL family on another engine.\<close>

text \<open>
  C33. Every call of the Turso backend (Signal, protocol, app-state, message secrets, device) is the
  SQL family's call: the same effect on the tables and the same answer, where the engine's answers are
  what the statements' outcomes of Turso amount to. A read sees its rows as Turso's untyped cells and
  still gives the SQL family's value. A write on the shared connection is one statement there, a batch
  a transaction whose BEGIN, statements and COMMIT or ROLLBACK are answered in turn.
\<close>

theorem turso_calls_are_the_sql_calls:
  "turso_put_identity T = put_identity (write_env T) \<and>
   turso_load_identity T = load_identity (read_env T) \<and>
   turso_delete_identity T = delete_identity (write_env T) \<and>
   turso_get_session T = get_session (read_env T) \<and>
   turso_put_session T = put_session (write_env T) \<and>
   turso_delete_session T = delete_session (write_env T) \<and>
   turso_store_prekey T = store_prekey (write_env T) \<and>
   turso_load_prekey T = load_prekey (read_env T) \<and>
   turso_remove_prekey T = remove_prekey (write_env T) \<and>
   turso_store_signed_prekey T = store_signed_prekey (write_env T) \<and>
   turso_load_signed_prekey T = load_signed_prekey (read_env T) \<and>
   turso_remove_signed_prekey T = remove_signed_prekey (write_env T) \<and>
   turso_put_sender_key T = put_sender_key (write_env T) \<and>
   turso_get_sender_key T = get_sender_key (read_env T) \<and>
   turso_delete_sender_key T = delete_sender_key (write_env T) \<and>
   turso_get_max_prekey_id T = get_max_prekey_id (read_env T) \<and>
   turso_load_all_signed_prekeys T = load_all_signed_prekeys (read_env T) \<and>
   turso_put_identities T be ids db = put_identities (tx_env T (length ids)) be ids db \<and>
   turso_put_sessions T be ids db = put_sessions (tx_env T (length ids)) be ids db \<and>
   turso_put_sender_keys T be ids db = put_sender_keys (tx_env T (length ids)) be ids db \<and>
   turso_delete_identities T be as db = delete_identities (tx_env T (length as)) be as db \<and>
   turso_delete_sessions T be as db = delete_sessions (tx_env T (length as)) be as db \<and>
   turso_delete_sender_keys T be as db = delete_sender_keys (tx_env T (length as)) be as db \<and>
   turso_store_prekeys T be keys u db = store_prekeys (tx_env T (length keys)) be keys u db \<and>
   turso_remove_prekeys T be is db = remove_prekeys (tx_env T (length is)) be is db \<and>
   turso_mark_uploaded T be is db = mark_uploaded (tx_env T (length is)) Sqlite be is db \<and>
   turso_put_lid_mappings T be es db = put_lid_mappings (tx_env T (length es)) be es db \<and>
   turso_update_device_lists J T now be rs db = update_device_lists J (tx_env T (length rs)) now be rs db \<and>
   turso_get_sessions T = get_sessions (read_env T) \<and>
   turso_load_prekeys T = load_prekeys (read_env T) \<and>
   turso_clear_sender_key_devices T = clear_sender_key_devices (write_env T) \<and>
   turso_clear_all_sender_key_devices T = clear_all_sender_key_devices (write_env T) \<and>
   turso_put_lid_mapping T = put_lid_mapping (write_env T) \<and>
   turso_save_base_key T = save_base_key (write_env T) \<and>
   turso_delete_base_key T = delete_base_key (write_env T) \<and>
   turso_delete_expired_base_keys T = delete_expired_base_keys (write_env T) \<and>
   turso_update_device_list J T = update_device_list J (write_env T) \<and>
   turso_delete_devices T = delete_devices (write_env T) \<and>
   turso_put_tc_token T = put_tc_token (write_env T) \<and>
   turso_delete_tc_token T = delete_tc_token (write_env T) \<and>
   turso_delete_expired_tc_tokens T = delete_expired_tc_tokens (write_env T) \<and>
   turso_touch_sender_timestamp T = touch_sender_timestamp (write_env T) \<and>
   turso_store_received T = store_received (write_env T) \<and>
   turso_store_sent_message T = store_sent_message (write_env T) \<and>
   turso_delete_expired_sent_messages T = delete_expired_sent_messages (write_env T) \<and>
   turso_set_sender_key_status T now be g statuses db = set_sender_key_status (tx_env T (length statuses)) now be g statuses db \<and>
   turso_delete_sender_key_device_rows T be js db = delete_sender_key_device_rows (tx_env T (length js)) be js db \<and>
   turso_get_lid_mapping T = get_lid_mapping (read_env T) \<and>
   turso_get_pn_mapping T = get_pn_mapping (read_env T) \<and>
   turso_has_same_base_key T = has_same_base_key (read_env T) \<and>
   turso_get_sender_key_devices T = get_sender_key_devices (read_env T) \<and>
   turso_get_all_lid_mappings T = get_all_lid_mappings (read_env T) \<and>
   turso_get_all_tc_token_jids T = get_all_tc_token_jids (read_env T) \<and>
   turso_get_devices J T = get_devices J (read_env T) \<and>
   turso_get_tc_token T = get_tc_token (read_env T) \<and>
   turso_get_devices_batch J T = get_devices_batch J (read_env T) \<and>
   turso_get_tc_tokens T = get_tc_tokens (read_env T) \<and>
   turso_get_sent_message T = get_sent_message (read_env T) \<and>
   turso_take_sent_message T be chat mid db = take_sent_message (take_env T be chat mid db) be chat mid db \<and>
   turso_set_sync_key K T = set_sync_key K (write_env T) \<and>
   turso_delete_version T = delete_version (write_env T) \<and>
   turso_set_version K T = set_version K (write_env T) \<and>
   turso_clear_mutation_macs T = clear_mutation_macs (write_env T) \<and>
   turso_delete_expired_msg_secrets T = delete_expired_msg_secrets (write_env T) \<and>
   turso_device_save K T = device_save K (write_env T) \<and>
   turso_device_create K T = device_create K (write_env T) \<and>
   turso_get_sync_key K T = get_sync_key K (read_env T) \<and>
   turso_get_version K T = get_version K (read_env T) \<and>
   turso_get_mutation_mac T = get_mutation_mac (read_env T) \<and>
   turso_get_latest_sync_key_id T = get_latest_sync_key_id (read_env T) \<and>
   turso_get_msg_secret T = get_msg_secret (read_env T) \<and>
   turso_device_load K T = device_load K (read_env T) \<and>
   turso_device_exists T = device_exists (read_env T) \<and>
   turso_get_stored_msg_secret fs T = get_stored_msg_secret fs (read_env T) \<and>
   turso_put_mutation_macs T be name v macs db = put_mutation_macs (tx_env T (length macs)) be name v macs db \<and>
   turso_delete_mutation_macs T be name indexes db = delete_mutation_macs (tx_env T (length indexes)) be name indexes db \<and>
   turso_commit_patch K T be name state rem add db = commit_patch K (tx_env T (Suc (length rem + length add))) be name state rem add db \<and>
   turso_put_msg_secrets T be secrets db = put_msg_secrets (tx_env T (length secrets)) be secrets db \<and>
   turso_get_mutation_macs T = get_mutation_macs (read_env T)"
  by (intro conjI; rule turso_eq)

end
