(* ===== verification/Turso_Upgrade.thy ===== *)
theory Turso_Upgrade
  imports Turso_Exec Bincode_Upgrade
begin

text \<open>
  The upgrade of bincode blobs on the Turso engine (\<open>storage/turso/bincode_upgrade.rs\<close>) and the marker
  the engine reports. The rows come as untyped values; the transaction ends here whatever happened, so
  a store that needs nothing is never refused for a failed rollback.
\<close>

definition turso_read_blob_format :: "turso_env \<Rightarrow> (nat \<Rightarrow> answer) \<Rightarrow> nat \<Rightarrow> blob_store \<Rightarrow> upgrade_error + string" where
  "turso_read_blob_format T ans n s =
     and_then (statement ans n ''reading blob_format'' (map_option (\<lambda>f. [VText f]) (bs_format s))) (\<lambda>row.
     and_then (ok_or (UnknownFormat ''<no blob_format row>'') row) (\<lambda>row.
       map_err (UpgradeDatabase ''reading blob_format'') (text_at T row 0)))"

definition turso_mark_protobuf :: "(nat \<Rightarrow> answer) \<Rightarrow> nat \<Rightarrow> blob_store \<Rightarrow> upgrade_error + blob_store" where
  "turso_mark_protobuf ans n s = statement ans n ''updating blob_format'' (MARK_BLOB_FORMAT BLOB_FORMAT_PROTOBUF s)"

definition turso_read_rows ::
  "(nat \<Rightarrow> answer) \<Rightarrow> nat \<Rightarrow> turso_row list \<Rightarrow> string \<Rightarrow> (turso_row \<Rightarrow> store_error + 'x) \<Rightarrow> upgrade_error + 'x list" where
  "turso_read_rows ans n rows ctx decode =
     and_then (statement ans n ctx rows) (\<lambda>rows. map_err (UpgradeDatabase ctx) (try_map decode rows))"

definition turso_read_legacy_rows :: "turso_env \<Rightarrow> (nat \<Rightarrow> answer) \<Rightarrow> nat \<Rightarrow> blob_store \<Rightarrow> upgrade_error + legacy_rows" where
  "turso_read_legacy_rows T ans n s =
     and_then (turso_read_rows ans n (map (\<lambda>(d, b). [of_i32 d, VBlob b]) (SELECT_LEGACY_DEVICES s)) ''reading device'' (\<lambda>r.
       and_then (int32 T r 0) (\<lambda>d. map_ok (Pair d) (blob T r 1)))) (\<lambda>ds.
     and_then (turso_read_rows ans (n + 1) (map (\<lambda>(d, name, b). [of_i32 d, VText name, VBlob b]) (SELECT_LEGACY_VERSIONS s))
       ''reading app_state_versions'' (\<lambda>r.
       and_then (int32 T r 0) (\<lambda>d. and_then (text_at T r 1) (\<lambda>name. map_ok (\<lambda>b. (d, name, b)) (blob T r 2))))) (\<lambda>vs.
     and_then (turso_read_rows ans (n + 2) (map (\<lambda>(d, i, b). [of_i32 d, VBlob i, VBlob b]) (SELECT_LEGACY_SYNC_KEYS s))
       ''reading app_state_keys'' (\<lambda>r.
       and_then (int32 T r 0) (\<lambda>d. and_then (blob T r 1) (\<lambda>i. map_ok (\<lambda>b. (d, i, b)) (blob T r 2))))) (\<lambda>ks.
       Inr \<lparr>up_devices = ds, up_versions = vs, up_sync_keys = ks\<rparr>)))"

definition turso_write_devices :: "(nat \<Rightarrow> answer) \<Rightarrow> nat \<Rightarrow> upgrade_plan \<Rightarrow> blob_store \<Rightarrow> upgrade_error + blob_store" where
  "turso_write_devices ans n p s = write_each ans ''updating device'' (\<lambda>(d, b). UPDATE_DEVICE_BLOB b d) n (up_devices p) s"

definition turso_write_versions :: "(nat \<Rightarrow> answer) \<Rightarrow> nat \<Rightarrow> upgrade_plan \<Rightarrow> blob_store \<Rightarrow> upgrade_error + blob_store" where
  "turso_write_versions ans n p s =
     write_each ans ''updating app_state_versions'' (\<lambda>(d, name, b). UPDATE_VERSION_BLOB b d name) n (up_versions p) s"

definition turso_write_sync_keys :: "(nat \<Rightarrow> answer) \<Rightarrow> nat \<Rightarrow> upgrade_plan \<Rightarrow> blob_store \<Rightarrow> upgrade_error + blob_store" where
  "turso_write_sync_keys ans n p s =
     write_each ans ''updating app_state_keys'' (\<lambda>(d, i, b). UPDATE_SYNC_KEY_BLOB b d i) n (up_sync_keys p) s"

definition turso_write_plan :: "(nat \<Rightarrow> answer) \<Rightarrow> nat \<Rightarrow> upgrade_plan \<Rightarrow> blob_store \<Rightarrow> upgrade_error + blob_store" where
  "turso_write_plan ans n p s =
     and_then (turso_write_devices ans n p s) (\<lambda>s1.
     and_then (turso_write_versions ans (n + length (up_devices p)) p s1) (\<lambda>s2.
       turso_write_sync_keys ans (n + length (up_devices p) + length (up_versions p)) p s2))"

text \<open>Nothing when the blobs are protobuf already; else the store to commit with the number of the COMMIT.\<close>

definition plan_and_write ::
  "turso_env \<Rightarrow> ('l, 'k, 'h, 'v) bincode \<Rightarrow> ('k, 'h, 'v) codec \<Rightarrow> (nat \<Rightarrow> answer) \<Rightarrow> blob_store \<Rightarrow>
   upgrade_error + (nat \<times> blob_store) option" where
  "plan_and_write T B K ans s =
     and_then (turso_read_blob_format T ans 1 s) (\<lambda>format.
     and_then (needs_bincode_upgrade format) (\<lambda>needed.
       if \<not> needed then Inr None
       else
         and_then (turso_read_legacy_rows T ans 2 s) (\<lambda>rows.
         and_then (plan_bincode_upgrade B K rows) (\<lambda>plan.
         and_then (turso_write_plan ans 5 plan s) (\<lambda>s1.
         and_then (turso_mark_protobuf ans (5 + writes_of plan) s1) (\<lambda>s2.
           Inr (Some (6 + writes_of plan, s2))))))))"

definition turso_upgrade_bincode_blobs ::
  "turso_env \<Rightarrow> ('l, 'k, 'h, 'v) bincode \<Rightarrow> ('k, 'h, 'v) codec \<Rightarrow> (nat \<Rightarrow> answer) \<Rightarrow> blob_store \<Rightarrow>
   blob_store \<times> (upgrade_error + unit)" where
  "turso_upgrade_bincode_blobs T B K ans s =
     (case statement ans 0 ''begin'' () of
        Inl e \<Rightarrow> (s, Inl e)
      | Inr _ \<Rightarrow>
          (case plan_and_write T B K ans s of
             Inr (Some (n, s')) \<Rightarrow>
               (case execute_sql (ans n) (\<lambda>_. s') s of (t, r) \<Rightarrow> (t, map_err (UpgradeDatabase ''commit'') r))
           | Inr None \<Rightarrow> (s, Inr ())
           | Inl e \<Rightarrow> (s, Inl e)))"

text \<open>\<open>TursoStore::blob_format\<close>.\<close>

definition turso_blob_format :: "(upgrade_error \<Rightarrow> string) \<Rightarrow> turso_env \<Rightarrow> blob_store \<Rightarrow> store_error + blob_format" where
  "turso_blob_format shown T s =
     and_then (fetch_optional T 0 (case bs_format s of None \<Rightarrow> [] | Some f \<Rightarrow> [[VText f]])) (\<lambda>row.
     and_then (transpose_opt (map_option (\<lambda>row. text_at T row 0) row)) (store_blob_format shown))"

section \<open>The SQL family's upgrade\<close>

lemma turso_read_legacy_rows_sql: "turso_read_legacy_rows T ans n s = read_legacy_rows ans n s"
proof -
  have rows: "turso_read_rows ans m (map enc xs) ctx decode = statement ans m ctx xs"
    if "\<And>x. decode (enc x) = Inr x" for m enc decode ctx and xs :: "'x list"
    using that by (cases "ans m") (simp_all add: turso_read_rows_def statement_def query_sql_def try_map_map comp_def)
  show ?thesis
    unfolding turso_read_legacy_rows_def read_legacy_rows_def
    by (subst rows, force simp: int32_def int_at_def blob_def of_i32_def text_at_def)+ (rule refl)
qed

lemma turso_write_plan_sql: "turso_write_plan ans n p s = write_plan ans n p s"
  by (simp add: turso_write_plan_def write_plan_def turso_write_devices_def turso_write_versions_def turso_write_sync_keys_def)

lemma turso_read_blob_format_sql:
  "bs_format s = Some f \<Longrightarrow> turso_read_blob_format T ans n s = read_blob_format ans n s"
  by (cases "ans n") (simp_all add: turso_read_blob_format_def read_blob_format_def statement_def query_sql_def text_at_def ok_or_def)

text \<open>
  With the marker in place, and the rollback of a store that needs nothing answered, the upgrade is the
  SQL family's. Without the marker it is refused before a row is read.
\<close>

lemma turso_upgrade_sql:
  assumes "bs_format s = Some f" "f = BLOB_FORMAT_PROTOBUF \<longrightarrow> ans 2 = Ran"
  shows "turso_upgrade_bincode_blobs T B K ans s = upgrade_bincode_blobs B K ans s"
proof -
  have body: "upgrade_body B K ans s = and_then (statement ans 0 ''begin'' ()) (\<lambda>_. plan_and_write T B K ans s)"
  proof (cases "ans 1 = Ran \<and> f = BLOB_FORMAT_PROTOBUF")
    case True
    with assms show ?thesis
      by (simp add: upgrade_body_def plan_and_write_def turso_read_blob_format_sql [OF assms(1)] read_blob_format_def statement_def
          query_sql_def ok_or_def needs_bincode_upgrade_def parse_blob_format_def BLOB_FORMAT_BINCODE_def BLOB_FORMAT_PROTOBUF_def)
  next
    case False
    have none: "and_then (read_blob_format ans 1 s) (\<lambda>m. and_then (needs_bincode_upgrade m) g) =
        and_then (read_blob_format ans 1 s) (\<lambda>m. and_then (needs_bincode_upgrade m) h)"
      if "\<And>x. x = True \<Longrightarrow> g x = h x" for g h :: "bool \<Rightarrow> upgrade_error + (nat \<times> blob_store) option"
      using False assms(1) that
      by (cases "ans 1") (auto simp: read_blob_format_def statement_def query_sql_def ok_or_def needs_bincode_upgrade_def
          parse_blob_format_def)
    show ?thesis
      unfolding upgrade_body_def plan_and_write_def turso_read_blob_format_sql [OF assms(1)] turso_read_legacy_rows_sql
        turso_write_plan_sql turso_mark_protobuf_def mark_protobuf_def
      by (intro arg_cong [where f = "and_then _"] ext none) simp
  qed
  show ?thesis
    by (cases "ans 0"; cases "plan_and_write T B K ans s")
       (simp_all add: turso_upgrade_bincode_blobs_def upgrade_bincode_blobs_def body statement_def query_sql_def
          split: option.split)
qed

lemma turso_upgrade_without_marker:
  "ans 0 = Ran \<Longrightarrow> ans 1 = Ran \<Longrightarrow> bs_format s = None \<Longrightarrow>
   turso_upgrade_bincode_blobs T B K ans s = (s, Inl (UnknownFormat ''<no blob_format row>''))"
  by (simp add: turso_upgrade_bincode_blobs_def plan_and_write_def turso_read_blob_format_def statement_def query_sql_def ok_or_def)

lemma turso_blob_format_reads:
  "t_stmt T 0 = Inr () \<Longrightarrow> turso_blob_format shown T s = store_blob_format shown (bs_format s)"
  by (cases "bs_format s") (simp_all add: turso_blob_format_def fetch_optional_def fetch_all_def fetch_all_raw_def text_at_def)

section \<open>The property\<close>

lemma turso_upgrade_states:
  assumes "keyed_once s" and "turso_upgrade_bincode_blobs T B K ans s = (s', r)"
  shows "(s' = s \<or> upgraded B K s s') \<and>
    (r = Inr () \<longrightarrow> bs_format s' = Some ''protobuf'') \<and>
    (bs_format s \<noteq> Some ''bincode'' \<longrightarrow> s' = s) \<and>
    (bs_format s \<notin> {Some ''bincode'', Some ''protobuf''} \<longrightarrow> \<not> is_ok r)"
proof (cases "bs_format s")
  case None
  then obtain e where "plan_and_write T B K ans s = Inl e"
    by (cases "ans 1") (simp_all add: plan_and_write_def turso_read_blob_format_def statement_def query_sql_def ok_or_def)
  with assms(2) have "s' = s \<and> \<not> is_ok r"
    by (cases "ans 0") (auto simp: turso_upgrade_bincode_blobs_def statement_def query_sql_def)
  with None show ?thesis by auto
next
  case (Some f)
  show ?thesis
  proof (cases "f = BLOB_FORMAT_PROTOBUF \<longrightarrow> ans 2 = Ran")
    case True
    with turso_upgrade_sql [OF Some, of ans T B K] assms(2) have "upgrade_bincode_blobs B K ans s = (s', r)" by simp
    from upgrade_states [OF assms(1) this] show ?thesis .
  next
    case False
    with Some have "plan_and_write T B K ans s = Inr None \<or> (\<exists>e. plan_and_write T B K ans s = Inl e)"
      by (cases "ans 1") (simp_all add: plan_and_write_def turso_read_blob_format_def statement_def query_sql_def ok_or_def text_at_def
          needs_bincode_upgrade_def parse_blob_format_def BLOB_FORMAT_BINCODE_def BLOB_FORMAT_PROTOBUF_def)
    with assms(2) have "s' = s" by (auto simp: turso_upgrade_bincode_blobs_def split: sum.splits)
    with False Some show ?thesis by (simp add: BLOB_FORMAT_PROTOBUF_def)
  qed
qed

text \<open>
  C40. The upgrade of the stored blobs, on either engine family, is all or nothing and loses nothing.
  Whatever the database answers, the store is afterwards as it was, or every row is still there with a
  blob that the protobuf codec reads as the value the bincode one held and the marker says protobuf; Ok
  means that the marker says so. A store that is not marked bincode is not touched, and one whose marker
  is unknown or missing is refused.
\<close>

theorem blob_upgrade_is_all_or_nothing:
  assumes "keyed_once s" and "(s', r) \<in> {upgrade_bincode_blobs B K ans s, turso_upgrade_bincode_blobs T B K ans s}"
  shows "(s' = s \<or> upgraded B K s s') \<and>
    (r = Inr () \<longrightarrow> bs_format s' = Some ''protobuf'') \<and>
    (bs_format s \<noteq> Some ''bincode'' \<longrightarrow> s' = s) \<and>
    (bs_format s \<notin> {Some ''bincode'', Some ''protobuf''} \<longrightarrow> \<not> is_ok r)"
  using assms(2) upgrade_states [OF assms(1), of B K ans s' r] turso_upgrade_states [OF assms(1), of T B K ans s' r]
  by (simp only: insert_iff empty_iff simp_thms) metis

theorem blob_upgrade_is_all_or_nothing_witness:
  "\<exists>s'. upgrade_bincode_blobs demo_bincode demo_blob_codec (\<lambda>_. Ran) demo_blob_store = (s', Inr ()) \<and>
     upgraded demo_bincode demo_blob_codec demo_blob_store s'"
proof -
  let ?run = "upgrade_bincode_blobs demo_bincode demo_blob_codec (\<lambda>_. Ran) demo_blob_store"
  have "snd ?run = Inr ()" by code_simp
  then obtain s' where run: "?run = (s', Inr ())" by (metis prod.collapse)
  have k: "keyed_once demo_blob_store" by code_simp
  then have "(s', Inr ()) \<in> {?run, turso_upgrade_bincode_blobs demo_turso demo_bincode demo_blob_codec (\<lambda>_. Ran) demo_blob_store}"
    using run by simp
  from blob_upgrade_is_all_or_nothing [OF k this]
  have "s' = demo_blob_store \<or> upgraded demo_bincode demo_blob_codec demo_blob_store s'" "bs_format s' = Some ''protobuf''"
    by simp_all
  moreover have "bs_format demo_blob_store \<noteq> Some ''protobuf''" by (simp add: demo_blob_store_def)
  ultimately show ?thesis using run by auto
qed

end
