(* ===== verification/Storage_Factory.thy ===== *)
theory Storage_Factory
  imports Turso_Engine Turso_Conversion
begin

text \<open>
  Opening a store: the scheme of the DSN picks the engine (\<open>storage/mod.rs\<close>), the engine makes the file
  private before a driver touches it (\<open>storage/file_mode.rs\<close>), connects, migrates and settles the
  encryption state (\<open>storage/sql/mod.rs\<close>, \<open>storage/turso/mod.rs\<close>, \<open>storage/turso/connection.rs\<close>). What
  the drivers and the steps that have theories of their own do is an argument: \<open>'s\<close> is the store they
  work on.
\<close>

section \<open>The store file\<close>

type_synonym file_mode = bits32

text \<open>The files of a directory by path, with their modes.\<close>

type_synonym mode_fs = "string \<rightharpoonup> file_mode"

datatype open_answer = Opened | AlreadyExists | OpenFailed string

definition MODE_PRIVATE :: file_mode where
  "MODE_PRIVATE = 0x180"

text \<open>\<open>open\<close> with \<open>create_new\<close>: it creates the file with the mode less the umask, or says that it exists.\<close>

definition open_new :: "file_mode \<Rightarrow> string option \<Rightarrow> string \<Rightarrow> mode_fs \<Rightarrow> mode_fs \<times> open_answer" where
  "open_new umask io_fault path fs =
     (case io_fault of
        Some e \<Rightarrow> (fs, OpenFailed e)
      | None \<Rightarrow>
          (case fs path of
             Some _ \<Rightarrow> (fs, AlreadyExists)
           | None \<Rightarrow> (fs(path \<mapsto> and MODE_PRIVATE (not umask)), Opened)))"

definition create_private :: "file_mode \<Rightarrow> string option \<Rightarrow> string \<Rightarrow> mode_fs \<Rightarrow> mode_fs \<times> (string + unit)" where
  "create_private umask io_fault path fs =
     (case open_new umask io_fault path fs of
        (fs', Opened) \<Rightarrow> (fs', Inr ())
      | (fs', AlreadyExists) \<Rightarrow> (fs', Inr ())
      | (fs', OpenFailed e) \<Rightarrow> (fs', Inl e))"

definition is_loose :: "file_mode \<Rightarrow> bool" where
  "is_loose mode \<longleftrightarrow> and mode 0x3F \<noteq> 0"

definition with_suffix :: "string \<Rightarrow> string \<Rightarrow> string" where
  "with_suffix path suffix = path @ suffix"

definition loose_files :: "string \<Rightarrow> mode_fs \<Rightarrow> (string \<times> file_mode) list" where
  "loose_files path fs =
     List.map_filter (\<lambda>file.
         case fs file of
           None \<Rightarrow> None
         | Some mode \<Rightarrow> (let m = and mode 0x1FF in if is_loose m then Some (file, m) else None))
       (map (with_suffix path) ['''', ''-wal'', ''-shm''])"

text \<open>The warnings are the loose files.\<close>

definition warn_if_loose :: "string \<Rightarrow> mode_fs \<Rightarrow> (string \<times> file_mode) list" where
  "warn_if_loose path fs = loose_files path fs"

definition secure_store_file ::
  "file_mode \<Rightarrow> string option \<Rightarrow> string \<Rightarrow> mode_fs \<Rightarrow> mode_fs \<times> (store_error + (string \<times> file_mode) list)" where
  "secure_store_file umask io_fault path fs =
     (case create_private umask io_fault path fs of
        (fs', Inl e) \<Rightarrow> (fs', Inl (StoreIo e))
      | (fs', Inr _) \<Rightarrow> (fs', Inr (warn_if_loose path fs')))"

lemma private_not_loose: "\<not> is_loose (and MODE_PRIVATE m)"
proof -
  have "and (and MODE_PRIVATE m) 0x3F = and (and MODE_PRIVATE 0x3F) m"
    by (simp add: and.assoc and.commute and.left_commute)
  then show ?thesis by (simp add: is_loose_def MODE_PRIVATE_def)
qed

text \<open>
  A file that was there is left exactly as it is; one that was not is created, whatever the umask, with
  no bit for group or others. No other file changes.
\<close>

lemma secure_store_file_private:
  assumes "secure_store_file umask fault path fs = (fs', Inr warned)"
  shows "(\<forall>p. p \<noteq> path \<longrightarrow> fs' p = fs p)" "fs path = Some m \<Longrightarrow> fs' = fs"
    "fs path = None \<Longrightarrow> \<exists>m. fs' path = Some m \<and> \<not> is_loose m"
  using assms private_not_loose
  by (auto simp: secure_store_file_def create_private_def open_new_def split: option.splits)

lemma secure_store_file_failed:
  "secure_store_file umask fault path fs = (fs', Inl e) \<Longrightarrow> fs' = fs"
  by (auto simp: secure_store_file_def create_private_def open_new_def split: option.splits)

lemma loose_files_iff:
  "(file, m) \<in> set (loose_files path fs) \<longleftrightarrow>
     file \<in> {path, path @ ''-wal'', path @ ''-shm''} \<and> (\<exists>mode. fs file = Some mode \<and> m = and mode 0x1FF \<and> is_loose m)"
  by (auto simp: loose_files_def List.map_filter_def with_suffix_def Let_def split: option.splits if_splits)

section \<open>The engines\<close>

text \<open>
  The steps of an engine on a store: what its driver does to connect and to close, its migrations with
  the blob upgrade, and the three runs of \<open>store_encryption_sql\<close>.
\<close>

record 's engine_steps =
  es_connect :: "'s \<Rightarrow> 's \<times> (store_error + unit)"
  es_migrate :: "'s \<Rightarrow> 's \<times> (store_error + unit)"
  es_upgrade :: "'s \<Rightarrow> 's \<times> (store_error + unit)"
  es_open :: "store_key option \<Rightarrow> 's \<Rightarrow> 's \<times> (store_error + blob_cipher)"
  es_decrypt :: "store_key \<Rightarrow> 's \<Rightarrow> 's \<times> (store_error + nat)"
  es_rotate :: "store_key \<Rightarrow> store_key \<Rightarrow> 's \<Rightarrow> 's \<times> (store_error + nat)"
  es_close :: "'s \<Rightarrow> 's \<times> (store_error + unit)"

definition run_migrations :: "'s engine_steps \<Rightarrow> 's \<Rightarrow> 's \<times> (store_error + unit)" where
  "run_migrations E s = and_run (es_migrate E s) (\<lambda>s _. es_upgrade E s)"

definition migrated :: "'s engine_steps \<Rightarrow> store_key option \<Rightarrow> 's \<Rightarrow> 's \<times> (store_error + blob_cipher)" where
  "migrated E key s = and_run (run_migrations E s) (\<lambda>s _. es_open E key s)"

definition open_postgres_keyed :: "'s engine_steps \<Rightarrow> store_key option \<Rightarrow> 's \<Rightarrow> 's \<times> (store_error + blob_cipher)" where
  "open_postgres_keyed E key s = and_run (es_connect E s) (\<lambda>s _. migrated E key s)"

text \<open>
  \<open>decrypt_pool\<close> and \<open>rotate_pool\<close>: both close before they return, and the run's error counts before
  the close's; but a failed migration ends \<open>decrypt_pool\<close> before the close.
\<close>

definition decrypt_pool :: "'s engine_steps \<Rightarrow> store_key \<Rightarrow> 's \<Rightarrow> 's \<times> (store_error + nat)" where
  "decrypt_pool E key s =
     and_run (run_migrations E s) (\<lambda>s _.
       case es_decrypt E key s of
         (s1, decrypted) \<Rightarrow>
           (case es_close E s1 of
              (s2, closed) \<Rightarrow> (s2, and_then decrypted (\<lambda>count. map_ok (\<lambda>_. count) closed))))"

definition rotate_pool :: "'s engine_steps \<Rightarrow> store_key \<Rightarrow> store_key \<Rightarrow> 's \<Rightarrow> 's \<times> (store_error + nat)" where
  "rotate_pool E old new s =
     (case and_run (run_migrations E s) (\<lambda>s _. es_rotate E old new s) of
        (s1, rotated) \<Rightarrow>
          (case es_close E s1 of
             (s2, closed) \<Rightarrow> (s2, and_then rotated (\<lambda>count. map_ok (\<lambda>_. count) closed))))"

definition decrypt_postgres :: "'s engine_steps \<Rightarrow> store_key \<Rightarrow> 's \<Rightarrow> 's \<times> (store_error + nat)" where
  "decrypt_postgres E key s = and_run (es_connect E s) (\<lambda>s _. decrypt_pool E key s)"

definition rotate_postgres :: "'s engine_steps \<Rightarrow> store_key \<Rightarrow> store_key \<Rightarrow> 's \<Rightarrow> 's \<times> (store_error + nat)" where
  "rotate_postgres E old new s = and_run (es_connect E s) (\<lambda>s _. rotate_pool E old new s)"

text \<open>
  The engines on a file: its directory is part of the store. \<open>filename\<close> is what sqlx reads of the DSN.
\<close>

record 's file_store =
  fst_modes :: mode_fs
  fst_store :: 's

record file_env =
  fe_umask :: file_mode
  fe_fault :: "string option"
  fe_filename :: "string \<Rightarrow> store_error + string"

definition on_store :: "('s \<Rightarrow> 's \<times> 'r) \<Rightarrow> 's file_store \<Rightarrow> 's file_store \<times> 'r" where
  "on_store f w = (case f (fst_store w) of (s, r) \<Rightarrow> (w\<lparr>fst_store := s\<rparr>, r))"

definition secure_at :: "file_env \<Rightarrow> string \<Rightarrow> 's file_store \<Rightarrow> 's file_store \<times> (store_error + (string \<times> file_mode) list)" where
  "secure_at V path w =
     (case secure_store_file (fe_umask V) (fe_fault V) path (fst_modes w) of (fs, r) \<Rightarrow> (w\<lparr>fst_modes := fs\<rparr>, r))"

definition contains :: "string \<Rightarrow> string \<Rightarrow> bool" where
  "contains part whole_text \<longleftrightarrow> (\<exists>i\<in>set [0..<length whole_text + 1]. take (length part) (drop i whole_text) = part)"

definition prepare_sqlite_file ::
  "file_env \<Rightarrow> string \<Rightarrow> 's file_store \<Rightarrow> 's file_store \<times> (store_error + (string \<times> file_mode) list)" where
  "prepare_sqlite_file V url w =
     (case fe_filename V url of
        Inl e \<Rightarrow> (w, Inl e)
      | Inr path \<Rightarrow>
          if contains '':memory:'' url \<or> contains ''mode=memory'' url
          then (w, Inl (InvalidConfig (''an in-memory SQLite database is not supported ('' @ url @ ''): the readers are separate connections and each would see a database of its own; use a file'')))
          else secure_at V path w)"

definition open_sqlite_keyed ::
  "'s engine_steps \<Rightarrow> file_env \<Rightarrow> string \<Rightarrow> store_key option \<Rightarrow> 's file_store \<Rightarrow> 's file_store \<times> (store_error + blob_cipher)" where
  "open_sqlite_keyed E V url key w =
     and_run (prepare_sqlite_file V url w) (\<lambda>w _.
     and_run (on_store (es_connect E) w) (\<lambda>w _. on_store (migrated E key) w))"

definition decrypt_sqlite ::
  "'s engine_steps \<Rightarrow> file_env \<Rightarrow> string \<Rightarrow> store_key \<Rightarrow> 's file_store \<Rightarrow> 's file_store \<times> (store_error + nat)" where
  "decrypt_sqlite E V url key w =
     and_run (prepare_sqlite_file V url w) (\<lambda>w _.
     and_run (on_store (es_connect E) w) (\<lambda>w _. on_store (decrypt_pool E key) w))"

definition rotate_sqlite ::
  "'s engine_steps \<Rightarrow> file_env \<Rightarrow> string \<Rightarrow> store_key \<Rightarrow> store_key \<Rightarrow> 's file_store \<Rightarrow> 's file_store \<times> (store_error + nat)" where
  "rotate_sqlite E V url old new w =
     and_run (prepare_sqlite_file V url w) (\<lambda>w _.
     and_run (on_store (es_connect E) w) (\<lambda>w _. on_store (rotate_pool E old new) w))"

text \<open>Turso: the same steps; \<open>decrypt\<close> and \<open>rotate\<close> close on every path, and a failed close hides the run's result.\<close>

definition open_path_keyed ::
  "'s engine_steps \<Rightarrow> file_env \<Rightarrow> string \<Rightarrow> store_key option \<Rightarrow> 's file_store \<Rightarrow> 's file_store \<times> (store_error + blob_cipher)" where
  "open_path_keyed E V path key w =
     and_run (secure_at V path w) (\<lambda>w _.
     and_run (on_store (es_connect E) w) (\<lambda>w _.
     and_run (on_store (es_migrate E) w) (\<lambda>w _.
     and_run (on_store (es_upgrade E) w) (\<lambda>w _. on_store (es_open E key) w))))"

definition turso_open_keyed ::
  "'s engine_steps \<Rightarrow> file_env \<Rightarrow> string \<Rightarrow> store_key option \<Rightarrow> 's file_store \<Rightarrow> 's file_store \<times> (store_error + blob_cipher)" where
  "turso_open_keyed E V url key w =
     (case turso_path url of Inl e \<Rightarrow> (w, Inl e) | Inr path \<Rightarrow> open_path_keyed E V path key w)"

definition decrypt_open :: "'s engine_steps \<Rightarrow> store_key \<Rightarrow> 's \<Rightarrow> 's \<times> (store_error + nat)" where
  "decrypt_open E key s =
     and_run (es_migrate E s) (\<lambda>s _. and_run (es_upgrade E s) (\<lambda>s _. es_decrypt E key s))"

definition rotate_open :: "'s engine_steps \<Rightarrow> store_key \<Rightarrow> store_key \<Rightarrow> 's \<Rightarrow> 's \<times> (store_error + nat)" where
  "rotate_open E old new s =
     and_run (es_migrate E s) (\<lambda>s _. and_run (es_upgrade E s) (\<lambda>s _. es_rotate E old new s))"

text \<open>The common end of the two commands: close, then the result.\<close>

definition then_close :: "'s engine_steps \<Rightarrow> ('s \<Rightarrow> 's \<times> (store_error + nat)) \<Rightarrow> 's \<Rightarrow> 's \<times> (store_error + nat)" where
  "then_close E f s = (case f s of (s1, result) \<Rightarrow> and_run (es_close E s1) (\<lambda>s2 _. (s2, result)))"

definition turso_decrypt ::
  "'s engine_steps \<Rightarrow> file_env \<Rightarrow> string \<Rightarrow> store_key \<Rightarrow> 's file_store \<Rightarrow> 's file_store \<times> (store_error + nat)" where
  "turso_decrypt E V url key w =
     (case turso_path url of
        Inl e \<Rightarrow> (w, Inl e)
      | Inr path \<Rightarrow>
          and_run (secure_at V path w) (\<lambda>w _.
          and_run (on_store (es_connect E) w) (\<lambda>w _. on_store (then_close E (decrypt_open E key)) w)))"

definition turso_rotate ::
  "'s engine_steps \<Rightarrow> file_env \<Rightarrow> string \<Rightarrow> store_key \<Rightarrow> store_key \<Rightarrow> 's file_store \<Rightarrow> 's file_store \<times> (store_error + nat)" where
  "turso_rotate E V url old new w =
     (case turso_path url of
        Inl e \<Rightarrow> (w, Inl e)
      | Inr path \<Rightarrow>
          and_run (secure_at V path w) (\<lambda>w _.
          and_run (on_store (es_connect E) w) (\<lambda>w _. on_store (then_close E (rotate_open E old new)) w)))"

section \<open>The DSN picks the engine\<close>

definition dsn_scheme :: "string \<Rightarrow> string" where
  "dsn_scheme url = takeWhile (\<lambda>c. c \<noteq> CHR '':'') url"

definition unsupported_scheme :: "string \<Rightarrow> store_error" where
  "unsupported_scheme other =
     InvalidConfig (''unsupported database_url scheme '' @ [CHR 0x27] @ other @ [CHR 0x27] @
       '': expected one of postgres://, postgresql://, sqlite://, turso://'')"

definition turso_feature_missing :: "string \<Rightarrow> store_error" where
  "turso_feature_missing url =
     InvalidConfig (''database_url '' @ [CHR 0x27] @ url @ [CHR 0x27] @
       '' is a turso:// DSN, but this binary was compiled without the `turso` feature: rebuild with `--features turso`'')"

text \<open>What the build has: the steps of the three drivers, and whether the \<open>turso\<close> feature is in.\<close>

record 's engines =
  eg_postgres :: "'s engine_steps"
  eg_sqlite :: "'s engine_steps"
  eg_turso :: "'s engine_steps option"
  eg_files :: file_env

definition open_turso ::
  "'s engines \<Rightarrow> string \<Rightarrow> store_key option \<Rightarrow> 's file_store \<Rightarrow> 's file_store \<times> (store_error + blob_cipher)" where
  "open_turso G url key w =
     (case eg_turso G of None \<Rightarrow> (w, Inl (turso_feature_missing url)) | Some E \<Rightarrow> turso_open_keyed E (eg_files G) url key w)"

definition decrypt_turso :: "'s engines \<Rightarrow> string \<Rightarrow> store_key \<Rightarrow> 's file_store \<Rightarrow> 's file_store \<times> (store_error + nat)" where
  "decrypt_turso G url key w =
     (case eg_turso G of None \<Rightarrow> (w, Inl (turso_feature_missing url)) | Some E \<Rightarrow> turso_decrypt E (eg_files G) url key w)"

definition rotate_turso ::
  "'s engines \<Rightarrow> string \<Rightarrow> store_key \<Rightarrow> store_key \<Rightarrow> 's file_store \<Rightarrow> 's file_store \<times> (store_error + nat)" where
  "rotate_turso G url old new w =
     (case eg_turso G of None \<Rightarrow> (w, Inl (turso_feature_missing url)) | Some E \<Rightarrow> turso_rotate E (eg_files G) url old new w)"

definition open_engine_keyed ::
  "'s engines \<Rightarrow> string \<Rightarrow> store_key option \<Rightarrow> 's file_store \<Rightarrow> 's file_store \<times> (store_error + blob_cipher)" where
  "open_engine_keyed G url key w =
     (let scheme = dsn_scheme url in
      if scheme = ''postgres'' \<or> scheme = ''postgresql'' then on_store (open_postgres_keyed (eg_postgres G) key) w
      else if scheme = ''sqlite'' then open_sqlite_keyed (eg_sqlite G) (eg_files G) url key w
      else if scheme = ''turso'' then open_turso G url key w
      else (w, Inl (unsupported_scheme scheme)))"

definition open_engine ::
  "'s engines \<Rightarrow> string \<Rightarrow> 's file_store \<Rightarrow> 's file_store \<times> (store_error + blob_cipher)" where
  "open_engine G url w = open_engine_keyed G url None w"

definition decrypt_engine :: "'s engines \<Rightarrow> string \<Rightarrow> store_key \<Rightarrow> 's file_store \<Rightarrow> 's file_store \<times> (store_error + nat)" where
  "decrypt_engine G url key w =
     (let scheme = dsn_scheme url in
      if scheme = ''postgres'' \<or> scheme = ''postgresql'' then on_store (decrypt_postgres (eg_postgres G) key) w
      else if scheme = ''sqlite'' then decrypt_sqlite (eg_sqlite G) (eg_files G) url key w
      else if scheme = ''turso'' then decrypt_turso G url key w
      else (w, Inl (unsupported_scheme scheme)))"

definition rotate_engine ::
  "'s engines \<Rightarrow> string \<Rightarrow> store_key \<Rightarrow> store_key \<Rightarrow> 's file_store \<Rightarrow> 's file_store \<times> (store_error + nat)" where
  "rotate_engine G url old new w =
     (let scheme = dsn_scheme url in
      if scheme = ''postgres'' \<or> scheme = ''postgresql'' then on_store (rotate_postgres (eg_postgres G) old new) w
      else if scheme = ''sqlite'' then rotate_sqlite (eg_sqlite G) (eg_files G) url old new w
      else if scheme = ''turso'' then rotate_turso G url old new w
      else (w, Inl (unsupported_scheme scheme)))"

section \<open>What an open does to files\<close>

text \<open>No file changes its mode, and a file that is new is private.\<close>

definition keeps_private :: "mode_fs \<Rightarrow> mode_fs \<Rightarrow> bool" where
  "keeps_private fs fs' \<longleftrightarrow> (\<forall>p. fs' p = fs p \<or> fs p = None \<and> (\<exists>m. fs' p = Some m \<and> \<not> is_loose m))"

lemma keeps_private_refl [simp]: "keeps_private fs fs"
  by (simp add: keeps_private_def)

lemma on_store_modes: "on_store f w = (w', r) \<Longrightarrow> fst_modes w' = fst_modes w"
  by (auto simp: on_store_def split: prod.splits)

lemma secure_at_private: "secure_at V path w = (w', r) \<Longrightarrow> keeps_private (fst_modes w) (fst_modes w')"
  by (auto simp: secure_at_def secure_store_file_def create_private_def open_new_def keeps_private_def private_not_loose
      split: prod.splits option.splits if_splits)

lemma prepare_sqlite_private: "prepare_sqlite_file V url w = (w', r) \<Longrightarrow> keeps_private (fst_modes w) (fst_modes w')"
  by (auto simp: prepare_sqlite_file_def split: sum.splits if_splits dest: secure_at_private)

lemma file_engines_private:
  "open_sqlite_keyed E V url key w = (w', r) \<Longrightarrow> keeps_private (fst_modes w) (fst_modes w')"
  "decrypt_sqlite E V url k w = (w', r') \<Longrightarrow> keeps_private (fst_modes w) (fst_modes w')"
  "rotate_sqlite E V url k k' w = (w', r') \<Longrightarrow> keeps_private (fst_modes w) (fst_modes w')"
  "open_path_keyed E V path key w = (w', r) \<Longrightarrow> keeps_private (fst_modes w) (fst_modes w')"
  "turso_decrypt E V url k w = (w', r') \<Longrightarrow> keeps_private (fst_modes w) (fst_modes w')"
  "turso_rotate E V url k k' w = (w', r') \<Longrightarrow> keeps_private (fst_modes w) (fst_modes w')"
  by (auto simp: open_sqlite_keyed_def decrypt_sqlite_def rotate_sqlite_def open_path_keyed_def turso_decrypt_def turso_rotate_def
      split: sum.splits dest!: and_run_cases secure_at_private prepare_sqlite_private on_store_modes)

text \<open>The schemes of a DSN, and what an engine of each may do to the files.\<close>

lemma engines_private:
  "keeps_private (fst_modes w) (fst_modes (fst (open_engine_keyed G url key w)))"
  "keeps_private (fst_modes w) (fst_modes (fst (decrypt_engine G url k w)))"
  "keeps_private (fst_modes w) (fst_modes (fst (rotate_engine G url k k' w)))"
  by (cases "open_engine_keyed G url key w"; cases "decrypt_engine G url k w"; cases "rotate_engine G url k k' w";
      auto simp: open_engine_keyed_def decrypt_engine_def rotate_engine_def Let_def open_turso_def turso_open_keyed_def
        decrypt_turso_def rotate_turso_def split: if_splits option.splits sum.splits
        dest: file_engines_private dest!: on_store_modes)+

section \<open>What an open has done\<close>

definition engine_of :: "'s engines \<Rightarrow> string \<Rightarrow> 's engine_steps option" where
  "engine_of G scheme =
     (if scheme = ''postgres'' \<or> scheme = ''postgresql'' then Some (eg_postgres G)
      else if scheme = ''sqlite'' then Some (eg_sqlite G)
      else if scheme = ''turso'' then eg_turso G else None)"

text \<open>Connected, migrated and upgraded, each step Ok, on the way from one store to the other.\<close>

definition made_ready :: "'s engine_steps \<Rightarrow> 's \<Rightarrow> 's \<Rightarrow> bool" where
  "made_ready E s s' \<longleftrightarrow>
     (\<exists>s1 s2. es_connect E s = (s1, Inr ()) \<and> es_migrate E s1 = (s2, Inr ()) \<and> es_upgrade E s2 = (s', Inr ()))"

lemma and_run_Inr: "and_run r f = (s, Inr x) \<longleftrightarrow> (\<exists>s1 y. r = (s1, Inr y) \<and> f s1 y = (s, Inr x))"
  by (auto dest!: and_run_cases)

lemma on_store_Inr:
  "on_store f w = (w', r) \<longleftrightarrow> f (fst_store w) = (fst_store w', r) \<and> fst_modes w' = fst_modes w"
  by (cases w; cases w'; cases "f (fst_store w)") (auto simp: on_store_def)

lemma secure_keeps_store:
  "secure_at V path w = (w', r) \<Longrightarrow> fst_store w' = fst_store w"
  "prepare_sqlite_file V url w = (w', r) \<Longrightarrow> fst_store w' = fst_store w"
  by (auto simp: secure_at_def prepare_sqlite_file_def split: prod.splits sum.splits if_splits)

lemma opened_ready:
  assumes "open_engine_keyed G url key w = (w', Inr c)"
  shows "\<exists>E s. engine_of G (dsn_scheme url) = Some E \<and> made_ready E (fst_store w) s \<and> es_open E key s = (fst_store w', Inr c)"
  using assms
  by (auto simp: open_engine_keyed_def Let_def open_turso_def turso_open_keyed_def open_path_keyed_def open_sqlite_keyed_def
      open_postgres_keyed_def migrated_def run_migrations_def and_run_Inr on_store_Inr engine_of_def made_ready_def
      split: if_splits option.splits sum.splits dest!: secure_keeps_store)

lemma closed_Inr:
  "(case x of (s1, r) \<Rightarrow> case es_close E s1 of (s2, closed) \<Rightarrow> (s2, and_then r (\<lambda>n. map_ok (\<lambda>_. n) closed))) = (s', Inr n) \<longleftrightarrow>
   (\<exists>s1. x = (s1, Inr n) \<and> es_close E s1 = (s', Inr ()))"
  "then_close E f s = (s', Inr n) \<longleftrightarrow> (\<exists>s1. f s = (s1, Inr n) \<and> es_close E s1 = (s', Inr ()))"
  by (auto simp: then_close_def and_run_Inr and_then_Inr_iff map_ok_Inr_iff split: prod.splits)

lemma pool_Inr:
  "decrypt_pool E k s = (s', Inr n) \<longleftrightarrow>
     (\<exists>s1 s2. run_migrations E s = (s1, Inr ()) \<and> es_decrypt E k s1 = (s2, Inr n) \<and> es_close E s2 = (s', Inr ()))"
  "rotate_pool E k k' s = (s', Inr n) \<longleftrightarrow>
     (\<exists>s1 s2. run_migrations E s = (s1, Inr ()) \<and> es_rotate E k k' s1 = (s2, Inr n) \<and> es_close E s2 = (s', Inr ()))"
  unfolding decrypt_pool_def rotate_pool_def
  by (auto simp: and_run_Inr closed_Inr(1))

lemmas command_defs = decrypt_engine_def rotate_engine_def Let_def decrypt_turso_def rotate_turso_def turso_decrypt_def
  turso_rotate_def decrypt_sqlite_def rotate_sqlite_def decrypt_postgres_def rotate_postgres_def decrypt_open_def
  rotate_open_def pool_Inr closed_Inr(2) run_migrations_def and_run_Inr on_store_Inr engine_of_def made_ready_def

lemma decrypted_closed:
  "decrypt_engine G url k w = (w', Inr n) \<Longrightarrow>
   \<exists>E s s1. engine_of G (dsn_scheme url) = Some E \<and> made_ready E (fst_store w) s \<and> es_decrypt E k s = (s1, Inr n) \<and>
     es_close E s1 = (fst_store w', Inr ())"
  by (auto simp: command_defs split: if_splits option.splits sum.splits dest!: secure_keeps_store)

lemma rotated_closed:
  "rotate_engine G url k k' w = (w', Inr n) \<Longrightarrow>
   \<exists>E s s1. engine_of G (dsn_scheme url) = Some E \<and> made_ready E (fst_store w) s \<and> es_rotate E k k' s = (s1, Inr n) \<and>
     es_close E s1 = (fst_store w', Inr ())"
  by (auto simp: command_defs split: if_splits option.splits sum.splits dest!: secure_keeps_store)

lemma unknown_scheme:
  "engine_of G (dsn_scheme url) = None \<Longrightarrow>
   \<exists>e. open_engine_keyed G url key w = (w, Inl e) \<and> decrypt_engine G url k w = (w, Inl e) \<and> rotate_engine G url k k' w = (w, Inl e) \<and>
     e \<in> {unsupported_scheme (dsn_scheme url), turso_feature_missing url}"
  by (auto simp: open_engine_keyed_def decrypt_engine_def rotate_engine_def open_turso_def decrypt_turso_def rotate_turso_def
      engine_of_def Let_def split: if_splits option.splits)


text \<open>A store that counts its steps.\<close>

definition demo_steps :: "nat engine_steps" where
  "demo_steps = \<lparr>es_connect = (\<lambda>s. (s + 1, Inr ())), es_migrate = (\<lambda>s. (s + 10, Inr ())), es_upgrade = (\<lambda>s. (s + 100, Inr ())),
     es_open = (\<lambda>_ s. (s, Inr passthrough)), es_decrypt = (\<lambda>_ s. (s, Inr s)), es_rotate = (\<lambda>_ _ s. (s, Inr s)),
     es_close = (\<lambda>s. (0, Inr ()))\<rparr>"

definition demo_engines :: "nat engines" where
  "demo_engines = \<lparr>eg_postgres = demo_steps, eg_sqlite = demo_steps, eg_turso = None,
     eg_files = \<lparr>fe_umask = 0x12, fe_fault = None, fe_filename = (\<lambda>_. Inr ''wamux.db'')\<rparr>\<rparr>"

definition demo_file_store :: "nat file_store" where
  "demo_file_store = \<lparr>fst_modes = (\<lambda>_. None), fst_store = 0\<rparr>"


end
