(* ===== verification/Wire_Types.thy ===== *)
theory Wire_Types
  imports Account_Registry
begin

text \<open>
  The values a request is made of (\<open>wamux-types\<close>: \<open>jid.rs\<close>, \<open>lid.rs\<close>, \<open>message_id.rs\<close>, \<open>account.rs\<close>,
  \<open>request_enum.rs\<close>, \<open>media_kind.rs\<close>, \<open>presence_state.rs\<close>, \<open>group_setting_modes.rs\<close>), parsed once at
  the boundary. The library's jid and the UUID parser are parameters; the numbers and names of the
  wire enums are those of the \<open>.proto\<close> files. A \<open>pb::Jid\<close> is its value, an unset field is \<^term>\<open>None\<close>.
\<close>

type_synonym i32 = int

section \<open>Jids\<close>

datatype server = Server_Group | Server_Newsletter | Server_Other string

record 'j jid_lib =
  lib_parse :: "string \<Rightarrow> string + 'j"
  lib_show :: "'j \<Rightarrow> string"
  lib_server :: "'j \<Rightarrow> server"

datatype 'j jid = Jid (into_lib: 'j)
datatype 'j group_jid = GroupJid (group_as_jid: "'j jid")
datatype 'j newsletter_jid = NewsletterJid (newsletter_as_jid: "'j jid")

type_synonym pb_jid = string

definition single_quoted :: "string \<Rightarrow> string" where
  "single_quoted v = CHR 0x27 # v @ [CHR 0x27]"

definition jid_parse :: "'j jid_lib \<Rightarrow> string \<Rightarrow> wamux_error + 'j jid" where
  "jid_parse J v =
     (if v = [] then Inl (InvalidArgument ''empty jid'')
      else map_err (\<lambda>e. InvalidArgument (''invalid jid '' @ single_quoted v @ '': '' @ e)) (map_ok Jid (lib_parse J v)))"

definition jid_parse_optional :: "'j jid_lib \<Rightarrow> string \<Rightarrow> wamux_error + 'j jid option" where
  "jid_parse_optional J v = (if v = [] then Inr None else map_ok Some (jid_parse J v))"

definition jid_try_from :: "'j jid_lib \<Rightarrow> pb_jid \<Rightarrow> wamux_error + 'j jid" where
  "jid_try_from J v =
     map_err (\<lambda>e. if e = InvalidArgument ''empty jid'' then InvalidArgument ''missing jid'' else e) (jid_parse J v)"

definition unwrap_jid :: "pb_jid option \<Rightarrow> pb_jid" where
  "unwrap_jid j = (case j of None \<Rightarrow> [] | Some v \<Rightarrow> v)"

definition from_required_wire :: "'j jid_lib \<Rightarrow> pb_jid option \<Rightarrow> wamux_error + 'j jid" where
  "from_required_wire J j = jid_try_from J (unwrap_jid j)"

definition from_required_wire_list :: "'j jid_lib \<Rightarrow> pb_jid list \<Rightarrow> wamux_error + 'j jid list" where
  "from_required_wire_list J js = try_map (\<lambda>v. from_required_wire J (Some v)) js"

definition from_optional_wire :: "'j jid_lib \<Rightarrow> pb_jid option \<Rightarrow> wamux_error + 'j jid option" where
  "from_optional_wire J j =
     (case j of Some v \<Rightarrow> if v = [] then Inr None else map_ok Some (jid_parse J v) | None \<Rightarrow> Inr None)"

definition relay_jid :: "string \<Rightarrow> pb_jid option" where
  "relay_jid v = (if v = [] then None else Some v)"

definition relay_lib_jid :: "'j jid_lib \<Rightarrow> 'j \<Rightarrow> pb_jid option" where
  "relay_lib_jid J j = relay_jid (lib_show J j)"

definition relay_optional_lib_jid :: "'j jid_lib \<Rightarrow> 'j option \<Rightarrow> pb_jid option" where
  "relay_optional_lib_jid J j = Option.bind j (relay_lib_jid J)"

definition jid_to_wire :: "'j jid_lib \<Rightarrow> 'j jid \<Rightarrow> pb_jid" where
  "jid_to_wire J j = lib_show J (into_lib j)"

definition group_jid_parse :: "'j jid_lib \<Rightarrow> string \<Rightarrow> wamux_error + 'j group_jid" where
  "group_jid_parse J v =
     and_then (jid_parse J v) (\<lambda>j.
       if lib_server J (into_lib j) \<noteq> Server_Group
       then Inl (InvalidArgument (single_quoted v @ '' is not a group: expected a jid ending in @g.us''))
       else Inr (GroupJid j))"

definition group_from_required_wire :: "'j jid_lib \<Rightarrow> pb_jid option \<Rightarrow> wamux_error + 'j group_jid" where
  "group_from_required_wire J j =
     (if unwrap_jid j = [] then Inl (InvalidArgument ''missing jid'') else group_jid_parse J (unwrap_jid j))"

definition newsletter_jid_parse :: "'j jid_lib \<Rightarrow> string \<Rightarrow> wamux_error + 'j newsletter_jid" where
  "newsletter_jid_parse J v =
     and_then (jid_parse J v) (\<lambda>j.
       if lib_server J (into_lib j) \<noteq> Server_Newsletter
       then Inl (InvalidArgument (single_quoted v @ '' is not a channel: expected a jid ending in @newsletter''))
       else Inr (NewsletterJid j))"

definition newsletter_from_required_wire :: "'j jid_lib \<Rightarrow> pb_jid option \<Rightarrow> wamux_error + 'j newsletter_jid" where
  "newsletter_from_required_wire J j =
     (if unwrap_jid j = [] then Inl (InvalidArgument ''missing jid'') else newsletter_jid_parse J (unwrap_jid j))"

record 'j lid_pn_query =
  lq_query :: string
  lq_jid :: "'j jid"

definition lid_pn_query_try_from :: "'j jid_lib \<Rightarrow> pb_jid \<Rightarrow> wamux_error + 'j lid_pn_query" where
  "lid_pn_query_try_from J q = map_ok (\<lambda>j. \<lparr>lq_query = q, lq_jid = j\<rparr>) (jid_try_from J q)"

section \<open>Message ids and account references\<close>

datatype message_id = MessageId (id_str: string)

definition message_id_new :: "string \<Rightarrow> wamux_error + message_id" where
  "message_id_new v = (if v = [] then Inl (InvalidArgument ''empty message id'') else Inr (MessageId v))"

datatype pb_account_ref = PbUuid string | PbExternalRef string

text \<open>\<open>parse_uuid\<close> is \<open>Uuid::parse_str\<close>, with the canonical spelling of the UUID.\<close>

definition account_id_parse :: "(string \<Rightarrow> string option) \<Rightarrow> string \<Rightarrow> wamux_error + string" where
  "account_id_parse parse_uuid v = ok_or (InvalidArgument (''bad uuid '' @ single_quoted v)) (parse_uuid v)"

definition account_ref_from_proto ::
  "(string \<Rightarrow> string option) \<Rightarrow> pb_account_ref option option \<Rightarrow> wamux_error + account_ref" where
  "account_ref_from_proto parse_uuid account =
     (case Option.bind account (\<lambda>r. r) of
        Some (PbUuid v) \<Rightarrow> map_ok RefId (account_id_parse parse_uuid v)
      | Some (PbExternalRef v) \<Rightarrow> Inr (RefExternal v)
      | None \<Rightarrow> Inl (InvalidArgument ''missing account ref''))"

definition account_ref_to_proto :: "account_ref \<Rightarrow> pb_account_ref option" where
  "account_ref_to_proto r = Some (case r of RefId v \<Rightarrow> PbUuid v | RefExternal v \<Rightarrow> PbExternalRef v)"

section \<open>Enums of requests\<close>

definition refusal :: "string \<Rightarrow> string list \<Rightarrow> string \<Rightarrow> wamux_error" where
  "refusal field accepted shown =
     InvalidArgument (field @ '' must be one of '' @ join_with (CHR 0x7C) accepted @ '', got '' @ shown)"

definition shown_value :: "string option \<Rightarrow> i32 \<Rightarrow> string" where
  "shown_value name v = (case name of None \<Rightarrow> dec_int v | Some n \<Rightarrow> n)"

text \<open>The generated enum of a \<open>.proto\<close>: its variants with their numbers and names.\<close>

type_synonym 'w proto_enum = "('w \<times> i32 \<times> string) list"

definition enum_try_from :: "'w proto_enum \<Rightarrow> i32 \<Rightarrow> 'w option" where
  "enum_try_from E v = map_option fst (find (\<lambda>(w, n, s). n = v) E)"

definition as_str_name :: "'w proto_enum \<Rightarrow> 'w \<Rightarrow> string" where
  "as_str_name E w = (case find (\<lambda>(w', n, s). w' = w) E of None \<Rightarrow> [] | Some (_, _, s) \<Rightarrow> s)"

definition enum_number :: "'w proto_enum \<Rightarrow> 'w \<Rightarrow> i32" where
  "enum_number E w = (case find (\<lambda>(w', n, s). w' = w) E of None \<Rightarrow> 0 | Some (_, n, _) \<Rightarrow> n)"

subsection \<open>Media kinds\<close>

datatype pb_media_type =
    MtUnspecified | MtUnknown | MtImage | MtVideo | MtAudio | MtDocument | MtSticker | MtStickerPack
  | MtStickerPackThumbnail

definition pb_media_types :: "pb_media_type proto_enum" where
  "pb_media_types =
     [(MtUnspecified, 0, ''MEDIA_TYPE_UNSPECIFIED''), (MtUnknown, 1, ''MEDIA_TYPE_UNKNOWN''),
      (MtImage, 2, ''MEDIA_TYPE_IMAGE''), (MtVideo, 3, ''MEDIA_TYPE_VIDEO''), (MtAudio, 4, ''MEDIA_TYPE_AUDIO''),
      (MtDocument, 5, ''MEDIA_TYPE_DOCUMENT''), (MtSticker, 6, ''MEDIA_TYPE_STICKER''),
      (MtStickerPack, 7, ''MEDIA_TYPE_STICKER_PACK''),
      (MtStickerPackThumbnail, 8, ''MEDIA_TYPE_STICKER_PACK_THUMBNAIL'')]"

datatype media_kind = Image | Video | Audio | Document | Sticker | StickerPack | StickerPackThumbnail

definition ALL_KINDS :: "media_kind list" where
  "ALL_KINDS = [Image, Video, Audio, Document, Sticker, StickerPack, StickerPackThumbnail]"

fun kind_to_wire :: "media_kind \<Rightarrow> pb_media_type" where
  "kind_to_wire Image = MtImage"
| "kind_to_wire Video = MtVideo"
| "kind_to_wire Audio = MtAudio"
| "kind_to_wire Document = MtDocument"
| "kind_to_wire Sticker = MtSticker"
| "kind_to_wire StickerPack = MtStickerPack"
| "kind_to_wire StickerPackThumbnail = MtStickerPackThumbnail"

definition kind_from_wire :: "i32 \<Rightarrow> media_kind option" where
  "kind_from_wire v =
     (case enum_try_from pb_media_types v of
        Some MtImage \<Rightarrow> Some Image
      | Some MtVideo \<Rightarrow> Some Video
      | Some MtAudio \<Rightarrow> Some Audio
      | Some MtDocument \<Rightarrow> Some Document
      | Some MtSticker \<Rightarrow> Some Sticker
      | Some MtStickerPack \<Rightarrow> Some StickerPack
      | Some MtStickerPackThumbnail \<Rightarrow> Some StickerPackThumbnail
      | Some MtUnspecified \<Rightarrow> None
      | Some MtUnknown \<Rightarrow> None
      | None \<Rightarrow> None)"

definition kind_shown :: "i32 \<Rightarrow> string" where
  "kind_shown v = shown_value (map_option (as_str_name pb_media_types) (enum_try_from pb_media_types v)) v"

definition kind_refuse :: "string \<Rightarrow> media_kind list \<Rightarrow> string \<Rightarrow> wamux_error" where
  "kind_refuse field subset_kinds got =
     refusal field (map (\<lambda>k. as_str_name pb_media_types (kind_to_wire k)) subset_kinds) got"

definition parse_within :: "i32 \<Rightarrow> string \<Rightarrow> media_kind list \<Rightarrow> wamux_error + media_kind" where
  "parse_within v field subset_kinds =
     (case kind_from_wire v of
        Some k \<Rightarrow> if k \<in> set subset_kinds then Inr k else Inl (kind_refuse field subset_kinds (kind_shown v))
      | None \<Rightarrow> Inl (kind_refuse field subset_kinds (kind_shown v)))"

definition MEDIA_TYPE_FIELD :: string where
  "MEDIA_TYPE_FIELD = ''media_type''"

definition STATUS_FIELD :: string where
  "STATUS_FIELD = ''status media_type''"

definition parse_sendable :: "i32 \<Rightarrow> wamux_error + media_kind" where
  "parse_sendable v = parse_within v MEDIA_TYPE_FIELD (take 5 ALL_KINDS)"

definition parse_status :: "i32 \<Rightarrow> wamux_error + media_kind" where
  "parse_status v = parse_within v STATUS_FIELD (take 2 ALL_KINDS)"

definition parse_downloadable :: "i32 \<Rightarrow> wamux_error + media_kind" where
  "parse_downloadable v = parse_within v MEDIA_TYPE_FIELD ALL_KINDS"

definition refused_as_sendable :: "media_kind \<Rightarrow> wamux_error" where
  "refused_as_sendable k = kind_refuse MEDIA_TYPE_FIELD (take 5 ALL_KINDS) (as_str_name pb_media_types (kind_to_wire k))"

definition refused_as_status :: "media_kind \<Rightarrow> wamux_error" where
  "refused_as_status k = kind_refuse STATUS_FIELD (take 2 ALL_KINDS) (as_str_name pb_media_types (kind_to_wire k))"

subsection \<open>Presence\<close>

datatype pb_presence_state = PsUnspecified | PsUnknown | PsAvailable | PsUnavailable | PsComposing | PsRecording | PsPaused

definition pb_presence_states :: "pb_presence_state proto_enum" where
  "pb_presence_states =
     [(PsUnspecified, 0, ''PRESENCE_STATE_UNSPECIFIED''), (PsUnknown, 1, ''PRESENCE_STATE_UNKNOWN''),
      (PsAvailable, 2, ''PRESENCE_STATE_AVAILABLE''), (PsUnavailable, 3, ''PRESENCE_STATE_UNAVAILABLE''),
      (PsComposing, 4, ''PRESENCE_STATE_COMPOSING''), (PsRecording, 5, ''PRESENCE_STATE_RECORDING''),
      (PsPaused, 6, ''PRESENCE_STATE_PAUSED'')]"

datatype presence_state = Available | Unavailable | Composing | Recording | Paused

definition ALL_PRESENCE :: "presence_state list" where
  "ALL_PRESENCE = [Available, Unavailable, Composing, Recording, Paused]"

fun presence_to_wire :: "presence_state \<Rightarrow> pb_presence_state" where
  "presence_to_wire Available = PsAvailable"
| "presence_to_wire Unavailable = PsUnavailable"
| "presence_to_wire Composing = PsComposing"
| "presence_to_wire Recording = PsRecording"
| "presence_to_wire Paused = PsPaused"

definition refuse_state :: "i32 \<Rightarrow> wamux_error" where
  "refuse_state v =
     (let name = map_option (as_str_name pb_presence_states) (enum_try_from pb_presence_states v)
      in refusal ''state'' (map (\<lambda>s. as_str_name pb_presence_states (presence_to_wire s)) ALL_PRESENCE)
           (shown_value name v))"

definition presence_parse :: "i32 \<Rightarrow> wamux_error + presence_state" where
  "presence_parse v =
     ok_or (refuse_state v)
       (case enum_try_from pb_presence_states v of
          Some PsAvailable \<Rightarrow> Some Available
        | Some PsUnavailable \<Rightarrow> Some Unavailable
        | Some PsComposing \<Rightarrow> Some Composing
        | Some PsRecording \<Rightarrow> Some Recording
        | Some PsPaused \<Rightarrow> Some Paused
        | Some PsUnspecified \<Rightarrow> None
        | Some PsUnknown \<Rightarrow> None
        | None \<Rightarrow> None)"

subsection \<open>Group settings\<close>

datatype pb_member_add_mode = AddUnspecified | AddUnknown | AddAdminAdd | AddAllMemberAdd

definition pb_member_add_modes :: "pb_member_add_mode proto_enum" where
  "pb_member_add_modes =
     [(AddUnspecified, 0, ''GROUP_MEMBER_ADD_MODE_UNSPECIFIED''), (AddUnknown, 1, ''GROUP_MEMBER_ADD_MODE_UNKNOWN''),
      (AddAdminAdd, 2, ''GROUP_MEMBER_ADD_MODE_ADMIN_ADD''), (AddAllMemberAdd, 3, ''GROUP_MEMBER_ADD_MODE_ALL_MEMBER_ADD'')]"

datatype member_add_mode = AdminAdd | AllMemberAdd

fun member_add_mode_of :: "member_add_mode \<Rightarrow> pb_member_add_mode" where
  "member_add_mode_of AdminAdd = AddAdminAdd"
| "member_add_mode_of AllMemberAdd = AddAllMemberAdd"

datatype pb_member_link_mode = LinkUnspecified | LinkUnknown | LinkAdminLink | LinkAllMemberLink

definition pb_member_link_modes :: "pb_member_link_mode proto_enum" where
  "pb_member_link_modes =
     [(LinkUnspecified, 0, ''GROUP_MEMBER_LINK_MODE_UNSPECIFIED''), (LinkUnknown, 1, ''GROUP_MEMBER_LINK_MODE_UNKNOWN''),
      (LinkAdminLink, 2, ''GROUP_MEMBER_LINK_MODE_ADMIN_LINK''), (LinkAllMemberLink, 3, ''GROUP_MEMBER_LINK_MODE_ALL_MEMBER_LINK'')]"

datatype member_link_mode = AdminLink | AllMemberLink

fun member_link_mode_of :: "member_link_mode \<Rightarrow> pb_member_link_mode" where
  "member_link_mode_of AdminLink = LinkAdminLink"
| "member_link_mode_of AllMemberLink = LinkAllMemberLink"

datatype pb_member_share_history_mode = ShareUnspecified | ShareUnknown | ShareAdminShare | ShareAllMemberShare

definition pb_member_share_history_modes :: "pb_member_share_history_mode proto_enum" where
  "pb_member_share_history_modes =
     [(ShareUnspecified, 0, ''GROUP_MEMBER_SHARE_HISTORY_MODE_UNSPECIFIED''),
      (ShareUnknown, 1, ''GROUP_MEMBER_SHARE_HISTORY_MODE_UNKNOWN''),
      (ShareAdminShare, 2, ''GROUP_MEMBER_SHARE_HISTORY_MODE_ADMIN_SHARE''),
      (ShareAllMemberShare, 3, ''GROUP_MEMBER_SHARE_HISTORY_MODE_ALL_MEMBER_SHARE'')]"

datatype member_share_history_mode = AdminShare | AllMemberShare

fun member_share_history_mode_of :: "member_share_history_mode \<Rightarrow> pb_member_share_history_mode" where
  "member_share_history_mode_of AdminShare = ShareAdminShare"
| "member_share_history_mode_of AllMemberShare = ShareAllMemberShare"

definition refuse_mode :: "i32 \<Rightarrow> string option \<Rightarrow> string list \<Rightarrow> wamux_error" where
  "refuse_mode v name accepted = refusal ''mode'' accepted (shown_value name v)"

definition parse_member_add_mode :: "i32 \<Rightarrow> wamux_error + member_add_mode" where
  "parse_member_add_mode v =
     (let wire = enum_try_from pb_member_add_modes v;
          parsed = (case wire of
             Some AddAdminAdd \<Rightarrow> Some AdminAdd
           | Some AddAllMemberAdd \<Rightarrow> Some AllMemberAdd
           | Some AddUnspecified \<Rightarrow> None
           | Some AddUnknown \<Rightarrow> None
           | None \<Rightarrow> None)
      in ok_or (refuse_mode v (map_option (as_str_name pb_member_add_modes) wire)
            [as_str_name pb_member_add_modes AddAdminAdd, as_str_name pb_member_add_modes AddAllMemberAdd]) parsed)"

definition parse_member_link_mode :: "i32 \<Rightarrow> wamux_error + member_link_mode" where
  "parse_member_link_mode v =
     (let wire = enum_try_from pb_member_link_modes v;
          parsed = (case wire of
             Some LinkAdminLink \<Rightarrow> Some AdminLink
           | Some LinkAllMemberLink \<Rightarrow> Some AllMemberLink
           | Some LinkUnspecified \<Rightarrow> None
           | Some LinkUnknown \<Rightarrow> None
           | None \<Rightarrow> None)
      in ok_or (refuse_mode v (map_option (as_str_name pb_member_link_modes) wire)
            [as_str_name pb_member_link_modes LinkAdminLink, as_str_name pb_member_link_modes LinkAllMemberLink]) parsed)"

definition parse_member_share_history_mode :: "i32 \<Rightarrow> wamux_error + member_share_history_mode" where
  "parse_member_share_history_mode v =
     (let wire = enum_try_from pb_member_share_history_modes v;
          parsed = (case wire of
             Some ShareAdminShare \<Rightarrow> Some AdminShare
           | Some ShareAllMemberShare \<Rightarrow> Some AllMemberShare
           | Some ShareUnspecified \<Rightarrow> None
           | Some ShareUnknown \<Rightarrow> None
           | None \<Rightarrow> None)
      in ok_or (refuse_mode v (map_option (as_str_name pb_member_share_history_modes) wire)
            [as_str_name pb_member_share_history_modes ShareAdminShare,
             as_str_name pb_member_share_history_modes ShareAllMemberShare]) parsed)"

section \<open>The contract of a request enum\<close>

text \<open>
  Every request enum keeps the same contract: it accepts exactly the wire numbers of the values the
  operation takes, and refuses any other with one message that names them and shows what came.
\<close>

locale request_enum =
  fixes parse :: "i32 \<Rightarrow> wamux_error + 'k"
    and number :: "'k \<Rightarrow> i32"
    and accepted :: "'k list"
    and enum :: "'w proto_enum"
    and to_wire :: "'k \<Rightarrow> 'w"
    and field :: string
  assumes number_wire: "k \<in> set accepted \<Longrightarrow> number k = enum_number enum (to_wire k)"
    and parse_iff: "parse v = Inr k \<longleftrightarrow> k \<in> set accepted \<and> v = number k"
    and parse_refuses: "parse v = Inl e \<Longrightarrow> e = refusal field (map (\<lambda>k. as_str_name enum (to_wire k)) accepted)
          (shown_value (map_option (as_str_name enum) (enum_try_from enum v)) v)"
begin

lemma round_trip: "k \<in> set accepted \<Longrightarrow> parse (enum_number enum (to_wire k)) = Inr k"
  using number_wire [of k] parse_iff [of "enum_number enum (to_wire k)" k] by simp

lemma parse_injective: "parse v = Inr k \<Longrightarrow> parse w = Inr k \<Longrightarrow> v = w"
  by (simp add: parse_iff)

lemma refused_is_callers: "parse v = Inl e \<Longrightarrow> \<exists>m. e = InvalidArgument m"
  by (auto dest!: parse_refuses simp: refusal_def)

lemma refused_iff: "(\<exists>e. parse v = Inl e) \<longleftrightarrow> v \<notin> number ` set accepted"
proof -
  have "(\<exists>e. parse v = Inl e) \<longleftrightarrow> \<not> (\<exists>k. parse v = Inr k)" by (cases "parse v") auto
  then show ?thesis by (auto simp: parse_iff)
qed

end

lemmas enum_defs = enum_try_from_def as_str_name_def enum_number_def pb_media_types_def pb_presence_states_def
  pb_member_add_modes_def pb_member_link_modes_def pb_member_share_history_modes_def

lemma kind_from_wire_iff: "kind_from_wire v = Some k \<longleftrightarrow> v = enum_number pb_media_types (kind_to_wire k)"
  by (cases k) (auto simp: kind_from_wire_def enum_defs split: if_splits)

lemma parse_within_iff:
  "parse_within v field ks = Inr k \<longleftrightarrow> k \<in> set ks \<and> v = enum_number pb_media_types (kind_to_wire k)"
proof -
  have "parse_within v field ks = Inr k \<longleftrightarrow> kind_from_wire v = Some k \<and> k \<in> set ks"
    by (auto simp: parse_within_def split: option.splits if_splits)
  then show ?thesis by (auto simp: kind_from_wire_iff)
qed

lemma parse_within_refuses:
  "parse_within v field ks = Inl e \<Longrightarrow> e = refusal field (map (\<lambda>k. as_str_name pb_media_types (kind_to_wire k)) ks)
     (shown_value (map_option (as_str_name pb_media_types) (enum_try_from pb_media_types v)) v)"
  by (auto simp: parse_within_def kind_refuse_def kind_shown_def split: option.splits if_splits)

interpretation sendable: request_enum parse_sendable "\<lambda>k. enum_number pb_media_types (kind_to_wire k)"
  "take 5 ALL_KINDS" pb_media_types kind_to_wire MEDIA_TYPE_FIELD
  by unfold_locales (simp_all only: parse_sendable_def parse_within_iff parse_within_refuses)

interpretation status_kinds: request_enum parse_status "\<lambda>k. enum_number pb_media_types (kind_to_wire k)"
  "take 2 ALL_KINDS" pb_media_types kind_to_wire STATUS_FIELD
  by unfold_locales (simp_all only: parse_status_def parse_within_iff parse_within_refuses)

interpretation downloadable: request_enum parse_downloadable "\<lambda>k. enum_number pb_media_types (kind_to_wire k)"
  ALL_KINDS pb_media_types kind_to_wire MEDIA_TYPE_FIELD
  by unfold_locales (simp_all only: parse_downloadable_def parse_within_iff parse_within_refuses)

interpretation presence: request_enum presence_parse "\<lambda>s. enum_number pb_presence_states (presence_to_wire s)"
  ALL_PRESENCE pb_presence_states presence_to_wire "''state''"
proof unfold_locales
  fix v s
  show "presence_parse v = Inr s \<longleftrightarrow> s \<in> set ALL_PRESENCE \<and> v = enum_number pb_presence_states (presence_to_wire s)"
    by (cases s) (auto simp: presence_parse_def ALL_PRESENCE_def enum_defs split: if_splits)
next
  fix v e
  assume "presence_parse v = Inl e"
  then show "e = refusal ''state'' (map (\<lambda>k. as_str_name pb_presence_states (presence_to_wire k)) ALL_PRESENCE)
      (shown_value (map_option (as_str_name pb_presence_states) (enum_try_from pb_presence_states v)) v)"
    by (simp add: presence_parse_def refuse_state_def Let_def ok_or_def split: option.splits)
qed simp

interpretation add_modes: request_enum parse_member_add_mode "\<lambda>m. enum_number pb_member_add_modes (member_add_mode_of m)"
  "[AdminAdd, AllMemberAdd]" pb_member_add_modes member_add_mode_of "''mode''"
proof unfold_locales
  fix v m
  show "parse_member_add_mode v = Inr m \<longleftrightarrow>
      m \<in> set [AdminAdd, AllMemberAdd] \<and> v = enum_number pb_member_add_modes (member_add_mode_of m)"
    by (cases m) (auto simp: parse_member_add_mode_def Let_def enum_defs split: if_splits)
next
  fix v e
  assume "parse_member_add_mode v = Inl e"
  then show "e = refusal ''mode'' (map (\<lambda>k. as_str_name pb_member_add_modes (member_add_mode_of k)) [AdminAdd, AllMemberAdd])
      (shown_value (map_option (as_str_name pb_member_add_modes) (enum_try_from pb_member_add_modes v)) v)"
    by (simp add: parse_member_add_mode_def refuse_mode_def Let_def ok_or_def split: option.splits)
qed simp

interpretation link_modes: request_enum parse_member_link_mode
  "\<lambda>m. enum_number pb_member_link_modes (member_link_mode_of m)"
  "[AdminLink, AllMemberLink]" pb_member_link_modes member_link_mode_of "''mode''"
proof unfold_locales
  fix v m
  show "parse_member_link_mode v = Inr m \<longleftrightarrow>
      m \<in> set [AdminLink, AllMemberLink] \<and> v = enum_number pb_member_link_modes (member_link_mode_of m)"
    by (cases m) (auto simp: parse_member_link_mode_def Let_def enum_defs split: if_splits)
next
  fix v e
  assume "parse_member_link_mode v = Inl e"
  then show "e = refusal ''mode'' (map (\<lambda>k. as_str_name pb_member_link_modes (member_link_mode_of k)) [AdminLink, AllMemberLink])
      (shown_value (map_option (as_str_name pb_member_link_modes) (enum_try_from pb_member_link_modes v)) v)"
    by (simp add: parse_member_link_mode_def refuse_mode_def Let_def ok_or_def split: option.splits)
qed simp

interpretation share_modes: request_enum parse_member_share_history_mode
  "\<lambda>m. enum_number pb_member_share_history_modes (member_share_history_mode_of m)"
  "[AdminShare, AllMemberShare]" pb_member_share_history_modes member_share_history_mode_of "''mode''"
proof unfold_locales
  fix v m
  show "parse_member_share_history_mode v = Inr m \<longleftrightarrow>
      m \<in> set [AdminShare, AllMemberShare] \<and> v = enum_number pb_member_share_history_modes (member_share_history_mode_of m)"
    by (cases m) (auto simp: parse_member_share_history_mode_def Let_def enum_defs split: if_splits)
next
  fix v e
  assume "parse_member_share_history_mode v = Inl e"
  then show "e = refusal ''mode''
      (map (\<lambda>k. as_str_name pb_member_share_history_modes (member_share_history_mode_of k)) [AdminShare, AllMemberShare])
      (shown_value (map_option (as_str_name pb_member_share_history_modes) (enum_try_from pb_member_share_history_modes v)) v)"
    by (simp add: parse_member_share_history_mode_def refuse_mode_def Let_def ok_or_def split: option.splits)
qed simp

section \<open>Jids that come out of a request\<close>

lemma jid_parse_Inr: "jid_parse J v = Inr j \<longleftrightarrow> v \<noteq> [] \<and> lib_parse J v = Inr (into_lib j)"
  by (cases j; cases "lib_parse J v") (auto simp: jid_parse_def)

lemma from_required_wire_Inr:
  "from_required_wire J jo = Inr j \<longleftrightarrow> unwrap_jid jo \<noteq> [] \<and> lib_parse J (unwrap_jid jo) = Inr (into_lib j)"
  using jid_parse_Inr [of J "unwrap_jid jo" j]
  by (cases "jid_parse J (unwrap_jid jo)") (auto simp: from_required_wire_def jid_try_from_def)

end
