(* ===== verification/Wire_Requests.thy ===== *)
theory Wire_Requests
  imports Wire_Types
begin

text \<open>
  The requests of the messaging and channel services as the domain takes them (\<open>wamux-types\<close>:
  \<open>messaging/key.rs\<close>, \<open>text.rs\<close>, \<open>media.rs\<close>, \<open>status.rs\<close>, \<open>polls.rs\<close>, \<open>rich.rs\<close> and \<open>newsletter.rs\<close>):
  each is parsed from the fields of its protobuf message, in the order the code checks them.
\<close>

section \<open>What a request acts on, quotes and carries\<close>

record pb_message_key =
  mk_chat :: "pb_jid option"
  mk_id :: string
  mk_from_me :: bool
  mk_participant :: "pb_jid option"

record pb_quote_context =
  qc_quoted :: "pb_message_key option"
  qc_participant :: "pb_jid option"

record 'j message_target =
  mt_chat :: "'j jid"
  mt_id :: message_id
  mt_from_me :: bool
  mt_participant :: "'j jid option"

record 'j quoted_ref =
  qr_id :: message_id
  qr_participant :: "'j jid option"
  qr_remote_chat :: "'j jid option"
  qr_message :: bytes

record 'j outgoing_context =
  oc_mentions :: "'j jid list"
  oc_quote :: "'j quoted_ref option"
  oc_ephemeral_seconds :: u32

definition message_target_try_from :: "'j jid_lib \<Rightarrow> pb_message_key \<Rightarrow> wamux_error + 'j message_target" where
  "message_target_try_from J key =
     and_then (from_required_wire J (mk_chat key)) (\<lambda>chat.
     and_then (from_optional_wire J (mk_participant key)) (\<lambda>participant.
     and_then (message_id_new (mk_id key)) (\<lambda>i.
       Inr \<lparr>mt_chat = chat, mt_id = i, mt_from_me = mk_from_me key, mt_participant = participant\<rparr>)))"

definition refuse_orphan_quoted_message :: "bytes \<Rightarrow> wamux_error + 'j quoted_ref option" where
  "refuse_orphan_quoted_message msg =
     (if msg = [] then Inr None
      else Inl (InvalidArgument ''quoted_message without a quote; set quote.quoted to the message it is''))"

definition remote_chat_of ::
  "'j jid_lib \<Rightarrow> pb_message_key \<Rightarrow> pb_jid option \<Rightarrow> wamux_error + 'j jid option" where
  "remote_chat_of J key destination =
     and_then (from_optional_wire J (mk_chat key)) (\<lambda>c.
       case c of
         None \<Rightarrow> Inr None
       | Some chat \<Rightarrow>
           (let dest = (case from_optional_wire J destination of Inl _ \<Rightarrow> None | Inr d \<Rightarrow> d)
            in Inr (if dest \<noteq> Some chat then Some chat else None)))"

definition quoted_ref_from_proto ::
  "'j jid_lib \<Rightarrow> pb_quote_context option \<Rightarrow> bytes \<Rightarrow> pb_jid option \<Rightarrow> wamux_error + 'j quoted_ref option" where
  "quoted_ref_from_proto J quote msg destination =
     (case Option.bind quote qc_quoted of
        None \<Rightarrow> refuse_orphan_quoted_message msg
      | Some key \<Rightarrow>
          if mk_id key = []
          then Inl (InvalidArgument ''empty quote.quoted.id; expected the id of the quoted message'')
          else and_then (from_optional_wire J (Option.bind quote qc_participant)) (\<lambda>own.
               and_then (case own of Some p \<Rightarrow> Inr (Some p) | None \<Rightarrow> from_optional_wire J (mk_participant key)) (\<lambda>participant.
               and_then (message_id_new (mk_id key)) (\<lambda>i.
               and_then (remote_chat_of J key destination) (\<lambda>remote.
                 Inr (Some \<lparr>qr_id = i, qr_participant = participant, qr_remote_chat = remote, qr_message = msg\<rparr>))))))"

definition outgoing_context_from_proto ::
  "'j jid_lib \<Rightarrow> pb_jid option list \<Rightarrow> pb_quote_context option \<Rightarrow> bytes \<Rightarrow> u32 \<Rightarrow> pb_jid option \<Rightarrow>
   wamux_error + 'j outgoing_context" where
  "outgoing_context_from_proto J mentions quote msg seconds destination =
     and_then (try_map (from_required_wire J) mentions) (\<lambda>ms.
     and_then (quoted_ref_from_proto J quote msg destination) (\<lambda>q.
       Inr \<lparr>oc_mentions = ms, oc_quote = q, oc_ephemeral_seconds = seconds\<rparr>))"

section \<open>Texts and media\<close>

record link_preview =
  lp_matched_text :: string
  lp_title :: string
  lp_description :: string
  lp_jpeg_thumbnail :: bytes
  lp_preview_type :: i32

record pb_send_text =
  pt_to :: "pb_jid option"
  pt_text :: string
  pt_mentions :: "pb_jid option list"
  pt_quote :: "pb_quote_context option"
  pt_quoted_message :: bytes
  pt_ephemeral_seconds :: u32
  pt_link_preview :: "link_preview option"

record 'j outgoing_text =
  ot_text :: string
  ot_context :: "'j outgoing_context"
  ot_link_preview :: "link_preview option"

definition outgoing_text_try_from :: "'j jid_lib \<Rightarrow> pb_send_text \<Rightarrow> wamux_error + 'j outgoing_text" where
  "outgoing_text_try_from J r =
     map_ok (\<lambda>c. \<lparr>ot_text = pt_text r, ot_context = c, ot_link_preview = pt_link_preview r\<rparr>)
       (outgoing_context_from_proto J (pt_mentions r) (pt_quote r) (pt_quoted_message r) (pt_ephemeral_seconds r) (pt_to r))"

record pb_send_media_header =
  pm_to :: "pb_jid option"
  pm_media_type :: i32
  pm_mime_type :: string
  pm_caption :: string
  pm_filename :: string
  pm_ptt :: bool
  pm_seconds :: u32
  pm_waveform :: bytes
  pm_ptv :: bool
  pm_mentions :: "pb_jid option list"
  pm_quote :: "pb_quote_context option"
  pm_quoted_message :: bytes
  pm_ephemeral_seconds :: u32

record 'j outgoing_media =
  om_kind :: media_kind
  om_mime_type :: string
  om_caption :: string
  om_filename :: string
  om_ptt :: bool
  om_seconds :: u32
  om_waveform :: bytes
  om_ptv :: bool
  om_context :: "'j outgoing_context"

definition outgoing_media_try_from :: "'j jid_lib \<Rightarrow> pb_send_media_header \<Rightarrow> wamux_error + 'j outgoing_media" where
  "outgoing_media_try_from J h =
     and_then (parse_sendable (pm_media_type h)) (\<lambda>kind.
     and_then (outgoing_context_from_proto J (pm_mentions h) (pm_quote h) (pm_quoted_message h) (pm_ephemeral_seconds h) (pm_to h)) (\<lambda>c.
       Inr \<lparr>om_kind = kind, om_mime_type = pm_mime_type h, om_caption = pm_caption h, om_filename = pm_filename h,
            om_ptt = pm_ptt h, om_seconds = pm_seconds h, om_waveform = pm_waveform h, om_ptv = pm_ptv h, om_context = c\<rparr>))"

record media_descriptor =
  md_media_type :: i32
  md_direct_path :: string
  md_media_key :: bytes
  md_file_enc_sha256 :: bytes
  md_file_sha256 :: bytes
  md_file_length :: u64
  md_mime_type :: string

record downloadable_media =
  dm_kind :: media_kind
  dm_direct_path :: string
  dm_media_key :: bytes
  dm_file_enc_sha256 :: bytes
  dm_file_sha256 :: bytes
  dm_file_length :: u64
  dm_mime_type :: string

definition downloadable_media_try_from :: "media_descriptor \<Rightarrow> wamux_error + downloadable_media" where
  "downloadable_media_try_from d =
     map_ok (\<lambda>kind. \<lparr>dm_kind = kind, dm_direct_path = md_direct_path d, dm_media_key = md_media_key d,
         dm_file_enc_sha256 = md_file_enc_sha256 d, dm_file_sha256 = md_file_sha256 d,
         dm_file_length = md_file_length d, dm_mime_type = md_mime_type d\<rparr>)
       (parse_downloadable (md_media_type d))"

section \<open>Statuses\<close>

definition parse_recipients :: "'j jid_lib \<Rightarrow> pb_jid list \<Rightarrow> wamux_error + 'j jid list" where
  "parse_recipients J vs = try_map (\<lambda>v. from_required_wire J (Some v)) vs"

definition require_recipients :: "'j jid_lib \<Rightarrow> pb_jid list \<Rightarrow> string \<Rightarrow> wamux_error + 'j jid list" where
  "require_recipients J vs verb =
     (if vs = []
      then Inl (InvalidArgument (''recipients is empty; expected the device set the status '' @ verb))
      else parse_recipients J vs)"

record pb_post_status_text =
  st_text :: string
  st_background_argb :: u32
  st_font :: i32
  st_recipients :: "pb_jid list"

record 'j status_text =
  sx_text :: string
  sx_background_argb :: u32
  sx_font :: i32
  sx_recipients :: "'j jid list"

definition status_text_try_from :: "'j jid_lib \<Rightarrow> pb_post_status_text \<Rightarrow> wamux_error + 'j status_text" where
  "status_text_try_from J r =
     map_ok (\<lambda>rs. \<lparr>sx_text = st_text r, sx_background_argb = st_background_argb r, sx_font = st_font r, sx_recipients = rs\<rparr>)
       (require_recipients J (st_recipients r) ''is posted to'')"

record pb_post_status_media_header =
  sh_media_type :: i32
  sh_recipients :: "pb_jid list"
  sh_caption :: string
  sh_thumbnail :: bytes
  sh_seconds :: u32

record 'j status_media =
  sm_kind :: media_kind
  sm_recipients :: "'j jid list"
  sm_caption :: string
  sm_thumbnail :: bytes
  sm_seconds :: u32

definition status_media_try_from :: "'j jid_lib \<Rightarrow> pb_post_status_media_header \<Rightarrow> wamux_error + 'j status_media" where
  "status_media_try_from J h =
     and_then (parse_status (sh_media_type h)) (\<lambda>kind.
     map_ok (\<lambda>rs. \<lparr>sm_kind = kind, sm_recipients = rs, sm_caption = sh_caption h, sm_thumbnail = sh_thumbnail h,
         sm_seconds = sh_seconds h\<rparr>) (require_recipients J (sh_recipients h) ''is posted to''))"

record 'j status_revoke =
  sr_message_id :: message_id
  sr_recipients :: "'j jid list"

definition status_revoke_try_from :: "'j jid_lib \<Rightarrow> string \<Rightarrow> pb_jid list \<Rightarrow> wamux_error + 'j status_revoke" where
  "status_revoke_try_from J i recipients =
     (if i = []
      then Inl (InvalidArgument (''message_id is empty; expected the status'' @ [CHR 0x27] @ ''s own id (PostStatus* key.id)''))
      else and_then (require_recipients J recipients ''was posted to'') (\<lambda>rs.
           map_ok (\<lambda>m. \<lparr>sr_message_id = m, sr_recipients = rs\<rparr>) (message_id_new i)))"

section \<open>Polls\<close>

definition POLL_SECRET_LEN :: nat where
  "POLL_SECRET_LEN = 32"

definition vote_identity ::
  "'j jid_lib \<Rightarrow> pb_jid option \<Rightarrow> string \<Rightarrow> bytes \<Rightarrow> wamux_error + 'j jid \<times> message_id \<times> bytes" where
  "vote_identity J creator poll_id secret =
     and_then (from_required_wire J creator) (\<lambda>c.
     and_then (map_err (\<lambda>_. InvalidArgument ''empty poll_id'') (message_id_new poll_id)) (\<lambda>i.
       if length secret = POLL_SECRET_LEN then Inr (c, i, secret)
       else Inl (InvalidArgument (''message_secret must be '' @ dec POLL_SECRET_LEN @ '' bytes, got '' @ dec (length secret)))))"

record pb_poll_vote_request =
  pv_poll_creator :: "pb_jid option"
  pv_poll_id :: string
  pv_message_secret :: bytes
  pv_options :: "string list"

record 'j poll_vote_cast =
  vc_poll_id :: message_id
  vc_creator :: "'j jid"
  vc_message_secret :: bytes
  vc_options :: "string list"

definition poll_vote_cast_try_from :: "'j jid_lib \<Rightarrow> pb_poll_vote_request \<Rightarrow> wamux_error + 'j poll_vote_cast" where
  "poll_vote_cast_try_from J r =
     map_ok (\<lambda>(c, i, secret). \<lparr>vc_poll_id = i, vc_creator = c, vc_message_secret = secret, vc_options = pv_options r\<rparr>)
       (vote_identity J (pv_poll_creator r) (pv_poll_id r) (pv_message_secret r))"

record pb_poll_vote =
  pe_voter :: "pb_jid option"
  pe_enc_payload :: bytes
  pe_enc_iv :: bytes

record 'j encrypted_vote =
  ev_voter :: "'j jid"
  ev_enc_payload :: bytes
  ev_enc_iv :: bytes

definition encrypted_vote_try_from :: "'j jid_lib \<Rightarrow> pb_poll_vote \<Rightarrow> wamux_error + 'j encrypted_vote" where
  "encrypted_vote_try_from J v =
     map_ok (\<lambda>w. \<lparr>ev_voter = w, ev_enc_payload = pe_enc_payload v, ev_enc_iv = pe_enc_iv v\<rparr>)
       (from_required_wire J (pe_voter v))"

record 'j poll_votes_to_tally =
  tl_poll_id :: message_id
  tl_creator :: "'j jid"
  tl_message_secret :: bytes
  tl_options :: "string list"
  tl_votes :: "'j encrypted_vote list"

definition poll_votes_to_tally_try_from ::
  "'j jid_lib \<Rightarrow> pb_poll_vote_request \<Rightarrow> pb_poll_vote list \<Rightarrow> wamux_error + 'j poll_votes_to_tally" where
  "poll_votes_to_tally_try_from J r votes =
     and_then (vote_identity J (pv_poll_creator r) (pv_poll_id r) (pv_message_secret r)) (\<lambda>(c, i, secret).
       if pv_options r = [] then Inl (InvalidArgument ''no options to tally against'')
       else and_then (try_map (encrypted_vote_try_from J) votes) (\<lambda>vs.
            Inr \<lparr>tl_poll_id = i, tl_creator = c, tl_message_secret = secret, tl_options = pv_options r, tl_votes = vs\<rparr>))"

section \<open>Contact cards and answers to offers\<close>

record 'j contact_card =
  cc_display_name :: string
  cc_vcard :: string
  cc_quote :: "'j quoted_ref option"

definition contact_card_try_from ::
  "'j jid_lib \<Rightarrow> string \<Rightarrow> string \<Rightarrow> pb_quote_context option \<Rightarrow> bytes \<Rightarrow> pb_jid option \<Rightarrow> wamux_error + 'j contact_card" where
  "contact_card_try_from J name vcard quote msg destination =
     map_ok (\<lambda>q. \<lparr>cc_display_name = name, cc_vcard = vcard, cc_quote = q\<rparr>)
       (quoted_ref_from_proto J quote msg destination)"

datatype reply_choice =
    ReplyButton string string
  | ReplyList string string string
  | ReplyTemplate string string u32
  | ReplyNativeFlow string string string i32

record 'j interactive_reply =
  ir_quote :: "'j quoted_ref"
  ir_choice :: reply_choice

definition missing_offer :: wamux_error where
  "missing_offer = InvalidArgument ''quote.quoted.id must name the offer being answered''"

definition offer_quote ::
  "'j jid_lib \<Rightarrow> pb_quote_context option \<Rightarrow> bytes \<Rightarrow> pb_jid option \<Rightarrow> wamux_error + 'j quoted_ref" where
  "offer_quote J quote msg destination =
     (if \<not> (case Option.bind quote qc_quoted of None \<Rightarrow> False | Some key \<Rightarrow> mk_id key \<noteq> []) then Inl missing_offer
      else and_then (quoted_ref_from_proto J quote msg destination) (ok_or missing_offer))"

definition reply_choice_try_from :: "reply_choice option \<Rightarrow> wamux_error + reply_choice" where
  "reply_choice_try_from reply = ok_or (InvalidArgument ''no reply shape set'') reply"

definition interactive_reply_try_from ::
  "'j jid_lib \<Rightarrow> pb_quote_context option \<Rightarrow> bytes \<Rightarrow> pb_jid option \<Rightarrow> reply_choice option \<Rightarrow> wamux_error + 'j interactive_reply" where
  "interactive_reply_try_from J quote msg destination reply =
     and_then (offer_quote J quote msg destination) (\<lambda>q.
     and_then (reply_choice_try_from reply) (\<lambda>c. Inr \<lparr>ir_quote = q, ir_choice = c\<rparr>))"

section \<open>Channels\<close>

definition MAX_NEWSLETTER_VOTE_OPTIONS :: nat where
  "MAX_NEWSLETTER_VOTE_OPTIONS = 1000"

definition require_at_least_one :: "string \<Rightarrow> u32 \<Rightarrow> wamux_error + unit" where
  "require_at_least_one field n =
     (if n = 0 then Inl (InvalidArgument (field @ '' must be at least 1, got 0'')) else Inr ())"

text \<open>The loop of \<open>option_hashes\<close> from index \<open>i\<close>, with the hashes pushed so far.\<close>

fun option_hashes_from :: "nat \<Rightarrow> bytes list \<Rightarrow> bytes list \<Rightarrow> wamux_error + bytes list" where
  "option_hashes_from i hashes [] = Inr hashes"
| "option_hashes_from i hashes (raw # rest) =
     (if length raw \<noteq> 32
      then Inl (InvalidArgument (''option_hashes['' @ dec i @ ''] must be 32 bytes (sha256 of the option name), got '' @ dec (length raw)))
      else if raw \<in> set hashes
      then Inl (InvalidArgument (''option_hashes['' @ dec i @ ''] repeats an earlier option''))
      else option_hashes_from (Suc i) (hashes @ [raw]) rest)"

definition option_hashes :: "bytes list \<Rightarrow> wamux_error + bytes list" where
  "option_hashes raw =
     (if length raw > MAX_NEWSLETTER_VOTE_OPTIONS
      then Inl (InvalidArgument (''a poll vote names at most '' @ dec MAX_NEWSLETTER_VOTE_OPTIONS @ '' options, got '' @ dec (length raw)))
      else option_hashes_from 0 [] raw)"

record 'j newsletter_history_query =
  nh_jid :: "'j newsletter_jid"
  nh_count :: u32
  nh_before :: "u64 option"

definition newsletter_history_query_try_from ::
  "'j jid_lib \<Rightarrow> pb_jid option \<Rightarrow> u32 \<Rightarrow> u64 \<Rightarrow> wamux_error + 'j newsletter_history_query" where
  "newsletter_history_query_try_from J j n before =
     and_then (newsletter_from_required_wire J j) (\<lambda>nj.
     and_then (require_at_least_one ''count'' n) (\<lambda>_.
       Inr \<lparr>nh_jid = nj, nh_count = n, nh_before = (if before \<noteq> 0 then Some before else None)\<rparr>))"

record 'j newsletter_poll_vote =
  nv_jid :: "'j newsletter_jid"
  nv_server_id :: u64
  nv_option_hashes :: "bytes list"

definition newsletter_poll_vote_try_from ::
  "'j jid_lib \<Rightarrow> pb_jid option \<Rightarrow> u64 \<Rightarrow> bytes list \<Rightarrow> wamux_error + 'j newsletter_poll_vote" where
  "newsletter_poll_vote_try_from J j server_id hashes =
     and_then (newsletter_from_required_wire J j) (\<lambda>nj.
       if server_id = 0 then Inl (InvalidArgument ''server_id must name the poll, got 0'')
       else and_then (option_hashes hashes) (\<lambda>hs.
            Inr \<lparr>nv_jid = nj, nv_server_id = server_id, nv_option_hashes = hs\<rparr>))"

record 'j newsletter_add_ons_query =
  na_jid :: "'j newsletter_jid"
  na_limit :: u32

definition newsletter_add_ons_query_try_from ::
  "'j jid_lib \<Rightarrow> pb_jid option \<Rightarrow> u32 \<Rightarrow> wamux_error + 'j newsletter_add_ons_query" where
  "newsletter_add_ons_query_try_from J j n =
     and_then (newsletter_from_required_wire J j) (\<lambda>nj.
     and_then (require_at_least_one ''limit'' n) (\<lambda>_. Inr \<lparr>na_jid = nj, na_limit = n\<rparr>))"

end
