(* ===== verification/Outgoing_Message.thy ===== *)
theory Outgoing_Message
  imports Wire_Requests
begin

text \<open>
  The messages the daemon builds for the library (\<open>domain/messaging.rs\<close>, \<open>outgoing_context.rs\<close>,
  \<open>wire_defaults.rs\<close>, \<open>send_rich.rs\<close>, \<open>interactive_reply.rs\<close>, \<open>media_transfer.rs\<close>), field for field. A
  \<open>wa::Message\<close> is its slots, unset in its default; the slots are those the daemon sets or reads.
  What it takes from the library is \<open>wa_lib\<close>: the decoder of a quoted message (\<open>'m\<close>), the numbers its
  closed enums know, the validity of a message reference. A poll and an edit the library builds itself.
\<close>

section \<open>Wire defaults\<close>

definition nonempty_string :: "string \<Rightarrow> string option" where
  "nonempty_string v = (if v \<noteq> [] then Some v else None)"

definition nonempty_bytes :: "bytes \<Rightarrow> bytes option" where
  "nonempty_bytes v = (if v \<noteq> [] then Some v else None)"

definition nonzero_u32 :: "u32 \<Rightarrow> u32 option" where
  "nonzero_u32 v = (if v > 0 then Some v else None)"

definition nonzero_i32 :: "i32 \<Rightarrow> i32 option" where
  "nonzero_i32 v = (if v \<noteq> 0 then Some v else None)"

section \<open>Messages of the library\<close>

record 'm context_info =
  ci_mentioned_jid :: "string list"
  ci_stanza_id :: "string option"
  ci_participant :: "string option"
  ci_remote_jid :: "string option"
  ci_quoted_message :: "'m option"
  ci_expiration :: "u32 option"

definition default_context :: "'m context_info" where
  "default_context =
     \<lparr>ci_mentioned_jid = [], ci_stanza_id = None, ci_participant = None, ci_remote_jid = None,
      ci_quoted_message = None, ci_expiration = None\<rparr>"

record 'm extended_text =
  et_text :: "string option"
  et_context_info :: "'m context_info option"
  et_matched_text :: "string option"
  et_title :: "string option"
  et_description :: "string option"
  et_jpeg_thumbnail :: "bytes option"
  et_preview_type :: "i32 option"

record wa_key =
  wk_remote_jid :: "string option"
  wk_id :: "string option"
  wk_from_me :: "bool option"
  wk_participant :: "string option"

record wa_reaction =
  rx_key :: "wa_key option"
  rx_text :: "string option"

record 'm wa_contact =
  ct_display_name :: "string option"
  ct_vcard :: "string option"
  ct_context_info :: "'m context_info option"

datatype 'm wa_reply =
    ButtonsResponse "string option" "string option" "'m context_info option"
  | ListResponse "string option" "string option" "string option" "'m context_info option"
  | TemplateReply "string option" "string option" "u32 option" "'m context_info option"
  | NativeFlowResponse "string option" "string option" "string option" "i32 option" "'m context_info option"

record 'm media_sub =
  ms_url :: "string option"
  ms_direct_path :: "string option"
  ms_media_key :: "bytes option"
  ms_file_sha256 :: "bytes option"
  ms_file_enc_sha256 :: "bytes option"
  ms_file_length :: "u64 option"
  ms_media_key_timestamp :: "i64 option"
  ms_mimetype :: "string option"
  ms_context_info :: "'m context_info option"
  ms_caption :: "string option"
  ms_file_name :: "string option"
  ms_ptt :: "bool option"
  ms_seconds :: "u32 option"
  ms_waveform :: "bytes option"
  ms_streaming_sidecar :: "bytes option"

datatype protocol_type = REVOKE | MESSAGE_EDIT | OtherProtocol

text \<open>The text slots of the message an edit carries are the ones the daemon reads of it.\<close>

record protocol_message =
  pm_key :: "wa_key option"
  pm_type :: "protocol_type option"
  pm_edited_message :: "(string option \<times> string option option) option"

record sticker_entry =
  se_file_name :: "string option"
  se_is_animated :: "bool option"
  se_emojis :: "string list"
  se_accessibility_label :: "string option"
  se_is_lottie :: "bool option"
  se_mimetype :: "string option"

datatype wa_pack_origin = FIRST_PARTY | THIRD_PARTY | USER_CREATED | OtherOrigin

record wa_sticker_pack =
  wp_pack_id :: "string option"
  wp_name :: "string option"
  wp_publisher :: "string option"
  wp_description :: "string option"
  wp_stickers :: "sticker_entry list"
  wp_tray_icon :: "string option"
  wp_size :: "u64 option"
  wp_origin :: "wa_pack_origin option"
  wp_direct_path :: "string option"
  wp_media_key :: "bytes option"
  wp_file_enc_sha256 :: "bytes option"
  wp_file_sha256 :: "bytes option"
  wp_file_length :: "u64 option"
  wp_caption :: "string option"
  wp_thumbnail_direct_path :: "string option"
  wp_thumbnail_enc_sha256 :: "bytes option"
  wp_thumbnail_sha256 :: "bytes option"
  wp_thumbnail_width :: "u32 option"
  wp_thumbnail_height :: "u32 option"

text \<open>\<open>edited_message\<close> is the container with its message and that one's protocol message.\<close>

record 'm wa_message =
  w_conversation :: "string option"
  w_extended_text :: "'m extended_text option"
  w_reaction :: "wa_reaction option"
  w_contact :: "'m wa_contact option"
  w_reply :: "'m wa_reply option"
  w_image :: "'m media_sub option"
  w_video :: "'m media_sub option"
  w_ptv :: "'m media_sub option"
  w_audio :: "'m media_sub option"
  w_document :: "'m media_sub option"
  w_sticker :: "'m media_sub option"
  w_sticker_pack :: "wa_sticker_pack option"
  w_protocol :: "protocol_message option"
  w_edited :: "protocol_message option option option"
  w_secret_edit :: bool

definition default_message :: "'m wa_message" where
  "default_message =
     \<lparr>w_conversation = None, w_extended_text = None, w_reaction = None, w_contact = None, w_reply = None,
      w_image = None, w_video = None, w_ptv = None, w_audio = None, w_document = None, w_sticker = None,
      w_sticker_pack = None, w_protocol = None, w_edited = None, w_secret_edit = False\<rparr>"

record ('j, 'm) wa_lib =
  wl_decode :: "bytes \<Rightarrow> string + 'm"
  wl_preview_type :: "i32 \<Rightarrow> bool"
  wl_font :: "i32 \<Rightarrow> bool"
  wl_message_id :: "string \<Rightarrow> string + unit"
  wl_message_ref :: "'j \<Rightarrow> string \<Rightarrow> 'j option \<Rightarrow> bool \<Rightarrow> string + unit"
  wl_status_broadcast :: 'j
  wl_is_newsletter :: "'j \<Rightarrow> bool"

section \<open>The context\<close>

definition decode_quoted_message :: "('j, 'm) wa_lib \<Rightarrow> bytes \<Rightarrow> wamux_error + 'm" where
  "decode_quoted_message W msg =
     map_err (\<lambda>e. InvalidArgument (''quoted_message is not a serialized wa.Message ('' @ dec (length msg) @ '' bytes): '' @ e))
       (wl_decode W msg)"

definition copy_quote ::
  "'j jid_lib \<Rightarrow> ('j, 'm) wa_lib \<Rightarrow> 'm context_info \<Rightarrow> 'j quoted_ref \<Rightarrow> wamux_error + 'm context_info" where
  "copy_quote J W info q =
     (let info1 = info\<lparr>ci_stanza_id := Some (id_str (qr_id q)),
                       ci_participant := map_option (jid_to_wire J) (qr_participant q),
                       ci_remote_jid := map_option (jid_to_wire J) (qr_remote_chat q)\<rparr>
      in if qr_message q \<noteq> []
         then map_ok (\<lambda>m. info1\<lparr>ci_quoted_message := Some m\<rparr>) (decode_quoted_message W (qr_message q))
         else Inr info1)"

definition outgoing_context_info ::
  "'j jid_lib \<Rightarrow> ('j, 'm) wa_lib \<Rightarrow> 'j outgoing_context \<Rightarrow> wamux_error + 'm context_info option" where
  "outgoing_context_info J W c =
     (let info = (if oc_mentions c \<noteq> [] then default_context\<lparr>ci_mentioned_jid := map (jid_to_wire J) (oc_mentions c)\<rparr>
                  else default_context)
      in and_then (case oc_quote c of None \<Rightarrow> Inr info | Some q \<Rightarrow> copy_quote J W info q) (\<lambda>info1.
           let info2 = info1\<lparr>ci_expiration := nonzero_u32 (oc_ephemeral_seconds c)\<rparr>
           in if info2 = default_context then Inr None else Inr (Some info2)))"

section \<open>Texts\<close>

definition conversation_message :: "string \<Rightarrow> 'm wa_message" where
  "conversation_message t = default_message\<lparr>w_conversation := Some t\<rparr>"

definition copy_link_preview ::
  "('j, 'm) wa_lib \<Rightarrow> 'm extended_text \<Rightarrow> link_preview \<Rightarrow> wamux_error + 'm extended_text" where
  "copy_link_preview W ext p =
     and_then (case nonzero_i32 (lp_preview_type p) of
                 None \<Rightarrow> Inr None
               | Some v \<Rightarrow>
                   if wl_preview_type W v then Inr (Some v)
                   else Inl (InvalidArgument (''unknown link_preview.preview_type '' @ dec_int v @ ''; expected a wa PreviewType value''))) (\<lambda>kind.
       Inr (ext\<lparr>et_matched_text := nonempty_string (lp_matched_text p), et_title := nonempty_string (lp_title p),
                et_description := nonempty_string (lp_description p),
                et_jpeg_thumbnail := nonempty_bytes (lp_jpeg_thumbnail p), et_preview_type := kind\<rparr>))"

definition extended_text_of ::
  "'j jid_lib \<Rightarrow> ('j, 'm) wa_lib \<Rightarrow> 'j outgoing_text \<Rightarrow> wamux_error + 'm extended_text" where
  "extended_text_of J W t =
     and_then (outgoing_context_info J W (ot_context t)) (\<lambda>cx.
       let ext = \<lparr>et_text = Some (ot_text t), et_context_info = cx, et_matched_text = None, et_title = None,
                  et_description = None, et_jpeg_thumbnail = None, et_preview_type = None\<rparr>
       in case ot_link_preview t of None \<Rightarrow> Inr ext | Some p \<Rightarrow> copy_link_preview W ext p)"

definition default_outgoing_context :: "'j outgoing_context" where
  "default_outgoing_context = \<lparr>oc_mentions = [], oc_quote = None, oc_ephemeral_seconds = 0\<rparr>"

definition build_text_message ::
  "'j jid_lib \<Rightarrow> ('j, 'm) wa_lib \<Rightarrow> 'j outgoing_text \<Rightarrow> wamux_error + 'm wa_message" where
  "build_text_message J W t =
     (if ot_context t = default_outgoing_context \<and> ot_link_preview t = None
      then Inr (conversation_message (ot_text t))
      else map_ok (\<lambda>ext. default_message\<lparr>w_extended_text := Some ext\<rparr>) (extended_text_of J W t))"

section \<open>Keys and references\<close>

definition wa_message_key :: "'j jid_lib \<Rightarrow> 'j message_target \<Rightarrow> wa_key" where
  "wa_message_key J t =
     \<lparr>wk_remote_jid = Some (jid_to_wire J (mt_chat t)), wk_id = Some (id_str (mt_id t)),
      wk_from_me = Some (mt_from_me t), wk_participant = map_option (jid_to_wire J) (mt_participant t)\<rparr>"

definition reaction_message :: "'j jid_lib \<Rightarrow> 'j message_target \<Rightarrow> string \<Rightarrow> 'm wa_message" where
  "reaction_message J t emoji =
     default_message\<lparr>w_reaction := Some \<lparr>rx_key = Some (wa_message_key J t), rx_text = Some emoji\<rparr>\<rparr>"

definition lib_message_id :: "('j, 'm) wa_lib \<Rightarrow> string \<Rightarrow> wamux_error + string" where
  "lib_message_id W i = map_ok (\<lambda>_. i) (map_err InvalidArgument (wl_message_id W i))"

record 'j message_ref =
  mf_chat :: 'j
  mf_id :: string
  mf_participant :: "'j option"
  mf_from_me :: bool

definition message_ref_of :: "('j, 'm) wa_lib \<Rightarrow> 'j message_target \<Rightarrow> wamux_error + 'j message_ref" where
  "message_ref_of W t =
     and_then (lib_message_id W (id_str (mt_id t))) (\<lambda>i.
       let participant = map_option into_lib (mt_participant t)
       in map_ok (\<lambda>_. \<lparr>mf_chat = into_lib (mt_chat t), mf_id = i, mf_participant = participant, mf_from_me = mt_from_me t\<rparr>)
            (map_err InvalidArgument (wl_message_ref W (into_lib (mt_chat t)) i participant (mt_from_me t))))"

definition refuse_status_revoke :: "('j, 'm) wa_lib \<Rightarrow> 'j message_target \<Rightarrow> bool \<Rightarrow> wamux_error + unit" where
  "refuse_status_revoke W t for_everyone =
     (if \<not> for_everyone \<or> into_lib (mt_chat t) \<noteq> wl_status_broadcast W then Inr ()
      else Inl (InvalidArgument (''message '' @ id_str (mt_id t) @ '' is a status; revoke it with RevokeStatus, which takes the recipients it was posted to'')))"

section \<open>Contact cards and answers\<close>

definition build_contact_message ::
  "'j jid_lib \<Rightarrow> ('j, 'm) wa_lib \<Rightarrow> 'j contact_card \<Rightarrow> wamux_error + 'm wa_message" where
  "build_contact_message J W cc =
     map_ok (\<lambda>cx. default_message\<lparr>w_contact :=
         Some \<lparr>ct_display_name = nonempty_string (cc_display_name cc), ct_vcard = nonempty_string (cc_vcard cc),
               ct_context_info = cx\<rparr>\<rparr>)
       (outgoing_context_info J W (default_outgoing_context\<lparr>oc_quote := cc_quote cc\<rparr>))"

definition reply_context ::
  "'j jid_lib \<Rightarrow> ('j, 'm) wa_lib \<Rightarrow> 'j interactive_reply \<Rightarrow> wamux_error + 'm context_info option" where
  "reply_context J W r =
     and_then (outgoing_context_info J W (default_outgoing_context\<lparr>oc_quote := Some (ir_quote r)\<rparr>)) (\<lambda>cx.
       map_ok Some (ok_or (InvalidArgument ''quote built no context'') cx))"

definition build_button_reply :: "string \<Rightarrow> string \<Rightarrow> 'm context_info option \<Rightarrow> 'm wa_message" where
  "build_button_reply i t cx =
     default_message\<lparr>w_reply := Some (ButtonsResponse (nonempty_string i) (nonempty_string t) cx)\<rparr>"

definition build_list_reply :: "string \<Rightarrow> string \<Rightarrow> string \<Rightarrow> 'm context_info option \<Rightarrow> 'm wa_message" where
  "build_list_reply i title descr cx =
     default_message\<lparr>w_reply := Some (ListResponse (nonempty_string i) (nonempty_string title) (nonempty_string descr) cx)\<rparr>"

definition build_template_reply :: "string \<Rightarrow> string \<Rightarrow> u32 \<Rightarrow> 'm context_info option \<Rightarrow> 'm wa_message" where
  "build_template_reply i t n cx =
     default_message\<lparr>w_reply := Some (TemplateReply (nonempty_string i) (nonempty_string t) (Some n) cx)\<rparr>"

definition build_native_flow_reply :: "string \<Rightarrow> string \<Rightarrow> string \<Rightarrow> i32 \<Rightarrow> 'm context_info option \<Rightarrow> 'm wa_message" where
  "build_native_flow_reply name params body version cx =
     default_message\<lparr>w_reply := Some (NativeFlowResponse (nonempty_string name) (nonempty_string params)
       (nonempty_string body) (nonzero_i32 version) cx)\<rparr>"

definition build_interactive_reply ::
  "'j jid_lib \<Rightarrow> ('j, 'm) wa_lib \<Rightarrow> 'j interactive_reply \<Rightarrow> wamux_error + 'm wa_message" where
  "build_interactive_reply J W r =
     map_ok (\<lambda>cx.
         case ir_choice r of
           ReplyButton i t \<Rightarrow> build_button_reply i t cx
         | ReplyList i title descr \<Rightarrow> build_list_reply i title descr cx
         | ReplyTemplate i t n \<Rightarrow> build_template_reply i t n cx
         | ReplyNativeFlow name params body version \<Rightarrow> build_native_flow_reply name params body version cx)
       (reply_context J W r)"

section \<open>Media\<close>

record media_upload =
  mu_url :: string
  mu_direct_path :: string
  mu_media_key :: bytes
  mu_file_sha256 :: bytes
  mu_file_enc_sha256 :: bytes
  mu_file_length :: u64
  mu_media_key_timestamp :: i64
  mu_streaming_sidecar :: "bytes option"

definition submessage_with_upload :: "'j outgoing_media \<Rightarrow> media_upload \<Rightarrow> 'm context_info option \<Rightarrow> 'm media_sub" where
  "submessage_with_upload h up cx =
     \<lparr>ms_url = Some (mu_url up), ms_direct_path = Some (mu_direct_path up), ms_media_key = Some (mu_media_key up),
      ms_file_sha256 = Some (mu_file_sha256 up), ms_file_enc_sha256 = Some (mu_file_enc_sha256 up),
      ms_file_length = Some (mu_file_length up), ms_media_key_timestamp = Some (mu_media_key_timestamp up),
      ms_mimetype = nonempty_string (om_mime_type h), ms_context_info = cx, ms_caption = None, ms_file_name = None,
      ms_ptt = None, ms_seconds = None, ms_waveform = None, ms_streaming_sidecar = None\<rparr>"

definition video_submessage :: "'j outgoing_media \<Rightarrow> media_upload \<Rightarrow> 'm context_info option \<Rightarrow> 'm media_sub" where
  "video_submessage h up cx =
     (submessage_with_upload h up cx)\<lparr>ms_caption := nonempty_string (om_caption h),
       ms_streaming_sidecar := mu_streaming_sidecar up\<rparr>"

definition audio_submessage :: "'j outgoing_media \<Rightarrow> media_upload \<Rightarrow> 'm context_info option \<Rightarrow> 'm media_sub" where
  "audio_submessage h up cx =
     (submessage_with_upload h up cx)\<lparr>ms_ptt := (if om_ptt h then Some True else None),
       ms_seconds := nonzero_u32 (om_seconds h), ms_waveform := nonempty_bytes (om_waveform h),
       ms_streaming_sidecar := mu_streaming_sidecar up\<rparr>"

definition document_submessage :: "'j outgoing_media \<Rightarrow> media_upload \<Rightarrow> 'm context_info option \<Rightarrow> 'm media_sub" where
  "document_submessage h up cx =
     (submessage_with_upload h up cx)\<lparr>ms_file_name := nonempty_string (om_filename h),
       ms_caption := nonempty_string (om_caption h)\<rparr>"

definition sticker_submessage :: "'j outgoing_media \<Rightarrow> media_upload \<Rightarrow> 'm context_info option \<Rightarrow> 'm media_sub" where
  "sticker_submessage h up cx = submessage_with_upload h up cx"

definition image_submessage :: "'j outgoing_media \<Rightarrow> media_upload \<Rightarrow> 'm context_info option \<Rightarrow> 'm media_sub" where
  "image_submessage h up cx = (submessage_with_upload h up cx)\<lparr>ms_caption := nonempty_string (om_caption h)\<rparr>"

definition build_media_message ::
  "'j jid_lib \<Rightarrow> ('j, 'm) wa_lib \<Rightarrow> 'j outgoing_media \<Rightarrow> media_upload \<Rightarrow> wamux_error + 'm wa_message" where
  "build_media_message J W h up =
     and_then (outgoing_context_info J W (om_context h)) (\<lambda>cx.
       case om_kind h of
         Image \<Rightarrow> Inr (default_message\<lparr>w_image := Some (image_submessage h up cx)\<rparr>)
       | Video \<Rightarrow>
           if om_ptv h then Inr (default_message\<lparr>w_ptv := Some (video_submessage h up cx)\<rparr>)
           else Inr (default_message\<lparr>w_video := Some (video_submessage h up cx)\<rparr>)
       | Audio \<Rightarrow> Inr (default_message\<lparr>w_audio := Some (audio_submessage h up cx)\<rparr>)
       | Document \<Rightarrow> Inr (default_message\<lparr>w_document := Some (document_submessage h up cx)\<rparr>)
       | Sticker \<Rightarrow> Inr (default_message\<lparr>w_sticker := Some (sticker_submessage h up cx)\<rparr>)
       | StickerPack \<Rightarrow> Inl (refused_as_sendable StickerPack)
       | StickerPackThumbnail \<Rightarrow> Inl (refused_as_sendable StickerPackThumbnail))"

section \<open>Answers\<close>

record recipient_fanout =
  rf_addressed :: nat
  rf_encrypted :: nat
  rf_skipped_primary :: bool
  rf_had_unregistered_device :: bool

record pb_recipient_fanout =
  pf_addressed :: u32
  pf_encrypted :: u32
  pf_skipped_primary :: bool
  pf_had_unregistered_device :: bool

text \<open>\<open>u32::try_from(n).unwrap_or(u32::MAX)\<close>.\<close>

definition saturate_u32 :: "nat \<Rightarrow> u32" where
  "saturate_u32 n = (if n < 2 ^ 32 then of_nat n else - 1)"

definition recipient_fanout_to_proto :: "recipient_fanout \<Rightarrow> pb_recipient_fanout" where
  "recipient_fanout_to_proto f =
     \<lparr>pf_addressed = saturate_u32 (rf_addressed f), pf_encrypted = saturate_u32 (rf_encrypted f),
      pf_skipped_primary = rf_skipped_primary f, pf_had_unregistered_device = rf_had_unregistered_device f\<rparr>"

record pb_send_result =
  ps_key :: "pb_message_key option"
  ps_server_timestamp :: i64
  ps_recipient_fanout :: "pb_recipient_fanout option"

definition sent_message_key :: "'j jid_lib \<Rightarrow> string \<Rightarrow> 'j \<Rightarrow> pb_message_key" where
  "sent_message_key J i to = \<lparr>mk_chat = relay_lib_jid J to, mk_id = i, mk_from_me = True, mk_participant = None\<rparr>"

definition send_result_to_proto :: "'j jid_lib \<Rightarrow> string \<Rightarrow> 'j \<Rightarrow> recipient_fanout option \<Rightarrow> pb_send_result" where
  "send_result_to_proto J i to fanout =
     \<lparr>ps_key = Some (sent_message_key J i to), ps_server_timestamp = 0,
      ps_recipient_fanout = map_option recipient_fanout_to_proto fanout\<rparr>"

section \<open>Lemmas\<close>

text \<open>A count past 32 bits never reads as a small one.\<close>

lemma saturate_u32_mono: "m \<le> n \<Longrightarrow> unat (saturate_u32 m) \<le> unat (saturate_u32 n)"
proof -
  have top: "unat (- 1 :: u32) = 2 ^ 32 - 1" by (simp add: unsigned_minus_1_eq_mask mask_eq_exp_minus_1)
  have small: "unat (of_nat k :: u32) = k" if "k < 2 ^ 32" for k
    using that by (simp add: unat_of_nat take_bit_nat_eq_self)
  assume "m \<le> n"
  then show ?thesis unfolding saturate_u32_def using small [of m] small [of n] top by simp
qed

lemma outgoing_context_none:
  assumes "outgoing_context_info J W c = Inr None"
  shows "c = default_outgoing_context"
proof -
  obtain ms q e where c: "c = \<lparr>oc_mentions = ms, oc_quote = q, oc_ephemeral_seconds = e\<rparr>" by (cases c)
  with assms show ?thesis
    by (auto simp: outgoing_context_info_def default_outgoing_context_def default_context_def copy_quote_def nonzero_u32_def Let_def
        map_ok_Inr_iff and_then_Inr_iff word_gt_0 split: option.splits if_splits)
qed

lemma outgoing_context_info_default [simp]: "outgoing_context_info J W default_outgoing_context = Inr None"
  by (simp add: outgoing_context_info_def default_outgoing_context_def default_context_def nonzero_u32_def)

text \<open>What a built context carries is what the request asked for.\<close>

lemma outgoing_context_some:
  assumes "outgoing_context_info J W c = Inr (Some info)"
  shows "ci_mentioned_jid info = map (jid_to_wire J) (oc_mentions c)"
    "ci_stanza_id info = map_option (\<lambda>q. id_str (qr_id q)) (oc_quote c)"
    "ci_participant info = Option.bind (oc_quote c) (\<lambda>q. map_option (jid_to_wire J) (qr_participant q))"
    "ci_remote_jid info = Option.bind (oc_quote c) (\<lambda>q. map_option (jid_to_wire J) (qr_remote_chat q))"
    "ci_expiration info = nonzero_u32 (oc_ephemeral_seconds c)"
  using assms
  by (auto simp: outgoing_context_info_def default_context_def copy_quote_def Let_def map_ok_Inr_iff and_then_Inr_iff
      split: option.splits if_splits)

end
