(* ===== verification/Inbound_Message.thy ===== *)
theory Inbound_Message
  imports Outgoing_Message
begin

text \<open>
  What an event says of a message (\<open>domain/event_mapping.rs\<close>, \<open>sticker_packs.rs\<close>): the projection of a
  \<open>wa::Message\<close> on the typed fields of an \<open>InboundMessage\<close>, the same for a message WhatsApp delivered
  and for the echo of one this daemon sent. \<open>X\<close> is what the library gives: the context it finds in a
  message and the message's bytes.
\<close>

section \<open>Data\<close>

datatype pb_pack_origin = OriginUnspecified | OriginUnknown | OriginFirstParty | OriginThirdParty | OriginUserCreated

record pb_sticker_entry =
  pe_file_name :: string
  pe_is_animated :: bool
  pe_emojis :: "string list"
  pe_accessibility_label :: string
  pe_is_lottie :: bool
  pe_mime_type :: string

record pb_sticker_pack =
  sp_pack_id :: string
  sp_name :: string
  sp_publisher :: string
  sp_description :: string
  sp_stickers :: "pb_sticker_entry list"
  sp_tray_icon :: string
  sp_size :: u64
  sp_origin :: pb_pack_origin
  sp_thumbnail :: "media_descriptor option"
  sp_thumbnail_width :: u32
  sp_thumbnail_height :: u32

record inbound_message =
  im_key :: "pb_message_key option"
  im_chat :: "pb_jid option"
  im_sender :: "pb_jid option"
  im_timestamp :: i64
  im_push_name :: string
  im_sender_alt :: "pb_jid option"
  im_recipient_alt :: "pb_jid option"
  im_raw_message :: bytes
  im_text :: string
  im_mentions :: "pb_jid list"
  im_quote :: "pb_quote_context option"
  im_reaction :: string
  im_reaction_target :: "pb_message_key option"
  im_is_edit :: bool
  im_is_delete :: bool
  im_protocol_target :: "pb_message_key option"
  im_media :: "media_descriptor option"
  im_caption :: string
  im_sticker_pack :: "pb_sticker_pack option"

definition default_inbound :: inbound_message where
  "default_inbound =
     \<lparr>im_key = None, im_chat = None, im_sender = None, im_timestamp = 0, im_push_name = [], im_sender_alt = None,
      im_recipient_alt = None, im_raw_message = [], im_text = [], im_mentions = [], im_quote = None, im_reaction = [],
      im_reaction_target = None, im_is_edit = False, im_is_delete = False, im_protocol_target = None, im_media = None,
      im_caption = [], im_sticker_pack = None\<rparr>"

record 'm message_ext =
  mx_context :: "'m wa_message \<Rightarrow> 'm context_info option"
  mx_encode :: "'m wa_message \<Rightarrow> bytes"

text \<open>\<open>unwrap_or_default\<close>.\<close>

definition or_empty :: "'a list option \<Rightarrow> 'a list" where
  "or_empty v = (case v of None \<Rightarrow> [] | Some x \<Rightarrow> x)"

definition or_false :: "bool option \<Rightarrow> bool" where
  "or_false v = (case v of None \<Rightarrow> False | Some x \<Rightarrow> x)"

definition or_zero :: "'a::zero option \<Rightarrow> 'a" where
  "or_zero v = (case v of None \<Rightarrow> 0 | Some x \<Rightarrow> x)"

section \<open>Sticker packs\<close>

definition pack_descriptor :: "wa_sticker_pack \<Rightarrow> media_descriptor" where
  "pack_descriptor p =
     \<lparr>md_media_type = enum_number pb_media_types (kind_to_wire StickerPack), md_direct_path = or_empty (wp_direct_path p),
      md_media_key = or_empty (wp_media_key p), md_file_enc_sha256 = or_empty (wp_file_enc_sha256 p),
      md_file_sha256 = or_empty (wp_file_sha256 p), md_file_length = or_zero (wp_file_length p), md_mime_type = []\<rparr>"

definition thumbnail_descriptor :: "wa_sticker_pack \<Rightarrow> media_descriptor option" where
  "thumbnail_descriptor p =
     map_option (\<lambda>path.
       \<lparr>md_media_type = enum_number pb_media_types (kind_to_wire StickerPackThumbnail), md_direct_path = path,
        md_media_key = or_empty (wp_media_key p), md_file_enc_sha256 = or_empty (wp_thumbnail_enc_sha256 p),
        md_file_sha256 = or_empty (wp_thumbnail_sha256 p), md_file_length = 0, md_mime_type = []\<rparr>)
       (wp_thumbnail_direct_path p)"

definition sticker_pack_entry :: "sticker_entry \<Rightarrow> pb_sticker_entry" where
  "sticker_pack_entry e =
     \<lparr>pe_file_name = or_empty (se_file_name e), pe_is_animated = or_false (se_is_animated e), pe_emojis = se_emojis e,
      pe_accessibility_label = or_empty (se_accessibility_label e), pe_is_lottie = or_false (se_is_lottie e),
      pe_mime_type = or_empty (se_mimetype e)\<rparr>"

fun origin_of :: "wa_pack_origin \<Rightarrow> pb_pack_origin" where
  "origin_of FIRST_PARTY = OriginFirstParty"
| "origin_of THIRD_PARTY = OriginThirdParty"
| "origin_of USER_CREATED = OriginUserCreated"
| "origin_of OtherOrigin = OriginUnknown"

definition sticker_pack_info :: "wa_sticker_pack \<Rightarrow> pb_sticker_pack" where
  "sticker_pack_info p =
     \<lparr>sp_pack_id = or_empty (wp_pack_id p), sp_name = or_empty (wp_name p), sp_publisher = or_empty (wp_publisher p),
      sp_description = or_empty (wp_description p), sp_stickers = map sticker_pack_entry (wp_stickers p),
      sp_tray_icon = or_empty (wp_tray_icon p), sp_size = or_zero (wp_size p),
      sp_origin = (case wp_origin p of None \<Rightarrow> OriginUnspecified | Some x \<Rightarrow> origin_of x),
      sp_thumbnail = thumbnail_descriptor p, sp_thumbnail_width = or_zero (wp_thumbnail_width p),
      sp_thumbnail_height = or_zero (wp_thumbnail_height p)\<rparr>"

section \<open>The projection\<close>

definition mentions_of :: "'m context_info \<Rightarrow> pb_jid list" where
  "mentions_of ci = List.map_filter relay_jid (ci_mentioned_jid ci)"

definition quote_of :: "'m context_info \<Rightarrow> string \<Rightarrow> pb_quote_context option" where
  "quote_of ci reply_chat =
     map_option (\<lambda>stanza.
         let participant = relay_jid (or_empty (ci_participant ci));
             quoted_chat = (case ci_remote_jid ci of None \<Rightarrow> None | Some j \<Rightarrow> if j \<noteq> [] then Some j else None)
         in \<lparr>qc_quoted = Some \<lparr>mk_chat = relay_jid (case quoted_chat of None \<Rightarrow> reply_chat | Some j \<Rightarrow> j), mk_id = stanza,
                mk_from_me = False, mk_participant = participant\<rparr>,
             qc_participant = participant\<rparr>)
       (ci_stanza_id ci)"

definition wa_key_to_proto :: "wa_key \<Rightarrow> pb_message_key" where
  "wa_key_to_proto k =
     \<lparr>mk_chat = relay_jid (or_empty (wk_remote_jid k)), mk_id = or_empty (wk_id k), mk_from_me = or_false (wk_from_me k),
      mk_participant = relay_jid (or_empty (wk_participant k))\<rparr>"

text \<open>\<open>message_text\<close> of the message an edit carries.\<close>

fun message_text :: "string option \<times> string option option \<Rightarrow> string option" where
  "message_text (Some t, _) = Some t"
| "message_text (None, e) = Option.bind e (\<lambda>t. t)"

definition effective_protocol_message :: "'m wa_message \<Rightarrow> protocol_message option" where
  "effective_protocol_message m =
     (case w_protocol m of
        Some p \<Rightarrow> Some p
      | None \<Rightarrow> Option.bind (w_edited m) (\<lambda>container. Option.bind container (\<lambda>p. p)))"

definition project_protocol_message :: "inbound_message \<Rightarrow> protocol_message \<Rightarrow> inbound_message" where
  "project_protocol_message out p =
     (case pm_type p of
        Some REVOKE \<Rightarrow> out\<lparr>im_is_delete := True, im_protocol_target := map_option wa_key_to_proto (pm_key p)\<rparr>
      | Some MESSAGE_EDIT \<Rightarrow>
          (let out1 = out\<lparr>im_is_edit := True, im_protocol_target := map_option wa_key_to_proto (pm_key p)\<rparr>
           in case pm_edited_message p of
                None \<Rightarrow> out1
              | Some edited \<Rightarrow> out1\<lparr>im_text := or_empty (message_text edited)\<rparr>)
      | _ \<Rightarrow> out)"

definition is_secret_message_edit :: "'m wa_message \<Rightarrow> bool" where
  "is_secret_message_edit m = w_secret_edit m"

definition media_descriptor_of :: "'m media_sub \<Rightarrow> media_kind \<Rightarrow> media_descriptor" where
  "media_descriptor_of m kind =
     \<lparr>md_media_type = enum_number pb_media_types (kind_to_wire kind), md_direct_path = or_empty (ms_direct_path m),
      md_media_key = or_empty (ms_media_key m), md_file_enc_sha256 = or_empty (ms_file_enc_sha256 m),
      md_file_sha256 = or_empty (ms_file_sha256 m), md_file_length = or_zero (ms_file_length m),
      md_mime_type = or_empty (ms_mimetype m)\<rparr>"

definition extract_media :: "'m wa_message \<Rightarrow> (media_descriptor \<times> string) option" where
  "extract_media m =
     (case w_image m of
        Some x \<Rightarrow> Some (media_descriptor_of x Image, or_empty (ms_caption x))
      | None \<Rightarrow>
     (case w_video m of
        Some x \<Rightarrow> Some (media_descriptor_of x Video, or_empty (ms_caption x))
      | None \<Rightarrow>
     (case w_audio m of
        Some x \<Rightarrow> Some (media_descriptor_of x Audio, [])
      | None \<Rightarrow>
     (case w_document m of
        Some x \<Rightarrow> Some (media_descriptor_of x Document, or_empty (ms_caption x))
      | None \<Rightarrow>
     (case w_sticker m of
        Some x \<Rightarrow> Some (media_descriptor_of x Sticker, [])
      | None \<Rightarrow> map_option (\<lambda>p. (pack_descriptor p, or_empty (wp_caption p))) (w_sticker_pack m))))))"

definition project_content :: "'m message_ext \<Rightarrow> inbound_message \<Rightarrow> 'm wa_message \<Rightarrow> string \<Rightarrow> inbound_message" where
  "project_content X out m chat =
     (let out1 = (case w_conversation m of
                    Some t \<Rightarrow> out\<lparr>im_text := t\<rparr>
                  | None \<Rightarrow>
                      (case Option.bind (w_extended_text m) et_text of Some t \<Rightarrow> out\<lparr>im_text := t\<rparr> | None \<Rightarrow> out));
          out2 = (case mx_context X m of
                    Some ci \<Rightarrow> out1\<lparr>im_mentions := mentions_of ci, im_quote := quote_of ci chat\<rparr>
                  | None \<Rightarrow> out1);
          out3 = (case w_reaction m of
                    Some r \<Rightarrow> out2\<lparr>im_reaction := or_empty (rx_text r), im_reaction_target := map_option wa_key_to_proto (rx_key r)\<rparr>
                  | None \<Rightarrow> out2);
          out4 = (case effective_protocol_message m of Some p \<Rightarrow> project_protocol_message out3 p | None \<Rightarrow> out3);
          out5 = (if is_secret_message_edit m then out4\<lparr>im_is_edit := True\<rparr> else out4);
          out6 = (case extract_media m of
                    Some (d, cap) \<Rightarrow> out5\<lparr>im_media := Some d, im_caption := cap\<rparr>
                  | None \<Rightarrow> out5)
      in out6\<lparr>im_sticker_pack := map_option sticker_pack_info (w_sticker_pack m)\<rparr>)"

definition map_sent ::
  "'m message_ext \<Rightarrow> pb_message_key \<Rightarrow> string \<Rightarrow> string \<Rightarrow> i64 \<Rightarrow> 'm wa_message \<Rightarrow> inbound_message" where
  "map_sent X key chat sender ms m =
     project_content X
       (default_inbound\<lparr>im_key := Some key, im_chat := relay_jid chat, im_sender := relay_jid sender, im_timestamp := ms,
          im_raw_message := mx_encode X m\<rparr>)
       m chat"

record 'j message_info =
  mi_chat :: 'j
  mi_sender :: 'j
  mi_is_from_me :: bool
  mi_sender_alt :: "'j option"
  mi_recipient_alt :: "'j option"
  mi_id :: string
  mi_timestamp_ms :: i64
  mi_push_name :: string

definition map_message :: "'j jid_lib \<Rightarrow> 'm message_ext \<Rightarrow> 'm wa_message \<Rightarrow> 'j message_info \<Rightarrow> inbound_message" where
  "map_message J X m info =
     (let chat = lib_show J (mi_chat info); sender = lib_show J (mi_sender info)
      in project_content X
           (default_inbound\<lparr>im_key := Some \<lparr>mk_chat = relay_jid chat, mk_id = mi_id info, mk_from_me = mi_is_from_me info,
                mk_participant = relay_jid sender\<rparr>,
              im_chat := relay_jid chat, im_sender := relay_jid sender, im_timestamp := mi_timestamp_ms info,
              im_push_name := mi_push_name info, im_sender_alt := relay_optional_lib_jid J (mi_sender_alt info),
              im_recipient_alt := relay_optional_lib_jid J (mi_recipient_alt info), im_raw_message := mx_encode X m\<rparr>)
           m chat)"

section \<open>The projection reads back what was built\<close>

text \<open>
  The library's \<open>context_info\<close> on a message of one slot is that slot's, and the library shows no jid as
  an empty string.
\<close>

fun reply_ctx :: "'m wa_reply \<Rightarrow> 'm context_info option" where
  "reply_ctx (ButtonsResponse _ _ c) = c"
| "reply_ctx (ListResponse _ _ _ c) = c"
| "reply_ctx (TemplateReply _ _ _ c) = c"
| "reply_ctx (NativeFlowResponse _ _ _ _ c) = c"

definition context_found :: "'m message_ext \<Rightarrow> bool" where
  "context_found X \<longleftrightarrow>
     mx_context X default_message = None \<and>
     (\<forall>t. mx_context X (default_message\<lparr>w_conversation := Some t\<rparr>) = None) \<and>
     (\<forall>e. mx_context X (default_message\<lparr>w_extended_text := Some e\<rparr>) = et_context_info e) \<and>
     (\<forall>s. mx_context X (default_message\<lparr>w_image := Some s\<rparr>) = ms_context_info s) \<and>
     (\<forall>s. mx_context X (default_message\<lparr>w_video := Some s\<rparr>) = ms_context_info s) \<and>
     (\<forall>s. mx_context X (default_message\<lparr>w_audio := Some s\<rparr>) = ms_context_info s) \<and>
     (\<forall>s. mx_context X (default_message\<lparr>w_document := Some s\<rparr>) = ms_context_info s) \<and>
     (\<forall>s. mx_context X (default_message\<lparr>w_sticker := Some s\<rparr>) = ms_context_info s)"

definition shown_nonempty :: "'j jid_lib \<Rightarrow> bool" where
  "shown_nonempty J \<longleftrightarrow> (\<forall>j. lib_show J j \<noteq> [])"

text \<open>The quote of a context as the events name it: the quoted chat is the reply's own when none is carried.\<close>

definition quote_as_event :: "'j jid_lib \<Rightarrow> string \<Rightarrow> 'j quoted_ref \<Rightarrow> pb_quote_context" where
  "quote_as_event J chat q =
     (let participant = map_option (jid_to_wire J) (qr_participant q)
      in \<lparr>qc_quoted = Some \<lparr>mk_chat = relay_jid (case qr_remote_chat q of None \<Rightarrow> chat | Some c \<Rightarrow> jid_to_wire J c),
             mk_id = id_str (qr_id q), mk_from_me = False, mk_participant = participant\<rparr>,
          qc_participant = participant\<rparr>)"

lemma relay_shown: "shown_nonempty J \<Longrightarrow> relay_jid (jid_to_wire J j) = Some (jid_to_wire J j)"
  by (simp add: relay_jid_def jid_to_wire_def shown_nonempty_def)

lemma relay_shown_option:
  "shown_nonempty J \<Longrightarrow> relay_jid (or_empty (map_option (jid_to_wire J) p)) = map_option (jid_to_wire J) p"
  by (cases p) (simp_all add: or_empty_def relay_shown relay_jid_def [of "[]"])

lemma mentions_read_back:
  "shown_nonempty J \<Longrightarrow> ci_mentioned_jid ci = map (jid_to_wire J) ms \<Longrightarrow> mentions_of ci = map (jid_to_wire J) ms"
  by (simp add: mentions_of_def List.map_filter_def relay_shown comp_def)

lemma quote_read_back:
  assumes "shown_nonempty J" "outgoing_context_info J W c = Inr (Some ci)"
  shows "quote_of ci chat = map_option (quote_as_event J chat) (oc_quote c)"
proof (cases "oc_quote c")
  case None
  with outgoing_context_some(2) [OF assms(2)] show ?thesis by (simp add: quote_of_def)
next
  case (Some q)
  have "jid_to_wire J r \<noteq> []" for r using assms(1) by (simp add: jid_to_wire_def shown_nonempty_def)
  with Some outgoing_context_some(2-4) [OF assms(2)] relay_shown_option [OF assms(1)] show ?thesis
    by (cases "qr_remote_chat q") (simp_all add: quote_of_def quote_as_event_def Let_def)
qed

lemma copy_link_preview_keeps:
  "copy_link_preview W ext p = Inr e \<Longrightarrow> et_text e = et_text ext \<and> et_context_info e = et_context_info ext"
  by (auto simp: copy_link_preview_def and_then_Inr_iff)

lemma extended_text_keeps:
  "extended_text_of J W t = Inr e \<Longrightarrow>
   outgoing_context_info J W (ot_context t) = Inr (et_context_info e) \<and> et_text e = Some (ot_text t)"
  by (cases "ot_link_preview t")
     (auto simp: extended_text_of_def and_then_Inr_iff Let_def dest!: copy_link_preview_keeps)

text \<open>What the projection sees of a built text: its words, its context, and nothing else.\<close>

lemma built_text:
  assumes "context_found X" "build_text_message J W t = Inr m"
  shows "(case w_conversation m of Some s \<Rightarrow> Some s | None \<Rightarrow> Option.bind (w_extended_text m) et_text) = Some (ot_text t)"
    "outgoing_context_info J W (ot_context t) = Inr (mx_context X m)"
    "w_reaction m = None" "effective_protocol_message m = None" "\<not> w_secret_edit m" "extract_media m = None"
    "w_sticker_pack m = None"
proof -
  have all: "(case w_conversation m of Some s \<Rightarrow> Some s | None \<Rightarrow> Option.bind (w_extended_text m) et_text) = Some (ot_text t) \<and>
    outgoing_context_info J W (ot_context t) = Inr (mx_context X m) \<and> w_reaction m = None \<and>
    effective_protocol_message m = None \<and> \<not> w_secret_edit m \<and> extract_media m = None \<and> w_sticker_pack m = None"
  proof (cases "ot_context t = default_outgoing_context \<and> ot_link_preview t = None")
    case True
    with assms show ?thesis
      by (auto simp: build_text_message_def conversation_message_def context_found_def default_message_def
          effective_protocol_message_def extract_media_def)
  next
    case False
    with assms(2) obtain e where e: "m = default_message\<lparr>w_extended_text := Some e\<rparr>" "extended_text_of J W t = Inr e"
      by (auto simp: build_text_message_def map_ok_Inr_iff)
    with extended_text_keeps [OF e(2)] assms(1) show ?thesis
      by (auto simp: context_found_def default_message_def effective_protocol_message_def extract_media_def)
  qed
  show "(case w_conversation m of Some s \<Rightarrow> Some s | None \<Rightarrow> Option.bind (w_extended_text m) et_text) = Some (ot_text t)"
    "outgoing_context_info J W (ot_context t) = Inr (mx_context X m)"
    "w_reaction m = None" "effective_protocol_message m = None" "\<not> w_secret_edit m" "extract_media m = None"
    "w_sticker_pack m = None"
    using all by simp_all
qed

section \<open>Media and reactions\<close>

text \<open>The descriptor an event carries of an uploaded file; \<open>DownloadMedia\<close> takes it as it is.\<close>

definition upload_descriptor :: "'j outgoing_media \<Rightarrow> media_upload \<Rightarrow> media_descriptor" where
  "upload_descriptor h up =
     \<lparr>md_media_type = enum_number pb_media_types (kind_to_wire (om_kind h)), md_direct_path = mu_direct_path up,
      md_media_key = mu_media_key up, md_file_enc_sha256 = mu_file_enc_sha256 up, md_file_sha256 = mu_file_sha256 up,
      md_file_length = mu_file_length up, md_mime_type = om_mime_type h\<rparr>"

text \<open>The caption is a field of the images, videos and documents.\<close>

definition relayed_caption :: "'j outgoing_media \<Rightarrow> string" where
  "relayed_caption h = (if om_kind h \<in> {Image, Video, Document} then om_caption h else [])"

lemma or_empty_nonempty [simp]: "or_empty (nonempty_string s) = s"
  by (simp add: or_empty_def nonempty_string_def)

lemma submessage_descriptor:
  "media_descriptor_of (submessage_with_upload h up cx) (om_kind h) = upload_descriptor h up"
  by (simp add: media_descriptor_of_def submessage_with_upload_def upload_descriptor_def or_empty_def [of "Some _"] or_zero_def)

lemma descriptor_other_fields:
  "media_descriptor_of (s\<lparr>ms_caption := c\<rparr>) k = media_descriptor_of s k"
  "media_descriptor_of (s\<lparr>ms_file_name := f\<rparr>) k = media_descriptor_of s k"
  "media_descriptor_of (s\<lparr>ms_ptt := p\<rparr>) k = media_descriptor_of s k"
  "media_descriptor_of (s\<lparr>ms_seconds := n\<rparr>) k = media_descriptor_of s k"
  "media_descriptor_of (s\<lparr>ms_waveform := w\<rparr>) k = media_descriptor_of s k"
  "media_descriptor_of (s\<lparr>ms_streaming_sidecar := w\<rparr>) k = media_descriptor_of s k"
  by (simp_all add: media_descriptor_of_def)

lemmas submessages = image_submessage_def video_submessage_def audio_submessage_def document_submessage_def sticker_submessage_def

lemma built_media:
  assumes "build_media_message J W h up = Inr m"
  shows "extract_media m =
      (if om_kind h = Video \<and> om_ptv h then None else Some (upload_descriptor h up, relayed_caption h)) \<and>
    w_conversation m = None \<and> w_extended_text m = None \<and> w_reaction m = None \<and> effective_protocol_message m = None \<and>
    \<not> w_secret_edit m \<and> w_sticker_pack m = None"
proof -
  obtain cx where "outgoing_context_info J W (om_context h) = Inr cx"
    using assms by (auto simp: build_media_message_def and_then_Inr_iff)
  then show ?thesis
    using assms submessage_descriptor [of h up cx]
    by (cases "om_kind h"; cases "om_ptv h")
       (auto simp: build_media_message_def extract_media_def default_message_def effective_protocol_message_def submessages
          descriptor_other_fields relayed_caption_def)
qed

lemma built_media_context:
  assumes "context_found X" "build_media_message J W h up = Inr m" "\<not> (om_kind h = Video \<and> om_ptv h)"
  shows "outgoing_context_info J W (om_context h) = Inr (mx_context X m)"
proof -
  obtain cx where cx: "outgoing_context_info J W (om_context h) = Inr cx"
    using assms(2) by (auto simp: build_media_message_def and_then_Inr_iff)
  have "ms_context_info (submessage_with_upload h up cx) = cx" by (simp add: submessage_with_upload_def)
  with cx assms show ?thesis
    by (cases "om_kind h"; cases "om_ptv h") (auto simp: build_media_message_def context_found_def submessages)
qed

lemma media_reads_back:
  assumes "build_media_message J W h up = Inr m" "im_media out = None"
  shows "im_media (project_content X out m chat) =
      (if om_kind h = Video \<and> om_ptv h then None else Some (upload_descriptor h up))"
    "\<not> (om_kind h = Video \<and> om_ptv h) \<Longrightarrow> im_caption (project_content X out m chat) = relayed_caption h"
  using built_media [OF assms(1)] assms(2)
  by (auto simp: project_content_def Let_def is_secret_message_edit_def split: option.splits)

lemma context_reads_back:
  assumes "shown_nonempty J" "outgoing_context_info J W c = Inr (mx_context X m)"
    and "w_reaction m = None" "effective_protocol_message m = None" "im_mentions out = []" "im_quote out = None"
  shows "im_mentions (project_content X out m chat) = map (jid_to_wire J) (oc_mentions c)"
    "im_quote (project_content X out m chat) = map_option (quote_as_event J chat) (oc_quote c)"
proof -
  have "im_mentions (project_content X out m chat) = map (jid_to_wire J) (oc_mentions c) \<and>
     im_quote (project_content X out m chat) = map_option (quote_as_event J chat) (oc_quote c)"
  proof (cases "mx_context X m")
    case None
    with assms(2) outgoing_context_none have "c = default_outgoing_context" by metis
    with None assms(3-) show ?thesis
      by (auto simp: project_content_def Let_def default_outgoing_context_def split: option.splits)
  next
    case (Some ci)
    with assms(2) have ctx: "outgoing_context_info J W c = Inr (Some ci)" by simp
    from Some assms(3-) quote_read_back [OF assms(1) ctx] mentions_read_back [OF assms(1) outgoing_context_some(1) [OF ctx]]
    show ?thesis by (auto simp: project_content_def Let_def split: option.splits)
  qed
  then show "im_mentions (project_content X out m chat) = map (jid_to_wire J) (oc_mentions c)"
    "im_quote (project_content X out m chat) = map_option (quote_as_event J chat) (oc_quote c)" by simp_all
qed

lemma text_reads_back:
  assumes "context_found X" "shown_nonempty J" "build_text_message J W t = Inr m" "im_mentions out = []" "im_quote out = None"
  shows "im_text (project_content X out m chat) = ot_text t"
    "im_mentions (project_content X out m chat) = map (jid_to_wire J) (oc_mentions (ot_context t))"
    "im_quote (project_content X out m chat) = map_option (quote_as_event J chat) (oc_quote (ot_context t))"
proof -
  note built = built_text [OF assms(1,3)]
  show "im_text (project_content X out m chat) = ot_text t"
    using built(1,3-6) by (auto simp: project_content_def Let_def is_secret_message_edit_def split: option.splits)
  show "im_mentions (project_content X out m chat) = map (jid_to_wire J) (oc_mentions (ot_context t))"
    "im_quote (project_content X out m chat) = map_option (quote_as_event J chat) (oc_quote (ot_context t))"
    using context_reads_back [OF assms(2) built(2-4) assms(4,5)] by auto
qed

text \<open>A target's key is the key the events show of it.\<close>

definition target_key :: "'j jid_lib \<Rightarrow> 'j message_target \<Rightarrow> pb_message_key" where
  "target_key J t =
     \<lparr>mk_chat = Some (jid_to_wire J (mt_chat t)), mk_id = id_str (mt_id t), mk_from_me = mt_from_me t,
      mk_participant = map_option (jid_to_wire J) (mt_participant t)\<rparr>"

lemma wa_key_reads_back: "shown_nonempty J \<Longrightarrow> wa_key_to_proto (wa_message_key J t) = target_key J t"
  using relay_shown_option [of J "mt_participant t"] relay_shown [of J "mt_chat t"]
  by (simp add: wa_key_to_proto_def wa_message_key_def target_key_def or_empty_def [of "Some _"] or_false_def)

lemma reaction_reads_back:
  "shown_nonempty J \<Longrightarrow>
   im_reaction (project_content X out (reaction_message J t emoji) chat) = emoji \<and>
   im_reaction_target (project_content X out (reaction_message J t emoji) chat) = Some (target_key J t)"
  using wa_key_reads_back [of J t]
  by (simp add: project_content_def Let_def is_secret_message_edit_def reaction_message_def default_message_def or_empty_def
      effective_protocol_message_def extract_media_def split: option.splits)

end
