(* ===== verification/Messaging_Service.thy ===== *)
theory Messaging_Service
  imports Inbound_Message
begin

text \<open>
  The messaging service (\<open>services/messaging_service.rs\<close>, \<open>services/mod.rs\<close>) over the domain functions it
  calls (\<open>domain/messaging.rs\<close>, \<open>chat_actions.rs\<close>, \<open>send_rich.rs\<close>, \<open>interactive_reply.rs\<close>, \<open>polls.rs\<close>,
  \<open>status.rs\<close>, \<open>media_transfer.rs\<close>) and the echo of what was sent (\<open>state/send_echo.rs\<close>). The library's
  client is its answers to the calls. A service keeps the calls that were made, each with the account
  it was made for, and the events it put on that account's bus, in order.
\<close>

section \<open>The client\<close>

record ('j, 'm) send_result =
  sd_message_id :: string
  sd_to :: 'j
  sd_message :: "'m wa_message"
  sd_recipient_fanout :: "recipient_fanout option"

text \<open>The calls that send a message, and the ones that change or ask something.\<close>

datatype ('j, 'm) lib_send =
    SendMessage 'j "'m wa_message"
  | EditMessageRaw 'j string "'m wa_message"
  | RevokeMessageRaw 'j string
  | CreatePoll 'j string "string list" u32
  | NewsletterSendPoll 'j string "string list" u32
  | VoteRaw 'j string 'j bytes "string list"
  | StatusSendText string u32 i32 "'j list"
  | StatusSendImage media_upload bytes "string option" "'j list"
  | StatusSendVideo media_upload bytes u32 "string option" "'j list"
  | StatusRevoke string "'j list"

datatype 'j lib_action =
    StarMessage "'j message_ref"
  | UnstarMessage "'j message_ref"
  | ArchiveChat 'j
  | UnarchiveChat 'j
  | PinChat 'j
  | UnpinChat 'j
  | UnmuteChat 'j
  | MuteChatUntil 'j i64
  | MuteChat 'j
  | MarkChatAsRead 'j bool
  | DeleteChat 'j bool
  | DeleteMessageForMe "'j message_ref"
  | SetAvailable
  | SetUnavailable
  | SendComposing 'j
  | SendRecording 'j
  | SendPaused 'j
  | MarkAsRead 'j "'j option" "string list"

datatype ('j, 'm) lib_call =
    CallSend "('j, 'm) lib_send"
  | CallAction "'j lib_action"
  | CallHistory 'j string bool i64 i32
  | CallUpload media_kind
  | CallDecryptVote 'j
  | CallAggregate

type_synonym library_result = "library_error list"

record ('j, 'm, 'i, 'a) lib_client =
  lc_pn :: "'j option"
  lc_send :: "('j, 'm) lib_send \<Rightarrow> library_result + ('j, 'm) send_result"
  lc_poll_secret :: "('j, 'm) lib_send \<Rightarrow> bytes"
  lc_action :: "'j lib_action \<Rightarrow> library_result + unit"
  lc_history :: "'j \<Rightarrow> string \<Rightarrow> bool \<Rightarrow> i64 \<Rightarrow> i32 \<Rightarrow> library_result + string"
  lc_upload :: "'i \<Rightarrow> media_kind \<Rightarrow> library_result + media_upload"
  lc_decrypt_vote :: "bytes \<Rightarrow> bytes \<Rightarrow> bytes \<Rightarrow> string \<Rightarrow> 'j \<Rightarrow> 'j \<Rightarrow> bool"
  lc_aggregate :: "string list \<Rightarrow> ('j \<times> bytes \<times> bytes) list \<Rightarrow> bytes \<Rightarrow> string \<Rightarrow> 'j \<Rightarrow> library_result + (string \<times> string list) list"
  lc_audience :: "'a option"

section \<open>The service\<close>

record ('s, 'j, 'm, 'i, 'a) msg_env =
  me_jids :: "'j jid_lib"
  me_lib :: "('j, 'm) wa_lib"
  me_ext :: "'m message_ext"
  me_uuid :: "string \<Rightarrow> string option"
  me_registry :: "'s registry"
  me_client :: "nat \<Rightarrow> ('j, 'm, 'i, 'a) lib_client"
  me_now :: i64

record ('j, 'm) service =
  sv_calls :: "((string \<times> nat) \<times> ('j, 'm) lib_call) list"
  sv_events :: "(string \<times> inbound_message) list"

type_synonym account_arg = "pb_account_ref option option"

definition require_typed_jid :: "'j jid_lib \<Rightarrow> pb_jid option \<Rightarrow> wamux_error + 'j jid" where
  "require_typed_jid J j = and_then (ok_or (InvalidArgument ''missing jid'') j) (jid_try_from J)"

definition missing_field :: "string \<Rightarrow> wamux_error" where
  "missing_field name = InvalidArgument (''missing '' @ name)"

definition account_of ::
  "('s, 'j, 'm, 'i, 'a) msg_env \<Rightarrow> account_arg \<Rightarrow> wamux_error + account_handle \<times> nat" where
  "account_of E acc =
     and_then (account_ref_from_proto (me_uuid E) acc) (\<lambda>a.
     and_then (resolve a (me_registry E)) (\<lambda>h.
     and_then (ok_or NotConnected (h_client h)) (\<lambda>c. Inr (h, c))))"

definition client_of :: "('s, 'j, 'm, 'i, 'a) msg_env \<Rightarrow> account_arg \<Rightarrow> wamux_error + account_handle \<times> nat" where
  "client_of E acc = account_of E acc"

definition own_jid :: "('j, 'm, 'i, 'a) lib_client \<Rightarrow> 'j jid option" where
  "own_jid C = map_option Jid (lc_pn C)"

text \<open>A call on the client of an account: noted, and answered.\<close>

definition call_lib ::
  "account_handle \<times> nat \<Rightarrow> ('j, 'm) lib_call \<Rightarrow> library_result + 'x \<Rightarrow> ('j, 'm) service \<Rightarrow>
   ('j, 'm) service \<times> (wamux_error + 'x)" where
  "call_lib hc c answer sv =
     (sv\<lparr>sv_calls := sv_calls sv @ [((h_uuid (fst hc), snd hc), c)]\<rparr>, map_err client_err answer)"

definition call_send ::
  "('s, 'j, 'm, 'i, 'a) msg_env \<Rightarrow> account_handle \<times> nat \<Rightarrow> ('j, 'm) lib_send \<Rightarrow> ('j, 'm) service \<Rightarrow>
   ('j, 'm) service \<times> (wamux_error + ('j, 'm) send_result)" where
  "call_send E hc s sv = call_lib hc (CallSend s) (lc_send (me_client E (snd hc)) s) sv"

definition call_action ::
  "('s, 'j, 'm, 'i, 'a) msg_env \<Rightarrow> account_handle \<times> nat \<Rightarrow> 'j lib_action \<Rightarrow> ('j, 'm) service \<Rightarrow>
   ('j, 'm) service \<times> (wamux_error + unit)" where
  "call_action E hc a sv = call_lib hc (CallAction a) (lc_action (me_client E (snd hc)) a) sv"

section \<open>The echo\<close>

definition publish_sent ::
  "('s, 'j, 'm, 'i, 'a) msg_env \<Rightarrow> account_handle \<Rightarrow> message_id \<Rightarrow> 'j jid \<Rightarrow> 'j jid option \<Rightarrow> 'm wa_message \<Rightarrow>
   ('j, 'm) service \<Rightarrow> ('j, 'm) service" where
  "publish_sent E h i chat sender m sv =
     (let key = sent_message_key (me_jids E) (id_str i) (into_lib chat);
          from = (case sender of None \<Rightarrow> [] | Some j \<Rightarrow> jid_to_wire (me_jids E) j);
          inbound = map_sent (me_ext E) key (jid_to_wire (me_jids E) chat) from (me_now E) m
      in sv\<lparr>sv_events := sv_events sv @ [(h_uuid h, inbound)]\<rparr>)"

definition echo ::
  "('s, 'j, 'm, 'i, 'a) msg_env \<Rightarrow> account_handle \<times> nat \<Rightarrow> ('j, 'm) send_result \<Rightarrow> ('j, 'm) service \<Rightarrow> ('j, 'm) service" where
  "echo E hc r sv =
     (case message_id_new (sd_message_id r) of
        Inl _ \<Rightarrow> sv
      | Inr i \<Rightarrow> publish_sent E (fst hc) i (Jid (sd_to r)) (own_jid (me_client E (snd hc))) (sd_message r) sv)"

definition echoed ::
  "('s, 'j, 'm, 'i, 'a) msg_env \<Rightarrow> account_handle \<times> nat \<Rightarrow> ('j, 'm) send_result \<Rightarrow> ('j, 'm) service \<Rightarrow>
   ('j, 'm) service \<times> (wamux_error + pb_send_result)" where
  "echoed E hc r sv =
     (echo E hc r sv, Inr (send_result_to_proto (me_jids E) (sd_message_id r) (sd_to r) (sd_recipient_fanout r)))"

section \<open>The domain\<close>

type_synonym ('j, 'm, 'x) act = "('j, 'm) service \<Rightarrow> ('j, 'm) service \<times> (wamux_error + 'x)"

text \<open>A check that needs no client, before the rest.\<close>

definition checked :: "wamux_error + 'x \<Rightarrow> ('x \<Rightarrow> ('j, 'm, 'y) act) \<Rightarrow> ('j, 'm, 'y) act" where
  "checked r f sv = and_run (sv, r) (\<lambda>sv x. f x sv)"

definition then_act :: "('j, 'm, 'x) act \<Rightarrow> ('x \<Rightarrow> ('j, 'm, 'y) act) \<Rightarrow> ('j, 'm, 'y) act" where
  "then_act a f sv = and_run (a sv) (\<lambda>sv x. f x sv)"

definition domain_send_text where
  "domain_send_text E hc to t =
     checked (build_text_message (me_jids E) (me_lib E) t) (\<lambda>m. call_send E hc (SendMessage (into_lib to) m))"

definition domain_send_reaction where
  "domain_send_reaction E hc t emoji =
     call_send E hc (SendMessage (into_lib (mt_chat t)) (reaction_message (me_jids E) t emoji))"

definition domain_edit_message where
  "domain_edit_message E hc t new_text =
     call_send E hc (EditMessageRaw (into_lib (mt_chat t)) (id_str (mt_id t)) (conversation_message new_text))"

definition domain_delete_message where
  "domain_delete_message E hc t for_everyone =
     (if for_everyone
      then then_act (call_send E hc (RevokeMessageRaw (into_lib (mt_chat t)) (id_str (mt_id t)))) (\<lambda>r sv. (sv, Inr (Some r)))
      else checked (message_ref_of (me_lib E) t) (\<lambda>ref.
             then_act (call_action E hc (DeleteMessageForMe ref)) (\<lambda>_ sv. (sv, Inr None))))"

definition domain_fetch_message_history where
  "domain_fetch_message_history E hc chat oldest from_me ms count =
     call_lib hc (CallHistory (into_lib chat) oldest from_me ms count)
       (lc_history (me_client E (snd hc)) (into_lib chat) oldest from_me ms count)"

definition domain_send_presence where
  "domain_send_presence E hc chat st =
     (case st of
        Available \<Rightarrow> call_action E hc SetAvailable
      | Unavailable \<Rightarrow> call_action E hc SetUnavailable
      | Composing \<Rightarrow> call_action E hc (SendComposing (into_lib chat))
      | Recording \<Rightarrow> call_action E hc (SendRecording (into_lib chat))
      | Paused \<Rightarrow> call_action E hc (SendPaused (into_lib chat)))"

definition domain_mark_read where
  "domain_mark_read E hc chat sender ids = call_action E hc (MarkAsRead (into_lib chat) (map_option into_lib sender) ids)"

definition domain_star_message where
  "domain_star_message E hc t starred =
     checked (message_ref_of (me_lib E) t) (\<lambda>ref. call_action E hc (if starred then StarMessage ref else UnstarMessage ref))"

definition domain_archive_chat where
  "domain_archive_chat E hc chat archived =
     call_action E hc (if archived then ArchiveChat (into_lib chat) else UnarchiveChat (into_lib chat))"

definition domain_pin_chat where
  "domain_pin_chat E hc chat pinned =
     call_action E hc (if pinned then PinChat (into_lib chat) else UnpinChat (into_lib chat))"

definition domain_mute_chat where
  "domain_mute_chat E hc chat muted until_ms =
     call_action E hc
       (if \<not> muted then UnmuteChat (into_lib chat)
        else if until_ms > 0 then MuteChatUntil (into_lib chat) until_ms
        else MuteChat (into_lib chat))"

definition domain_mark_chat_read where
  "domain_mark_chat_read E hc chat = call_action E hc (MarkChatAsRead (into_lib chat) True)"

definition domain_mark_unread where
  "domain_mark_unread E hc chat = call_action E hc (MarkChatAsRead (into_lib chat) False)"

definition domain_delete_chat where
  "domain_delete_chat E hc chat delete_media = call_action E hc (DeleteChat (into_lib chat) delete_media)"

definition domain_send_contact where
  "domain_send_contact E hc to cc =
     checked (build_contact_message (me_jids E) (me_lib E) cc) (\<lambda>m. call_send E hc (SendMessage (into_lib to) m))"

definition domain_send_interactive_reply where
  "domain_send_interactive_reply E hc to r =
     checked (build_interactive_reply (me_jids E) (me_lib E) r) (\<lambda>m. call_send E hc (SendMessage (into_lib to) m))"

record new_poll =
  np_name :: string
  np_options :: "string list"
  np_selectable_count :: u32

definition send_channel_poll where
  "send_channel_poll E hc to poll =
     then_act (call_send E hc (NewsletterSendPoll (into_lib to) (np_name poll) (np_options poll) (np_selectable_count poll)))
       (\<lambda>r sv. (sv, Inr (r, [])))"

definition domain_send_poll where
  "domain_send_poll E hc to poll =
     (if wl_is_newsletter (me_lib E) (into_lib to) then send_channel_poll E hc to poll
      else let c = CreatePoll (into_lib to) (np_name poll) (np_options poll) (np_selectable_count poll)
           in then_act (call_send E hc c) (\<lambda>r sv. (sv, Inr (r, lc_poll_secret (me_client E (snd hc)) c))))"

definition domain_send_vote where
  "domain_send_vote E hc chat v =
     call_send E hc (VoteRaw (into_lib chat) (id_str (vc_poll_id v)) (into_lib (vc_creator v)) (vc_message_secret v) (vc_options v))"

definition lib_recipients :: "'j jid list \<Rightarrow> 'j list" where
  "lib_recipients rs = map into_lib rs"

definition domain_post_status_text where
  "domain_post_status_text E hc s =
     checked (if wl_font (me_lib E) (sx_font s) then Inr ()
              else Inl (InvalidArgument (''unknown status font '' @ dec_int (sx_font s) @ ''; expected a wa FontType value''))) (\<lambda>_.
       call_send E hc (StatusSendText (sx_text s) (sx_background_argb s) (sx_font s) (lib_recipients (sx_recipients s))))"

definition upload_staged where
  "upload_staged E hc staged kind =
     call_lib hc (CallUpload kind) (lc_upload (me_client E (snd hc)) staged kind)"

definition domain_post_status_media where
  "domain_post_status_media E hc s staged =
     then_act (upload_staged E hc staged (sm_kind s)) (\<lambda>up.
       let caption = nonempty_string (sm_caption s); rs = lib_recipients (sm_recipients s)
       in case sm_kind s of
            Image \<Rightarrow> call_send E hc (StatusSendImage up (sm_thumbnail s) caption rs)
          | Video \<Rightarrow> call_send E hc (StatusSendVideo up (sm_thumbnail s) (sm_seconds s) caption rs)
          | other \<Rightarrow> (\<lambda>sv. (sv, Inl (refused_as_status other))))"

definition domain_revoke_status where
  "domain_revoke_status E hc r =
     checked (lib_message_id (me_lib E) (id_str (sr_message_id r))) (\<lambda>i.
       call_send E hc (StatusRevoke i (lib_recipients (sr_recipients r))))"

definition domain_send_media where
  "domain_send_media E hc to h staged =
     checked (outgoing_context_info (me_jids E) (me_lib E) (om_context h)) (\<lambda>_.
     then_act (upload_staged E hc staged (om_kind h)) (\<lambda>up.
     checked (build_media_message (me_jids E) (me_lib E) h up) (\<lambda>m. call_send E hc (SendMessage (into_lib to) m))))"

section \<open>Tallies\<close>

record pb_poll_tally =
  pt_results :: "(string \<times> pb_jid list) list"
  pt_undecryptable :: u32

definition ciphertext_pairs :: "'j encrypted_vote list \<Rightarrow> ('j \<times> bytes \<times> bytes) list" where
  "ciphertext_pairs vs = map (\<lambda>v. (into_lib (ev_voter v), ev_enc_payload v, ev_enc_iv v)) vs"

text \<open>One try per vote, in order; the count is a 32-bit one.\<close>

definition count_undecryptable ::
  "('s, 'j, 'm, 'i, 'a) msg_env \<Rightarrow> account_handle \<times> nat \<Rightarrow> 'j poll_votes_to_tally \<Rightarrow> ('j \<times> bytes \<times> bytes) list \<Rightarrow>
   ('j, 'm) service \<Rightarrow> ('j, 'm) service \<times> u32" where
  "count_undecryptable E hc t votes sv =
     (sv\<lparr>sv_calls := sv_calls sv @ map (\<lambda>(voter, _). ((h_uuid (fst hc), snd hc), CallDecryptVote voter)) votes\<rparr>,
      of_nat (length (filter (\<lambda>(voter, payload, iv).
        \<not> lc_decrypt_vote (me_client E (snd hc)) payload iv (tl_message_secret t) (id_str (tl_poll_id t))
            (into_lib (tl_creator t)) voter) votes)))"

definition tally_to_proto :: "(string \<times> string list) list \<Rightarrow> u32 \<Rightarrow> pb_poll_tally" where
  "tally_to_proto results undecryptable =
     \<lparr>pt_results = map (\<lambda>(option, voters). (option, List.map_filter relay_jid voters)) results, pt_undecryptable = undecryptable\<rparr>"

definition domain_aggregate_votes where
  "domain_aggregate_votes E hc t sv =
     (let votes = ciphertext_pairs (tl_votes t)
      in case count_undecryptable E hc t votes sv of
           (sv1, undecryptable) \<Rightarrow>
             and_run (call_lib hc CallAggregate
                 (lc_aggregate (me_client E (snd hc)) (tl_options t) votes (tl_message_secret t) (id_str (tl_poll_id t))
                    (into_lib (tl_creator t))) sv1) (\<lambda>sv2 results.
               (sv2, Inr (tally_to_proto results undecryptable))))"

end
