(* ===== verification/Messaging_Rpc.thy ===== *)
theory Messaging_Rpc
  imports Messaging_Service
begin

text \<open>
  The handlers of \<open>services/messaging_service.rs\<close>, one per RPC, in the order of the file. A handler of
  a stream takes what reading its header answered, and per kind what staging its bytes answered
  (\<open>Media_Streams\<close>). \<open>serve\<close> is the service as its requests, and \<open>serve_all\<close> a sequence of them.
\<close>

section \<open>Sends\<close>

text \<open>The common head of a handler: the account first, then the rest of the request.\<close>

definition on_account_of ::
  "('s, 'j, 'm, 'i, 'a) msg_env \<Rightarrow> account_arg \<Rightarrow> (account_handle \<times> nat \<Rightarrow> ('j, 'm, 'x) act) \<Rightarrow> ('j, 'm, 'x) act" where
  "on_account_of E acc f = checked (account_of E acc) f"

definition on_client_of ::
  "('s, 'j, 'm, 'i, 'a) msg_env \<Rightarrow> account_arg \<Rightarrow> (account_handle \<times> nat \<Rightarrow> ('j, 'm, 'x) act) \<Rightarrow> ('j, 'm, 'x) act" where
  "on_client_of E acc f = checked (client_of E acc) f"

definition answer_with :: "'x \<Rightarrow> ('j, 'm, 'x) act" where
  "answer_with x sv = (sv, Inr x)"

definition target_of ::
  "('s, 'j, 'm, 'i, 'a) msg_env \<Rightarrow> pb_message_key option \<Rightarrow> wamux_error + 'j message_target" where
  "target_of E k = and_then (ok_or (missing_field ''target'') k) (message_target_try_from (me_jids E))"

definition rpc_send_text where
  "rpc_send_text E acc req =
     on_account_of E acc (\<lambda>hc.
     checked (require_typed_jid (me_jids E) (pt_to req)) (\<lambda>to.
     checked (outgoing_text_try_from (me_jids E) req) (\<lambda>t.
     then_act (domain_send_text E hc to t) (echoed E hc))))"

definition rpc_send_media where
  "rpc_send_media E header stage =
     checked header (\<lambda>(acc, h).
     on_account_of E acc (\<lambda>hc.
     checked (require_typed_jid (me_jids E) (pm_to h)) (\<lambda>to.
     checked (parse_sendable (pm_media_type h)) (\<lambda>kind.
     checked (stage kind) (\<lambda>staged.
     checked (outgoing_media_try_from (me_jids E) h) (\<lambda>media.
     then_act (domain_send_media E hc to media staged) (echoed E hc)))))))"

definition rpc_send_reaction where
  "rpc_send_reaction E acc target emoji =
     on_account_of E acc (\<lambda>hc.
     checked (target_of E target) (\<lambda>t.
     then_act (domain_send_reaction E hc t emoji) (echoed E hc)))"

definition rpc_edit_message where
  "rpc_edit_message E acc target new_text =
     on_account_of E acc (\<lambda>hc.
     checked (ok_or (missing_field ''target'') target) (\<lambda>raw_key.
     checked (message_target_try_from (me_jids E) raw_key) (\<lambda>t.
     then_act (domain_edit_message E hc t new_text) (\<lambda>r sv.
       (echo E hc r sv,
        Inr \<lparr>ps_key = Some \<lparr>mk_chat = mk_chat raw_key, mk_id = sd_message_id r, mk_from_me = True, mk_participant = None\<rparr>,
             ps_server_timestamp = 0,
             ps_recipient_fanout = map_option recipient_fanout_to_proto (sd_recipient_fanout r)\<rparr>)))))"

definition delete_target where
  "delete_target E acc key for_everyone =
     and_then (message_target_try_from (me_jids E) key) (\<lambda>t.
     and_then (if for_everyone then refuse_status_revoke (me_lib E) t True else Inr ()) (\<lambda>_.
     map_ok (\<lambda>hc. (hc, t)) (account_of E acc)))"

definition rpc_delete_message where
  "rpc_delete_message E acc target for_everyone =
     checked (ok_or (missing_field ''target'') target) (\<lambda>raw_key.
     checked (delete_target E acc raw_key for_everyone) (\<lambda>(hc, t).
     then_act (domain_delete_message E hc t for_everyone) (\<lambda>revoke sv.
       ((case revoke of None \<Rightarrow> sv | Some r \<Rightarrow> echo E hc r sv),
        Inr \<lparr>ps_key = Some raw_key, ps_server_timestamp = 0,
             ps_recipient_fanout = map_option recipient_fanout_to_proto (Option.bind revoke sd_recipient_fanout)\<rparr>))))"

definition rpc_send_contact where
  "rpc_send_contact E acc to name vcard quote quoted =
     on_account_of E acc (\<lambda>hc.
     checked (require_typed_jid (me_jids E) to) (\<lambda>j.
     checked (contact_card_try_from (me_jids E) name vcard quote quoted to) (\<lambda>cc.
     then_act (domain_send_contact E hc j cc) (echoed E hc))))"

definition rpc_send_interactive_reply where
  "rpc_send_interactive_reply E acc to quote quoted reply =
     on_account_of E acc (\<lambda>hc.
     checked (require_typed_jid (me_jids E) to) (\<lambda>j.
     checked (interactive_reply_try_from (me_jids E) quote quoted to reply) (\<lambda>r.
     then_act (domain_send_interactive_reply E hc j r) (echoed E hc))))"

record pb_send_poll_result =
  po_key :: "pb_message_key option"
  po_message_secret :: bytes
  po_recipient_fanout :: "pb_recipient_fanout option"

definition rpc_send_poll where
  "rpc_send_poll E acc to poll =
     on_account_of E acc (\<lambda>hc.
     checked (require_typed_jid (me_jids E) to) (\<lambda>j.
     then_act (domain_send_poll E hc j poll) (\<lambda>(r, secret) sv.
       (echo E hc r sv,
        Inr \<lparr>po_key = Some (sent_message_key (me_jids E) (sd_message_id r) (sd_to r)), po_message_secret = secret,
             po_recipient_fanout = map_option recipient_fanout_to_proto (sd_recipient_fanout r)\<rparr>))))"

definition rpc_send_poll_vote where
  "rpc_send_poll_vote E acc chat req =
     on_account_of E acc (\<lambda>hc.
     checked (require_typed_jid (me_jids E) chat) (\<lambda>j.
     checked (poll_vote_cast_try_from (me_jids E) req) (\<lambda>v.
     then_act (domain_send_vote E hc j v) (echoed E hc))))"

definition rpc_post_status_text where
  "rpc_post_status_text E acc req =
     on_account_of E acc (\<lambda>hc.
     checked (status_text_try_from (me_jids E) req) (\<lambda>s.
     then_act (domain_post_status_text E hc s) (echoed E hc)))"

definition rpc_post_status_media where
  "rpc_post_status_media E header stage =
     checked header (\<lambda>(acc, h).
     on_account_of E acc (\<lambda>hc.
     checked (parse_status (sh_media_type h)) (\<lambda>kind.
     checked (stage kind) (\<lambda>staged.
     checked (status_media_try_from (me_jids E) h) (\<lambda>s.
     then_act (domain_post_status_media E hc s staged) (echoed E hc))))))"

definition rpc_revoke_status where
  "rpc_revoke_status E acc i recipients =
     checked (status_revoke_try_from (me_jids E) i recipients) (\<lambda>r.
     on_account_of E acc (\<lambda>hc.
     then_act (domain_revoke_status E hc r) (echoed E hc)))"

section \<open>Calls that send nothing\<close>

definition rpc_fetch_message_history where
  "rpc_fetch_message_history E acc chat oldest from_me ms count =
     on_client_of E acc (\<lambda>hc.
     checked (require_typed_jid (me_jids E) chat) (\<lambda>j.
     domain_fetch_message_history E hc j oldest from_me ms count))"

definition on_chat where
  "on_chat E acc chat f =
     on_client_of E acc (\<lambda>hc. checked (require_typed_jid (me_jids E) chat) (f hc))"

definition rpc_send_presence where
  "rpc_send_presence E acc chat st =
     on_chat E acc chat (\<lambda>hc j. checked (presence_parse st) (domain_send_presence E hc j))"

definition rpc_mark_read where
  "rpc_mark_read E acc chat sender ids =
     on_chat E acc chat (\<lambda>hc j.
     checked (jid_parse_optional (me_jids E) (unwrap_jid sender)) (\<lambda>s. domain_mark_read E hc j s ids))"

definition rpc_mark_chat_read where
  "rpc_mark_chat_read E acc chat = on_chat E acc chat (domain_mark_chat_read E)"

definition rpc_mark_unread where
  "rpc_mark_unread E acc chat = on_chat E acc chat (domain_mark_unread E)"

definition rpc_star_message where
  "rpc_star_message E acc target starred =
     on_client_of E acc (\<lambda>hc. checked (target_of E target) (\<lambda>t. domain_star_message E hc t starred))"

definition rpc_archive_chat where
  "rpc_archive_chat E acc chat archived = on_chat E acc chat (\<lambda>hc j. domain_archive_chat E hc j archived)"

definition rpc_pin_chat where
  "rpc_pin_chat E acc chat pinned = on_chat E acc chat (\<lambda>hc j. domain_pin_chat E hc j pinned)"

definition rpc_mute_chat where
  "rpc_mute_chat E acc chat muted until_ms = on_chat E acc chat (\<lambda>hc j. domain_mute_chat E hc j muted until_ms)"

definition rpc_delete_chat where
  "rpc_delete_chat E acc chat delete_media = on_chat E acc chat (\<lambda>hc j. domain_delete_chat E hc j delete_media)"

definition rpc_aggregate_poll_votes where
  "rpc_aggregate_poll_votes E acc req votes =
     on_client_of E acc (\<lambda>hc.
     checked (poll_votes_to_tally_try_from (me_jids E) req votes) (\<lambda>t. domain_aggregate_votes E hc t))"

definition rpc_get_status_audience where
  "rpc_get_status_audience E acc = on_client_of E (Some acc) (\<lambda>hc. answer_with (lc_audience (me_client E (snd hc))))"

section \<open>The service\<close>

datatype 'i msg_request =
    ReqSendText account_arg pb_send_text
  | ReqSendMedia "wamux_error + account_arg \<times> pb_send_media_header" "media_kind \<Rightarrow> wamux_error + 'i"
  | ReqSendReaction account_arg "pb_message_key option" string
  | ReqEditMessage account_arg "pb_message_key option" string
  | ReqDeleteMessage account_arg "pb_message_key option" bool
  | ReqFetchHistory account_arg "pb_jid option" string bool i64 i32
  | ReqSendPresence account_arg "pb_jid option" i32
  | ReqMarkRead account_arg "pb_jid option" "pb_jid option" "string list"
  | ReqMarkChatRead account_arg "pb_jid option"
  | ReqMarkUnread account_arg "pb_jid option"
  | ReqStarMessage account_arg "pb_message_key option" bool
  | ReqArchiveChat account_arg "pb_jid option" bool
  | ReqPinChat account_arg "pb_jid option" bool
  | ReqMuteChat account_arg "pb_jid option" bool i64
  | ReqDeleteChat account_arg "pb_jid option" bool
  | ReqSendContact account_arg "pb_jid option" string string "pb_quote_context option" bytes
  | ReqSendInteractiveReply account_arg "pb_jid option" "pb_quote_context option" bytes "reply_choice option"
  | ReqSendPoll account_arg "pb_jid option" new_poll
  | ReqSendPollVote account_arg "pb_jid option" pb_poll_vote_request
  | ReqAggregatePollVotes account_arg pb_poll_vote_request "pb_poll_vote list"
  | ReqPostStatusText account_arg pb_post_status_text
  | ReqPostStatusMedia "wamux_error + account_arg \<times> pb_post_status_media_header" "media_kind \<Rightarrow> wamux_error + 'i"
  | ReqRevokeStatus account_arg string "pb_jid list"
  | ReqGetStatusAudience "pb_account_ref option"

datatype 'a msg_answer =
    AnsSend pb_send_result
  | AnsPoll pb_send_poll_result
  | AnsEmpty
  | AnsHistory string
  | AnsTally pb_poll_tally
  | AnsAudience "'a option"

definition respond :: "('x \<Rightarrow> 'a msg_answer) \<Rightarrow> ('j, 'm, 'x) act \<Rightarrow> ('j, 'm, 'a msg_answer) act" where
  "respond g a = then_act a (\<lambda>x. answer_with (g x))"

fun serve ::
  "('s, 'j, 'm, 'i, 'a) msg_env \<Rightarrow> 'i msg_request \<Rightarrow> ('j, 'm, 'a msg_answer) act" where
  "serve E (ReqSendText acc r) = respond AnsSend (rpc_send_text E acc r)"
| "serve E (ReqSendMedia header stage) = respond AnsSend (rpc_send_media E header stage)"
| "serve E (ReqSendReaction acc k emoji) = respond AnsSend (rpc_send_reaction E acc k emoji)"
| "serve E (ReqEditMessage acc k t) = respond AnsSend (rpc_edit_message E acc k t)"
| "serve E (ReqDeleteMessage acc k every) = respond AnsSend (rpc_delete_message E acc k every)"
| "serve E (ReqFetchHistory acc chat oldest from_me ms n) = respond AnsHistory (rpc_fetch_message_history E acc chat oldest from_me ms n)"
| "serve E (ReqSendPresence acc chat st) = respond (\<lambda>_. AnsEmpty) (rpc_send_presence E acc chat st)"
| "serve E (ReqMarkRead acc chat sender ids) = respond (\<lambda>_. AnsEmpty) (rpc_mark_read E acc chat sender ids)"
| "serve E (ReqMarkChatRead acc chat) = respond (\<lambda>_. AnsEmpty) (rpc_mark_chat_read E acc chat)"
| "serve E (ReqMarkUnread acc chat) = respond (\<lambda>_. AnsEmpty) (rpc_mark_unread E acc chat)"
| "serve E (ReqStarMessage acc k b) = respond (\<lambda>_. AnsEmpty) (rpc_star_message E acc k b)"
| "serve E (ReqArchiveChat acc chat b) = respond (\<lambda>_. AnsEmpty) (rpc_archive_chat E acc chat b)"
| "serve E (ReqPinChat acc chat b) = respond (\<lambda>_. AnsEmpty) (rpc_pin_chat E acc chat b)"
| "serve E (ReqMuteChat acc chat b ms) = respond (\<lambda>_. AnsEmpty) (rpc_mute_chat E acc chat b ms)"
| "serve E (ReqDeleteChat acc chat b) = respond (\<lambda>_. AnsEmpty) (rpc_delete_chat E acc chat b)"
| "serve E (ReqSendContact acc to name vcard q m) = respond AnsSend (rpc_send_contact E acc to name vcard q m)"
| "serve E (ReqSendInteractiveReply acc to q m r) = respond AnsSend (rpc_send_interactive_reply E acc to q m r)"
| "serve E (ReqSendPoll acc to p) = respond AnsPoll (rpc_send_poll E acc to p)"
| "serve E (ReqSendPollVote acc chat r) = respond AnsSend (rpc_send_poll_vote E acc chat r)"
| "serve E (ReqAggregatePollVotes acc r vs) = respond AnsTally (rpc_aggregate_poll_votes E acc r vs)"
| "serve E (ReqPostStatusText acc r) = respond AnsSend (rpc_post_status_text E acc r)"
| "serve E (ReqPostStatusMedia header stage) = respond AnsSend (rpc_post_status_media E header stage)"
| "serve E (ReqRevokeStatus acc i rs) = respond AnsSend (rpc_revoke_status E acc i rs)"
| "serve E (ReqGetStatusAudience acc) = respond AnsAudience (rpc_get_status_audience E acc)"

end
