(* ===== verification/Messaging_Properties.thy ===== *)
theory Messaging_Properties
  imports Messaging_Rpc
begin

text \<open>
  The properties of the messaging service. A small logic of actions says what each appends to the calls
  of the library and to the events; one rule per combinator, one lemma per domain function.
\<close>

section \<open>What a call did\<close>

text \<open>
  The account a request names; the messages the library accepted among the calls; what the bus is to
  show of one of them; and what the answer says of them.
\<close>

fun request_account :: "'i msg_request \<Rightarrow> account_arg" where
  "request_account (ReqSendMedia header _) = (case header of Inl _ \<Rightarrow> None | Inr (acc, _) \<Rightarrow> acc)"
| "request_account (ReqPostStatusMedia header _) = (case header of Inl _ \<Rightarrow> None | Inr (acc, _) \<Rightarrow> acc)"
| "request_account (ReqSendText acc _) = acc"
| "request_account (ReqSendReaction acc _ _) = acc"
| "request_account (ReqEditMessage acc _ _) = acc"
| "request_account (ReqDeleteMessage acc _ _) = acc"
| "request_account (ReqFetchHistory acc _ _ _ _ _) = acc"
| "request_account (ReqSendPresence acc _ _) = acc"
| "request_account (ReqMarkRead acc _ _ _) = acc"
| "request_account (ReqMarkChatRead acc _) = acc"
| "request_account (ReqMarkUnread acc _) = acc"
| "request_account (ReqStarMessage acc _ _) = acc"
| "request_account (ReqArchiveChat acc _ _) = acc"
| "request_account (ReqPinChat acc _ _) = acc"
| "request_account (ReqMuteChat acc _ _ _) = acc"
| "request_account (ReqDeleteChat acc _ _) = acc"
| "request_account (ReqSendContact acc _ _ _ _ _) = acc"
| "request_account (ReqSendInteractiveReply acc _ _ _ _) = acc"
| "request_account (ReqSendPoll acc _ _) = acc"
| "request_account (ReqSendPollVote acc _ _) = acc"
| "request_account (ReqAggregatePollVotes acc _ _) = acc"
| "request_account (ReqPostStatusText acc _) = acc"
| "request_account (ReqRevokeStatus acc _ _) = acc"
| "request_account (ReqGetStatusAudience acc) = Some acc"

fun accepted ::
  "('s, 'j, 'm, 'i, 'a) msg_env \<Rightarrow> (string \<times> nat) \<times> ('j, 'm) lib_call \<Rightarrow> ((string \<times> nat) \<times> ('j, 'm) send_result) option" where
  "accepted E (k, CallSend s) = (case lc_send (me_client E (snd k)) s of Inl _ \<Rightarrow> None | Inr r \<Rightarrow> Some (k, r))"
| "accepted E (k, _) = None"

definition sends where
  "sends E cs = List.map_filter (accepted E) cs"

definition echo_of ::
  "('s, 'j, 'm, 'i, 'a) msg_env \<Rightarrow> (string \<times> nat) \<times> ('j, 'm) send_result \<Rightarrow> (string \<times> inbound_message) option" where
  "echo_of E = (\<lambda>((u, c), r).
     if sd_message_id r = [] then None
     else Some (u, map_sent (me_ext E) (sent_message_key (me_jids E) (sd_message_id r) (sd_to r)) (lib_show (me_jids E) (sd_to r))
            (case lc_pn (me_client E c) of None \<Rightarrow> [] | Some j \<Rightarrow> lib_show (me_jids E) j) (me_now E) (sd_message r)))"

definition names_send :: "pb_message_key option \<Rightarrow> pb_recipient_fanout option \<Rightarrow> ('j, 'm) send_result list \<Rightarrow> bool" where
  "names_send k fan rs \<longleftrightarrow>
     (\<exists>r. rs = [r] \<and> map_option mk_id k = Some (sd_message_id r) \<and> map_option mk_from_me k = Some True \<and>
          fan = map_option recipient_fanout_to_proto (sd_recipient_fanout r))"

definition answered :: "'i msg_request \<Rightarrow> 'a msg_answer \<Rightarrow> ('j, 'm) send_result list \<Rightarrow> bool" where
  "answered req a rs \<longleftrightarrow>
     (case a of
        AnsSend p \<Rightarrow>
          (case req of
             ReqDeleteMessage acc k every \<Rightarrow> ps_key p = k \<and> length rs = (if every then 1 else 0)
           | _ \<Rightarrow> names_send (ps_key p) (ps_recipient_fanout p) rs)
      | AnsPoll p \<Rightarrow> names_send (po_key p) (po_recipient_fanout p) rs
      | _ \<Rightarrow> rs = [])"

section \<open>Rules\<close>

text \<open>What an action appends to the calls and to the events, with its answer.\<close>

definition does :: "('j, 'm, 'x) act \<Rightarrow>
    (((string \<times> nat) \<times> ('j, 'm) lib_call) list \<Rightarrow> (string \<times> inbound_message) list \<Rightarrow> wamux_error + 'x \<Rightarrow> bool) \<Rightarrow> bool" where
  "does a Q \<longleftrightarrow> (\<forall>sv. \<exists>cs es. sv_calls (fst (a sv)) = sv_calls sv @ cs \<and> sv_events (fst (a sv)) = sv_events sv @ es \<and> Q cs es (snd (a sv)))"

lemma does_checked:
  assumes "\<And>e. r = Inl e \<Longrightarrow> Q [] [] (Inl e)" "\<And>x. r = Inr x \<Longrightarrow> does (f x) Q"
  shows "does (checked r f) Q"
  using assms by (cases r) (auto simp: does_def checked_def)

lemma does_then:
  assumes "does a Q1" "\<And>cs es e. Q1 cs es (Inl e) \<Longrightarrow> Q cs es (Inl e)"
    and "\<And>cs es x. Q1 cs es (Inr x) \<Longrightarrow> does (f x) (\<lambda>cs' es' ans. Q (cs @ cs') (es @ es') ans)"
  shows "does (then_act a f) Q"
  unfolding does_def
proof
  fix sv
  obtain sv1 ans where a: "a sv = (sv1, ans)" by fastforce
  with assms(1) obtain cs es where first: "sv_calls sv1 = sv_calls sv @ cs" "sv_events sv1 = sv_events sv @ es" "Q1 cs es ans"
    unfolding does_def by (metis fst_conv snd_conv)
  show "\<exists>cs es. sv_calls (fst (then_act a f sv)) = sv_calls sv @ cs \<and> sv_events (fst (then_act a f sv)) = sv_events sv @ es \<and>
      Q cs es (snd (then_act a f sv))"
  proof (cases ans)
    case (Inl e)
    with a first assms(2) show ?thesis by (auto simp: then_act_def)
  next
    case (Inr x)
    with first(3) assms(3) have "does (f x) (\<lambda>cs' es' ans. Q (cs @ cs') (es @ es') ans)" by simp
    then obtain cs' es' where "sv_calls (fst (f x sv1)) = sv_calls sv1 @ cs'" "sv_events (fst (f x sv1)) = sv_events sv1 @ es'"
        "Q (cs @ cs') (es @ es') (snd (f x sv1))" unfolding does_def by blast
    with a Inr first show ?thesis by (intro exI [of _ "cs @ cs'"] exI [of _ "es @ es'"]) (simp add: then_act_def)
  qed
qed

lemma does_weaken: "does a Q1 \<Longrightarrow> (\<And>cs es ans. Q1 cs es ans \<Longrightarrow> Q cs es ans) \<Longrightarrow> does a Q"
  unfolding does_def by blast

lemma does_return: "Q [] [] (Inr x) \<Longrightarrow> does (answer_with x) Q"
  by (simp add: does_def answer_with_def)

abbreviation at :: "account_handle \<times> nat \<Rightarrow> string \<times> nat" where
  "at hc \<equiv> (h_uuid (fst hc), snd hc)"

lemma does_call_lib:
  "does (call_lib hc c answer) (\<lambda>cs es ans. cs = [(at hc, c)] \<and> es = [] \<and> ans = map_err client_err answer)"
  by (simp add: does_def call_lib_def)

text \<open>An action on the client of one account that publishes nothing, and the sends its answer holds.\<close>

definition sending ::
  "('s, 'j, 'm, 'i, 'a) msg_env \<Rightarrow> account_handle \<times> nat \<Rightarrow> ('x \<Rightarrow> ('j, 'm) send_result list) \<Rightarrow>
   ((string \<times> nat) \<times> ('j, 'm) lib_call) list \<Rightarrow> (string \<times> inbound_message) list \<Rightarrow> wamux_error + 'x \<Rightarrow> bool" where
  "sending E hc got cs es ans \<longleftrightarrow>
     es = [] \<and> list_all (\<lambda>c. fst c = at hc) cs \<and>
     sends E cs = (case ans of Inl _ \<Rightarrow> [] | Inr x \<Rightarrow> map (Pair (at hc)) (got x))"

lemma sends_simps [simp]:
  "sends E [] = []" "sends E (cs @ ds) = sends E cs @ sends E ds"
  by (simp_all add: sends_def List.map_filter_def)

lemma sends_one: "sends E [c] = (case accepted E c of None \<Rightarrow> [] | Some x \<Rightarrow> [x])"
  by (simp add: sends_def List.map_filter_def split: option.split)

lemma sending_Inl [simp]: "sending E hc got [] [] (Inl e)"
  by (simp add: sending_def)

lemma call_send_sends: "does (call_send E hc s) (sending E hc (\<lambda>r. [r]))"
  unfolding call_send_def
  by (rule does_weaken [OF does_call_lib]) (auto simp: sending_def sends_one map_err_def split: sum.splits)

lemma call_lib_silent: "(\<And>s. c \<noteq> CallSend s) \<Longrightarrow> does (call_lib hc c answer) (sending E hc (\<lambda>_. []))"
  by (rule does_weaken [OF does_call_lib], cases c) (auto simp: sending_def sends_one split: sum.splits)

lemma call_action_silent: "does (call_action E hc a) (sending E hc (\<lambda>_. []))"
  unfolding call_action_def by (rule call_lib_silent) simp

lemma checked_sending: "(\<And>x. r = Inr x \<Longrightarrow> does (f x) (sending E hc got)) \<Longrightarrow> does (checked r f) (sending E hc got)"
  by (rule does_checked) simp_all

text \<open>A silent first step, then one that sends; or a send whose result is repacked.\<close>

lemma silent_then:
  assumes "does a (sending E hc (\<lambda>_. []))" "\<And>x. does (f x) (sending E hc got)"
  shows "does (then_act a f) (sending E hc got)"
  by (rule does_then [OF assms(1)], simp add: sending_def, rule does_weaken [OF assms(2)]) (auto simp: sending_def)

lemma sending_map:
  assumes "does a (sending E hc got)" "\<And>x. got' (g x) = got x"
  shows "does (then_act a (\<lambda>x sv. (sv, Inr (g x)))) (sending E hc got')"
  using assms(2)
  by (intro does_then [OF assms(1)]) (auto simp: sending_def does_def)

lemmas sending_rules = call_send_sends call_action_silent checked_sending silent_then

lemma domain_sends:
  "does (domain_send_text E hc to t) (sending E hc (\<lambda>r. [r]))"
  "does (domain_send_reaction E hc tg emoji) (sending E hc (\<lambda>r. [r]))"
  "does (domain_edit_message E hc tg nt) (sending E hc (\<lambda>r. [r]))"
  "does (domain_send_contact E hc to cc) (sending E hc (\<lambda>r. [r]))"
  "does (domain_send_interactive_reply E hc to ir) (sending E hc (\<lambda>r. [r]))"
  "does (domain_send_vote E hc to v) (sending E hc (\<lambda>r. [r]))"
  "does (domain_post_status_text E hc s) (sending E hc (\<lambda>r. [r]))"
  "does (domain_revoke_status E hc sr) (sending E hc (\<lambda>r. [r]))"
  unfolding domain_send_text_def domain_send_reaction_def domain_edit_message_def domain_send_contact_def
    domain_send_interactive_reply_def domain_send_vote_def domain_post_status_text_def domain_revoke_status_def
  by (intro sending_rules)+

lemma upload_silent: "does (upload_staged E hc staged kind) (sending E hc (\<lambda>_. []))"
  unfolding upload_staged_def by (rule call_lib_silent) simp

lemma domain_send_media_sends: "does (domain_send_media E hc to h staged) (sending E hc (\<lambda>r. [r]))"
  unfolding domain_send_media_def by (intro sending_rules upload_silent)

lemma refused_sending: "does (\<lambda>sv. (sv, Inl e)) (sending E hc got)"
  by (simp add: does_def)

lemma domain_post_status_media_sends: "does (domain_post_status_media E hc s staged) (sending E hc (\<lambda>r. [r]))"
  unfolding domain_post_status_media_def Let_def
  by (intro silent_then upload_silent, cases "sm_kind s") (simp_all add: call_send_sends refused_sending)

lemma domain_send_poll_sends: "does (domain_send_poll E hc to poll) (sending E hc (\<lambda>(r, _). [r]))"
  unfolding domain_send_poll_def send_channel_poll_def Let_def
  by (auto intro!: sending_map [OF call_send_sends])

lemma domain_delete_sends:
  "does (domain_delete_message E hc t every)
     (\<lambda>cs es ans. sending E hc (case_option [] (\<lambda>r. [r])) cs es ans \<and> (\<forall>x. ans = Inr x \<longrightarrow> (x = None) = (\<not> every)))"
proof (cases every)
  case True
  then show ?thesis
    unfolding domain_delete_message_def
    by (simp, intro does_then [OF call_send_sends]) (auto simp: sending_def does_def)
next
  case False
  then show ?thesis
    unfolding domain_delete_message_def
    by (simp, intro does_checked does_then [OF call_action_silent]) (auto simp: sending_def does_def)
qed

lemma domain_silent:
  "does (domain_fetch_message_history E hc chat oldest from_me ms n) (sending E hc (\<lambda>_. []))"
  "does (domain_send_presence E hc chat st) (sending E hc (\<lambda>_. []))"
  "does (domain_mark_read E hc chat sender ids) (sending E hc (\<lambda>_. []))"
  "does (domain_mark_chat_read E hc chat) (sending E hc (\<lambda>_. []))"
  "does (domain_mark_unread E hc chat) (sending E hc (\<lambda>_. []))"
  "does (domain_star_message E hc t b) (sending E hc (\<lambda>_. []))"
  "does (domain_archive_chat E hc chat b) (sending E hc (\<lambda>_. []))"
  "does (domain_pin_chat E hc chat b) (sending E hc (\<lambda>_. []))"
  "does (domain_mute_chat E hc chat b ms) (sending E hc (\<lambda>_. []))"
  "does (domain_delete_chat E hc chat b) (sending E hc (\<lambda>_. []))"
  unfolding domain_fetch_message_history_def domain_mark_read_def domain_mark_chat_read_def
    domain_mark_unread_def domain_star_message_def domain_archive_chat_def domain_pin_chat_def domain_mute_chat_def
    domain_delete_chat_def domain_send_presence_def
  by (cases st; auto intro!: sending_rules call_lib_silent)+

lemma decrypt_votes_silent: "sends E (map (\<lambda>(voter, _). (k, CallDecryptVote voter)) votes) = []"
  by (induction votes) (auto simp: sends_def List.map_filter_def)

lemma domain_aggregate_silent: "does (domain_aggregate_votes E hc t) (sending E hc (\<lambda>_. []))"
  unfolding does_def
proof
  fix sv
  show "\<exists>cs es. sv_calls (fst (domain_aggregate_votes E hc t sv)) = sv_calls sv @ cs \<and>
      sv_events (fst (domain_aggregate_votes E hc t sv)) = sv_events sv @ es \<and>
      sending E hc (\<lambda>_. []) cs es (snd (domain_aggregate_votes E hc t sv))"
    by (intro exI [of _ "map (\<lambda>(voter, _). (at hc, CallDecryptVote voter)) (ciphertext_pairs (tl_votes t)) @ [(at hc, CallAggregate)]"]
        exI [of _ "[]"])
      (auto simp: domain_aggregate_votes_def count_undecryptable_def call_lib_def and_run_def sending_def Let_def
         decrypt_votes_silent sends_one map_err_def list_all_iff split: sum.splits)
qed

section \<open>The handlers\<close>

text \<open>What a handler has told when it ends: the calls are the account's, the events are the echoes of what the library accepted.\<close>

definition told ::
  "('s, 'j, 'm, 'i, 'a) msg_env \<Rightarrow> account_arg \<Rightarrow> ('x \<Rightarrow> ('j, 'm) send_result list \<Rightarrow> bool) \<Rightarrow>
   ((string \<times> nat) \<times> ('j, 'm) lib_call) list \<Rightarrow> (string \<times> inbound_message) list \<Rightarrow> wamux_error + 'x \<Rightarrow> bool" where
  "told E acc ok cs es ans \<longleftrightarrow>
     list_all (\<lambda>c. map_ok at (account_of E acc) = Inr (fst c)) cs \<and>
     es = List.map_filter (echo_of E) (sends E cs) \<and>
     (case ans of Inl _ \<Rightarrow> sends E cs = [] | Inr x \<Rightarrow> ok x (map snd (sends E cs)))"

lemma told_Inl [simp]: "told E acc ok [] [] (Inl e)"
  by (simp add: told_def List.map_filter_def)

lemma checked_told: "(\<And>x. r = Inr x \<Longrightarrow> does (f x) (told E acc ok)) \<Longrightarrow> does (checked r f) (told E acc ok)"
  by (rule does_checked) simp_all

lemma echo_tells:
  "sv_calls (fold (echo E hc) rs sv) = sv_calls sv \<and>
   sv_events (fold (echo E hc) rs sv) = sv_events sv @ List.map_filter (echo_of E) (map (Pair (at hc)) rs)"
  by (induction rs arbitrary: sv)
     (auto simp: echo_def message_id_new_def publish_sent_def echo_of_def own_jid_def jid_to_wire_def List.map_filter_def
        Let_def split: option.splits)

lemma calls_at:
  "account_of E acc = Inr hc \<Longrightarrow>
   list_all (\<lambda>c. map_ok at (account_of E acc) = Inr (fst c)) cs = list_all (\<lambda>c. fst c = at hc) cs"
  by (auto simp: list_all_iff)

lemma then_told:
  assumes "account_of E acc = Inr hc" "does a (\<lambda>cs es ans. sending E hc got cs es ans \<and> (\<forall>x. ans = Inr x \<longrightarrow> ok (g x) (got x)))"
    and "\<And>x sv. f x sv = (fold (echo E hc) (got x) sv, Inr (g x))"
  shows "does (then_act a f) (told E acc ok)"
proof (rule does_then [OF assms(2)])
  fix cs es e assume "sending E hc got cs es (Inl e) \<and> (\<forall>x. (Inl e :: wamux_error + _) = Inr x \<longrightarrow> ok (g x) (got x))"
  with calls_at [OF assms(1)] show "told E acc ok cs es (Inl e)" by (auto simp: told_def sending_def List.map_filter_def)
next
  fix cs es x assume "sending E hc got cs es (Inr x) \<and> (\<forall>y. (Inr x :: wamux_error + _) = Inr y \<longrightarrow> ok (g y) (got y))"
  with calls_at [OF assms(1)] echo_tells [of E hc "got x"]
  show "does (f x) (\<lambda>cs' es' ans. told E acc ok (cs @ cs') (es @ es') ans)"
    unfolding does_def assms(3)
    by (intro allI exI [of _ "[]"] exI [of _ "List.map_filter (echo_of E) (map (Pair (at hc)) (got x))"])
       (auto simp: told_def sending_def comp_def)
qed

lemma echoed_told:
  assumes "account_of E acc = Inr hc" "does a (sending E hc (\<lambda>r. [r]))"
  shows "does (then_act a (echoed E hc)) (told E acc (\<lambda>p. names_send (ps_key p) (ps_recipient_fanout p)))"
  by (rule then_told [OF assms(1) does_weaken [OF assms(2)]])
     (auto simp: echoed_def names_send_def send_result_to_proto_def sent_message_key_def)

lemma silent_told:
  assumes "account_of E acc = Inr hc" "does a (sending E hc (\<lambda>_. []))"
  shows "does a (told E acc (\<lambda>_ rs. rs = []))"
  using calls_at [OF assms(1)]
  by (intro does_weaken [OF assms(2)]) (auto simp: told_def sending_def List.map_filter_def split: sum.splits)

lemma respond_told:
  assumes "does a (told E acc ok)" "\<And>x rs. ok x rs \<Longrightarrow> ok' (g x) rs"
  shows "does (respond g a) (told E acc ok')"
  unfolding respond_def
  by (rule does_then [OF assms(1)]) (auto simp: told_def intro!: does_return assms(2))

lemma on_account_told:
  "(\<And>hc. account_of E acc = Inr hc \<Longrightarrow> does (f hc) (told E acc ok)) \<Longrightarrow> does (on_account_of E acc f) (told E acc ok)"
  "(\<And>hc. account_of E acc = Inr hc \<Longrightarrow> does (f hc) (told E acc ok)) \<Longrightarrow> does (on_client_of E acc f) (told E acc ok)"
  by (simp_all add: on_account_of_def on_client_of_def client_of_def checked_told)

lemma on_chat_told:
  "(\<And>hc j. does (f hc j) (sending E hc (\<lambda>_. []))) \<Longrightarrow> does (on_chat E acc chat f) (told E acc (\<lambda>_ rs. rs = []))"
  unfolding on_chat_def by (intro on_account_told checked_told silent_told)

lemmas told_rules = on_account_told checked_told echoed_told silent_told

lemma rpc_told:
  "does (rpc_send_text E acc r1) (told E acc (\<lambda>p. names_send (ps_key p) (ps_recipient_fanout p)))"
  "does (rpc_send_reaction E acc k emoji) (told E acc (\<lambda>p. names_send (ps_key p) (ps_recipient_fanout p)))"
  "does (rpc_send_contact E acc to name vcard q m) (told E acc (\<lambda>p. names_send (ps_key p) (ps_recipient_fanout p)))"
  "does (rpc_send_interactive_reply E acc to q m r) (told E acc (\<lambda>p. names_send (ps_key p) (ps_recipient_fanout p)))"
  "does (rpc_send_poll_vote E acc to v) (told E acc (\<lambda>p. names_send (ps_key p) (ps_recipient_fanout p)))"
  "does (rpc_post_status_text E acc s) (told E acc (\<lambda>p. names_send (ps_key p) (ps_recipient_fanout p)))"
  "does (rpc_revoke_status E acc i rs) (told E acc (\<lambda>p. names_send (ps_key p) (ps_recipient_fanout p)))"
  unfolding rpc_send_text_def rpc_send_reaction_def rpc_send_contact_def rpc_send_interactive_reply_def rpc_send_poll_vote_def
    rpc_post_status_text_def rpc_revoke_status_def
  by (rule told_rules domain_sends | assumption)+

lemma rpc_send_media_told:
  "does (rpc_send_media E header stage)
     (told E (case header of Inl _ \<Rightarrow> None | Inr (acc, _) \<Rightarrow> acc) (\<lambda>p. names_send (ps_key p) (ps_recipient_fanout p)))"
  unfolding rpc_send_media_def
  by (rule checked_told, clarsimp, (rule told_rules domain_send_media_sends | assumption)+)

lemma rpc_post_status_media_told:
  "does (rpc_post_status_media E header stage)
     (told E (case header of Inl _ \<Rightarrow> None | Inr (acc, _) \<Rightarrow> acc) (\<lambda>p. names_send (ps_key p) (ps_recipient_fanout p)))"
  unfolding rpc_post_status_media_def
  by (rule checked_told, clarsimp, (rule told_rules domain_post_status_media_sends | assumption)+)

lemma rpc_edit_told:
  "does (rpc_edit_message E acc k t) (told E acc (\<lambda>p. names_send (ps_key p) (ps_recipient_fanout p)))"
  unfolding rpc_edit_message_def
  by (rule on_account_told checked_told then_told [OF _ does_weaken [OF domain_sends(3)]] | assumption)+
     (auto simp: names_send_def)

lemma rpc_poll_told:
  "does (rpc_send_poll E acc to poll) (told E acc (\<lambda>p. names_send (po_key p) (po_recipient_fanout p)))"
  unfolding rpc_send_poll_def
proof (intro on_account_told checked_told)
  fix hc j assume acc: "account_of E acc = Inr hc"
  let ?g = "\<lambda>(r, secret). \<lparr>po_key = Some (sent_message_key (me_jids E) (sd_message_id r) (sd_to r)), po_message_secret = secret,
      po_recipient_fanout = map_option recipient_fanout_to_proto (sd_recipient_fanout r)\<rparr>"
  show "does (then_act (domain_send_poll E hc j poll) (\<lambda>(r, secret) sv.
       (echo E hc r sv,
        Inr \<lparr>po_key = Some (sent_message_key (me_jids E) (sd_message_id r) (sd_to r)), po_message_secret = secret,
             po_recipient_fanout = map_option recipient_fanout_to_proto (sd_recipient_fanout r)\<rparr>)))
     (told E acc (\<lambda>p. names_send (po_key p) (po_recipient_fanout p)))"
    by (rule then_told [where g = ?g, OF acc does_weaken [OF domain_send_poll_sends]])
       (auto simp: names_send_def sent_message_key_def split_def)
qed

lemma rpc_delete_told:
  "does (rpc_delete_message E acc k every) (told E acc (\<lambda>p rs. ps_key p = k \<and> length rs = (if every then 1 else 0)))"
  unfolding rpc_delete_message_def
proof (intro checked_told, clarify)
  fix key hc t assume "ok_or (missing_field ''target'') k = Inr key" and target: "delete_target E acc key every = Inr (hc, t)"
  then have k: "k = Some key" by (cases k) (auto simp: ok_or_def)
  from target have acc: "account_of E acc = Inr hc" by (auto simp: delete_target_def and_then_Inr_iff map_ok_Inr_iff)
  let ?g = "\<lambda>revoke. \<lparr>ps_key = Some key, ps_server_timestamp = 0,
      ps_recipient_fanout = map_option recipient_fanout_to_proto (Option.bind revoke sd_recipient_fanout)\<rparr>"
  show "does (then_act (domain_delete_message E hc t every) (\<lambda>revoke sv.
         ((case revoke of None \<Rightarrow> sv | Some r \<Rightarrow> echo E hc r sv),
          Inr \<lparr>ps_key = Some key, ps_server_timestamp = 0,
               ps_recipient_fanout = map_option recipient_fanout_to_proto (Option.bind revoke sd_recipient_fanout)\<rparr>)))
     (told E acc (\<lambda>p rs. ps_key p = k \<and> length rs = (if every then 1 else 0)))"
    by (rule then_told [where g = ?g, OF acc does_weaken [OF domain_delete_sends]]) (auto simp: k split: option.splits)
qed

lemma rpc_chat_told:
  "does (rpc_mark_chat_read E acc chat) (told E acc (\<lambda>_ rs. rs = []))"
  "does (rpc_mark_unread E acc chat) (told E acc (\<lambda>_ rs. rs = []))"
  "does (rpc_archive_chat E acc chat b) (told E acc (\<lambda>_ rs. rs = []))"
  "does (rpc_pin_chat E acc chat b) (told E acc (\<lambda>_ rs. rs = []))"
  "does (rpc_mute_chat E acc chat b ms) (told E acc (\<lambda>_ rs. rs = []))"
  "does (rpc_delete_chat E acc chat b) (told E acc (\<lambda>_ rs. rs = []))"
  "does (rpc_send_presence E acc chat st) (told E acc (\<lambda>_ rs. rs = []))"
  "does (rpc_mark_read E acc chat sender ids) (told E acc (\<lambda>_ rs. rs = []))"
  unfolding rpc_mark_chat_read_def rpc_mark_unread_def rpc_archive_chat_def rpc_pin_chat_def rpc_mute_chat_def rpc_delete_chat_def
    rpc_send_presence_def rpc_mark_read_def
  by (rule on_chat_told, rule domain_silent)+ (rule on_chat_told, rule checked_sending, rule domain_silent)+

lemma rpc_client_told:
  "does (rpc_fetch_message_history E acc chat oldest from_me ms n) (told E acc (\<lambda>_ rs. rs = []))"
  "does (rpc_star_message E acc k b) (told E acc (\<lambda>_ rs. rs = []))"
  "does (rpc_aggregate_poll_votes E acc r vs) (told E acc (\<lambda>_ rs. rs = []))"
  unfolding rpc_fetch_message_history_def rpc_star_message_def rpc_aggregate_poll_votes_def
  by (rule on_account_told, rule checked_told, rule silent_told, assumption, rule domain_silent domain_aggregate_silent)+

lemma rpc_audience_told: "does (rpc_get_status_audience E a) (told E (Some a) (\<lambda>_ rs. rs = []))"
  unfolding rpc_get_status_audience_def
  by (rule on_account_told, rule does_return) (simp add: told_def List.map_filter_def)

lemma serve_told: "does (serve E req) (told E (request_account req) (answered req))"
  by (cases req)
     (simp_all only: serve.simps request_account.simps,
      (rule respond_told, rule rpc_told rpc_send_media_told rpc_post_status_media_told rpc_edit_told rpc_poll_told rpc_delete_told rpc_chat_told rpc_client_told
         rpc_audience_told,
       simp add: answered_def)+)


section \<open>What an echo shows\<close>

lemma checked_Inr: "checked r f sv = (sv', Inr x) \<longleftrightarrow> (\<exists>y. r = Inr y \<and> f y sv = (sv', Inr x))"
  by (cases r) (auto simp: checked_def)

lemma then_act_Inr: "then_act a f sv = (sv', Inr x) \<longleftrightarrow> (\<exists>sv1 y. a sv = (sv1, Inr y) \<and> f y sv1 = (sv', Inr x))"
  by (auto simp: then_act_def dest!: and_run_cases)

lemma call_lib_Inr:
  "call_lib hc c answer sv = (sv', Inr x) \<longleftrightarrow>
   answer = Inr x \<and> sv' = sv\<lparr>sv_calls := sv_calls sv @ [(at hc, c)]\<rparr>"
  by (cases answer) (auto simp: call_lib_def)

lemmas ran_Inr = checked_Inr then_act_Inr call_lib_Inr call_send_def

text \<open>The library sends the message it is given to the chat it is given, and says so.\<close>

definition relays :: "('s, 'j, 'm, 'i, 'a) msg_env \<Rightarrow> bool" where
  "relays E \<longleftrightarrow> (\<forall>n to m r. lc_send (me_client E n) (SendMessage to m) = Inr r \<longrightarrow> sd_to r = to \<and> sd_message r = m)"

definition event_of ::
  "('s, 'j, 'm, 'i, 'a) msg_env \<Rightarrow> account_handle \<times> nat \<Rightarrow> ('j, 'm) send_result \<Rightarrow> inbound_message" where
  "event_of E hc r =
     map_sent (me_ext E) (sent_message_key (me_jids E) (sd_message_id r) (sd_to r)) (lib_show (me_jids E) (sd_to r))
       (case lc_pn (me_client E (snd hc)) of None \<Rightarrow> [] | Some j \<Rightarrow> lib_show (me_jids E) j) (me_now E) (sd_message r)"

lemma echo_event:
  "sd_message_id r \<noteq> [] \<Longrightarrow> sv_events (echo E hc r sv) = sv_events sv @ [(h_uuid (fst hc), event_of E hc r)]"
  using echo_tells [of E hc "[r]" sv] by (simp add: echo_of_def event_of_def List.map_filter_def)

text \<open>What a built message is to show, by the request it was built for.\<close>

definition shows_context where
  "shows_context E chat c ev \<longleftrightarrow>
     im_mentions ev = map (jid_to_wire (me_jids E)) (oc_mentions c) \<and>
     im_quote ev = map_option (quote_as_event (me_jids E) chat) (oc_quote c)"

definition shows_media where
  "shows_media E chat m up ev \<longleftrightarrow>
     (if om_kind m = Video \<and> om_ptv m then im_media ev = None
      else im_media ev = Some (upload_descriptor m up) \<and> im_caption ev = relayed_caption m \<and>
           shows_context E chat (om_context m) ev)"

lemma map_sent_shows_text:
  assumes "context_found (me_ext E)" "shown_nonempty (me_jids E)" "build_text_message (me_jids E) W t = Inr m"
  shows "im_text (map_sent (me_ext E) key chat sender ms m) = ot_text t \<and>
    shows_context E chat (ot_context t) (map_sent (me_ext E) key chat sender ms m)"
  using text_reads_back [OF assms] by (simp add: map_sent_def shows_context_def default_inbound_def)

lemma map_sent_shows_media:
  assumes "context_found (me_ext E)" "shown_nonempty (me_jids E)" "build_media_message (me_jids E) W h up = Inr m"
  shows "shows_media E chat h up (map_sent (me_ext E) key chat sender ms m)"
proof (cases "om_kind h = Video \<and> om_ptv h")
  case True
  with media_reads_back(1) [OF assms(3)] show ?thesis by (simp add: shows_media_def map_sent_def default_inbound_def)
next
  case False
  note built = built_media [OF assms(3)]
  from False context_reads_back [OF assms(2) built_media_context [OF assms(1,3) False]] built media_reads_back [OF assms(3)]
  show ?thesis by (simp add: shows_media_def shows_context_def map_sent_def default_inbound_def)
qed

lemma protocol_keeps_head:
  "im_key (project_protocol_message out p) = im_key out" "im_chat (project_protocol_message out p) = im_chat out"
  by (simp_all add: project_protocol_message_def Let_def split: option.split protocol_type.split)

lemma map_sent_head:
  "im_key (map_sent X key chat sender ms m) = Some key" "im_chat (map_sent X key chat sender ms m) = relay_jid chat"
  by (auto simp: map_sent_def project_content_def protocol_keeps_head Let_def split: option.splits)

fun shows_request :: "('s, 'j, 'm, 'i, 'a) msg_env \<Rightarrow> string \<Rightarrow> 'i msg_request \<Rightarrow> inbound_message \<Rightarrow> bool" where
  "shows_request E chat (ReqSendText acc r) ev \<longleftrightarrow>
     (\<exists>t. outgoing_text_try_from (me_jids E) r = Inr t \<and> im_text ev = pt_text r \<and> shows_context E chat (ot_context t) ev)"
| "shows_request E chat (ReqSendReaction acc k emoji) ev \<longleftrightarrow>
     (\<exists>t. target_of E k = Inr t \<and> im_reaction ev = emoji \<and> im_reaction_target ev = Some (target_key (me_jids E) t))"
| "shows_request E chat (ReqSendMedia header stage) ev \<longleftrightarrow>
     (\<exists>acc h m staged n up. header = Inr (acc, h) \<and> outgoing_media_try_from (me_jids E) h = Inr m \<and>
        stage (om_kind m) = Inr staged \<and> lc_upload (me_client E n) staged (om_kind m) = Inr up \<and> shows_media E chat m up ev)"
| "shows_request E chat _ ev \<longleftrightarrow> True"

text \<open>A handler that answered with a send ran to its echo.\<close>

lemma echoed_Inr:
  "echoed E hc r sv = (sv', Inr p) \<longleftrightarrow>
   sv' = echo E hc r sv \<and> p = send_result_to_proto (me_jids E) (sd_message_id r) (sd_to r) (sd_recipient_fanout r)"
  by (auto simp: echoed_def)

lemma answer_names: "ps_key (send_result_to_proto J i to fan) = Some (sent_message_key J i to)"
  by (simp add: send_result_to_proto_def)

lemma respond_Inr: "respond g a sv = (sv', Inr x) \<longleftrightarrow> (\<exists>y. a sv = (sv', Inr y) \<and> x = g y)"
  by (auto simp: respond_def then_act_Inr answer_with_def)

lemma sent_shows:
  assumes "relays E" "lc_send (me_client E (snd hc)) (SendMessage to m) = Inr r" "sd_message_id r \<noteq> []"
    and "sv_events sv1 = sv_events sv" "sv' = echo E hc r sv1" "p = send_result_to_proto (me_jids E) (sd_message_id r) (sd_to r) fan"
    and "\<And>key sender ms. P (map_sent (me_ext E) key (lib_show (me_jids E) to) sender ms m)"
  shows "\<exists>ev. sv_events sv' = sv_events sv @ [(h_uuid (fst hc), ev)] \<and> im_key ev = ps_key p \<and> im_chat ev = relay_jid (lib_show (me_jids E) to) \<and> P ev"
proof -
  have r: "sd_to r = to" "sd_message r = m" using assms(1,2) by (auto simp: relays_def)
  show ?thesis
    using assms(7) echo_event [OF assms(3), of E hc sv1] r
    by (intro exI [of _ "event_of E hc r"]) (simp add: assms(4-6) event_of_def map_sent_head answer_names)
qed

lemma text_shown:
  assumes "context_found (me_ext E)" "shown_nonempty (me_jids E)" "relays E"
    and "rpc_send_text E acc r sv = (sv', Inr p)" "map_option mk_id (ps_key p) \<noteq> Some []"
  shows "\<exists>u chat ev. sv_events sv' = sv_events sv @ [(u, ev)] \<and> im_key ev = ps_key p \<and> im_chat ev = relay_jid chat \<and> shows_request E chat (ReqSendText acc r) ev"
proof -
  from assms(4) obtain hc to t m res where run: "outgoing_text_try_from (me_jids E) r = Inr t"
      "build_text_message (me_jids E) (me_lib E) t = Inr m"
      "lc_send (me_client E (snd hc)) (SendMessage (into_lib to) m) = Inr res"
      "sv' = echo E hc res (sv\<lparr>sv_calls := sv_calls sv @ [(at hc, CallSend (SendMessage (into_lib to) m))]\<rparr>)"
      "p = send_result_to_proto (me_jids E) (sd_message_id res) (sd_to res) (sd_recipient_fanout res)"
    by (auto simp: rpc_send_text_def on_account_of_def domain_send_text_def ran_Inr echoed_Inr)
  have words: "ot_text t = pt_text r" using run(1) by (auto simp: outgoing_text_try_from_def map_ok_Inr_iff)
  have "sd_message_id res \<noteq> []" using assms(5) run(5) by (simp add: answer_names sent_message_key_def)
  moreover have "shows_request E (lib_show (me_jids E) (into_lib to)) (ReqSendText acc r)
      (map_sent (me_ext E) key (lib_show (me_jids E) (into_lib to)) sender ms m)" for key sender ms
    using map_sent_shows_text [OF assms(1,2) run(2)] words run(1) by auto
  ultimately have "\<exists>ev. sv_events sv' = sv_events sv @ [(h_uuid (fst hc), ev)] \<and> im_key ev = ps_key p \<and>
      im_chat ev = relay_jid (lib_show (me_jids E) (into_lib to)) \<and> shows_request E (lib_show (me_jids E) (into_lib to)) (ReqSendText acc r) ev"
    by (intro sent_shows [OF assms(3) run(3) _ _ run(4,5)]) simp_all
  then show ?thesis by blast
qed

lemma reaction_shown:
  assumes "shown_nonempty (me_jids E)" "relays E"
    and "rpc_send_reaction E acc k emoji sv = (sv', Inr p)" "map_option mk_id (ps_key p) \<noteq> Some []"
  shows "\<exists>u chat ev. sv_events sv' = sv_events sv @ [(u, ev)] \<and> im_key ev = ps_key p \<and> im_chat ev = relay_jid chat \<and>
    shows_request E chat (ReqSendReaction acc k emoji) ev"
proof -
  from assms(3) obtain hc t res where run: "target_of E k = Inr t"
      "lc_send (me_client E (snd hc)) (SendMessage (into_lib (mt_chat t)) (reaction_message (me_jids E) t emoji)) = Inr res"
      "sv' = echo E hc res (sv\<lparr>sv_calls := sv_calls sv @
         [(at hc, CallSend (SendMessage (into_lib (mt_chat t)) (reaction_message (me_jids E) t emoji)))]\<rparr>)"
      "p = send_result_to_proto (me_jids E) (sd_message_id res) (sd_to res) (sd_recipient_fanout res)"
    by (auto simp: rpc_send_reaction_def on_account_of_def domain_send_reaction_def ran_Inr echoed_Inr)
  have "sd_message_id res \<noteq> []" using assms(4) run(4) by (simp add: answer_names sent_message_key_def)
  moreover have "shows_request E c (ReqSendReaction acc k emoji)
      (map_sent (me_ext E) key chat sender ms (reaction_message (me_jids E) t emoji))" for c key chat sender ms
    using reaction_reads_back [OF assms(1)] run(1) by (simp add: map_sent_def)
  ultimately have "\<exists>ev. sv_events sv' = sv_events sv @ [(h_uuid (fst hc), ev)] \<and> im_key ev = ps_key p \<and>
      im_chat ev = relay_jid (lib_show (me_jids E) (into_lib (mt_chat t))) \<and>
      shows_request E (lib_show (me_jids E) (into_lib (mt_chat t))) (ReqSendReaction acc k emoji) ev"
    by (intro sent_shows [OF assms(2) run(2) _ _ run(3,4)]) simp_all
  then show ?thesis by blast
qed

lemma media_shown:
  assumes "context_found (me_ext E)" "shown_nonempty (me_jids E)" "relays E"
    and "rpc_send_media E header stage sv = (sv', Inr p)" "map_option mk_id (ps_key p) \<noteq> Some []"
  shows "\<exists>u chat ev. sv_events sv' = sv_events sv @ [(u, ev)] \<and> im_key ev = ps_key p \<and> im_chat ev = relay_jid chat \<and>
    shows_request E chat (ReqSendMedia header stage) ev"
proof -
  from assms(4) obtain acc h hc to kind staged m cx up msg res where run:
      "header = Inr (acc, h)" "parse_sendable (pm_media_type h) = Inr kind" "stage kind = Inr staged"
      "outgoing_media_try_from (me_jids E) h = Inr m"
      "outgoing_context_info (me_jids E) (me_lib E) (om_context m) = Inr cx"
      "lc_upload (me_client E (snd hc)) staged (om_kind m) = Inr up"
      "build_media_message (me_jids E) (me_lib E) m up = Inr msg"
      "lc_send (me_client E (snd hc)) (SendMessage (into_lib to) msg) = Inr res"
      "sv' = echo E hc res (sv\<lparr>sv_calls := (sv_calls sv @ [(at hc, CallUpload (om_kind m))]) @
         [(at hc, CallSend (SendMessage (into_lib to) msg))]\<rparr>)"
      "p = send_result_to_proto (me_jids E) (sd_message_id res) (sd_to res) (sd_recipient_fanout res)"
    by (auto simp: rpc_send_media_def on_account_of_def domain_send_media_def upload_staged_def ran_Inr echoed_Inr)
  have kind: "om_kind m = kind" using run(2,4) by (auto simp: outgoing_media_try_from_def and_then_Inr_iff)
  have "sd_message_id res \<noteq> []" using assms(5) run(10) by (simp add: answer_names sent_message_key_def)
  moreover have "shows_request E (lib_show (me_jids E) (into_lib to)) (ReqSendMedia header stage)
      (map_sent (me_ext E) key (lib_show (me_jids E) (into_lib to)) sender ms msg)" for key sender ms
    unfolding shows_request.simps using map_sent_shows_media [OF assms(1,2) run(7)] run(1,3,4,6) kind by blast
  ultimately have "\<exists>ev. sv_events sv' = sv_events sv @ [(h_uuid (fst hc), ev)] \<and> im_key ev = ps_key p \<and>
      im_chat ev = relay_jid (lib_show (me_jids E) (into_lib to)) \<and> shows_request E (lib_show (me_jids E) (into_lib to)) (ReqSendMedia header stage) ev"
    by (intro sent_shows [OF assms(3) run(8) _ _ run(9,10)]) simp_all
  then show ?thesis by blast
qed

fun built_here :: "'i msg_request \<Rightarrow> bool" where
  "built_here (ReqSendText acc r) = True"
| "built_here (ReqSendReaction acc k emoji) = True"
| "built_here (ReqSendMedia header stage) = True"
| "built_here _ = False"


section \<open>An example\<close>

text \<open>Jids are numbers, printed in unary; the library answers every send with an id of its own.\<close>

definition unary_jids :: "nat jid_lib" where
  "unary_jids = \<lparr>lib_parse = (\<lambda>s. if s = [] then Inl ''empty'' else Inr (length s)),
     lib_show = (\<lambda>n. replicate (Suc n) (CHR ''j'')), lib_server = (\<lambda>_. Server_Group)\<rparr>"

definition demo_ext :: "unit message_ext" where
  "demo_ext = \<lparr>mx_context = (\<lambda>m.
       case List.map_filter (\<lambda>x. x) [Option.bind (w_extended_text m) et_context_info, Option.bind (w_image m) ms_context_info,
              Option.bind (w_video m) ms_context_info, Option.bind (w_audio m) ms_context_info,
              Option.bind (w_document m) ms_context_info, Option.bind (w_sticker m) ms_context_info] of
         [] \<Rightarrow> None | c # _ \<Rightarrow> Some c),
     mx_encode = (\<lambda>_. [])\<rparr>"

definition demo_wa_lib :: "(nat, unit) wa_lib" where
  "demo_wa_lib = \<lparr>wl_decode = (\<lambda>_. Inr ()), wl_preview_type = (\<lambda>_. True), wl_font = (\<lambda>_. True), wl_message_id = (\<lambda>_. Inr ()),
     wl_message_ref = (\<lambda>_ _ _ _. Inr ()), wl_status_broadcast = 0, wl_is_newsletter = (\<lambda>_. False)\<rparr>"

fun demo_send :: "(nat, unit) lib_send \<Rightarrow> library_result + (nat, unit) send_result" where
  "demo_send (SendMessage to m) = Inr \<lparr>sd_message_id = ''3EB0'', sd_to = to, sd_message = m, sd_recipient_fanout = None\<rparr>"
| "demo_send _ = Inl []"

definition demo_client :: "(nat, unit, unit, unit) lib_client" where
  "demo_client = \<lparr>lc_pn = Some 7, lc_send = demo_send, lc_poll_secret = (\<lambda>_. []), lc_action = (\<lambda>_. Inr ()),
     lc_history = (\<lambda>_ _ _ _ _. Inr []), lc_upload = (\<lambda>_ _. Inl []), lc_decrypt_vote = (\<lambda>_ _ _ _ _ _. True),
     lc_aggregate = (\<lambda>_ _ _ _ _. Inr []), lc_audience = None\<rparr>"

definition demo_messaging :: "(accounts_db, nat, unit, unit, unit) msg_env" where
  "demo_messaging = \<lparr>me_jids = unary_jids, me_lib = demo_wa_lib, me_ext = demo_ext, me_uuid = Some,
     me_registry = fst (connect (Inr 5) (the (handles demo_created ''0'')) demo_created), me_client = (\<lambda>_. demo_client),
     me_now = 1700\<rparr>"

definition demo_text :: "unit msg_request" where
  "demo_text = ReqSendText (Some (Some (PbExternalRef ''shop'')))
     \<lparr>pt_to = Some ''abc'', pt_text = ''hello'', pt_mentions = [Some ''ab''], pt_quote = None, pt_quoted_message = [],
      pt_ephemeral_seconds = 0, pt_link_preview = None\<rparr>"

definition idle_service :: "(nat, unit) service" where
  "idle_service = \<lparr>sv_calls = [], sv_events = []\<rparr>"

lemma demo_laws: "context_found (me_ext demo_messaging)" "shown_nonempty (me_jids demo_messaging)" "relays demo_messaging"
  by (simp_all add: demo_messaging_def context_found_def demo_ext_def default_message_def List.map_filter_def shown_nonempty_def
      unary_jids_def relays_def demo_client_def split: option.split)

lemma demo_run:
  "map_ok (\<lambda>a. case a of AnsSend p \<Rightarrow> map_option mk_id (ps_key p) | _ \<Rightarrow> None) (snd (serve demo_messaging demo_text idle_service)) =
     Inr (Some ''3EB0'') \<and>
   (case snd (serve demo_messaging demo_text idle_service) of Inr (AnsSend p) \<Rightarrow> True | _ \<Rightarrow> False)"
  by code_simp


end
