(* ===== verification/Media_Spool.thy ===== *)
theory Media_Spool
  imports Wamux_Error
begin

text \<open>
  The media spool (\<open>spool/budget.rs\<close>, \<open>spool/upload.rs\<close>, \<open>spool/download.rs\<close>,
  \<open>spool/ciphertext.rs\<close>) and the streams that use it (\<open>services/media_stream.rs\<close>,
  \<open>services/media_service.rs\<close>, \<open>download\<close> of \<open>domain/media_transfer.rs\<close>): the byte budget all transfers
  share, uploads that encrypt into a spool file and downloads into a bounded one. The library's
  media encryptor and its download are parameters. A file is its bytes; a fault of the disk is an
  argument.
\<close>

section \<open>The budget\<close>

record spool_budget =
  sb_max_bytes :: u64
  sb_held :: u64

type_synonym reservation = u64

definition budget_new :: "u64 \<Rightarrow> spool_budget" where
  "budget_new m = \<lparr>sb_max_bytes = m, sb_held = 0\<rparr>"

definition claim :: "u64 \<Rightarrow> spool_budget \<Rightarrow> wamux_error + spool_budget" where
  "claim n b =
     (let total = saturating_add (sb_held b) n
      in if sb_max_bytes b = 0 \<or> total \<le> sb_max_bytes b then Inr (b\<lparr>sb_held := total\<rparr>)
         else Inl (ResourceExhausted ''media spool budget exhausted''))"

definition try_reserve :: "u64 \<Rightarrow> spool_budget \<Rightarrow> wamux_error + spool_budget \<times> reservation" where
  "try_reserve n b = map_ok (\<lambda>b'. (b', n)) (claim n b)"

definition try_grow :: "u64 \<Rightarrow> reservation \<Rightarrow> spool_budget \<Rightarrow> wamux_error + spool_budget \<times> reservation" where
  "try_grow n r b = map_ok (\<lambda>b'. (b', r + n)) (claim n b)"

definition drop_reservation :: "reservation \<Rightarrow> spool_budget \<Rightarrow> spool_budget" where
  "drop_reservation r b = b\<lparr>sb_held := sb_held b - r\<rparr>"

definition in_flight :: "spool_budget \<Rightarrow> u64" where
  "in_flight b = sb_held b"

section \<open>Uploads\<close>

text \<open>The library's media encryptor: what it writes for a chunk, and at the end.\<close>

record ('c, 'i) encryptor =
  enc_new :: "bool \<Rightarrow> string + 'c"
  enc_update :: "'c \<Rightarrow> bytes \<Rightarrow> string + 'c \<times> bytes"
  enc_finalize :: "'c \<Rightarrow> string + bytes \<times> 'i"

definition CIPHERTEXT_OVERHEAD :: u64 where
  "CIPHERTEXT_OVERHEAD = 26"

record 'c stage =
  st_encryptor :: 'c
  st_file :: bytes

record 'c spooled_upload =
  su_stage :: "'c stage option"
  su_reservation :: reservation
  su_plaintext :: u64

record 'i staged_upload =
  sg_source :: bytes
  sg_info :: 'i
  sg_reservation :: reservation

text \<open>\<open>disk\<close> is what creating a file or a write of the blocking task answers beyond the encryptor.\<close>

definition create_file :: "string option \<Rightarrow> wamux_error + bytes" where
  "create_file disk = (case disk of None \<Rightarrow> Inr [] | Some e \<Rightarrow> Inl (Other e))"

definition begin_upload ::
  "('c, 'i) encryptor \<Rightarrow> string option \<Rightarrow> bool \<Rightarrow> spool_budget \<Rightarrow> wamux_error + spool_budget \<times> 'c spooled_upload" where
  "begin_upload N disk sidecar b =
     and_then (map_err Other (enc_new N sidecar)) (\<lambda>c.
     and_then (create_file disk) (\<lambda>file.
     and_then (try_reserve 0 b) (\<lambda>(b', r).
       Inr (b', \<lparr>su_stage = Some \<lparr>st_encryptor = c, st_file = file\<rparr>, su_reservation = r, su_plaintext = 0\<rparr>))))"

text \<open>A call that fails keeps what it changed before failing, until the upload is dropped.\<close>

definition cover :: "u64 \<Rightarrow> 'c spooled_upload \<Rightarrow> spool_budget \<Rightarrow> wamux_error + spool_budget \<times> 'c spooled_upload" where
  "cover needed u b =
     (let shortfall = saturating_sub needed (su_reservation u)
      in map_ok (\<lambda>(b', r). (b', u\<lparr>su_reservation := r\<rparr>)) (try_grow shortfall (su_reservation u) b))"

definition push ::
  "('c, 'i) encryptor \<Rightarrow> string option \<Rightarrow> bytes \<Rightarrow> 'c spooled_upload \<times> spool_budget \<Rightarrow>
   ('c spooled_upload \<times> spool_budget) \<times> (wamux_error + unit)" where
  "push N disk chunk = (\<lambda>(u, b).
     let u1 = u\<lparr>su_plaintext := su_plaintext u + of_nat (length chunk)\<rparr> in
     case cover (su_plaintext u1) u1 b of
       Inl e \<Rightarrow> ((u1, b), Inl e)
     | Inr (b2, u2) \<Rightarrow>
         (case su_stage u2 of
            None \<Rightarrow> ((u2, b2), Inl (Other ''spooled upload used after a failure''))
          | Some st \<Rightarrow>
              (case (case disk of Some e \<Rightarrow> Inl e | None \<Rightarrow> enc_update N (st_encryptor st) chunk) of
                 Inl e \<Rightarrow> ((u2\<lparr>su_stage := None\<rparr>, b2), Inl (Other e))
               | Inr (c, out) \<Rightarrow>
                   ((u2\<lparr>su_stage := Some \<lparr>st_encryptor = c, st_file = st_file st @ out\<rparr>\<rparr>, b2), Inr ()))))"

text \<open>\<open>finish\<close> consumes the upload: on an error its reservation is given back with it.\<close>

definition finish_upload ::
  "('c, 'i) encryptor \<Rightarrow> string option \<Rightarrow> 'c spooled_upload \<Rightarrow> spool_budget \<Rightarrow>
   spool_budget \<times> (wamux_error + 'i staged_upload)" where
  "finish_upload N disk u b =
     (case cover (su_plaintext u + CIPHERTEXT_OVERHEAD) u b of
        Inl e \<Rightarrow> (drop_reservation (su_reservation u) b, Inl e)
      | Inr (b2, u2) \<Rightarrow>
          (case (case su_stage u2 of
                   None \<Rightarrow> Inl ''spooled upload used after a failure''
                 | Some st \<Rightarrow>
                     (case disk of
                        Some e \<Rightarrow> Inl e
                      | None \<Rightarrow> map_ok (\<lambda>(out, info). (st_file st @ out, info)) (enc_finalize N (st_encryptor st)))) of
             Inl e \<Rightarrow> (drop_reservation (su_reservation u2) b2, Inl (Other e))
           | Inr (file, info) \<Rightarrow>
               (b2, Inr \<lparr>sg_source = file, sg_info = info, sg_reservation = su_reservation u2\<rparr>)))"

section \<open>The ciphertext as a source\<close>

text \<open>\<open>reader_from\<close> and one \<open>read\<close>: the reader has a position of its own; \<open>n\<close> bytes fit the buffer.\<close>

definition reader_from :: "u64 \<Rightarrow> nat" where
  "reader_from offset = unat offset"

definition positioned_read :: "bytes \<Rightarrow> nat \<Rightarrow> nat \<Rightarrow> nat \<times> bytes" where
  "positioned_read file n pos = (let out = take n (drop pos file) in (pos + length out, out))"

section \<open>Downloads\<close>

record bounded_file =
  bf_file :: bytes
  bf_position :: u64
  bf_limit :: u64

definition file_write :: "nat \<Rightarrow> bytes \<Rightarrow> bytes \<Rightarrow> bytes" where
  "file_write p bs f =
     (if bs = [] then f else take p f @ replicate (p - length f) 0 @ bs @ drop (p + length bs) f)"

text \<open>\<open>taken\<close> is how much of the buffer the file took, or its error.\<close>

definition bounded_write ::
  "string + nat \<Rightarrow> bytes \<Rightarrow> bounded_file \<Rightarrow> bounded_file \<times> (string + nat)" where
  "bounded_write taken buf w =
     (let end_pos = saturating_add (bf_position w) (of_nat (length buf))
      in if end_pos > bf_limit w
         then (w, Inl (''media is larger than the '' @ dec (unat (bf_limit w)) @ '' bytes reserved for it''))
         else case taken of
                Inl e \<Rightarrow> (w, Inl e)
              | Inr n \<Rightarrow>
                  (let out = take n buf
                   in (w\<lparr>bf_file := file_write (unat (bf_position w)) out (bf_file w),
                         bf_position := bf_position w + of_nat (length out)\<rparr>, Inr (length out))))"

definition bounded_seek :: "string + u64 \<Rightarrow> bounded_file \<Rightarrow> bounded_file \<times> (string + u64)" where
  "bounded_seek to w = (case to of Inl e \<Rightarrow> (w, Inl e) | Inr p \<Rightarrow> (w\<lparr>bf_position := p\<rparr>, Inr p))"

definition bounded_truncate :: "u64 \<Rightarrow> bounded_file \<Rightarrow> bounded_file" where
  "bounded_truncate len w =
     w\<lparr>bf_file := take (unat len) (bf_file w) @ replicate (unat len - length (bf_file w)) 0\<rparr>"

record download_slot =
  ds_writer :: bounded_file
  ds_reservation :: reservation

definition begin_download :: "string option \<Rightarrow> u64 \<Rightarrow> spool_budget \<Rightarrow> spool_budget \<times> (wamux_error + download_slot)" where
  "begin_download disk n b =
     (case try_reserve n b of
        Inl e \<Rightarrow> (b, Inl e)
      | Inr (b', r) \<Rightarrow>
          (case create_file disk of
             Inl e \<Rightarrow> (drop_reservation r b', Inl e)
           | Inr file \<Rightarrow>
               (b', Inr \<lparr>ds_writer = \<lparr>bf_file = file, bf_position = 0, bf_limit = n\<rparr>, ds_reservation = r\<rparr>)))"

record spooled_download =
  sd_file :: bytes
  sd_len :: u64
  sd_reservation :: reservation

text \<open>\<open>disk\<close> is what measuring the file answers.\<close>

definition seal_download :: "string option \<Rightarrow> bounded_file \<Rightarrow> reservation \<Rightarrow> wamux_error + spooled_download" where
  "seal_download disk w r =
     (case disk of
        Some e \<Rightarrow> Inl (Other e)
      | None \<Rightarrow> Inr \<lparr>sd_file = bf_file w, sd_len = of_nat (length (bf_file w)), sd_reservation = r\<rparr>)"

text \<open>\<open>read_exact_at\<close> fails when the file is shorter than asked; \<open>disk\<close> is any other fault.\<close>

definition read_chunk :: "string option \<Rightarrow> u64 \<Rightarrow> nat \<Rightarrow> spooled_download \<Rightarrow> wamux_error + bytes" where
  "read_chunk disk offset most d =
     (let want = unat (min (saturating_sub (sd_len d) offset) (of_nat most))
      in case disk of
           Some e \<Rightarrow> Inl (Other e)
         | None \<Rightarrow>
             (if length (sd_file d) < unat offset + want then Inl (Other ''reading the spool file'')
              else Inr (take want (drop (unat offset) (sd_file d)))))"

section \<open>The RPC streams\<close>

datatype 'h media_frame = FrameHeader 'h | FrameBytes bytes | FrameEmpty

text \<open>The frames of a request stream, and how it ends: closed, or with the transport's status.\<close>

definition read_header ::
  "string \<Rightarrow> 'h media_frame list \<Rightarrow> wamux_error option \<Rightarrow> (wamux_error + 'h) \<times> 'h media_frame list" where
  "read_header empty_stream fs ending =
     (case fs of
        [] \<Rightarrow> (Inl (case ending of None \<Rightarrow> InvalidArgument empty_stream | Some e \<Rightarrow> e), [])
      | FrameHeader h # rest \<Rightarrow> (Inr h, rest)
      | _ # rest \<Rightarrow> (Inl (InvalidArgument ''first chunk must be the header''), rest))"

definition size_limit_exceeded :: wamux_error where
  "size_limit_exceeded = ResourceExhausted ''media exceeds size limit''"

text \<open>The loop of \<open>stage_upload\<close>; \<open>disk n\<close> is the disk at the n-th push.\<close>

fun stage_frames ::
  "('c, 'i) encryptor \<Rightarrow> (nat \<Rightarrow> string option) \<Rightarrow> u64 \<Rightarrow> wamux_error option \<Rightarrow> u64 \<Rightarrow> 'h media_frame list \<Rightarrow>
   'c spooled_upload \<times> spool_budget \<Rightarrow> ('c spooled_upload \<times> spool_budget) \<times> (wamux_error + unit)" where
  "stage_frames N disk most ending received [] ub = (ub, (case ending of None \<Rightarrow> Inr () | Some e \<Rightarrow> Inl e))"
| "stage_frames N disk most ending received (f # fs) ub =
     (case f of
        FrameBytes bs \<Rightarrow>
          (let received' = received + of_nat (length bs)
           in if received' > most then (ub, Inl size_limit_exceeded)
              else case push N (disk (length fs)) bs ub of
                     (ub', Inl e) \<Rightarrow> (ub', Inl e)
                   | (ub', Inr _) \<Rightarrow> stage_frames N disk most ending received' fs ub')
      | FrameHeader _ \<Rightarrow> (ub, Inl (InvalidArgument ''unexpected second header''))
      | FrameEmpty \<Rightarrow> stage_frames N disk most ending received fs ub)"

definition stage_upload ::
  "('c, 'i) encryptor \<Rightarrow> (nat \<Rightarrow> string option) \<Rightarrow> bool \<Rightarrow> u64 \<Rightarrow> 'h media_frame list \<Rightarrow> wamux_error option \<Rightarrow>
   spool_budget \<Rightarrow> spool_budget \<times> (wamux_error + 'i staged_upload)" where
  "stage_upload N disk sidecar most fs ending b =
     (case begin_upload N (disk (Suc (length fs))) sidecar b of
        Inl e \<Rightarrow> (b, Inl e)
      | Inr (b1, u) \<Rightarrow>
          (case stage_frames N disk most ending 0 fs (u, b1) of
             ((u', b'), Inl e) \<Rightarrow> (drop_reservation (su_reservation u') b', Inl e)
           | ((u', b'), Inr _) \<Rightarrow> finish_upload N (disk (length fs)) u' b'))"

definition CHUNK_SIZE :: nat where
  "CHUNK_SIZE = 64 * 1024"

datatype media_chunk = ChunkMeta string u64 | ChunkBytes bytes | ChunkFailed wamux_error

text \<open>
  \<open>stream_spooled\<close>: the frames sent until the file ends, a read fails, or the client is gone, which
  is when \<open>room\<close> sends have been taken.
\<close>

function stream_from ::
  "(u64 \<Rightarrow> string option) \<Rightarrow> nat \<Rightarrow> u64 \<Rightarrow> spooled_download \<Rightarrow> media_chunk list" where
  "stream_from disk room offset d =
     (if sd_len d \<le> offset \<or> room = 0 then []
      else case read_chunk (disk offset) offset CHUNK_SIZE d of
             Inl e \<Rightarrow> [ChunkFailed e]
           | Inr bs \<Rightarrow> ChunkBytes bs # stream_from disk (room - 1) (offset + of_nat CHUNK_SIZE) d)"
  by auto
termination
  by (relation "measure (\<lambda>(disk, room, offset, d). room)") auto

declare stream_from.simps [simp del]

definition stream_spooled :: "(u64 \<Rightarrow> string option) \<Rightarrow> nat \<Rightarrow> string \<Rightarrow> spooled_download \<Rightarrow> media_chunk list" where
  "stream_spooled disk room mime d =
     (if room = 0 then [] else ChunkMeta mime (sd_len d) # stream_from disk (room - 1) 0 d)"

text \<open>
  \<open>download\<close>: the refusals before anything is fetched, then \<open>fetch\<close>, the library's download. The file
  is created and measured under \<open>disk\<close> and \<open>disk'\<close>.
\<close>

definition download ::
  "string option \<Rightarrow> string option \<Rightarrow> (wamux_error + unit) \<Rightarrow> (bounded_file \<Rightarrow> wamux_error + bounded_file) \<Rightarrow> u64 \<Rightarrow> u64 \<Rightarrow>
   spool_budget \<Rightarrow> spool_budget \<times> (wamux_error + spooled_download)" where
  "download disk disk' params fetch file_length most b =
     (if file_length > most then (b, Inl size_limit_exceeded)
      else case begin_download disk (if file_length = 0 then most else file_length) b of
             (b1, Inl e) \<Rightarrow> (b1, Inl e)
           | (b1, Inr slot) \<Rightarrow>
               (case and_then params (\<lambda>_. and_then (fetch (ds_writer slot)) (\<lambda>w.
                       seal_download disk' w (ds_reservation slot))) of
                  Inl e \<Rightarrow> (drop_reservation (ds_reservation slot) b1, Inl e)
                | Inr d \<Rightarrow> (b1, Inr d)))"

end
