(* ===== verification/Media_Budget.thy ===== *)
theory Media_Budget
  imports Media_Spool "HOL-Library.Multiset"
begin

text \<open>
  The files of all transfers stay within the media spool's budget. The transfers in flight are a
  multiset; one call of a transfer is one step, as the budget is one atomic counter and a transfer's
  file belongs to it alone.
\<close>

section \<open>The counter\<close>

lemma unat_saturating_add:
  "unat (saturating_add a b :: 'a::len word) = min (unat a + unat b) (2 ^ LENGTH('a) - 1)"
proof (cases "a \<le> a + b")
  case True
  then have "unat a + unat b < 2 ^ LENGTH('a)" by (simp add: no_olen_add_nat)
  then have "unat (a + b) = unat a + unat b" "unat a + unat b \<le> 2 ^ LENGTH('a) - 1"
    by (simp_all add: unat_add_lem [THEN iffD1])
  then show ?thesis using True by (simp add: saturating_add_def)
next
  case False
  then have "2 ^ LENGTH('a) \<le> unat a + unat b" by (simp add: no_olen_add_nat)
  then have "2 ^ LENGTH('a) - 1 \<le> unat a + unat b" by linarith
  then show ?thesis
    using False by (simp add: saturating_add_def unsigned_minus_1_eq_mask mask_eq_exp_minus_1 min_absorb2)
qed

lemma add_saturating_sub: "r + saturating_sub n r = max n r"
  by (auto simp: saturating_sub_def max_def not_less)

lemma unat_saturating_sub: "unat (saturating_sub a b) = unat a - unat b"
proof (cases "a < b")
  case True
  then show ?thesis by (simp add: saturating_sub_def word_less_nat_alt)
next
  case False
  then show ?thesis by (simp add: saturating_sub_def unat_sub not_less)
qed

lemma unat_add_small: "unat a + unat b < 2 ^ LENGTH('a) \<Longrightarrow> unat (a + b :: 'a::len word) = unat a + unat b"
  by (rule unat_add_lem [THEN iffD1])

text \<open>A budget that is set, and below what a 63-bit file offset can name.\<close>

definition bounded_budget :: "u64 \<Rightarrow> bool" where
  "bounded_budget m \<longleftrightarrow> 0 < unat m \<and> unat m < 2 ^ 63"

lemma claim_Inr_iff:
  assumes "bounded_budget (sb_max_bytes b)"
  shows "claim n b = Inr b' \<longleftrightarrow>
    unat (sb_held b) + unat n \<le> unat (sb_max_bytes b) \<and> b' = b\<lparr>sb_held := sb_held b + n\<rparr>"
proof -
  have m: "sb_max_bytes b \<noteq> 0" "unat (sb_max_bytes b) < 2 ^ 63"
    using assms by (auto simp: bounded_budget_def)
  have fits: "saturating_add (sb_held b) n \<le> sb_max_bytes b \<longleftrightarrow> unat (sb_held b) + unat n \<le> unat (sb_max_bytes b)"
    using m(2) by (auto simp: word_le_nat_alt unat_saturating_add)
  have "saturating_add (sb_held b) n = sb_held b + n" if "unat (sb_held b) + unat n \<le> unat (sb_max_bytes b)"
  proof (rule word_unat_eq_iff [THEN iffD2])
    have "unat (sb_held b) + unat n < 2 ^ 63" using that m(2) by linarith
    then show "unat (saturating_add (sb_held b) n) = unat (sb_held b + n)"
      by (simp add: unat_saturating_add unat_add_small)
  qed
  then show ?thesis using m(1) fits by (auto simp: claim_def Let_def)
qed

lemma claim_Inl: "claim n b = Inl e \<Longrightarrow> e = ResourceExhausted ''media spool budget exhausted''"
  by (auto simp: claim_def Let_def split: if_splits)

lemma cover_Inr_iff:
  assumes "bounded_budget (sb_max_bytes b)"
  shows "cover n u b = Inr (b', u') \<longleftrightarrow>
    unat (sb_held b) + (unat n - unat (su_reservation u)) \<le> unat (sb_max_bytes b) \<and>
    u' = u\<lparr>su_reservation := max n (su_reservation u)\<rparr> \<and>
    b' = b\<lparr>sb_held := sb_held b + saturating_sub n (su_reservation u)\<rparr>"
  using claim_Inr_iff [OF assms]
  by (auto simp: cover_def try_grow_def map_ok_Inr_iff add_saturating_sub unat_saturating_sub)

lemma drop_reservation_undo: "drop_reservation r (b\<lparr>sb_held := sb_held b + r\<rparr>) = b"
  by (simp add: drop_reservation_def)

section \<open>The transfers in flight\<close>

text \<open>
  The law of the media encryptor: it writes no more than it was fed, keeping back what does not fill
  a block yet (\<open>pending\<close>), and its last write adds at most the padding and the MAC.
\<close>

definition encryptor_ok :: "('c, 'i) encryptor \<Rightarrow> ('c \<Rightarrow> nat) \<Rightarrow> bool" where
  "encryptor_ok N pending \<longleftrightarrow>
     (\<forall>sidecar c. enc_new N sidecar = Inr c \<longrightarrow> pending c = 0) \<and>
     (\<forall>c chunk c' out. enc_update N c chunk = Inr (c', out) \<longrightarrow> length out + pending c' \<le> pending c + length chunk) \<and>
     (\<forall>c out info. enc_finalize N c = Inr (out, info) \<longrightarrow> length out \<le> pending c + unat CIPHERTEXT_OVERHEAD)"

datatype ('c, 'i) transfer =
    Uploading "'c spooled_upload"
  | Staged "'i staged_upload"
  | Downloading download_slot
  | Downloaded spooled_download

fun reserved :: "('c, 'i) transfer \<Rightarrow> reservation" where
  "reserved (Uploading u) = su_reservation u"
| "reserved (Staged g) = sg_reservation g"
| "reserved (Downloading s) = ds_reservation s"
| "reserved (Downloaded d) = sd_reservation d"

fun on_disk :: "('c, 'i) transfer \<Rightarrow> bytes" where
  "on_disk (Uploading u) = (case su_stage u of None \<Rightarrow> [] | Some st \<Rightarrow> st_file st)"
| "on_disk (Staged g) = sg_source g"
| "on_disk (Downloading s) = bf_file (ds_writer s)"
| "on_disk (Downloaded d) = sd_file d"

type_synonym ('c, 'i) spool_system = "spool_budget \<times> ('c, 'i) transfer multiset"

text \<open>
  A call that fails ends its transfer, as every caller does with \<open>?\<close>; a transfer may be dropped at any
  time. A buffer is shorter than \<open>isize::MAX\<close>, and the library truncates a download within its limit.
\<close>

inductive spool_step :: "('c, 'i) encryptor \<Rightarrow> ('c, 'i) spool_system \<Rightarrow> ('c, 'i) spool_system \<Rightarrow> bool"
  for N where
  Begin_Upload: "begin_upload N disk sidecar b = Inr (b', u) \<Longrightarrow>
    spool_step N (b, M) (b', add_mset (Uploading u) M)"
| Push: "push N disk chunk (u, b) = ((u', b'), Inr ()) \<Longrightarrow> length chunk < 2 ^ 63 \<Longrightarrow>
    spool_step N (b, add_mset (Uploading u) M) (b', add_mset (Uploading u') M)"
| Push_Failed: "push N disk chunk (u, b) = ((u', b'), Inl e) \<Longrightarrow>
    spool_step N (b, add_mset (Uploading u) M) (drop_reservation (su_reservation u') b', M)"
| Finish: "finish_upload N disk u b = (b', Inr g) \<Longrightarrow>
    spool_step N (b, add_mset (Uploading u) M) (b', add_mset (Staged g) M)"
| Finish_Failed: "finish_upload N disk u b = (b', Inl e) \<Longrightarrow>
    spool_step N (b, add_mset (Uploading u) M) (b', M)"
| Begin_Download: "begin_download disk n b = (b', Inr s) \<Longrightarrow>
    spool_step N (b, M) (b', add_mset (Downloading s) M)"
| Begin_Download_Failed: "begin_download disk n b = (b', Inl e) \<Longrightarrow> spool_step N (b, M) (b', M)"
| Write: "bounded_write taken buf (ds_writer s) = (w, r) \<Longrightarrow> length buf < 2 ^ 63 \<Longrightarrow>
    spool_step N (b, add_mset (Downloading s) M) (b, add_mset (Downloading (s\<lparr>ds_writer := w\<rparr>)) M)"
| Seek: "bounded_seek to (ds_writer s) = (w, r) \<Longrightarrow>
    spool_step N (b, add_mset (Downloading s) M) (b, add_mset (Downloading (s\<lparr>ds_writer := w\<rparr>)) M)"
| Truncate: "len \<le> bf_limit (ds_writer s) \<Longrightarrow>
    spool_step N (b, add_mset (Downloading s) M)
      (b, add_mset (Downloading (s\<lparr>ds_writer := bounded_truncate len (ds_writer s)\<rparr>)) M)"
| Seal: "seal_download disk (ds_writer s) (ds_reservation s) = Inr d \<Longrightarrow>
    spool_step N (b, add_mset (Downloading s) M) (b, add_mset (Downloaded d) M)"
| Drop: "spool_step N (b, add_mset t M) (drop_reservation (reserved t) b, M)"

fun transfer_ok :: "('c \<Rightarrow> nat) \<Rightarrow> ('c, 'i) transfer \<Rightarrow> bool" where
  "transfer_ok pending (Uploading u) \<longleftrightarrow>
     (case su_stage u of
        None \<Rightarrow> False
      | Some st \<Rightarrow> length (st_file st) + pending (st_encryptor st) \<le> unat (su_plaintext u)) \<and>
     unat (su_plaintext u) \<le> unat (su_reservation u)"
| "transfer_ok pending (Staged g) \<longleftrightarrow> length (sg_source g) \<le> unat (sg_reservation g)"
| "transfer_ok pending (Downloading s) \<longleftrightarrow>
     bf_limit (ds_writer s) = ds_reservation s \<and> length (bf_file (ds_writer s)) \<le> unat (ds_reservation s)"
| "transfer_ok pending (Downloaded d) \<longleftrightarrow> length (sd_file d) \<le> unat (sd_reservation d)"

fun spool_ok :: "('c \<Rightarrow> nat) \<Rightarrow> ('c, 'i) spool_system \<Rightarrow> bool" where
  "spool_ok pending (b, M) \<longleftrightarrow>
     bounded_budget (sb_max_bytes b) \<and> sb_held b \<le> sb_max_bytes b \<and>
     unat (sb_held b) = (\<Sum>t\<in>#M. unat (reserved t)) \<and> (\<forall>t\<in>#M. transfer_ok pending t)"

lemma on_disk_within: "transfer_ok pending t \<Longrightarrow> length (on_disk t) \<le> unat (reserved t)"
  by (cases t) (auto split: option.splits)

text \<open>How the invariant follows a transfer that begins, goes on or ends.\<close>

lemma spool_ok_reserve:
  assumes ok: "spool_ok pending (b, M)" and fits: "unat (sb_held b) + unat n \<le> unat (sb_max_bytes b)"
    and t: "transfer_ok pending t" "reserved t = n"
  shows "spool_ok pending (b\<lparr>sb_held := sb_held b + n\<rparr>, add_mset t M)"
proof -
  have "unat (sb_held b) + unat n < 2 ^ 63" using ok fits by (simp add: bounded_budget_def)
  then have "unat (sb_held b + n) = unat (sb_held b) + unat n" by (simp add: unat_add_small)
  then show ?thesis using ok fits t by (auto simp: word_le_nat_alt)
qed

lemma spool_ok_drop:
  assumes "spool_ok pending (b, add_mset t M)"
  shows "spool_ok pending (drop_reservation (reserved t) b, M)"
proof -
  have "unat (reserved t) \<le> unat (sb_held b)" using assms by simp
  then have "unat (sb_held b - reserved t) = unat (sb_held b) - unat (reserved t)"
    by (simp add: unat_sub word_le_nat_alt)
  then show ?thesis using assms by (auto simp: drop_reservation_def word_le_nat_alt)
qed

lemma spool_ok_same:
  assumes "spool_ok pending (b, add_mset t M)" and "transfer_ok pending t'" and "reserved t' = reserved t"
  shows "spool_ok pending (b, add_mset t' M)"
  using assms by simp

text \<open>A reservation that grows: give back, then hold the larger one.\<close>

lemma spool_ok_grow:
  assumes ok: "spool_ok pending (b, add_mset t0 M)" "reserved t0 = su_reservation u"
    and c: "cover n u b = Inr (b', u')"
    and t: "transfer_ok pending t" "reserved t = su_reservation u'"
  shows "spool_ok pending (b', add_mset t M)"
proof -
  let ?r = "su_reservation u"
  have bb: "bounded_budget (sb_max_bytes b)" using ok by simp
  from c cover_Inr_iff [OF bb, of n u b' u'] have fits: "unat (sb_held b) + (unat n - unat ?r) \<le> unat (sb_max_bytes b)"
    and r': "su_reservation u' = max n ?r" and b': "b' = b\<lparr>sb_held := sb_held b + saturating_sub n ?r\<rparr>"
    by auto
  have r: "unat ?r \<le> unat (sb_held b)" using ok by simp
  define b0 where "b0 = drop_reservation ?r b"
  have b0: "spool_ok pending (b0, M)" using spool_ok_drop [OF ok(1)] ok(2) by (simp add: b0_def)
  have held0: "unat (sb_held b0) = unat (sb_held b) - unat ?r"
    using r by (simp add: b0_def drop_reservation_def unat_sub word_le_nat_alt)
  have "b' = b0\<lparr>sb_held := sb_held b0 + max n ?r\<rparr>"
    using add_saturating_sub [of ?r n] by (simp add: b' b0_def drop_reservation_def algebra_simps)
  moreover have "unat (sb_held b0) + unat (max n ?r) \<le> unat (sb_max_bytes b0)"
    using fits held0 r ok by (auto simp: max_def b0_def drop_reservation_def word_le_nat_alt)
  ultimately show ?thesis using spool_ok_reserve [OF b0 _ t(1)] t(2) r' by simp
qed

lemma spool_ok_grow_drop:
  assumes "spool_ok pending (b, add_mset t0 M)" "reserved t0 = su_reservation u"
    and "cover n u b = Inr (b', u')"
  shows "spool_ok pending (drop_reservation (su_reservation u') b', M)"
proof -
  let ?t = "Staged \<lparr>sg_source = [], sg_info = undefined, sg_reservation = su_reservation u'\<rparr>"
  have "spool_ok pending (b', add_mset ?t M)"
    by (rule spool_ok_grow [OF assms]) simp_all
  from spool_ok_drop [OF this] show ?thesis by simp
qed

lemma cover_stage:
  assumes "cover n u b = Inr (b', u')"
  shows "su_stage u' = su_stage u" "su_plaintext u' = su_plaintext u"
  using assms by (auto simp: cover_def Let_def map_ok_Inr_iff)

lemma cover_covers:
  assumes "cover n u b = Inr (b', u')"
  shows "unat n \<le> unat (su_reservation u')"
proof -
  have "su_reservation u' = max n (su_reservation u)"
    using assms by (auto simp: cover_def Let_def try_grow_def map_ok_Inr_iff add_saturating_sub)
  then show ?thesis by (simp add: max_def word_le_nat_alt)
qed

lemma held_small:
  assumes "spool_ok pending (b, add_mset t M)"
  shows "unat (reserved t) < 2 ^ 63"
proof -
  have "unat (reserved t) \<le> unat (sb_held b)" "unat (sb_held b) \<le> unat (sb_max_bytes b)"
    "unat (sb_max_bytes b) < 2 ^ 63"
    using assms by (simp_all add: word_le_nat_alt bounded_budget_def)
  then show ?thesis by linarith
qed

lemma plaintext_grows:
  assumes ok: "spool_ok pending (b, add_mset (Uploading u) M)" and n: "n < 2 ^ 63"
  shows "unat (su_plaintext u + of_nat n) = unat (su_plaintext u) + n"
proof -
  have "unat (su_plaintext u) < 2 ^ 63" using held_small [OF ok] ok by simp
  moreover have "unat (of_nat n :: u64) = n" using n by (simp add: unat_of_nat)
  ultimately show ?thesis using n by (subst unat_add_small) simp_all
qed

lemma push_ok:
  fixes N :: "('c, 'i) encryptor" and M :: "('c, 'i) transfer multiset"
  assumes law: "encryptor_ok N pending" and ok: "spool_ok pending (b, add_mset (Uploading u) M)"
    and run: "push N disk chunk (u, b) = ((u', b'), Inr ())" and n: "length chunk < 2 ^ 63"
  shows "spool_ok pending (b', add_mset (Uploading u') M)"
proof -
  define u1 where "u1 = u\<lparr>su_plaintext := su_plaintext u + of_nat (length chunk)\<rparr>"
  from run obtain b2 u2 st c out where cov: "cover (su_plaintext u1) u1 b = Inr (b2, u2)"
    and st: "su_stage u2 = Some st" and upd: "enc_update N (st_encryptor st) chunk = Inr (c, out)"
    and u': "u' = u2\<lparr>su_stage := Some \<lparr>st_encryptor = c, st_file = st_file st @ out\<rparr>\<rparr>" and b': "b' = b2"
    by (auto simp: push_def Let_def u1_def split: sum.splits option.splits)
  have st0: "su_stage u = Some st" and p: "su_plaintext u2 = su_plaintext u1"
    using cover_stage [OF cov] st by (simp_all add: u1_def)
  have fed: "length out + pending c \<le> pending (st_encryptor st) + length chunk"
    using law upd by (auto simp: encryptor_ok_def)
  have "unat (su_plaintext u1) = unat (su_plaintext u) + length chunk"
    using plaintext_grows [OF ok n] by (simp add: u1_def)
  then have t: "transfer_ok pending (Uploading u' :: ('c, 'i) transfer)"
    using ok st0 fed cover_covers [OF cov] by (simp add: u' p)
  show ?thesis
    unfolding b' by (rule spool_ok_grow [OF ok _ cov t]) (simp_all add: u1_def u')
qed

lemma push_failed_ok:
  assumes ok: "spool_ok pending (b, add_mset (Uploading u) M)"
    and run: "push N disk chunk (u, b) = ((u', b'), Inl e)"
  shows "spool_ok pending (drop_reservation (su_reservation u') b', M)"
proof -
  define u1 where "u1 = u\<lparr>su_plaintext := su_plaintext u + of_nat (length chunk)\<rparr>"
  from run consider "su_reservation u' = su_reservation u" "b' = b"
    | b2 u2 where "cover (su_plaintext u1) u1 b = Inr (b2, u2)" "su_reservation u' = su_reservation u2" "b' = b2"
    by (auto simp: push_def Let_def u1_def split: sum.splits option.splits prod.splits)
  then show ?thesis
  proof cases
    case 1
    with spool_ok_drop [OF ok] show ?thesis by simp
  next
    case 2
    with spool_ok_grow_drop [OF ok _ 2(1)] show ?thesis by (simp add: u1_def)
  qed
qed

lemma finish_ok:
  assumes law: "encryptor_ok N pending" and ok: "spool_ok pending (b, add_mset (Uploading u) M)"
    and run: "finish_upload N disk u b = (b', Inr g)"
  shows "spool_ok pending (b', add_mset (Staged g) M)"
proof -
  from run obtain u2 st out info where cov: "cover (su_plaintext u + CIPHERTEXT_OVERHEAD) u b = Inr (b', u2)"
    and st: "su_stage u2 = Some st" and fin: "enc_finalize N (st_encryptor st) = Inr (out, info)"
    and g: "g = \<lparr>sg_source = st_file st @ out, sg_info = info, sg_reservation = su_reservation u2\<rparr>"
    by (auto simp: finish_upload_def map_ok_def split: sum.splits option.splits)
  have "length out \<le> pending (st_encryptor st) + unat CIPHERTEXT_OVERHEAD"
    using law fin by (auto simp: encryptor_ok_def)
  moreover have "unat (su_plaintext u + CIPHERTEXT_OVERHEAD) = unat (su_plaintext u) + 26"
    using plaintext_grows [OF ok, of 26] by (simp add: CIPHERTEXT_OVERHEAD_def)
  moreover have "su_stage u = Some st" using cover_stage [OF cov] st by simp
  ultimately have t: "transfer_ok pending (Staged g)"
    using ok cover_covers [OF cov] by (simp add: g CIPHERTEXT_OVERHEAD_def)
  show ?thesis by (rule spool_ok_grow [OF ok _ cov t]) (simp_all add: g)
qed

lemma finish_failed_ok:
  assumes ok: "spool_ok pending (b, add_mset (Uploading u) M)"
    and run: "finish_upload N disk u b = (b', Inl e)"
  shows "spool_ok pending (b', M)"
proof -
  from run consider "b' = drop_reservation (su_reservation u) b"
    | b2 u2 where "cover (su_plaintext u + CIPHERTEXT_OVERHEAD) u b = Inr (b2, u2)"
        "b' = drop_reservation (su_reservation u2) b2"
    by (auto simp: finish_upload_def split: sum.splits option.splits prod.splits)
  then show ?thesis
  proof cases
    case 1
    with spool_ok_drop [OF ok] show ?thesis by simp
  next
    case 2
    with spool_ok_grow_drop [OF ok _ 2(1)] show ?thesis by simp
  qed
qed

lemma length_file_write: "length (file_write p bs f) \<le> max (length f) (p + length bs)"
  by (auto simp: file_write_def)

lemma bounded_write_ok:
  assumes run: "bounded_write taken buf w = (w', r)" and n: "length buf < 2 ^ 63"
    and w: "length (bf_file w) \<le> unat (bf_limit w)" "unat (bf_limit w) < 2 ^ 63"
  shows "bf_limit w' = bf_limit w \<and> length (bf_file w') \<le> unat (bf_limit w)"
proof (cases "w' = w")
  case False
  with run obtain k where fits: "saturating_add (bf_position w) (of_nat (length buf)) \<le> bf_limit w"
    and w': "bf_file w' = file_write (unat (bf_position w)) (take k buf) (bf_file w)" "bf_limit w' = bf_limit w"
    by (auto simp: bounded_write_def Let_def split: if_splits sum.splits)
  have "unat (of_nat (length buf) :: u64) = length buf" using n by (simp add: unat_of_nat)
  then have "unat (bf_position w) + length buf \<le> unat (bf_limit w)"
    using fits w(2) by (auto simp: word_le_nat_alt unat_saturating_add)
  then show ?thesis
    using w' w(1) length_file_write [of "unat (bf_position w)" "take k buf" "bf_file w"] by auto
qed (use w in simp)

lemma begin_download_ok:
  assumes ok: "spool_ok pending (b, M)" and run: "begin_download disk n b = (b', r)"
  shows "case r of Inl _ \<Rightarrow> b' = b | Inr s \<Rightarrow> spool_ok pending (b', add_mset (Downloading s) M)"
proof -
  have bb: "bounded_budget (sb_max_bytes b)" using ok by simp
  show ?thesis
  proof (cases "claim n b")
    case (Inl e)
    with run show ?thesis by (auto simp: begin_download_def try_reserve_def)
  next
    case (Inr b1)
    with claim_Inr_iff [OF bb, of n b1] have b1: "b1 = b\<lparr>sb_held := sb_held b + n\<rparr>"
      and fits: "unat (sb_held b) + unat n \<le> unat (sb_max_bytes b)" by simp_all
    show ?thesis
    proof (cases disk)
      case None
      with run Inr have b': "b' = b1"
        and r: "r = Inr \<lparr>ds_writer = \<lparr>bf_file = [], bf_position = 0, bf_limit = n\<rparr>, ds_reservation = n\<rparr>"
        by (auto simp: begin_download_def try_reserve_def create_file_def)
      show ?thesis unfolding r b' b1 sum.case by (rule spool_ok_reserve [OF ok fits]) simp_all
    next
      case (Some e)
      with run Inr show ?thesis
        by (auto simp: begin_download_def try_reserve_def create_file_def b1 drop_reservation_undo)
    qed
  qed
qed

lemma begin_upload_ok:
  assumes law: "encryptor_ok N pending" and ok: "spool_ok pending (b, M)"
    and run: "begin_upload N disk sidecar b = Inr (b', u)"
  shows "spool_ok pending (b', add_mset (Uploading u) M)"
proof -
  have bb: "bounded_budget (sb_max_bytes b)" using ok by simp
  from run obtain c where c: "enc_new N sidecar = Inr c"
    and u: "u = \<lparr>su_stage = Some \<lparr>st_encryptor = c, st_file = []\<rparr>, su_reservation = 0, su_plaintext = 0\<rparr>"
    and b': "claim 0 b = Inr b'"
    by (cases "enc_new N sidecar")
      (auto simp: begin_upload_def and_then_Inr_iff try_reserve_def map_ok_Inr_iff create_file_def split: option.splits)
  have "pending c = 0" using law c by (auto simp: encryptor_ok_def)
  then show ?thesis using ok b' claim_Inr_iff [OF bb, of 0 b'] by (simp add: u)
qed

lemma spool_step_ok:
  assumes law: "encryptor_ok N pending" and step: "spool_step N s s'" and ok: "spool_ok pending s"
  shows "spool_ok pending s'"
  using step ok
proof cases
  case (Begin_Upload disk sidecar b b' u M)
  with begin_upload_ok [OF law] ok show ?thesis by blast
next
  case (Push disk chunk u b u' b' M)
  with push_ok [OF law] ok show ?thesis by blast
next
  case (Push_Failed disk chunk u b u' b' e M)
  with push_failed_ok ok show ?thesis by blast
next
  case (Finish disk u b b' g M)
  with finish_ok [OF law] ok show ?thesis by blast
next
  case (Finish_Failed disk u b b' e M)
  with finish_failed_ok ok show ?thesis by blast
next
  case (Begin_Download disk n b b' d M)
  with begin_download_ok [of pending b M disk n b' "Inr d"] ok show ?thesis by simp
next
  case (Begin_Download_Failed disk n b b' e M)
  with begin_download_ok [of pending b M disk n b' "Inl e"] ok show ?thesis by simp
next
  case (Write taken buf d w r b M)
  have "unat (ds_reservation d) < 2 ^ 63" using held_small [of pending b "Downloading d" M] ok Write(1) by simp
  moreover have "transfer_ok pending (Downloading d :: ('a, 'b) transfer)" using ok Write(1) by simp
  ultimately have "bf_limit w = ds_reservation d \<and> length (bf_file w) \<le> unat (ds_reservation d)"
    using bounded_write_ok [OF Write(3,4)] by simp
  then show ?thesis using ok Write(1,2) by simp
next
  case (Seek to d w r b M)
  then have "bf_limit w = bf_limit (ds_writer d)" "bf_file w = bf_file (ds_writer d)"
    by (auto simp: bounded_seek_def split: sum.splits)
  then show ?thesis using ok Seek(1,2) by simp
next
  case (Truncate len d b M)
  then show ?thesis using ok by (simp add: bounded_truncate_def word_le_nat_alt)
next
  case (Seal disk d e b M)
  then show ?thesis using ok by (auto simp: seal_download_def split: option.splits)
next
  case (Drop b t M)
  with spool_ok_drop ok show ?thesis by blast
qed

lemma spool_steps_ok:
  assumes "(spool_step N)\<^sup>*\<^sup>* s s'" and "encryptor_ok N pending" and "spool_ok pending s"
  shows "spool_ok pending s'"
  using assms by (induction rule: rtranclp_induct) (auto intro: spool_step_ok)

lemma spool_step_max: "spool_step N s s' \<Longrightarrow> sb_max_bytes (fst s') = sb_max_bytes (fst s)"
  by (cases rule: spool_step.cases, assumption)
    (auto simp: begin_upload_def push_def finish_upload_def begin_download_def cover_def try_grow_def try_reserve_def
      claim_def and_then_Inr_iff map_ok_Inr_iff create_file_def drop_reservation_def Let_def
      split: sum.splits option.splits if_splits)

lemma spool_steps_max: "(spool_step N)\<^sup>*\<^sup>* s s' \<Longrightarrow> sb_max_bytes (fst s') = sb_max_bytes (fst s)"
  by (induction rule: rtranclp_induct) (auto dest: spool_step_max)

lemma files_within: "\<forall>t\<in>#M. transfer_ok pending t \<Longrightarrow> (\<Sum>t\<in>#M. length (on_disk t)) \<le> (\<Sum>t\<in>#M. unat (reserved t))"
  by (induction M) (auto dest: on_disk_within)

text \<open>Truncating is the one call that does not look at the limit: it can make the file longer than it.\<close>

lemma truncate_outgrows_limit:
  "\<exists>w len. length (bf_file w) \<le> unat (bf_limit w) \<and> unat (bf_limit w) < length (bf_file (bounded_truncate len w))"
  by (rule exI [of _ "\<lparr>bf_file = [], bf_position = 0, bf_limit = 1\<rparr>"], rule exI [of _ 2])
    (simp add: bounded_truncate_def)

section \<open>The property\<close>


definition demo_encryptor :: "(unit, unit) encryptor" where
  "demo_encryptor = \<lparr>enc_new = (\<lambda>_. Inr ()), enc_update = (\<lambda>_ chunk. Inr ((), chunk)),
     enc_finalize = (\<lambda>_. Inr (replicate 10 0, ()))\<rparr>"

definition demo_uploading :: "bytes \<Rightarrow> (unit, unit) transfer" where
  "demo_uploading bs = Uploading \<lparr>su_stage = Some \<lparr>st_encryptor = (), st_file = bs\<rparr>,
     su_reservation = of_nat (length bs), su_plaintext = of_nat (length bs)\<rparr>"

lemma demo_encryptor_ok: "encryptor_ok demo_encryptor (\<lambda>_. 0)"
  by (simp add: encryptor_ok_def demo_encryptor_def CIPHERTEXT_OVERHEAD_def)

lemma demo_upload_run:
  "(spool_step demo_encryptor)\<^sup>*\<^sup>* (budget_new 100, {#}) (\<lparr>sb_max_bytes = 100, sb_held = 3\<rparr>, {#demo_uploading [1, 2, 3]#})"
proof (rule converse_rtranclp_into_rtranclp)
  have "begin_upload demo_encryptor None False (budget_new 100) = Inr (budget_new 100, (case demo_uploading [] of Uploading u \<Rightarrow> u))"
    by code_simp
  from Begin_Upload [OF this, of "{#}"]
  show "spool_step demo_encryptor (budget_new 100, {#}) (budget_new 100, {#demo_uploading []#})"
    by (simp add: demo_uploading_def)
next
  have "push demo_encryptor None [1, 2, 3] (case demo_uploading [] of Uploading u \<Rightarrow> u, budget_new 100) =
      ((case demo_uploading [1, 2, 3] of Uploading u \<Rightarrow> u, \<lparr>sb_max_bytes = 100, sb_held = 3\<rparr>), Inr ())"
    by code_simp
  from Push [OF this, of "{#}"]
  have "spool_step demo_encryptor (budget_new 100, {#demo_uploading []#}) (\<lparr>sb_max_bytes = 100, sb_held = 3\<rparr>, {#demo_uploading [1, 2, 3]#})"
    by (simp add: demo_uploading_def)
  then show "(spool_step demo_encryptor)\<^sup>*\<^sup>* (budget_new 100, {#demo_uploading []#}) (\<lparr>sb_max_bytes = 100, sb_held = 3\<rparr>, {#demo_uploading [1, 2, 3]#})"
    by simp
qed


end
