(* ===== verification/Media_Streams.thy ===== *)
theory Media_Streams
  imports Media_Budget
begin

text \<open>
  The media streams: a staged upload is the encryption of exactly the bytes its stream carried, a
  download is streamed back whole and in order.
\<close>

section \<open>Staging a stream\<close>

text \<open>What the stream should become: the encryptor run over its byte chunks in order.\<close>

primrec encrypt_chunks :: "('c, 'i) encryptor \<Rightarrow> bytes list \<Rightarrow> 'c \<Rightarrow> string + 'c \<times> bytes" where
  "encrypt_chunks N [] c = Inr (c, [])"
| "encrypt_chunks N (x # xs) c =
     and_then (enc_update N c x) (\<lambda>(c', out). map_ok (\<lambda>(c'', rest). (c'', out @ rest)) (encrypt_chunks N xs c'))"

definition encrypt_whole :: "('c, 'i) encryptor \<Rightarrow> bool \<Rightarrow> bytes list \<Rightarrow> string + bytes \<times> 'i" where
  "encrypt_whole N sidecar xs =
     and_then (enc_new N sidecar) (\<lambda>c. and_then (encrypt_chunks N xs c) (\<lambda>(c', out).
       map_ok (\<lambda>(rest, info). (out @ rest, info)) (enc_finalize N c')))"

fun frame_bytes :: "'h media_frame list \<Rightarrow> bytes list" where
  "frame_bytes [] = []"
| "frame_bytes (FrameBytes bs # fs) = bs # frame_bytes fs"
| "frame_bytes (_ # fs) = frame_bytes fs"

abbreviation payload :: "'h media_frame list \<Rightarrow> nat" where
  "payload fs \<equiv> sum_list (map length (frame_bytes fs))"

definition is_header :: "'h media_frame \<Rightarrow> bool" where
  "is_header f \<longleftrightarrow> (case f of FrameHeader _ \<Rightarrow> True | _ \<Rightarrow> False)"

text \<open>The upload between two frames: it holds exactly the plaintext it was given.\<close>

definition staging :: "spool_budget \<Rightarrow> u64 \<Rightarrow> 'c \<Rightarrow> bytes \<Rightarrow> 'c spooled_upload \<times> spool_budget" where
  "staging b r c file =
     (\<lparr>su_stage = Some \<lparr>st_encryptor = c, st_file = file\<rparr>, su_reservation = r, su_plaintext = r\<rparr>,
      b\<lparr>sb_held := sb_held b + r\<rparr>)"

definition room_for :: "spool_budget \<Rightarrow> nat \<Rightarrow> bool" where
  "room_for b n \<longleftrightarrow> bounded_budget (sb_max_bytes b) \<and> unat (sb_held b) + n \<le> unat (sb_max_bytes b)"

lemma room_forD:
  assumes "room_for b n"
  shows "bounded_budget (sb_max_bytes b)" "unat (sb_held b) + n \<le> unat (sb_max_bytes b)" "n < 2 ^ 63"
  using assms by (auto simp: room_for_def bounded_budget_def)

lemma unat_grow:
  assumes "room_for b (unat (r :: u64))" and "n < 2 ^ 63"
  shows "unat (r + of_nat n) = unat r + n"
proof -
  have "unat (of_nat n :: u64) = n" using assms(2) by (simp add: unat_of_nat)
  then show ?thesis using assms(2) room_forD(3) [OF assms(1)] by (subst unat_add_small) simp_all
qed

text \<open>Raising the reservation from \<open>r\<close> to \<open>r + n\<close> on a budget that holds \<open>r\<close> for it.\<close>

lemma cover_staging:
  assumes fits: "room_for b (unat r)" and n: "n < 2 ^ 63" and u: "su_reservation u = r"
  shows "cover (r + of_nat n) u (b\<lparr>sb_held := sb_held b + r\<rparr>) =
    (if room_for b (unat r + n)
     then Inr (b\<lparr>sb_held := sb_held b + (r + of_nat n)\<rparr>, u\<lparr>su_reservation := r + of_nat n\<rparr>)
     else Inl (ResourceExhausted ''media spool budget exhausted''))"
proof -
  let ?b = "b\<lparr>sb_held := sb_held b + r\<rparr>" and ?n = "r + of_nat n"
  have bb: "bounded_budget (sb_max_bytes ?b)" using room_forD(1) [OF fits] by simp
  have held: "unat (sb_held b + r) = unat (sb_held b) + unat r"
    using room_forD(1,2) [OF fits] by (intro unat_add_small) (simp add: bounded_budget_def)
  have nn: "unat ?n = unat r + n" by (rule unat_grow [OF fits n])
  then have r: "r \<le> ?n" by (simp add: word_le_nat_alt)
  then have m: "max ?n r = ?n" "saturating_sub ?n r = of_nat n"
    by (auto simp: max_def saturating_sub_def)
  have iff: "cover ?n u ?b = Inr (b', u') \<longleftrightarrow> room_for b (unat r + n) \<and>
      u' = u\<lparr>su_reservation := ?n\<rparr> \<and> b' = b\<lparr>sb_held := sb_held b + ?n\<rparr>" for b' u'
    using cover_Inr_iff [OF bb, of ?n u b' u'] bb held nn m u
    by (auto simp: room_for_def add.assoc)
  show ?thesis
  proof (cases "cover ?n u ?b")
    case (Inl e)
    then have "\<not> room_for b (unat r + n)" using iff by auto
    moreover have "e = ResourceExhausted ''media spool budget exhausted''"
      using Inl claim_Inl by (auto simp: cover_def Let_def try_grow_def map_ok_def split: sum.splits)
    ultimately show ?thesis using Inl by simp
  next
    case (Inr p)
    then show ?thesis using iff [of "fst p" "snd p"] by (cases p) auto
  qed
qed

lemma push_staging:
  assumes fits: "room_for b (unat r)" and n: "length bs < 2 ^ 63"
  shows "\<exists>u' b'. push N disk bs (staging b r c file) =
    (case (if room_for b (unat r + length bs)
           then map_err Other (case disk of Some e \<Rightarrow> Inl e | None \<Rightarrow> enc_update N c bs)
           else Inl (ResourceExhausted ''media spool budget exhausted'')) of
       Inl e \<Rightarrow> ((u', b'), Inl e)
     | Inr (c', out) \<Rightarrow> (staging b (r + of_nat (length bs)) c' (file @ out), Inr ())) \<and>
    drop_reservation (su_reservation u') b' = b"
proof -
  let ?u = "\<lparr>su_stage = Some \<lparr>st_encryptor = c, st_file = file\<rparr>, su_reservation = r,
      su_plaintext = r + of_nat (length bs)\<rparr>"
  have cov: "cover (r + of_nat (length bs)) ?u (b\<lparr>sb_held := sb_held b + r\<rparr>) =
    (if room_for b (unat r + length bs)
     then Inr (b\<lparr>sb_held := sb_held b + (r + of_nat (length bs))\<rparr>, ?u\<lparr>su_reservation := r + of_nat (length bs)\<rparr>)
     else Inl (ResourceExhausted ''media spool budget exhausted''))"
    by (rule cover_staging [OF fits n]) simp
  define out where "out = (case disk of Some e \<Rightarrow> Inl e | None \<Rightarrow> enc_update N c bs)"
  show ?thesis
  proof (cases "room_for b (unat r + length bs)")
    case False
    then show ?thesis
      using cov by (intro exI [of _ ?u] exI [of _ "b\<lparr>sb_held := sb_held b + r\<rparr>"])
        (simp add: push_def staging_def drop_reservation_undo)
  next
    case True
    then have run: "push N disk bs (staging b r c file) =
       (case out of
          Inl e \<Rightarrow> ((?u\<lparr>su_reservation := r + of_nat (length bs), su_stage := None\<rparr>,
                     b\<lparr>sb_held := sb_held b + (r + of_nat (length bs))\<rparr>), Inl (Other e))
        | Inr (c', x) \<Rightarrow> (staging b (r + of_nat (length bs)) c' (file @ x), Inr ()))"
      using cov by (cases disk) (auto simp: push_def staging_def out_def split: sum.splits)
    show ?thesis
      unfolding run out_def [symmetric]
      by (intro exI [of _ "?u\<lparr>su_reservation := r + of_nat (length bs), su_stage := None\<rparr>"]
          exI [of _ "b\<lparr>sb_held := sb_held b + (r + of_nat (length bs))\<rparr>"])
        (cases out; use True in \<open>simp add: drop_reservation_undo\<close>)
  qed
qed

lemma stage_frames_run:
  assumes "stage_frames N disk most ending r fs (staging b r c fl) = ((u', b'), res)"
    and "room_for b (unat r)" and "r \<le> most" and "\<forall>bs\<in>set (frame_bytes fs). length bs < 2 ^ 63"
  shows "case res of
     Inl e \<Rightarrow> drop_reservation (su_reservation u') b' = b
   | Inr _ \<Rightarrow> ending = None \<and> (\<forall>f\<in>set fs. \<not> is_header f) \<and> unat r + payload fs \<le> unat most \<and>
      (\<exists>r' c' out. unat r' = unat r + payload fs \<and> room_for b (unat r') \<and>
         encrypt_chunks N (frame_bytes fs) c = Inr (c', out) \<and> (u', b') = staging b r' c' (fl @ out))"
  using assms
proof (induction fs arbitrary: r c fl)
  case Nil
  then show ?case
    by (cases ending) (auto simp: staging_def drop_reservation_undo word_le_nat_alt)
next
  case (Cons f fs)
  show ?case
  proof (cases f)
    case (FrameHeader h)
    with Cons.prems(1) show ?thesis by (auto simp: staging_def drop_reservation_undo)
  next
    case FrameEmpty
    with Cons show ?thesis by (auto simp: is_header_def split: sum.splits)
  next
    case (FrameBytes bs)
    let ?r = "r + of_nat (length bs)"
    have n: "length bs < 2 ^ 63" using Cons.prems(4) FrameBytes by simp
    have r: "unat ?r = unat r + length bs" by (rule unat_grow [OF Cons.prems(2) n])
    obtain u1 b1 where run: "push N (disk (length fs)) bs (staging b r c fl) =
        (case (if room_for b (unat r + length bs)
               then map_err Other (case disk (length fs) of Some e \<Rightarrow> Inl e | None \<Rightarrow> enc_update N c bs)
               else Inl (ResourceExhausted ''media spool budget exhausted'')) of
           Inl e \<Rightarrow> ((u1, b1), Inl e)
         | Inr (c', out) \<Rightarrow> (staging b ?r c' (fl @ out), Inr ()))"
      and undo: "drop_reservation (su_reservation u1) b1 = b"
      using push_staging [OF Cons.prems(2) n] by metis
    consider (big) "most < ?r"
      | (failed) e where "push N (disk (length fs)) bs (staging b r c fl) = ((u1, b1), Inl e)" "?r \<le> most"
      | (pushed) c' out where "push N (disk (length fs)) bs (staging b r c fl) = (staging b ?r c' (fl @ out), Inr ())"
          "room_for b (unat ?r)" "enc_update N c bs = Inr (c', out)" "?r \<le> most"
      using run r by (fastforce split: if_splits option.splits sum.splits simp: map_err_def)
    then show ?thesis
    proof cases
      case big
      with Cons.prems(1) FrameBytes show ?thesis by (auto simp: staging_def drop_reservation_undo)
    next
      case failed
      with Cons.prems(1) FrameBytes undo show ?thesis by (auto simp: not_less [symmetric])
    next
      case pushed
      with Cons.prems(1) FrameBytes
      have rest: "stage_frames N disk most ending ?r fs (staging b ?r c' (fl @ out)) = ((u', b'), res)"
        by (auto simp: not_less [symmetric] Let_def split: prod.splits)
      from Cons.IH [OF rest pushed(2,4)] Cons.prems(4) FrameBytes pushed(3) r show ?thesis
        by (cases res) (auto simp: is_header_def add.assoc)
    qed
  qed
qed

lemma stage_frames_total:
  assumes "ending = None" and "\<forall>n. disk n = None" and "\<forall>f\<in>set fs. \<not> is_header f"
    and "encrypt_chunks N (frame_bytes fs) c = Inr (c', out)"
    and "room_for b (unat r + payload fs)" and "unat r + payload fs \<le> unat most"
    and "\<forall>bs\<in>set (frame_bytes fs). length bs < 2 ^ 63"
  shows "\<exists>r'. unat r' = unat r + payload fs \<and>
    stage_frames N disk most ending r fs (staging b r c fl) = (staging b r' c' (fl @ out), Inr ())"
  using assms
proof (induction fs arbitrary: r c fl out)
  case Nil
  then show ?case by auto
next
  case (Cons f fs)
  show ?case
  proof (cases f)
    case (FrameHeader h)
    with Cons.prems(3) show ?thesis by (simp add: is_header_def)
  next
    case FrameEmpty
    with Cons show ?thesis by auto
  next
    case (FrameBytes bs)
    let ?r = "r + of_nat (length bs)"
    have n: "length bs < 2 ^ 63" using Cons.prems(7) FrameBytes by simp
    have fits: "room_for b (unat r)" "room_for b (unat r + length bs)"
      using Cons.prems(5) FrameBytes by (auto simp: room_for_def)
    have r: "unat ?r = unat r + length bs" by (rule unat_grow [OF fits(1) n])
    obtain c1 o1 o2 where u: "enc_update N c bs = Inr (c1, o1)"
      and rest: "encrypt_chunks N (frame_bytes fs) c1 = Inr (c', o2)" and out: "out = o1 @ o2"
      using Cons.prems(4) FrameBytes by (auto simp: and_then_Inr_iff map_ok_Inr_iff)
    have pushed: "push N (disk (length fs)) bs (staging b r c fl) = (staging b ?r c1 (fl @ o1), Inr ())"
      using push_staging [OF fits(1) n, of N "disk (length fs)" c fl] fits(2) u Cons.prems(2) by auto
    have small: "\<not> most < ?r" using Cons.prems(6) FrameBytes r by (simp add: word_less_nat_alt)
    have "\<exists>r'. unat r' = unat ?r + payload fs \<and>
        stage_frames N disk most ending ?r fs (staging b ?r c1 (fl @ o1)) = (staging b r' c' ((fl @ o1) @ o2), Inr ())"
      using Cons.prems FrameBytes r by (intro Cons.IH) (use rest in \<open>simp_all add: add.assoc\<close>)
    then show ?thesis using FrameBytes pushed small r out by (simp add: Let_def add.assoc)
  qed
qed

lemma finish_staging:
  assumes fits: "room_for b (unat r)" and ub: "(u, b1) = staging b r c fl"
  shows "finish_upload N disk u b1 =
    (case (if room_for b (unat r + 26)
           then map_err Other (case disk of Some e \<Rightarrow> Inl e | None \<Rightarrow> enc_finalize N c)
           else Inl (ResourceExhausted ''media spool budget exhausted'')) of
       Inl e \<Rightarrow> (b, Inl e)
     | Inr (out, info) \<Rightarrow>
         (b\<lparr>sb_held := sb_held b + (r + 26)\<rparr>, Inr \<lparr>sg_source = fl @ out, sg_info = info, sg_reservation = r + 26\<rparr>))"
proof -
  have u: "u = \<lparr>su_stage = Some \<lparr>st_encryptor = c, st_file = fl\<rparr>, su_reservation = r, su_plaintext = r\<rparr>"
    and b1: "b1 = b\<lparr>sb_held := sb_held b + r\<rparr>" using ub by (simp_all add: staging_def)
  have "cover (r + 26) u b1 =
    (if room_for b (unat r + 26)
     then Inr (b\<lparr>sb_held := sb_held b + (r + 26)\<rparr>, u\<lparr>su_reservation := r + 26\<rparr>)
     else Inl (ResourceExhausted ''media spool budget exhausted''))"
    using cover_staging [OF fits, of 26 u] by (simp add: u b1)
  then show ?thesis
    by (cases "disk"; cases "enc_finalize N c")
      (auto simp: finish_upload_def CIPHERTEXT_OVERHEAD_def u b1 drop_reservation_undo)
qed

lemma begin_staging:
  assumes "room_for b 0"
  shows "begin_upload N disk sidecar b =
    and_then (map_err Other (enc_new N sidecar)) (\<lambda>c. case disk of
       Some e \<Rightarrow> Inl (Other e)
     | None \<Rightarrow> Inr (b, fst (staging b 0 c [])))"
proof -
  have "try_reserve 0 b = Inr (b, 0)"
    using claim_Inr_iff [OF room_forD(1) [OF assms], of 0 b] room_forD(2) [OF assms] by (simp add: try_reserve_def)
  then show ?thesis
    by (cases "enc_new N sidecar"; cases disk) (simp_all add: begin_upload_def create_file_def staging_def)
qed

lemma stage_upload_sound:
  assumes room: "room_for b 0" and small: "\<forall>bs\<in>set (frame_bytes fs). length bs < 2 ^ 63"
  shows "case stage_upload N disk sidecar most fs ending b of
      (b', Inl _) \<Rightarrow> b' = b
    | (b', Inr g) \<Rightarrow>
        ending = None \<and> (\<forall>f\<in>set fs. \<not> is_header f) \<and> payload fs \<le> unat most \<and>
        encrypt_whole N sidecar (frame_bytes fs) = Inr (sg_source g, sg_info g) \<and>
        unat (sg_reservation g) = payload fs + 26 \<and> b' = b\<lparr>sb_held := sb_held b + sg_reservation g\<rparr>"
proof (cases "begin_upload N (disk (Suc (length fs))) sidecar b")
  case (Inl e)
  then show ?thesis by (simp add: stage_upload_def)
next
  case (Inr p)
  then obtain c where c: "enc_new N sidecar = Inr c" and p: "p = (b, fst (staging b 0 c []))"
    by (cases "enc_new N sidecar") (auto simp: begin_staging [OF room] split: option.splits)
  have start: "(fst (staging b 0 c []), b) = staging b 0 c []" by (simp add: staging_def)
  obtain u1 b1 res where run: "stage_frames N disk most ending 0 fs (staging b 0 c []) = ((u1, b1), res)"
    by (metis prod.exhaust)
  note frames = stage_frames_run [OF run _ _ small]
  show ?thesis
  proof (cases res)
    case (Inl e)
    then show ?thesis using Inr p start run frames room by (simp add: stage_upload_def)
  next
    case res: (Inr x)
    then obtain r c' out where ok: "ending = None" "\<forall>f\<in>set fs. \<not> is_header f" "payload fs \<le> unat most"
      and r: "unat r = payload fs" "room_for b (unat r)" and enc: "encrypt_chunks N (frame_bytes fs) c = Inr (c', out)"
      and st: "(u1, b1) = staging b r c' out"
      using frames room by auto
    have up: "stage_upload N disk sidecar most fs ending b = finish_upload N (disk (length fs)) u1 b1"
      using Inr p start run res by (simp add: stage_upload_def)
    show ?thesis
      using finish_staging [OF r(2) st, of N "disk (length fs)"] unat_grow [OF r(2), of 26] ok r enc c
      unfolding up
      by (cases "disk (length fs)"; cases "enc_finalize N c'") (auto simp: encrypt_whole_def)
  qed
qed

lemma stage_upload_total:
  assumes room: "room_for b 0" and small: "\<forall>bs\<in>set (frame_bytes fs). length bs < 2 ^ 63"
    and "ending = None" "\<forall>n. disk n = None" "\<forall>f\<in>set fs. \<not> is_header f" "payload fs \<le> unat most"
      "room_for b (payload fs + 26)" "is_ok (encrypt_whole N sidecar (frame_bytes fs))"
  shows "is_ok (snd (stage_upload N disk sidecar most fs ending b))"
proof -
  obtain c c' out fin info where c: "enc_new N sidecar = Inr c"
    and enc: "encrypt_chunks N (frame_bytes fs) c = Inr (c', out)" and fin: "enc_finalize N c' = Inr (fin, info)"
    using assms(8) by (auto simp: is_ok_iff encrypt_whole_def and_then_Inr_iff map_ok_Inr_iff)
  have fits: "room_for b (unat (0 :: u64) + payload fs)" "unat (0 :: u64) + payload fs \<le> unat most"
    using assms(6,7) by (auto simp: room_for_def)
  obtain r where r: "unat r = payload fs"
    and run: "stage_frames N disk most ending 0 fs (staging b 0 c []) = (staging b r c' out, Inr ())"
    using stage_frames_total [OF assms(3,4,5) enc fits small, of "[]"] by auto
  obtain u1 b1 where st: "(u1, b1) = staging b r c' out" by (metis prod.collapse)
  have first: "begin_upload N None sidecar b = Inr (b, fst (staging b 0 c []))"
    by (simp add: begin_staging [OF room] c)
  have start: "(fst (staging b 0 c []), b) = staging b 0 c []" by (simp add: staging_def)
  have "stage_upload N disk sidecar most fs ending b = finish_upload N None u1 b1"
    using first start run st [symmetric] assms(4) by (simp add: stage_upload_def)
  moreover have "room_for b (unat r)" "room_for b (unat r + 26)" using assms(7) r by (auto simp: room_for_def)
  ultimately show ?thesis using finish_staging [OF _ st, of N None] fin by simp
qed

lemma claim_held:
  assumes "room_for b 0" and "claim n b = Inr b'"
  shows "unat (in_flight b') = unat (in_flight b) + unat n"
proof -
  have bb: "bounded_budget (sb_max_bytes b)" using assms(1) by (simp add: room_for_def)
  from assms(2) claim_Inr_iff [OF bb, of n b'] have "unat (sb_held b) + unat n \<le> unat (sb_max_bytes b)"
    and b': "b' = b\<lparr>sb_held := sb_held b + n\<rparr>" by simp_all
  then have "unat (sb_held b + n) = unat (sb_held b) + unat n"
    using bb by (intro unat_add_small) (simp add: bounded_budget_def)
  then show ?thesis by (simp add: b' in_flight_def)
qed

lemma download_Inr:
  assumes "download disk disk' params fetch file_length most b = (b', Inr d)"
  shows "sd_len d = of_nat (length (sd_file d)) \<and> file_length \<le> most \<and>
    sd_reservation d = (if file_length = 0 then most else file_length) \<and> claim (sd_reservation d) b = Inr b'"
  using assms
  by (auto simp: download_def begin_download_def try_reserve_def seal_download_def and_then_def map_ok_def not_less
      split: if_splits sum.splits prod.splits option.splits)

section \<open>Streaming a download\<close>

text \<open>The frames of a whole download.\<close>

definition whole_stream :: "string \<Rightarrow> bytes \<Rightarrow> media_chunk list" where
  "whole_stream mime file = ChunkMeta mime (of_nat (length file)) # map ChunkBytes (chunks CHUNK_SIZE file)"

lemma read_chunk_at:
  assumes d: "sd_len d = of_nat (length (sd_file d))" "length (sd_file d) < 2 ^ 63"
    and off: "unat offset < length (sd_file d)"
  shows "read_chunk None offset CHUNK_SIZE d = Inr (take CHUNK_SIZE (drop (unat offset) (sd_file d)))"
proof -
  let ?n = "length (sd_file d)"
  have len: "unat (sd_len d) = ?n" using d by (simp add: unat_of_nat)
  have "unat (min (saturating_sub (sd_len d) offset) (of_nat CHUNK_SIZE)) = min (?n - unat offset) CHUNK_SIZE"
    by (auto simp: min_def word_le_nat_alt unat_saturating_sub len CHUNK_SIZE_def)
  then show ?thesis using off by (auto simp: read_chunk_def min_def)
qed

lemma drop_file_chunks:
  "n < length f \<Longrightarrow> chunks CHUNK_SIZE (drop n f) = take CHUNK_SIZE (drop n f) # chunks CHUNK_SIZE (drop (n + CHUNK_SIZE) f)"
  by (subst chunks.simps) (simp add: CHUNK_SIZE_def add.commute)

lemma stream_from_next:
  assumes d: "sd_len d = of_nat (length (sd_file d))" "length (sd_file d) < 2 ^ 63"
  shows "stream_from disk (Suc room) offset d =
    (if length (sd_file d) \<le> unat offset then []
     else case disk offset of
            Some e \<Rightarrow> [ChunkFailed (Other e)]
          | None \<Rightarrow> ChunkBytes (take CHUNK_SIZE (drop (unat offset) (sd_file d))) # stream_from disk room (offset + of_nat CHUNK_SIZE) d)"
proof -
  have "sd_len d \<le> offset \<longleftrightarrow> length (sd_file d) \<le> unat offset"
    using d by (simp add: word_le_nat_alt unat_of_nat)
  then show ?thesis
    using read_chunk_at [OF d, of offset]
    by (subst stream_from.simps) (auto simp: read_chunk_def Let_def split: option.splits)
qed

lemma stream_from_whole:
  assumes d: "sd_len d = of_nat (length (sd_file d))" "length (sd_file d) < 2 ^ 63"
    and "unat offset < 2 ^ 63 + CHUNK_SIZE"
  shows "\<exists>k failure. stream_from disk room offset d =
      take k (map ChunkBytes (chunks CHUNK_SIZE (drop (unat offset) (sd_file d)))) @ failure \<and>
      (failure = [] \<or> (\<exists>e. failure = [ChunkFailed e])) \<and> ((\<forall>p. disk p = None) \<longrightarrow> k = room \<and> failure = [])"
  using assms(3)
proof (induction room arbitrary: offset)
  case 0
  then show ?case by (subst stream_from.simps) (auto intro!: exI [of _ 0])
next
  case (Suc room)
  let ?f = "sd_file d" and ?o = "offset + of_nat CHUNK_SIZE"
  show ?case
  proof (cases "length ?f \<le> unat offset")
    case True
    then show ?thesis
      by (intro exI [of _ "Suc room"] exI [of _ "[]"]) (simp add: stream_from_next [OF d] chunks.simps)
  next
    case False
    show ?thesis
    proof (cases "disk offset")
      case (Some e)
      with False show ?thesis
        by (intro exI [of _ 0] exI [of _ "[ChunkFailed (Other e)]"]) (auto simp: stream_from_next [OF d])
    next
      case None
      have small: "unat offset < 2 ^ 63" using False d(2) by linarith
      have o: "unat ?o = unat offset + CHUNK_SIZE"
        using small by (subst unat_add_small) (simp_all add: CHUNK_SIZE_def)
      obtain k failure where IH: "stream_from disk room ?o d =
          take k (map ChunkBytes (chunks CHUNK_SIZE (drop (unat ?o) ?f))) @ failure"
          "failure = [] \<or> (\<exists>e. failure = [ChunkFailed e])" "(\<forall>p. disk p = None) \<longrightarrow> k = room \<and> failure = []"
        using Suc.IH [of ?o] o small by auto
      have "stream_from disk (Suc room) offset d =
          take (Suc k) (map ChunkBytes (chunks CHUNK_SIZE (drop (unat offset) ?f))) @ failure"
        using False None IH(1) o by (simp add: stream_from_next [OF d] drop_file_chunks)
      with IH(2,3) show ?thesis by blast
    qed
  qed
qed

lemma stream_spooled_whole:
  assumes d: "sd_len d = of_nat (length (sd_file d))" "length (sd_file d) < 2 ^ 63"
  shows "\<exists>k failure. stream_spooled reads room mime d = take k (whole_stream mime (sd_file d)) @ failure \<and>
    (failure = [] \<or> (\<exists>e. failure = [ChunkFailed e])) \<and> ((\<forall>p. reads p = None) \<longrightarrow> k = room \<and> failure = [])"
proof (cases room)
  case 0
  then show ?thesis by (auto simp: stream_spooled_def intro!: exI [of _ 0])
next
  case (Suc n)
  obtain k failure where s: "stream_from reads n 0 d = take k (map ChunkBytes (chunks CHUNK_SIZE (sd_file d))) @ failure"
    and "failure = [] \<or> (\<exists>e. failure = [ChunkFailed e])" "(\<forall>p. reads p = None) \<longrightarrow> k = n \<and> failure = []"
    using stream_from_whole [OF d, of 0 reads n] by (auto simp: CHUNK_SIZE_def)
  moreover have "stream_spooled reads room mime d = take (Suc k) (whole_stream mime (sd_file d)) @ failure"
    using Suc s d(1) by (simp add: stream_spooled_def whole_stream_def)
  ultimately show ?thesis using Suc by blast
qed

section \<open>The properties\<close>





end
