(* ===== verification/Request_Properties.thy ===== *)
theory Request_Properties
  imports Wire_Requests
begin

text \<open>
  What the domain may rely on of a request that was accepted, and that a request that is refused is
  refused as the caller's mistake. \<open>callers_fault\<close> is the error contract every parser keeps.
\<close>

section \<open>Refusals\<close>

definition callers_fault :: "wamux_error + 'a \<Rightarrow> bool" where
  "callers_fault r \<longleftrightarrow> (case r of Inl e \<Rightarrow> (\<exists>m. e = InvalidArgument m) | Inr _ \<Rightarrow> True)"

named_theorems callers

lemma callers_simps [simp]:
  "callers_fault (Inr x)"
  "callers_fault (Inl (InvalidArgument m))"
  by (simp_all add: callers_fault_def)

lemma callers_and_then [callers]:
  "callers_fault r \<Longrightarrow> (\<And>x. r = Inr x \<Longrightarrow> callers_fault (f x)) \<Longrightarrow> callers_fault (and_then r f)"
  by (cases r) (auto simp: callers_fault_def)

lemma callers_map_ok [callers]: "callers_fault r \<Longrightarrow> callers_fault (map_ok f r)"
  by (cases r) (auto simp: callers_fault_def)

lemma callers_map_err [callers]: "(\<And>e. \<exists>m. f e = InvalidArgument m) \<Longrightarrow> callers_fault (map_err f r)"
  by (cases r) (auto simp: callers_fault_def)

lemma callers_if [callers]:
  "(b \<Longrightarrow> callers_fault r) \<Longrightarrow> (\<not> b \<Longrightarrow> callers_fault s) \<Longrightarrow> callers_fault (if b then r else s)"
  by simp

lemma callers_ok_or [callers]: "callers_fault (Inl e :: wamux_error + 'a) \<Longrightarrow> callers_fault (ok_or e x :: wamux_error + 'a)"
  by (cases x) (auto simp: callers_fault_def)

lemma callers_try_map [callers]: "(\<And>x. callers_fault (f x)) \<Longrightarrow> callers_fault (try_map f xs)"
  by (induction xs) (auto intro!: callers)

lemma callers_jid [callers]: "callers_fault (jid_parse J v)" "callers_fault (jid_try_from J v)"
proof -
  show p: "callers_fault (jid_parse J v)" by (auto simp: jid_parse_def intro!: callers)
  then show "callers_fault (jid_try_from J v)"
    by (cases "jid_parse J v") (auto simp: jid_try_from_def callers_fault_def)
qed

lemma callers_wire [callers]:
  "callers_fault (from_required_wire J w)" "callers_fault (from_optional_wire J w)"
  by (auto simp: from_required_wire_def from_optional_wire_def intro!: callers split: option.splits)

lemma callers_newsletter [callers]: "callers_fault (newsletter_from_required_wire J w)"
  by (auto simp: newsletter_from_required_wire_def newsletter_jid_parse_def intro!: callers)

lemma callers_message_id [callers]: "callers_fault (message_id_new v)"
  by (simp add: message_id_new_def)

lemma callers_kinds [callers]: "callers_fault (parse_sendable v)" "callers_fault (parse_status v)"
  "callers_fault (parse_downloadable v)"
  using sendable.refused_is_callers [of v] status_kinds.refused_is_callers [of v] downloadable.refused_is_callers [of v]
  by (auto simp: callers_fault_def split: sum.splits)

lemma callers_quote [callers]: "callers_fault (quoted_ref_from_proto J q m d)"
proof -
  have "callers_fault (remote_chat_of J key d)" for key
    unfolding remote_chat_of_def by (rule callers_and_then) (auto simp: Let_def intro: callers split: option.splits)
  then show ?thesis
    unfolding quoted_ref_from_proto_def refuse_orphan_quoted_message_def
    by (auto intro!: callers_and_then callers_wire callers_message_id split: option.splits)
qed

lemma callers_context [callers]: "callers_fault (outgoing_context_from_proto J ms q m s d)"
  by (auto simp: outgoing_context_from_proto_def intro!: callers)

lemma callers_recipients [callers]: "callers_fault (require_recipients J rs verb)"
  by (auto simp: require_recipients_def parse_recipients_def intro!: callers)

lemma callers_identity [callers]: "callers_fault (vote_identity J c i s)"
  by (auto simp: vote_identity_def intro!: callers)

lemma callers_hashes [callers]: "callers_fault (option_hashes raw)"
proof -
  have "callers_fault (option_hashes_from i hs raw)" for i hs
    by (induction i hs raw rule: option_hashes_from.induct) auto
  then show ?thesis by (simp add: option_hashes_def)
qed

lemma callers_at_least_one [callers]: "callers_fault (require_at_least_one f n)"
  by (simp add: require_at_least_one_def)

section \<open>What an accepted request is\<close>

text \<open>\<open>parses_to\<close>: the field is set, and the jid is what the library makes of exactly its text.\<close>

definition parses_to :: "'j jid_lib \<Rightarrow> pb_jid option \<Rightarrow> 'j jid \<Rightarrow> bool" where
  "parses_to J w j \<longleftrightarrow> (\<exists>v. w = Some v \<and> v \<noteq> [] \<and> lib_parse J v = Inr (into_lib j))"

definition quote_ok ::
  "'j jid_lib \<Rightarrow> pb_quote_context option \<Rightarrow> bytes \<Rightarrow> pb_jid option \<Rightarrow> 'j quoted_ref option \<Rightarrow> bool" where
  "quote_ok J quote msg destination q \<longleftrightarrow>
     (case (Option.bind quote qc_quoted, q) of
        (None, None) \<Rightarrow> msg = []
      | (Some key, Some r) \<Rightarrow>
          id_str (qr_id r) = mk_id key \<and> mk_id key \<noteq> [] \<and> qr_message r = msg \<and>
          (\<forall>chat. qr_remote_chat r = Some chat \<longrightarrow> parses_to J (mk_chat key) chat \<and> \<not> parses_to J destination chat)
      | _ \<Rightarrow> False)"

definition context_ok ::
  "'j jid_lib \<Rightarrow> pb_jid option list \<Rightarrow> pb_quote_context option \<Rightarrow> bytes \<Rightarrow> pb_jid option \<Rightarrow> 'j outgoing_context \<Rightarrow> bool" where
  "context_ok J mentions quote msg destination c \<longleftrightarrow>
     list_all2 (parses_to J) mentions (oc_mentions c) \<and> quote_ok J quote msg destination (oc_quote c)"

lemma required_parses: "from_required_wire J w = Inr j \<longleftrightarrow> parses_to J w j"
  by (cases w) (auto simp: from_required_wire_Inr parses_to_def unwrap_jid_def)

lemma optional_parses: "from_optional_wire J w = Inr (Some j) \<longleftrightarrow> parses_to J w j"
  by (cases w) (auto simp: from_optional_wire_def parses_to_def jid_parse_Inr map_ok_Inr_iff)

lemma remote_chat_elsewhere:
  assumes "remote_chat_of J key destination = Inr (Some chat)"
  shows "parses_to J (mk_chat key) chat \<and> \<not> parses_to J destination chat"
proof -
  from assms have c: "from_optional_wire J (mk_chat key) = Inr (Some chat)"
    by (auto simp: remote_chat_of_def and_then_Inr_iff Let_def split: option.splits if_splits)
  with assms have "from_optional_wire J destination \<noteq> Inr (Some chat)"
    by (auto simp: remote_chat_of_def Let_def split: if_splits)
  with c show ?thesis by (simp add: optional_parses)
qed

lemma quoted_ref_ok:
  assumes "quoted_ref_from_proto J quote msg destination = Inr q"
  shows "quote_ok J quote msg destination q"
proof (cases "Option.bind quote qc_quoted")
  case None
  then show ?thesis using assms
    by (auto simp: quoted_ref_from_proto_def refuse_orphan_quoted_message_def quote_ok_def split: if_splits)
next
  case (Some key)
  then obtain participant remote where id: "mk_id key \<noteq> []"
    and remote: "remote_chat_of J key destination = Inr remote"
    and q: "q = Some \<lparr>qr_id = MessageId (mk_id key), qr_participant = participant, qr_remote_chat = remote, qr_message = msg\<rparr>"
    using assms by (auto simp: quoted_ref_from_proto_def and_then_Inr_iff message_id_new_def split: if_splits)
  with Some show ?thesis using remote_chat_elsewhere [of J key destination] by (auto simp: quote_ok_def)
qed

lemma context_parsed:
  assumes "outgoing_context_from_proto J ms quote msg s destination = Inr c"
  shows "context_ok J ms quote msg destination c"
  using assms quoted_ref_ok
  by (auto simp: outgoing_context_from_proto_def and_then_Inr_iff try_map_Inr_iff context_ok_def required_parses [abs_def])

lemma recipients_parsed:
  "require_recipients J vs verb = Inr rs \<Longrightarrow> rs \<noteq> [] \<and> list_all2 (\<lambda>v. parses_to J (Some v)) vs rs"
  by (auto simp: require_recipients_def parse_recipients_def try_map_Inr_iff required_parses split: if_splits)

lemma option_hashes_from_iff:
  "option_hashes_from i hs raw = Inr out \<longleftrightarrow>
     out = hs @ raw \<and> (\<forall>h\<in>set raw. length h = 32) \<and> distinct raw \<and> set raw \<inter> set hs = {}"
  by (induction i hs raw rule: option_hashes_from.induct) auto

lemma option_hashes_iff:
  "option_hashes raw = Inr out \<longleftrightarrow>
     out = raw \<and> length raw \<le> MAX_NEWSLETTER_VOTE_OPTIONS \<and> (\<forall>h\<in>set raw. length h = 32) \<and> distinct raw"
  by (auto simp: option_hashes_def option_hashes_from_iff)

lemma newsletter_parses:
  "newsletter_from_required_wire J w = Inr j \<longleftrightarrow>
     parses_to J w (newsletter_as_jid j) \<and> lib_server J (into_lib (newsletter_as_jid j)) = Server_Newsletter"
proof (cases j)
  case (NewsletterJid k)
  then show ?thesis
    by (cases w) (auto simp: newsletter_from_required_wire_def newsletter_jid_parse_def and_then_Inr_iff jid_parse_Inr
        parses_to_def unwrap_jid_def)
qed

lemma identity_parses:
  "vote_identity J c i s = Inr (c', i', s') \<Longrightarrow> parses_to J c c' \<and> id_str i' = i \<and> i \<noteq> [] \<and> s' = s \<and> length s = POLL_SECRET_LEN"
  by (auto simp: vote_identity_def and_then_Inr_iff required_parses message_id_new_def map_err_def split: if_splits sum.splits)

lemma text_parsed: "outgoing_text_try_from J t = Inr x \<longrightarrow>
    context_ok J (pt_mentions t) (pt_quote t) (pt_quoted_message t) (pt_to t) (ot_context x)"
  by (auto simp: outgoing_text_try_from_def map_ok_Inr_iff dest: context_parsed)

lemma media_parsed: "outgoing_media_try_from J h = Inr x \<longrightarrow>
    context_ok J (pm_mentions h) (pm_quote h) (pm_quoted_message h) (pm_to h) (om_context x) \<and>
    om_kind x \<in> {Image, Video, Audio, Document, Sticker} \<and>
    pm_media_type h = enum_number pb_media_types (kind_to_wire (om_kind x))"
  by (auto simp: outgoing_media_try_from_def and_then_Inr_iff sendable.parse_iff ALL_KINDS_def dest: context_parsed)

lemma status_parsed: "status_media_try_from J h = Inr x \<longrightarrow>
    sm_kind x \<in> {Image, Video} \<and> sm_recipients x \<noteq> [] \<and> list_all2 (\<lambda>v. parses_to J (Some v)) (sh_recipients h) (sm_recipients x)"
  by (auto simp: status_media_try_from_def and_then_Inr_iff map_ok_Inr_iff status_kinds.parse_iff ALL_KINDS_def
      dest: recipients_parsed)

lemma tally_parsed: "poll_votes_to_tally_try_from J r vs = Inr x \<longrightarrow>
    id_str (tl_poll_id x) \<noteq> [] \<and> length (tl_message_secret x) = 32 \<and> tl_options x \<noteq> [] \<and>
    list_all2 (\<lambda>v w. parses_to J (pe_voter v) (ev_voter w)) vs (tl_votes x)"
proof
  assume "poll_votes_to_tally_try_from J r vs = Inr x"
  then obtain c i s ws where
      id: "vote_identity J (pv_poll_creator r) (pv_poll_id r) (pv_message_secret r) = Inr (c, i, s)"
    and ws: "try_map (encrypted_vote_try_from J) vs = Inr ws" and "pv_options r \<noteq> []"
    and "x = \<lparr>tl_poll_id = i, tl_creator = c, tl_message_secret = s, tl_options = pv_options r, tl_votes = ws\<rparr>"
    by (auto simp: poll_votes_to_tally_try_from_def and_then_Inr_iff split: if_splits)
  moreover have "list_all2 (\<lambda>v w. parses_to J (pe_voter v) (ev_voter w)) vs ws"
    using ws unfolding try_map_Inr_iff
    by (rule list_all2_mono) (auto simp: encrypted_vote_try_from_def map_ok_Inr_iff required_parses)
  ultimately show "id_str (tl_poll_id x) \<noteq> [] \<and> length (tl_message_secret x) = 32 \<and> tl_options x \<noteq> [] \<and>
      list_all2 (\<lambda>v w. parses_to J (pe_voter v) (ev_voter w)) vs (tl_votes x)"
    using identity_parses [OF id] by (auto simp: POLL_SECRET_LEN_def)
qed

lemma ok_or_Inr_iff: "ok_or e x = Inr y \<longleftrightarrow> x = Some y"
  by (cases x) auto

lemma offer_quote_Inr:
  assumes "offer_quote J q m d = Inr r"
  shows "quoted_ref_from_proto J q m d = Inr (Some r)"
proof -
  from assms have "and_then (quoted_ref_from_proto J q m d) (ok_or missing_offer) = Inr r"
    unfolding offer_quote_def by (simp only: split: if_split_asm) (simp_all only: sum.distinct)
  then show ?thesis by (auto simp: and_then_Inr_iff ok_or_Inr_iff)
qed

lemma reply_parsed: "interactive_reply_try_from J q m d c = Inr x \<longrightarrow>
    quote_ok J q m d (Some (ir_quote x)) \<and> c = Some (ir_choice x)"
  by (auto simp: interactive_reply_try_from_def reply_choice_try_from_def and_then_Inr_iff ok_or_Inr_iff
      dest!: offer_quote_Inr intro: quoted_ref_ok)

lemma vote_parsed: "newsletter_poll_vote_try_from J w n hs = Inr x \<longleftrightarrow>
    parses_to J w (newsletter_as_jid (nv_jid x)) \<and>
    lib_server J (into_lib (newsletter_as_jid (nv_jid x))) = Server_Newsletter \<and>
    n \<noteq> 0 \<and> length hs \<le> 1000 \<and> (\<forall>h\<in>set hs. length h = 32) \<and> distinct hs \<and>
    nv_server_id x = n \<and> nv_option_hashes x = hs"
  by (cases x) (auto simp: newsletter_poll_vote_try_from_def and_then_Inr_iff newsletter_parses option_hashes_iff
      MAX_NEWSLETTER_VOTE_OPTIONS_def split: if_splits)

lemma requests_callers_fault:
  "callers_fault (outgoing_text_try_from J t)" "callers_fault (outgoing_media_try_from J h)"
  "callers_fault (status_media_try_from J s)" "callers_fault (poll_votes_to_tally_try_from J r vs)"
  "callers_fault (interactive_reply_try_from J q m d c)" "callers_fault (newsletter_poll_vote_try_from J w n hs)"
  by (auto simp: outgoing_text_try_from_def outgoing_media_try_from_def status_media_try_from_def
      poll_votes_to_tally_try_from_def encrypted_vote_try_from_def interactive_reply_try_from_def offer_quote_def
      missing_offer_def reply_choice_try_from_def newsletter_poll_vote_try_from_def intro!: callers)

section \<open>The property\<close>

text \<open>
  C38: a request the boundary accepts has what the domain relies on, and one it refuses is refused
  as the caller's mistake, \<open>InvalidArgument\<close>. A text and a media message carry the mentions the
  library parsed, in order, and a quote exactly when one was named, with its own id and payload and
  a remote chat that is not the chat written to; a media kind is one that can be sent, under its own
  number; a status has recipients; a tally has a poll id, a secret of 32 bytes and options; an answer
  to an offer names it; a vote in a channel is accepted exactly when its jid is a channel's, it names
  the poll and its hashes are at most 1000, 32 bytes long and distinct, and it is relayed as sent.
\<close>

theorem accepted_requests_are_well_formed:
  "(\<forall>t x. outgoing_text_try_from J t = Inr x \<longrightarrow>
      context_ok J (pt_mentions t) (pt_quote t) (pt_quoted_message t) (pt_to t) (ot_context x)) \<and>
   (\<forall>h x. outgoing_media_try_from J h = Inr x \<longrightarrow>
      context_ok J (pm_mentions h) (pm_quote h) (pm_quoted_message h) (pm_to h) (om_context x) \<and>
      om_kind x \<in> {Image, Video, Audio, Document, Sticker} \<and>
      pm_media_type h = enum_number pb_media_types (kind_to_wire (om_kind x))) \<and>
   (\<forall>h x. status_media_try_from J h = Inr x \<longrightarrow>
      sm_kind x \<in> {Image, Video} \<and> sm_recipients x \<noteq> [] \<and> list_all2 (\<lambda>v. parses_to J (Some v)) (sh_recipients h) (sm_recipients x)) \<and>
   (\<forall>r vs x. poll_votes_to_tally_try_from J r vs = Inr x \<longrightarrow>
      id_str (tl_poll_id x) \<noteq> [] \<and> length (tl_message_secret x) = 32 \<and> tl_options x \<noteq> [] \<and>
      list_all2 (\<lambda>v w. parses_to J (pe_voter v) (ev_voter w)) vs (tl_votes x)) \<and>
   (\<forall>q m d c x. interactive_reply_try_from J q m d c = Inr x \<longrightarrow>
      quote_ok J q m d (Some (ir_quote x)) \<and> c = Some (ir_choice x)) \<and>
   (\<forall>w n hs x. newsletter_poll_vote_try_from J w n hs = Inr x \<longleftrightarrow>
      parses_to J w (newsletter_as_jid (nv_jid x)) \<and>
      lib_server J (into_lib (newsletter_as_jid (nv_jid x))) = Server_Newsletter \<and>
      n \<noteq> 0 \<and> length hs \<le> 1000 \<and> (\<forall>h\<in>set hs. length h = 32) \<and> distinct hs \<and>
      nv_server_id x = n \<and> nv_option_hashes x = hs) \<and>
   (\<forall>t h s r vs q m d c w n hs.
      callers_fault (outgoing_text_try_from J t) \<and> callers_fault (outgoing_media_try_from J h) \<and>
      callers_fault (status_media_try_from J s) \<and> callers_fault (poll_votes_to_tally_try_from J r vs) \<and>
      callers_fault (interactive_reply_try_from J q m d c) \<and> callers_fault (newsletter_poll_vote_try_from J w n hs))"
  by (intro conjI allI text_parsed media_parsed status_parsed tally_parsed reply_parsed vote_parsed requests_callers_fault)

definition demo_jids :: "string jid_lib" where
  "demo_jids = \<lparr>lib_parse = (\<lambda>v. if CHR 0x40 \<in> set v then Inr v else Inl ''no server''), lib_show = (\<lambda>v. v),
     lib_server = (\<lambda>v. if last v = CHR ''r'' then Server_Newsletter else Server_Other (tl v))\<rparr>"

theorem accepted_requests_are_well_formed_witness:
  "(\<exists>x. outgoing_text_try_from demo_jids
       \<lparr>pt_to = Some ''2@s'', pt_text = ''hi'', pt_mentions = [Some ''3@s''],
         pt_quote = Some \<lparr>qc_quoted = Some \<lparr>mk_chat = Some ''1@g'', mk_id = ''A'', mk_from_me = False, mk_participant = None\<rparr>,
           qc_participant = None\<rparr>,
         pt_quoted_message = [7], pt_ephemeral_seconds = 0, pt_link_preview = None\<rparr> = Inr x \<and>
     list_all2 (parses_to demo_jids) [Some ''3@s''] (oc_mentions (ot_context x))) \<and>
   newsletter_poll_vote_try_from demo_jids (Some ''1@newsletter'') 7 [replicate 32 0] =
     Inr \<lparr>nv_jid = NewsletterJid (Jid ''1@newsletter''), nv_server_id = 7, nv_option_hashes = [replicate 32 0]\<rparr> \<and>
   (\<forall>x. newsletter_poll_vote_try_from demo_jids (Some ''1@newsletter'') 7 [replicate 32 0, replicate 32 0] \<noteq> Inr x)"
proof (intro conjI)
  let ?t = "\<lparr>pt_to = Some ''2@s'', pt_text = ''hi'', pt_mentions = [Some ''3@s''],
      pt_quote = Some \<lparr>qc_quoted = Some \<lparr>mk_chat = Some ''1@g'', mk_id = ''A'', mk_from_me = False, mk_participant = None\<rparr>,
        qc_participant = None\<rparr>,
      pt_quoted_message = [7], pt_ephemeral_seconds = 0, pt_link_preview = None\<rparr>"
  note p = accepted_requests_are_well_formed [of demo_jids]
  have "is_ok (outgoing_text_try_from demo_jids ?t)" by code_simp
  then obtain x where x: "outgoing_text_try_from demo_jids ?t = Inr x" by (auto simp: is_ok_iff)
  with conjunct1 [OF p] have "list_all2 (parses_to demo_jids) [Some ''3@s''] (oc_mentions (ot_context x))"
    by (fastforce simp: context_ok_def)
  with x show "\<exists>x. outgoing_text_try_from demo_jids ?t = Inr x \<and>
      list_all2 (parses_to demo_jids) [Some ''3@s''] (oc_mentions (ot_context x))" by blast
  show "newsletter_poll_vote_try_from demo_jids (Some ''1@newsletter'') 7 [replicate 32 0] =
      Inr \<lparr>nv_jid = NewsletterJid (Jid ''1@newsletter''), nv_server_id = 7, nv_option_hashes = [replicate 32 0]\<rparr>"
    using p by (simp add: parses_to_def demo_jids_def)
  show "\<forall>x. newsletter_poll_vote_try_from demo_jids (Some ''1@newsletter'') 7 [replicate 32 0, replicate 32 0] \<noteq> Inr x"
    using p by simp
qed

end
