(* ===== verification/Account_Service.thy ===== *)
theory Account_Service
  imports Wire_Types
begin

text \<open>
  The account service (\<open>services/account_service.rs\<close>, \<open>domain/pairing_update.rs\<close>) and the operations
  of the registry it uses besides those of \<open>Account_Registry\<close>: each handler parses the reference of
  its account, resolves it and runs the registry's operation; pairing forwards the pairing updates
  of the account until one ends the flow. What the store holds of a device, the bot that is built
  and whether a stop ends in time are arguments. The payload of a pairing update is one value, and the
  status that is answered is not modelled.
\<close>

section \<open>More of the registry\<close>

definition list_handles :: "'s registry \<Rightarrow> string list \<Rightarrow> account_handle list" where
  "list_handles r order = List.map_filter (handles r) order"

definition connected_count :: "'s registry \<Rightarrow> nat" where
  "connected_count r = connected r"

definition has_stored_pn ::
  "(nat \<Rightarrow> store_error + 'd option) \<Rightarrow> ('d \<Rightarrow> string option) \<Rightarrow> account_handle \<Rightarrow> wamux_error + bool" where
  "has_stored_pn load pn h =
     map_err Store (map_ok (\<lambda>d. case d of None \<Rightarrow> False | Some x \<Rightarrow> pn x \<noteq> None) (load (h_device_id h)))"

definition disconnect :: "bool \<Rightarrow> account_handle \<Rightarrow> 's registry \<Rightarrow> 's registry" where
  "disconnect in_time h r = stop in_time h r"

text \<open>The stops run concurrently; \<open>order\<close> is the order in which they end.\<close>

fun stop_all :: "(string \<Rightarrow> bool) \<Rightarrow> string list \<Rightarrow> 's registry \<Rightarrow> 's registry" where
  "stop_all in_time [] r = r"
| "stop_all in_time (u # us) r =
     stop_all in_time us (case handles r u of None \<Rightarrow> r | Some h \<Rightarrow> stop (in_time u) h r)"

section \<open>Pairing\<close>

datatype pairing_update =
    UpdateQrCode string | UpdatePairCode string | UpdatePaired string | UpdateError string
  | UpdateCodeError string | UpdateCodeRefresh bool | UpdateQrCodesExhausted bool | UpdateUnset

fun pairing_stream_ends :: "pairing_update \<Rightarrow> bool" where
  "pairing_stream_ends (UpdatePaired _) = True"
| "pairing_stream_ends (UpdateError _) = True"
| "pairing_stream_ends (UpdateCodeError _) = True"
| "pairing_stream_ends (UpdateCodeRefresh _) = True"
| "pairing_stream_ends (UpdateQrCodesExhausted disconnected) = disconnected"
| "pairing_stream_ends (UpdateQrCode _) = False"
| "pairing_stream_ends (UpdatePairCode _) = False"
| "pairing_stream_ends UpdateUnset = False"

text \<open>
  What the broadcast hands over: a pairing event, another one, a gap, or its end. The client takes
  \<open>room\<close> updates before it is gone; the select that cuts the loop at a hang-up or a shutdown is the
  end of the list.
\<close>

datatype pairing_received = PairingEvent pairing_update | NotPairing | PairingLagged | PairingClosed

fun relay_pairing_events :: "nat \<Rightarrow> pairing_received list \<Rightarrow> pairing_update list" where
  "relay_pairing_events room [] = []"
| "relay_pairing_events room (PairingEvent u # es) =
     (if room = 0 then []
      else u # (if pairing_stream_ends u then [] else relay_pairing_events (room - 1) es))"
| "relay_pairing_events room (NotPairing # es) = relay_pairing_events room es"
| "relay_pairing_events room (PairingLagged # es) = relay_pairing_events room es"
| "relay_pairing_events room (PairingClosed # es) = []"

definition paired_already :: wamux_error where
  "paired_already =
     FailedPrecondition ''account holds a paired identity: DeleteAccount and CreateAccount to pair again''"

definition pairing_stream ::
  "(nat \<Rightarrow> store_error + 'd option) \<Rightarrow> ('d \<Rightarrow> string option) \<Rightarrow> library_error list + nat \<Rightarrow> account_handle \<Rightarrow>
   's registry \<Rightarrow> 's registry \<times> (wamux_error + unit)" where
  "pairing_stream load pn built h r =
     (case has_stored_pn load pn h of
        Inl e \<Rightarrow> (r, Inl e)
      | Inr True \<Rightarrow> (r, Inl paired_already)
      | Inr False \<Rightarrow> connect built h r)"

section \<open>The handlers\<close>

text \<open>A handler that acts on the account its request names.\<close>

definition on_account ::
  "(string \<Rightarrow> string option) \<Rightarrow> pb_account_ref option option \<Rightarrow>
   (account_handle \<Rightarrow> 's registry \<Rightarrow> 's registry \<times> (wamux_error + 'a)) \<Rightarrow> 's registry \<Rightarrow> 's registry \<times> (wamux_error + 'a)" where
  "on_account parse_uuid account act r =
     (case and_then (account_ref_from_proto parse_uuid account) (\<lambda>a. resolve a r) of
        Inl e \<Rightarrow> (r, Inl e)
      | Inr h \<Rightarrow> act h r)"

datatype 'd account_call =
    CallCreate "string option"
  | CallPair "pb_account_ref option option" "nat \<Rightarrow> store_error + 'd option" "library_error list + nat"
  | CallConnect "pb_account_ref option option" "library_error list + nat"
  | CallDisconnect "pb_account_ref option option" bool
  | CallLogout "pb_account_ref option option" bool bool
  | CallDelete "pb_account_ref option option" bool

text \<open>\<open>pair_with_qr\<close> and \<open>pair_with_code\<close> differ only in what the bot is built with.\<close>

fun account_service ::
  "'s storage_engine \<Rightarrow> (string \<Rightarrow> string option) \<Rightarrow> ('d \<Rightarrow> string option) \<Rightarrow> 'd account_call \<Rightarrow> 's registry \<Rightarrow>
   's registry \<times> (wamux_error + unit)" where
  "account_service E parse_uuid pn (CallCreate x) r =
     (case reg_create_account E x r of (r', res) \<Rightarrow> (r', map_ok (\<lambda>_. ()) res))"
| "account_service E parse_uuid pn (CallPair a load built) r = on_account parse_uuid a (pairing_stream load pn built) r"
| "account_service E parse_uuid pn (CallConnect a built) r = on_account parse_uuid a (connect built) r"
| "account_service E parse_uuid pn (CallDisconnect a in_time) r =
     on_account parse_uuid a (\<lambda>h r. (disconnect in_time h r, Inr ())) r"
| "account_service E parse_uuid pn (CallLogout a conn in_time) r = on_account parse_uuid a (logout conn in_time) r"
| "account_service E parse_uuid pn (CallDelete a in_time) r = on_account parse_uuid a (reg_delete E in_time) r"

section \<open>What they keep\<close>

text \<open>The updates of a flow: those up to the first that ends it.\<close>

fun flow :: "pairing_received list \<Rightarrow> pairing_update list" where
  "flow [] = []"
| "flow (PairingEvent u # es) = u # (if pairing_stream_ends u then [] else flow es)"
| "flow (PairingClosed # es) = []"
| "flow (_ # es) = flow es"

lemma relay_is_prefix_of_flow: "relay_pairing_events room es = take room (flow es)"
  by (induction room es rule: relay_pairing_events.induct) (auto simp: take_Cons')

lemma relay_ends_with_its_flow:
  "u \<in> set (butlast (relay_pairing_events room es)) \<Longrightarrow> \<not> pairing_stream_ends u"
  by (induction room es rule: relay_pairing_events.induct) (auto split: if_splits)

lemma resolved_handle:
  assumes "and_then (account_ref_from_proto parse_uuid account) (\<lambda>a. resolve a r) = Inr h"
  shows "\<exists>u. handles r u = Some h"
proof -
  from assms obtain a where a: "resolve a r = Inr h" by (auto simp: and_then_Inr_iff)
  then show ?thesis by (cases a) (auto simp: resolve_def and_then_Inr_iff ok_or_def get_handle_def split: option.splits)
qed

text \<open>Every call of the service is at most one step of the registry, so what its steps keep the service keeps.\<close>

lemma account_service_step:
  fixes r :: "'s registry"
  shows "fst (account_service E parse_uuid pn call r) = r \<or> reg_step E r (fst (account_service E parse_uuid pn call r))"
proof -
  have on: "fst (on_account parse_uuid a act r) = r \<or> reg_step E r (fst (on_account parse_uuid a act r))"
    if "\<And>u h. handles r u = Some h \<Longrightarrow> fst (act h r) = r \<or> reg_step E r (fst (act h r))"
    for a and act :: "account_handle \<Rightarrow> 's registry \<Rightarrow> 's registry \<times> (wamux_error + unit)"
    using that resolved_handle [of parse_uuid a r] by (fastforce simp: on_account_def split: sum.splits)
  show ?thesis
  proof (cases call)
    case (CallCreate x)
    then show ?thesis using reg_step.step_create [of E r x] by (auto split: prod.splits)
  next
    case (CallPair a load built)
    show ?thesis unfolding CallPair account_service.simps
      by (rule on) (auto simp: pairing_stream_def intro: reg_step.step_connect split: sum.splits bool.splits)
  next
    case (CallConnect a built)
    show ?thesis unfolding CallConnect account_service.simps by (rule on) (auto intro: reg_step.step_connect)
  next
    case (CallDisconnect a in_time)
    show ?thesis unfolding CallDisconnect account_service.simps
      by (rule on) (auto simp: disconnect_def intro: reg_step.step_stop)
  next
    case (CallLogout a conn in_time)
    show ?thesis unfolding CallLogout account_service.simps by (rule on) (auto intro: reg_step.step_logout)
  next
    case (CallDelete a in_time)
    show ?thesis unfolding CallDelete account_service.simps by (rule on) (auto intro: reg_step.step_delete)
  qed
qed

lemma stop_all_reachable: "reg_reachable E r0 r \<Longrightarrow> reg_reachable E r0 (stop_all in_time us r)"
proof (induction in_time us r rule: stop_all.induct)
  case (2 in_time u us r)
  then show ?case
    by (cases "handles r u") (auto intro: reg_more reg_step.step_stop [where u = u])
qed simp

text \<open>An account that holds a phone identity is refused before anything is started.\<close>

lemma paired_account_starts_nothing:
  "has_stored_pn load pn h = Inr True \<Longrightarrow> pairing_stream load pn built h r = (r, Inl paired_already)"
  by (simp add: pairing_stream_def)

end
