(* ===== verification/Transport.thy ===== *)
theory Transport
  imports Wamux_Error
begin

text \<open>
  The socket the daemon serves (\<open>transport/uds_listener.rs\<close>) and the check of who may talk to it
  (\<open>transport/peer_allowlist.rs\<close>). The file system is a map from paths, lists of components, to
  nodes; each call that changes it records what the file system was before, so that a property can
  speak of every state another process could have seen. A call can fail at any time: \<open>faults\<close> gives
  the error of the n-th call, if any. The lookup of a group's name and the umask are parameters.
\<close>

section \<open>The file system\<close>

type_synonym path = "string list"

text \<open>The kinds of \<open>io::Error\<close> the code tells apart.\<close>

datatype io_error = Not_Found | Already_Exists | Connection_Refused | Permission_Denied | Io_Other string

datatype node = Sock u32 u32 bool | Folder u32 | Plain

record world =
  w_nodes :: "path \<Rightarrow> node option"
  w_past :: "(path \<Rightarrow> node option) list"
  w_calls :: nat

type_synonym faults = "nat \<Rightarrow> io_error option"

type_synonym 'a io = "world \<Rightarrow> world \<times> (io_error + 'a)"

text \<open>One system call: it fails with the fault of its turn, or does what it does on the nodes.\<close>

definition sys :: "faults \<Rightarrow> ((path \<Rightarrow> node option) \<Rightarrow> (path \<Rightarrow> node option) \<times> (io_error + 'a)) \<Rightarrow> 'a io" where
  "sys fl f w =
     (let w' = w\<lparr>w_calls := Suc (w_calls w)\<rparr> in
      case fl (w_calls w) of
        Some e \<Rightarrow> (w', Inl e)
      | None \<Rightarrow>
          (case f (w_nodes w) of
             (n, r) \<Rightarrow> (w'\<lparr>w_nodes := n, w_past := w_past w @ [w_nodes w]\<rparr>, r)))"

definition lstat :: "path \<Rightarrow> (path \<Rightarrow> node option) \<Rightarrow> (path \<Rightarrow> node option) \<times> (io_error + node)" where
  "lstat p n = (n, ok_or Not_Found (n p))"

definition connect_to :: "path \<Rightarrow> (path \<Rightarrow> node option) \<Rightarrow> (path \<Rightarrow> node option) \<times> (io_error + unit)" where
  "connect_to p n = (n, case n p of Some (Sock m g served) \<Rightarrow> if served then Inr () else Inl Connection_Refused | _ \<Rightarrow> Inl Not_Found)"

definition unlink_file :: "path \<Rightarrow> (path \<Rightarrow> node option) \<Rightarrow> (path \<Rightarrow> node option) \<times> (io_error + unit)" where
  "unlink_file p n = (case n p of None \<Rightarrow> (n, Inl Not_Found) | Some _ \<Rightarrow> (n(p := None), Inr ()))"

definition under :: "path \<Rightarrow> path \<Rightarrow> bool" where
  "under d p \<longleftrightarrow> take (length d) p = d"

definition remove_all :: "path \<Rightarrow> (path \<Rightarrow> node option) \<Rightarrow> (path \<Rightarrow> node option) \<times> (io_error + unit)" where
  "remove_all d n = (\<lambda>p. if under d p then None else n p, Inr ())"

definition make_dir :: "u32 \<Rightarrow> path \<Rightarrow> (path \<Rightarrow> node option) \<Rightarrow> (path \<Rightarrow> node option) \<times> (io_error + unit)" where
  "make_dir m p n = (if n p \<noteq> None then (n, Inl Already_Exists) else (n(p \<mapsto> Folder m), Inr ()))"

definition bind_socket :: "u32 \<Rightarrow> u32 \<Rightarrow> path \<Rightarrow> (path \<Rightarrow> node option) \<Rightarrow> (path \<Rightarrow> node option) \<times> (io_error + unit)" where
  "bind_socket m g p n = (if n p \<noteq> None then (n, Inl (Io_Other ''address in use'')) else (n(p \<mapsto> Sock m g True), Inr ()))"

definition change_group :: "u32 \<Rightarrow> path \<Rightarrow> (path \<Rightarrow> node option) \<Rightarrow> (path \<Rightarrow> node option) \<times> (io_error + unit)" where
  "change_group g p n = (case n p of Some (Sock m _ served) \<Rightarrow> (n(p \<mapsto> Sock m g served), Inr ()) | _ \<Rightarrow> (n, Inl Not_Found))"

definition change_mode :: "u32 \<Rightarrow> path \<Rightarrow> (path \<Rightarrow> node option) \<Rightarrow> (path \<Rightarrow> node option) \<times> (io_error + unit)" where
  "change_mode m p n =
     (case n p of
        Some (Sock _ g served) \<Rightarrow> (n(p \<mapsto> Sock m g served), Inr ())
      | Some (Folder _) \<Rightarrow> (n(p \<mapsto> Folder m), Inr ())
      | _ \<Rightarrow> (n, Inl Not_Found))"

definition rename_to :: "path \<Rightarrow> path \<Rightarrow> (path \<Rightarrow> node option) \<Rightarrow> (path \<Rightarrow> node option) \<times> (io_error + unit)" where
  "rename_to p q n = (case n p of None \<Rightarrow> (n, Inl Not_Found) | Some x \<Rightarrow> (n(p := None, q \<mapsto> x), Inr ()))"

section \<open>Binding the socket\<close>

datatype bind_error =
    NotASocket | InUse | Probe io_error | GroupNotFound string | NotAMember string | Io string io_error

datatype probed = Absent | Stale

text \<open>A call whose error is mapped, and the next one after it.\<close>

definition step :: "(io_error \<Rightarrow> bind_error) \<Rightarrow> 'a io \<Rightarrow> (world \<Rightarrow> world \<times> (bind_error + 'a))" where
  "step f m w = (case m w of (w', r) \<Rightarrow> (w', map_err f r))"

definition then_do ::
  "(world \<Rightarrow> world \<times> (bind_error + 'a)) \<Rightarrow> ('a \<Rightarrow> world \<Rightarrow> world \<times> (bind_error + 'b)) \<Rightarrow> world \<Rightarrow> world \<times> (bind_error + 'b)" where
  "then_do m f w = (case m w of (w', Inl e) \<Rightarrow> (w', Inl e) | (w', Inr x) \<Rightarrow> f x w')"

definition probe :: "faults \<Rightarrow> path \<Rightarrow> world \<Rightarrow> world \<times> (bind_error + probed)" where
  "probe fl p w =
     (case sys fl (lstat p) w of
        (w1, Inl e) \<Rightarrow> (w1, if e = Not_Found then Inr Absent else Inl (Probe e))
      | (w1, Inr (Sock _ _ _)) \<Rightarrow>
          (case sys fl (connect_to p) w1 of
             (w2, Inr _) \<Rightarrow> (w2, Inl InUse)
           | (w2, Inl e) \<Rightarrow> (w2, if e = Connection_Refused then Inr Stale else Inl (Probe e)))
      | (w1, Inr _) \<Rightarrow> (w1, Inl NotASocket))"

definition refuse_if_served :: "faults \<Rightarrow> path \<Rightarrow> world \<Rightarrow> world \<times> (bind_error + unit)" where
  "refuse_if_served fl p w = (case probe fl p w of (w', r) \<Rightarrow> (w', map_ok (\<lambda>_. ()) r))"

text \<open>\<open>str::parse::<u32>\<close>, then the group database (\<open>lookup\<close>).\<close>

definition digits_value :: "string \<Rightarrow> nat" where
  "digits_value s = fold (\<lambda>c v. 10 * v + (of_char c - 48)) s 0"

definition parse_u32 :: "string \<Rightarrow> u32 option" where
  "parse_u32 s =
     (let ds = (case s of c # rest \<Rightarrow> if c = CHR ''+'' then rest else s | [] \<Rightarrow> [])
      in if ds \<noteq> [] \<and> list_all (\<lambda>c. 48 \<le> (of_char c :: nat) \<and> (of_char c :: nat) \<le> 57) ds \<and> digits_value ds < 2 ^ 32
         then Some (of_nat (digits_value ds)) else None)"

definition resolve_group :: "(string \<Rightarrow> io_error + u32 option) \<Rightarrow> string \<Rightarrow> bind_error + u32" where
  "resolve_group lookup g =
     (case parse_u32 g of
        Some n \<Rightarrow> Inr n
      | None \<Rightarrow>
          (case lookup g of
             Inr (Some n) \<Rightarrow> Inr n
           | Inr None \<Rightarrow> Inl (GroupNotFound g)
           | Inl e \<Rightarrow> Inl (Io ''look up group'' e)))"

definition parent_of :: "path \<Rightarrow> path" where
  "parent_of p = (if butlast p = [] then [''.''] else butlast p)"

definition PRIVATE_DIR_MODE :: u32 where
  "PRIVATE_DIR_MODE = 448"

definition CREATED_PARENT_MODE :: u32 where
  "CREATED_PARENT_MODE = 488"

text \<open>The levels of a directory that do not exist, outermost first; the working directory exists.\<close>

definition missing_levels :: "(path \<Rightarrow> node option) \<Rightarrow> path \<Rightarrow> path list" where
  "missing_levels n d =
     rev (takeWhile (\<lambda>l. l \<noteq> [] \<and> l \<noteq> [''.''] \<and> n l = None) (map (\<lambda>k. take (length d - k) d) [0..<Suc (length d)]))"

text \<open>\<open>m\<close> is the mode the umask leaves of the mode asked for.\<close>

definition create_level :: "faults \<Rightarrow> (u32 \<Rightarrow> u32) \<Rightarrow> path \<Rightarrow> unit io" where
  "create_level fl masked l w =
     (case sys fl (make_dir (masked CREATED_PARENT_MODE) l) w of
        (w1, Inl e) \<Rightarrow> (w1, Inl e)
      | (w1, Inr _) \<Rightarrow> sys fl (change_mode CREATED_PARENT_MODE l) w1)"

fun create_levels :: "faults \<Rightarrow> (u32 \<Rightarrow> u32) \<Rightarrow> path list \<Rightarrow> world \<Rightarrow> world \<times> (bind_error + unit)" where
  "create_levels fl masked [] w = (w, Inr ())"
| "create_levels fl masked (l # ls) w =
     (case create_level fl masked l w of
        (w1, Inl e) \<Rightarrow> if e = Already_Exists then create_levels fl masked ls w1 else (w1, Inl (Io ''create parent of'' e))
      | (w1, Inr _) \<Rightarrow> create_levels fl masked ls w1)"

definition create_parent :: "faults \<Rightarrow> (u32 \<Rightarrow> u32) \<Rightarrow> path \<Rightarrow> world \<Rightarrow> world \<times> (bind_error + unit)" where
  "create_parent fl masked d w = create_levels fl masked (missing_levels (w_nodes w) d) w"

definition give_to_group :: "faults \<Rightarrow> path \<Rightarrow> u32 \<Rightarrow> string \<Rightarrow> world \<Rightarrow> world \<times> (bind_error + unit)" where
  "give_to_group fl staged gid name =
     step (\<lambda>e. if e = Permission_Denied then NotAMember name else Io ''chown'' e) (sys fl (change_group gid staged))"

text \<open>\<open>own\<close> is the group of the daemon, \<open>masked\<close> what the umask leaves of a mode.\<close>

definition bind_in_staging ::
  "faults \<Rightarrow> (u32 \<Rightarrow> u32) \<Rightarrow> u32 \<Rightarrow> path \<Rightarrow> path \<Rightarrow> u32 \<Rightarrow> (string \<times> u32) option \<Rightarrow> world \<Rightarrow> world \<times> (bind_error + unit)" where
  "bind_in_staging fl masked own staging p mode grp w =
     (let staged = staging @ [''s''];
          w0 = fst (sys fl (remove_all staging) w)
      in then_do (step (Io ''create private bind directory for'') (sys fl (make_dir (masked PRIVATE_DIR_MODE) staging))) (\<lambda>_.
         then_do (step (Io ''bind'') (sys fl (bind_socket (masked 511) own staged))) (\<lambda>_.
         then_do (case grp of None \<Rightarrow> (\<lambda>w. (w, Inr ())) | Some (name, gid) \<Rightarrow> give_to_group fl staged gid name) (\<lambda>_.
         then_do (step (Io ''chmod'') (sys fl (change_mode mode staged))) (\<lambda>_.
           step (Io ''rename onto'') (sys fl (rename_to staged p)))))) w0)"

definition bind_path ::
  "faults \<Rightarrow> (u32 \<Rightarrow> u32) \<Rightarrow> u32 \<Rightarrow> (string \<Rightarrow> io_error + u32 option) \<Rightarrow> string \<Rightarrow> path \<Rightarrow> u32 \<Rightarrow> string option \<Rightarrow>
   world \<Rightarrow> world \<times> (bind_error + unit)" where
  "bind_path fl masked own lookup pid p mode gname w =
     (case transpose_opt (map_option (resolve_group lookup) gname) of
        Inl e \<Rightarrow> (w, Inl e)
      | Inr gid \<Rightarrow>
          (let staging = parent_of p @ [''.wamux-bind-'' @ pid];
               grp = (case (gname, gid) of (Some g, Some n) \<Rightarrow> Some (g, n) | _ \<Rightarrow> None)
           in then_do (probe fl p) (\<lambda>found.
              then_do (case found of Stale \<Rightarrow> step (Io ''remove stale socket'') (sys fl (unlink_file p)) | Absent \<Rightarrow> (\<lambda>w. (w, Inr ()))) (\<lambda>_.
              then_do (create_parent fl masked (parent_of p)) (\<lambda>_ w1.
                case bind_in_staging fl masked own staging p mode grp w1 of
                  (w2, r) \<Rightarrow> (fst (sys fl (remove_all staging) w2), r)))) w))"

definition unlink :: "faults \<Rightarrow> path \<Rightarrow> world \<Rightarrow> world" where
  "unlink fl p w = fst (sys fl (unlink_file p) w)"

section \<open>Who may talk to it\<close>

record peer_allowlist =
  al_uids :: "u32 list"
  al_gids :: "u32 list"

definition admits :: "peer_allowlist \<Rightarrow> (u32 \<times> u32) option \<Rightarrow> bool" where
  "admits a peer =
     (if al_uids a = [] \<and> al_gids a = [] then True
      else case peer of None \<Rightarrow> False | Some (uid, gid) \<Rightarrow> uid \<in> set (al_uids a) \<or> gid \<in> set (al_gids a))"

text \<open>A request with the credentials of its connection: the inner service's answer, or the refusal.\<close>

definition allowlist_call :: "(string \<Rightarrow> bool) \<Rightarrow> peer_allowlist \<Rightarrow> ('q \<Rightarrow> 's \<Rightarrow> 's \<times> 'r) \<Rightarrow> (u32 \<times> u32) option \<Rightarrow> 'q \<Rightarrow> 's \<Rightarrow> 's \<times> (status + 'r)" where
  "allowlist_call visible a inner creds req s =
     (if admits a creds then map_prod id Inr (inner req s)
      else (s, Inl (status_from visible (PeerNotAllowed (map_option fst creds) (map_option snd creds)))))"

end
