(* ===== verification/Transport_Properties.thy ===== *)
theory Transport_Properties
  imports Transport
begin

text \<open>
  The socket never shows at its path with another mode or group than configured, and what is at the
  path and may be in use is left alone. A small program logic over the calls carries the proof:
  \<open>triple\<close> says what a call keeps of every state another process could have seen at the path.
\<close>

section \<open>A logic of calls\<close>

definition shown_ok :: "(node option \<Rightarrow> bool) \<Rightarrow> path \<Rightarrow> world \<Rightarrow> bool" where
  "shown_ok P p w \<longleftrightarrow> (\<forall>n\<in>set (w_past w) \<union> {w_nodes w}. P (n p))"

definition triple ::
  "(node option \<Rightarrow> bool) \<Rightarrow> path \<Rightarrow> ((path \<Rightarrow> node option) \<Rightarrow> bool) \<Rightarrow>
   (world \<Rightarrow> world \<times> (bind_error + 'a)) \<Rightarrow> ('a \<Rightarrow> (path \<Rightarrow> node option) \<Rightarrow> bool) \<Rightarrow> bool" where
  "triple P p A m B \<longleftrightarrow>
     (\<forall>w. shown_ok P p w \<and> A (w_nodes w) \<longrightarrow>
        shown_ok P p (fst (m w)) \<and> (\<forall>x. snd (m w) = Inr x \<longrightarrow> B x (w_nodes (fst (m w)))))"

lemma tripleD:
  assumes "triple P p A m B" "shown_ok P p w" "A (w_nodes w)" "m w = (w', r)"
  shows "shown_ok P p w'" "r = Inr x \<Longrightarrow> B x (w_nodes w')"
  using assms by (auto simp: triple_def dest: spec [of _ w])

lemma triple_then:
  assumes "triple P p A m B" and "\<And>x. triple P p (B x) (f x) C"
  shows "triple P p A (then_do m f) C"
  unfolding triple_def
proof (intro allI impI)
  fix w assume w: "shown_ok P p w \<and> A (w_nodes w)"
  obtain w1 r where m: "m w = (w1, r)" by fastforce
  note first = tripleD [OF assms(1) conjunct1 [OF w] conjunct2 [OF w] m]
  show "shown_ok P p (fst (then_do m f w)) \<and> (\<forall>x. snd (then_do m f w) = Inr x \<longrightarrow> C x (w_nodes (fst (then_do m f w))))"
  proof (cases r)
    case (Inl e)
    then show ?thesis using first(1) by (simp add: then_do_def m)
  next
    case (Inr x)
    with assms(2) [of x] first show ?thesis by (simp add: then_do_def m triple_def)
  qed
qed

lemma then_do_Inr: "m w = (w', Inr x) \<Longrightarrow> then_do m f w = f x w'"
  by (simp add: then_do_def)

lemma triple_pure: "(\<And>n. A n \<Longrightarrow> B x n) \<Longrightarrow> triple P p A (\<lambda>w. (w, Inr x)) B"
  by (auto simp: triple_def)

lemma triple_weaken:
  "triple P p A m B \<Longrightarrow> (\<And>n. A' n \<Longrightarrow> A n) \<Longrightarrow> (\<And>x n. B x n \<Longrightarrow> B' x n) \<Longrightarrow> triple P p A' m B'"
  by (auto simp: triple_def)

lemma sys_cases:
  obtains e where "fl (w_calls w) = Some e" "sys fl f w = (w\<lparr>w_calls := Suc (w_calls w)\<rparr>, Inl e)"
  | "fl (w_calls w) = None" "w_nodes (fst (sys fl f w)) = fst (f (w_nodes w))" "snd (sys fl f w) = snd (f (w_nodes w))"
      "w_past (fst (sys fl f w)) = w_past w @ [w_nodes w]"
  by (cases "fl (w_calls w)") (auto simp: sys_def split: prod.splits)

lemma sys_shown:
  assumes "shown_ok P p w" and "P (fst (f (w_nodes w)) p)"
  shows "shown_ok P p (fst (sys fl f w))"
  using assms by (cases rule: sys_cases [of fl w f]) (auto simp: shown_ok_def)

lemma triple_sys:
  assumes "\<And>n. A n \<Longrightarrow> P (n p) \<Longrightarrow> P (fst (f n) p)"
    and "\<And>n x. A n \<Longrightarrow> P (n p) \<Longrightarrow> snd (f n) = Inr x \<Longrightarrow> B x (fst (f n))"
  shows "triple P p A (step g (sys fl f)) B"
  unfolding triple_def
proof (intro allI impI)
  fix w assume w: "shown_ok P p w \<and> A (w_nodes w)"
  then have now: "P (w_nodes w p)" by (simp add: shown_ok_def)
  have s: "shown_ok P p (fst (sys fl f w))" using sys_shown assms(1) now w by blast
  show "shown_ok P p (fst (step g (sys fl f) w)) \<and> (\<forall>x. snd (step g (sys fl f) w) = Inr x \<longrightarrow> B x (w_nodes (fst (step g (sys fl f) w))))"
  proof (cases rule: sys_cases [of fl w f])
    case 1
    then show ?thesis using s by (simp add: step_def)
  next
    case 2
    then show ?thesis using s assms(2) [of "w_nodes w"] w now
      by (auto simp: step_def map_err_Inr_iff split: prod.splits)
  qed
qed

section \<open>The steps of bind\<close>

lemma ignored_shown:
  "shown_ok P p w \<Longrightarrow> \<not> under d p \<Longrightarrow> shown_ok P p (fst (sys fl (remove_all d) w))"
  by (rule sys_shown) (auto simp: remove_all_def shown_ok_def)

lemma create_levels_triple:
  "p \<notin> set ls \<Longrightarrow> triple P p (\<lambda>_. True) (create_levels fl masked ls) (\<lambda>_ _. True)"
proof (induction ls)
  case Nil
  then show ?case by (auto simp: triple_def)
next
  case (Cons l ls)
  have "shown_ok P p (fst (create_levels fl masked (l # ls) w))" if w: "shown_ok P p w" for w
  proof -
    obtain w1 r where run: "create_level fl masked l w = (w1, r)" by fastforce
    have w1: "shown_ok P p w1"
    proof -
      let ?a = "sys fl (make_dir (masked CREATED_PARENT_MODE) l)"
      obtain w2 r2 where a: "?a w = (w2, r2)" by fastforce
      have w2: "shown_ok P p w2"
        using sys_shown [OF w, of "make_dir (masked CREATED_PARENT_MODE) l" fl] a Cons.prems w
        by (auto simp: make_dir_def shown_ok_def)
      have "shown_ok P p (fst (sys fl (change_mode CREATED_PARENT_MODE l) w2))"
        using Cons.prems w2 by (intro sys_shown) (auto simp: change_mode_def shown_ok_def split: option.splits node.splits)
      then show ?thesis using run a w2 by (auto simp: create_level_def split: sum.splits)
    qed
    then show ?thesis using Cons run by (auto simp: triple_def split: sum.splits)
  qed
  then show ?case by (auto simp: triple_def)
qed

lemma missing_levels_not_path:
  assumes "p \<noteq> []"
  shows "p \<notin> set (missing_levels n (parent_of p))"
proof
  assume "p \<in> set (missing_levels n (parent_of p))"
  then obtain k where k: "p = take k (parent_of p)" and dot: "p \<noteq> [''.'']"
    by (auto simp: missing_levels_def dest!: set_takeWhileD)
  show False
  proof (cases "butlast p = []")
    case True
    then have "take k (parent_of p) \<in> {[], [''.'']}" by (cases k) (simp_all add: parent_of_def)
    with k dot assms show False by simp
  next
    case False
    then have "length (take k (parent_of p)) < length p" using assms by (simp add: parent_of_def min_less_iff_disj)
    with k show False by simp
  qed
qed

lemma bind_in_staging_triple:
  assumes out: "\<not> under staging p" and final: "P (Some (Sock mode (case grp of None \<Rightarrow> own | Some (_, g) \<Rightarrow> g) True))"
  shows "triple P p (\<lambda>_. True) (bind_in_staging fl masked own staging p mode grp)
    (\<lambda>_ n. n p = Some (Sock mode (case grp of None \<Rightarrow> own | Some (_, g) \<Rightarrow> g) True))"
proof -
  let ?s = "staging @ [''s'']"
  have sp: "?s \<noteq> p" "staging \<noteq> p" using out by (auto simp: under_def)
  let ?bound = "\<lambda>g _ n. \<exists>m. n ?s = Some (Sock m g True)"
  have 1: "triple P p (\<lambda>_. True) (step (Io ''create private bind directory for'')
      (sys fl (make_dir (masked PRIVATE_DIR_MODE) staging))) (\<lambda>_ _. True)"
    by (rule triple_sys) (use sp in \<open>auto simp: make_dir_def\<close>)
  have 2: "triple P p (\<lambda>_. True) (step (Io ''bind'') (sys fl (bind_socket (masked 511) own ?s))) (?bound own)"
    by (rule triple_sys) (use sp in \<open>auto simp: bind_socket_def split: if_splits\<close>)
  have 3: "triple P p (?bound own x)
      (case grp of None \<Rightarrow> (\<lambda>w. (w, Inr ())) | Some (name, gid) \<Rightarrow> give_to_group fl ?s gid name)
      (?bound (case grp of None \<Rightarrow> own | Some (_, g) \<Rightarrow> g))" for x :: unit
  proof (cases grp)
    case None
    then show ?thesis by (simp add: triple_pure)
  next
    case (Some ng)
    then show ?thesis unfolding Some give_to_group_def option.case prod.case_eq_if
      by (intro triple_sys) (use sp in \<open>auto simp: change_group_def split: option.splits node.splits\<close>)
  qed
  have 4: "triple P p (?bound g x) (step (Io ''chmod'') (sys fl (change_mode mode ?s)))
      (\<lambda>_ n. n ?s = Some (Sock mode g True))" for g and x :: unit
    by (rule triple_sys) (use sp in \<open>auto simp: change_mode_def split: option.splits node.splits\<close>)
  have 5: "triple P p (\<lambda>n. n ?s = Some (Sock mode g True)) (step (Io ''rename onto'') (sys fl (rename_to ?s p)))
      (\<lambda>_ n. n p = Some (Sock mode g True))" if "P (Some (Sock mode g True))" for g
    by (rule triple_sys) (use sp that in \<open>auto simp: rename_to_def\<close>)
  have all: "triple P p (\<lambda>_. True)
      (then_do (step (Io ''create private bind directory for'') (sys fl (make_dir (masked PRIVATE_DIR_MODE) staging))) (\<lambda>_.
         then_do (step (Io ''bind'') (sys fl (bind_socket (masked 511) own ?s))) (\<lambda>_.
         then_do (case grp of None \<Rightarrow> (\<lambda>w. (w, Inr ())) | Some (name, gid) \<Rightarrow> give_to_group fl ?s gid name) (\<lambda>_.
         then_do (step (Io ''chmod'') (sys fl (change_mode mode ?s))) (\<lambda>_.
           step (Io ''rename onto'') (sys fl (rename_to ?s p)))))))
      (\<lambda>_ n. n p = Some (Sock mode (case grp of None \<Rightarrow> own | Some (_, g) \<Rightarrow> g) True))"
    by (rule triple_then [OF 1 triple_then [OF 2 triple_then [OF 3 triple_then [OF 4 5]]]]) (rule final)
  show ?thesis
    using all ignored_shown [OF _ out, of P] unfolding triple_def bind_in_staging_def Let_def by simp
qed

lemma create_parent_triple: "p \<noteq> [] \<Longrightarrow> triple P p (\<lambda>_. True) (create_parent fl masked (parent_of p)) (\<lambda>_ _. True)"
  using create_levels_triple [OF missing_levels_not_path] unfolding triple_def create_parent_def by blast

lemma staging_apart:
  assumes "p \<noteq> []" "last p \<noteq> name"
  shows "\<not> under (parent_of p @ [name]) p"
proof
  assume u: "under (parent_of p @ [name]) p"
  show False
  proof (cases "butlast p = []")
    case True
    then have "length p = 1" using assms(1) by (cases p) (auto split: if_splits)
    with u True show False by (simp add: under_def parent_of_def)
  next
    case False
    then have "length (parent_of p @ [name]) = length p" using assms(1) by (simp add: parent_of_def)
    with u have "p = parent_of p @ [name]" by (simp add: under_def)
    then have "last p = name" by (metis last_snoc)
    with assms(2) show False by simp
  qed
qed

text \<open>Faults that are not what the call would say of the node itself.\<close>

definition honest :: "faults \<Rightarrow> bool" where
  "honest fl \<longleftrightarrow> (\<forall>k. fl k \<noteq> Some Not_Found \<and> fl k \<noteq> Some Connection_Refused)"

lemma probe_result:
  assumes "honest fl" and "probe fl p w = (w', r)"
  shows "w_nodes w' = w_nodes w" "set (w_past w') \<subseteq> set (w_past w) \<union> {w_nodes w}"
    and "r = Inr Absent \<Longrightarrow> w_nodes w p = None"
    and "r = Inr Stale \<Longrightarrow> \<exists>m g. w_nodes w p = Some (Sock m g False)"
proof -
  obtain w1 r1 where a: "sys fl (lstat p) w = (w1, r1)" by fastforce
  have 1: "w_nodes w1 = w_nodes w" "set (w_past w1) \<subseteq> set (w_past w) \<union> {w_nodes w}"
    "r1 = Inl Not_Found \<Longrightarrow> w_nodes w p = None" "\<And>x. r1 = Inr x \<Longrightarrow> w_nodes w p = Some x"
    using assms(1) a by (cases rule: sys_cases [of fl w "lstat p"]; auto simp: lstat_def honest_def ok_or_def split: option.splits)+
  obtain w2 r2 where b: "sys fl (connect_to p) w1 = (w2, r2)" by fastforce
  have 2: "w_nodes w2 = w_nodes w" "set (w_past w2) \<subseteq> set (w_past w) \<union> {w_nodes w}"
    "r2 = Inl Connection_Refused \<Longrightarrow> \<exists>m g. w_nodes w p = Some (Sock m g False)"
    using assms(1) b 1(1,2)
    by (cases rule: sys_cases [of fl w1 "connect_to p"];
        auto simp: connect_to_def honest_def split: option.splits node.splits if_splits)+
  have split: "w' = w1 \<or> w' = w2" using assms(2) a b
    by (auto simp: probe_def split: sum.splits node.splits)
  then show "w_nodes w' = w_nodes w" "set (w_past w') \<subseteq> set (w_past w) \<union> {w_nodes w}"
    using 1 2 by auto
  show "r = Inr Absent \<Longrightarrow> w_nodes w p = None"
    using assms(2) a b 1 by (auto simp: probe_def split: sum.splits node.splits if_splits)
  show "r = Inr Stale \<Longrightarrow> \<exists>m g. w_nodes w p = Some (Sock m g False)"
    using assms(2) a b 2 by (auto simp: probe_def split: sum.splits node.splits if_splits)
qed

definition final_gid :: "(string \<Rightarrow> io_error + u32 option) \<Rightarrow> u32 \<Rightarrow> string option \<Rightarrow> u32" where
  "final_gid lookup own gname =
     (case gname of None \<Rightarrow> own | Some g \<Rightarrow> (case resolve_group lookup g of Inr n \<Rightarrow> n | Inl _ \<Rightarrow> own))"

text \<open>What another process may see at the path while \<open>bind\<close> runs.\<close>

definition may_show :: "node option \<Rightarrow> node \<Rightarrow> node option \<Rightarrow> bool" where
  "may_show before after x \<longleftrightarrow>
     x = before \<or> x = Some after \<or> x = None \<and> (\<exists>m g. before = Some (Sock m g False))"

text \<open>Everything after the probe.\<close>

lemma after_probe_triple:
  fixes before :: "node option"
  assumes p: "p \<noteq> []" "last p \<noteq> ''.wamux-bind-'' @ pid"
    and after: "after = Sock mode (case grp of None \<Rightarrow> own | Some (_, g) \<Rightarrow> g) True"
    and found: "found = Stale \<Longrightarrow> \<exists>m g. before = Some (Sock m g False)"
  shows "triple (may_show before after) p (\<lambda>_. True)
    (then_do (case found of Stale \<Rightarrow> step (Io ''remove stale socket'') (sys fl (unlink_file p)) | Absent \<Rightarrow> (\<lambda>w. (w, Inr ()))) (\<lambda>_.
     then_do (create_parent fl masked (parent_of p)) (\<lambda>_ w1.
       case bind_in_staging fl masked own (parent_of p @ [''.wamux-bind-'' @ pid]) p mode grp w1 of
         (w2, r) \<Rightarrow> (fst (sys fl (remove_all (parent_of p @ [''.wamux-bind-'' @ pid])) w2), r))))
    (\<lambda>_ n. n p = Some after)"
proof (rule triple_then)
  let ?st = "parent_of p @ [''.wamux-bind-'' @ pid]"
  let ?P = "may_show before after"
  show "triple ?P p (\<lambda>_. True)
      (case found of Stale \<Rightarrow> step (Io ''remove stale socket'') (sys fl (unlink_file p)) | Absent \<Rightarrow> (\<lambda>w. (w, Inr ())))
      (\<lambda>_ _. True)"
  proof (cases found)
    case Absent
    then show ?thesis by (simp add: triple_pure)
  next
    case Stale
    then show ?thesis using found
      by (simp, intro triple_sys) (auto simp: unlink_file_def may_show_def split: option.splits)
  qed
  have apart: "\<not> under ?st p" by (rule staging_apart [OF p])
  have bound: "triple ?P p (\<lambda>_. True) (bind_in_staging fl masked own ?st p mode grp) (\<lambda>_ n. n p = Some after)"
    unfolding after by (rule bind_in_staging_triple [OF apart]) (simp add: may_show_def)
  have "triple ?P p (\<lambda>_. True) (\<lambda>w1. case bind_in_staging fl masked own ?st p mode grp w1 of
      (w2, r) \<Rightarrow> (fst (sys fl (remove_all ?st) w2), r)) (\<lambda>_ n. n p = Some after)"
    unfolding triple_def
  proof (intro allI impI)
    fix w assume "shown_ok ?P p w \<and> True"
    moreover obtain w2 r where run: "bind_in_staging fl masked own ?st p mode grp w = (w2, r)" by fastforce
    ultimately have w2: "shown_ok ?P p w2" and r: "\<And>x. r = Inr x \<Longrightarrow> w_nodes w2 p = Some after"
      using tripleD [OF bound _ _ run] by auto
    have "w_nodes (fst (sys fl (remove_all ?st) w2)) p = w_nodes w2 p"
      using apart by (cases rule: sys_cases [of fl w2 "remove_all ?st"]) (auto simp: remove_all_def)
    with ignored_shown [OF w2 apart] r run
    show "shown_ok ?P p (fst (case bind_in_staging fl masked own ?st p mode grp w of
          (w2, r) \<Rightarrow> (fst (sys fl (remove_all ?st) w2), r))) \<and>
        (\<forall>x. snd (case bind_in_staging fl masked own ?st p mode grp w of
          (w2, r) \<Rightarrow> (fst (sys fl (remove_all ?st) w2), r)) = Inr x \<longrightarrow>
          w_nodes (fst (case bind_in_staging fl masked own ?st p mode grp w of
          (w2, r) \<Rightarrow> (fst (sys fl (remove_all ?st) w2), r))) p = Some after)" by auto
  qed
  from triple_then [OF create_parent_triple [OF p(1)] this]
  show "triple ?P p ((\<lambda>_ _. True) x) (then_do (create_parent fl masked (parent_of p)) (\<lambda>_ w1.
      case bind_in_staging fl masked own ?st p mode grp w1 of (w2, r) \<Rightarrow> (fst (sys fl (remove_all ?st) w2), r)))
      (\<lambda>_ n. n p = Some after)" for x :: unit by simp
qed

lemma bind_path_run:
  assumes "honest fl" and p: "p \<noteq> []" "last p \<noteq> ''.wamux-bind-'' @ pid" and "w_past w = []"
    and run: "bind_path fl masked own lookup pid p mode gname w = (w', r)"
  shows "shown_ok (may_show (w_nodes w p) (Sock mode (final_gid lookup own gname) True)) p w' \<and>
    (r = Inr () \<longrightarrow> w_nodes w' p = Some (Sock mode (final_gid lookup own gname) True)) \<and>
    ((\<forall>m g. w_nodes w p \<noteq> Some (Sock m g False)) \<and> w_nodes w p \<noteq> None \<longrightarrow> \<not> is_ok r \<and> w_nodes w' = w_nodes w)"
proof (cases "transpose_opt (map_option (resolve_group lookup) gname)")
  case (Inl e)
  with run assms(4) show ?thesis by (auto simp: bind_path_def shown_ok_def may_show_def)
next
  case (Inr gid)
  define grp where "grp = (case (gname, gid) of (Some g, Some n) \<Rightarrow> Some (g, n) | _ \<Rightarrow> None)"
  have fin: "final_gid lookup own gname = (case grp of None \<Rightarrow> own | Some (_, g) \<Rightarrow> g)"
    using Inr by (cases gname) (auto simp: final_gid_def grp_def map_ok_def split: sum.splits)
  obtain w1 r1 where probed: "probe fl p w = (w1, r1)" by fastforce
  note pr = probe_result [OF assms(1) probed]
  have w1: "shown_ok (may_show (w_nodes w p) after) p w1" for after
    using pr(1,2) assms(4) by (auto simp: shown_ok_def may_show_def)
  show ?thesis
  proof (cases r1)
    case (Inl e)
    with run Inr probed pr(1) w1 show ?thesis by (auto simp: bind_path_def then_do_def)
  next
    case found: (Inr found)
    have stale: "found = Stale \<Longrightarrow> \<exists>m g. w_nodes w p = Some (Sock m g False)" using pr(4) found by simp
    have rest: "then_do (case found of Stale \<Rightarrow> step (Io ''remove stale socket'') (sys fl (unlink_file p)) | Absent \<Rightarrow> (\<lambda>w. (w, Inr ()))) (\<lambda>_.
       then_do (create_parent fl masked (parent_of p)) (\<lambda>_ w1.
         case bind_in_staging fl masked own (parent_of p @ [''.wamux-bind-'' @ pid]) p mode grp w1 of
           (w2, r) \<Rightarrow> (fst (sys fl (remove_all (parent_of p @ [''.wamux-bind-'' @ pid])) w2), r))) w1 = (w', r)"
      using run unfolding bind_path_def Inr sum.case Let_def grp_def [symmetric]
        then_do_Inr [where m = "probe fl p", OF probed [unfolded found]] .
    note t = after_probe_triple [OF p refl stale, where fl = fl and masked = masked and own = own and grp = grp and mode = mode]
    have "shown_ok (may_show (w_nodes w p) (Sock mode (final_gid lookup own gname) True)) p w'"
      "r = Inr () \<Longrightarrow> w_nodes w' p = Some (Sock mode (final_gid lookup own gname) True)"
      using tripleD [OF t _ _ rest] w1 by (auto simp: fin)
    moreover have "w_nodes w p = None \<or> (\<exists>m g. w_nodes w p = Some (Sock m g False))"
      using stale pr(3) found by (cases found) auto
    ultimately show ?thesis by auto
  qed
qed

section \<open>The property\<close>

text \<open>
  C39: whatever fails while the daemon binds its socket, another process sees at the path only what
  was there before, nothing when a stale socket was there, or the socket with the configured mode and
  group. Ok means that socket is there. A socket that is served, or anything that is not a socket,
  makes the bind fail with the file system as it was.
\<close>

theorem socket_appears_finished:
  assumes "honest fl" and "p \<noteq> []" and "last p \<noteq> ''.wamux-bind-'' @ pid" and "w_past w = []"
    and "bind_path fl masked own lookup pid p mode gname w = (w', r)"
  shows "(\<forall>n\<in>set (w_past w') \<union> {w_nodes w'}.
       n p = w_nodes w p \<or> n p = Some (Sock mode (final_gid lookup own gname) True) \<or>
       n p = None \<and> (\<exists>m g. w_nodes w p = Some (Sock m g False))) \<and>
    (r = Inr () \<longrightarrow> w_nodes w' p = Some (Sock mode (final_gid lookup own gname) True)) \<and>
    ((\<forall>m g. w_nodes w p \<noteq> Some (Sock m g False)) \<and> w_nodes w p \<noteq> None \<longrightarrow> \<not> is_ok r \<and> w_nodes w' = w_nodes w)"
  using bind_path_run [OF assms] by (simp only: shown_ok_def may_show_def)

definition demo_world :: world where
  "demo_world = \<lparr>w_nodes = [[''run''] \<mapsto> Folder 493, [''run'', ''wamux.sock''] \<mapsto> Sock 511 7 False], w_past = [], w_calls = 0\<rparr>"

theorem socket_appears_finished_witness:
  "\<exists>w'. bind_path (\<lambda>_. None) (\<lambda>m. m) 7 (\<lambda>_. Inr (Some 12)) ''1'' [''run'', ''wamux.sock''] 432 (Some ''wamux'') demo_world = (w', Inr ()) \<and>
    w_nodes w' [''run'', ''wamux.sock''] = Some (Sock 432 12 True)"
proof -
  let ?run = "bind_path (\<lambda>_. None) (\<lambda>m. m) 7 (\<lambda>_. Inr (Some 12)) ''1'' [''run'', ''wamux.sock''] 432 (Some ''wamux'') demo_world"
  have "snd ?run = Inr ()" by code_simp
  then obtain w' where run: "?run = (w', Inr ())" by (metis prod.collapse)
  have h: "honest (\<lambda>_. None)" "[''run'', ''wamux.sock''] \<noteq> []" "last [''run'', ''wamux.sock''] \<noteq> ''.wamux-bind-'' @ ''1''"
    "w_past demo_world = []"
    by (simp_all add: honest_def demo_world_def)
  have gid: "final_gid (\<lambda>_. Inr (Some 12)) 7 (Some ''wamux'') = 12" by code_simp
  have "w_nodes w' [''run'', ''wamux.sock''] = Some (Sock 432 (final_gid (\<lambda>_. Inr (Some 12)) 7 (Some ''wamux'')) True)"
    using socket_appears_finished [OF h run] by blast
  then show ?thesis using run unfolding gid by blast
qed

end
