(* ===== verification/Spec2Isabelle.thy ===== *)
theory Spec2Isabelle
  imports
    Group_Commit_Properties
    Event_Service
    Wamux_Error
    Account_Registry
    Store_Conversion_Properties
    Store_Rules
    Blob_Properties
    Turso_Properties
    Turso_Upgrade
    Storage_Factory
    Messaging_Properties
    Media_Streams
    Request_Properties
    Account_Service
    Transport_Properties
begin

text \<open>
  Verification of wamux, a daemon that runs many WhatsApp accounts behind one gRPC socket. Paths
  below are under \<open>src/crates/wamux/src\<close> unless they name another crate.

  \<^bold>\<open>The parts and how they meet.\<close> A client connects to a Unix socket (\<open>transport/\<close>) and calls services
  (\<open>services/\<close>), which parse the request (\<open>wamux-types\<close>), resolve its account in the registry
  (\<open>state/account_registry.rs\<close>) and call the library's client of that account. What the library
  reports of an account is mapped to events, numbered, kept in a ring and broadcast to subscribers
  (\<open>state/event_*.rs\<close>, \<open>services/event_service.rs\<close>). The library keeps its keys through the storage
  traits, which \<open>storage/sql\<close> implements per account over one database, sealing each secret column
  under the store key (\<open>storage/blob_cipher.rs\<close>, \<open>storage/store_encryption.rs\<close>); on an engine with one
  connection the writes of all accounts are jobs of a group commit (\<open>storage/group_commit.rs\<close>). Media
  goes through spool files under one byte budget (\<open>spool/\<close>).

  \<^bold>\<open>Conventions.\<close> A \<open>Result\<close> is a sum with \<^term>\<open>Inl\<close> the error, every early return and \<open>?\<close> is a branch.
  An async function is a state transformer that can be dropped at an await, which leaves the state as
  it then was (\<open>Prelude\<close>). Integers are words of their width where the code computes with them.
  Code that is not part of the repository is a parameter: the database engine through the answer of
  each statement, cryptography, random bytes, protobuf and JSON codecs, the library's client, jid and
  encryptor, the clock, the file system's faults. A theorem names the laws it needs of them, and its
  witness gives an instance.

  \<^bold>\<open>Theories.\<close>
  \<^item> \<open>Prelude\<close>, \<open>Store_Error\<close>: results, futures, bytes, lists; the storage error.
  \<^item> \<open>Group_Commit\<close>: \<open>storage/group_commit.rs\<close>, one definition per function. \<open>Group_Commit_System\<close> runs any
    number of writers over it, one await at a time, with cancellation and drops as steps;
    \<open>Fake_Db\<close> is the connection of \<open>group_commit_fake.rs\<close>. \<open>Group_Commit_Durability\<close>, \<open>_Invariant\<close> and
    \<open>_Liveness\<close> carry the proofs of \<open>Group_Commit_Properties\<close>: an Ok means a COMMIT carried the write,
    every waiter is answered, the count of pending writers is exact, a batch keeps its cap.
  \<^item> \<open>Event_Stream\<close>, \<open>Event_Service\<close>: the ring, the bridge, the publisher and the subscriptions. The ring
    holds the newest events, a subscriber sees them in order and exactly once within the replay, and
    the case in which one that is not replayable is lost.
  \<^item> \<open>Wamux_Error\<close>: the daemon's error and its gRPC status.
  \<^item> \<open>Account_Store\<close>, \<open>Account_Registry\<close>: the accounts table behind the locale of a storage engine, and the
    registry with the connections it starts and stops as a step relation.
  \<^item> \<open>Store_Key\<close>, \<open>Blob_Cipher\<close>, \<open>Store_Encryption\<close>, \<open>Store_Conversion\<close> (\<open>_Properties\<close>): the store key, the
    sealed blob and its associated data, and opening, converting, decrypting and rotating a store
    with a fault at any account.
  \<^item> \<open>Sql_Store\<close>: statements, transactions and batched reads over an engine that can fail or lose the
    connection at any statement. \<open>Signal_Store\<close>, \<open>Protocol_Store\<close>, \<open>App_Sync_Store\<close>: every call of the
    storage traits, each SQL statement a function on the tables under its constant's name.
    \<open>Store_Isolation\<close> shows what a call keeps of other accounts, \<open>Store_Interfaces\<close> states the contract
    of a keyed store as a locale and interprets it for each store, \<open>Store_Properties\<close> and \<open>Store_Rules\<close>
    hold the properties.
  \<^item> \<open>Blob_Codec\<close>: the codec of the stored blobs, every field both ways, and the conversion of a legacy
    device. \<open>Blob_Codec_Laws\<close>, \<open>Stored_Blobs\<close>, \<open>Blob_Demo\<close>, \<open>Blob_Properties\<close>: its round trips, and that it is
    the codec the stores and the upgrade rely on. \<open>Bincode_Upgrade\<close>: the one-time upgrade of the stored blobs,
    which proves each blob itself.
  \<^item> \<open>Turso_Exec\<close>, \<open>Turso_Store\<close>, \<open>Turso_Engine\<close>: the Turso family (\<open>storage/turso\<close>): untyped cells, statements
    as jobs of the group commit, every call of the traits, accounts, migrations, the placeholders and the
    DSN. \<open>Turso_Equivalence\<close>, \<open>Turso_Properties\<close>: each call is the SQL family's. \<open>Turso_Conversion\<close>,
    \<open>Turso_Upgrade\<close>: conversion, rotation and the blob upgrade there, so that the properties of those speak of both
    families. \<open>Storage_Factory\<close>: the engine of a DSN, what an open does in which order, and the modes of
    the store's files.
  \<^item> \<open>Media_Spool\<close>: budget, uploads, bounded downloads and the RPC streams. \<open>Media_Budget\<close>: any number of
    transfers in flight as a step relation over a multiset. \<open>Media_Streams\<close>: one upload and one
    download from end to end.
  \<^item> \<open>Wire_Types\<close>, \<open>Wire_Requests\<close>: the values and requests of \<open>wamux-types\<close>, with the contract of a
    request enum as a locale. \<open>Request_Properties\<close>: what an accepted request is. \<open>Account_Service\<close>: the
    account handlers over the registry, each at most one step of it, and the pairing streams.
  \<^item> \<open>Outgoing_Message\<close>, \<open>Inbound_Message\<close>: the messages built for the library (\<open>domain/messaging.rs\<close>,
    \<open>outgoing_context.rs\<close>, \<open>send_rich.rs\<close>, \<open>interactive_reply.rs\<close>, \<open>media_transfer.rs\<close>) and the projection of a
    message to the event that shows it (\<open>event_mapping.rs\<close>, \<open>sticker_packs.rs\<close>). \<open>Messaging_Service\<close>,
    \<open>Messaging_Rpc\<close>: the domain functions and the handlers over a service state of the calls made and the events
    published. \<open>Messaging_Properties\<close>: a logic of actions, that every message sent is echoed once, and
    that a subscriber reads back what was asked.
  \<^item> \<open>Transport\<close>: binding the socket over a file system whose every past state is recorded, and the
    allowlist of peers. \<open>Transport_Properties\<close>: a small logic of calls and what the path may show.

  \<^bold>\<open>Bounds.\<close> Every function is total. The loops the code runs until a channel closes are folds over
  the inputs they receive; \<open>stream_from\<close> ends because the client takes finitely many frames, and the
  theorem about it speaks of every number of them. The budget of the spool is below \<open>2 ^ 63\<close>, as file
  offsets are, and a buffer is shorter than that.

  \<^bold>\<open>Not modelled.\<close> The field by field mapping of the library events that are no message; the
  group, contact, call and channel services; shutdown, configuration and start-up; the
  load-test doubles and the tools. The text of SQL statements is not interpreted: a statement is the
  function it denotes. Time is an argument, so timeouts are outcomes and not durations.
\<close>

end
